(* ===== verification/Prelude.thy ===== *)
theory Prelude
  imports Main
begin

section \<open>Errors, slices and the libraries the operator calls\<close>

text \<open>
  Shared by every component: Go's error values with \<open>errors.Is\<close>, slices that can be
  nil, the operand lists of formatted messages, and the parameters that stand for the
  third-party package \<open>github.com/pkg/errors\<close> with the behaviour its documentation
  promises.  The collection \<open>err_simps\<close> holds the laws of that package as rewrite rules,
  \<open>conv_simps\<close> the rules that evaluate the conversions between the API types.
\<close>

named_theorems err_simps \<open>the documented laws of pkg/errors, as rewrite rules\<close>
named_theorems conv_simps \<open>rewrite rules for conversions between the API types\<close>

subsection \<open>Slices\<close>

text \<open>A Go slice is nil or a sequence; \<open>nil\<close> and an empty slice differ for
  \<open>reflect.DeepEqual\<close> and for the JSON encoder, and for nothing else used here.\<close>

type_synonym 'a slice = "'a list option"

definition slice_elems :: "'a slice \<Rightarrow> 'a list" where
  "slice_elems s = (case s of None \<Rightarrow> [] | Some xs \<Rightarrow> xs)"

definition slice_append :: "'a slice \<Rightarrow> 'a \<Rightarrow> 'a slice" where
  "slice_append s x = Some (slice_elems s @ [x])"

lemma slice_elems_simps [simp]:
  "slice_elems None = []" "slice_elems (Some xs) = xs"
  by (simp_all add: slice_elems_def)

lemma slice_elems_append [simp]: "slice_elems (slice_append s x) = slice_elems s @ [x]"
  by (simp add: slice_append_def)

lemma slice_append_not_nil [simp]: "slice_append s x \<noteq> None"
  by (simp add: slice_append_def)

text \<open>The idiom \<open>var out []T; for x in in { out = append(out, f(x)) }\<close> leaves nil when the
  loop body never ran.\<close>

definition slice_of_list :: "'a list \<Rightarrow> 'a slice" where
  "slice_of_list xs = (if xs = [] then None else Some xs)"

lemma slice_elems_of_list [simp]: "slice_elems (slice_of_list xs) = xs"
  by (simp add: slice_of_list_def)

lemma slice_of_list_inject [simp]: "slice_of_list xs = slice_of_list ys \<longleftrightarrow> xs = ys"
  by (auto simp: slice_of_list_def)

lemma slice_of_list_eq_Some [simp]: "slice_of_list xs = Some ys \<longleftrightarrow> xs = ys \<and> xs \<noteq> []"
  by (auto simp: slice_of_list_def)

lemma slice_append_of_list [simp]:
  "slice_append (slice_of_list xs) x = slice_of_list (xs @ [x])"
  by (simp add: slice_append_def slice_of_list_def)

subsection \<open>Error values\<close>

text \<open>
  An error is a package variable compared by identity (\<open>Sentinel\<close>, by its name), an error
  made on the spot from a format and operands (\<open>Failure\<close>), or an error that wraps another
  one (\<open>Wrapped\<close>).  The formatted text itself is not computed; its operands are kept.
\<close>

datatype fmt_arg = FStr string | FInt int

datatype go_error =
    Sentinel string
  | Failure string "fmt_arg list"
  | Wrapped string "fmt_arg list" go_error

text \<open>\<open>errors.Is\<close>: the error or one it wraps is the target.\<close>

fun errors_Is :: "go_error \<Rightarrow> go_error \<Rightarrow> bool" where
  "errors_Is (Wrapped m as e) t = (Wrapped m as e = t \<or> errors_Is e t)"
| "errors_Is e t = (e = t)"

text \<open>A Go variable of type \<open>error\<close> may be nil; \<open>errors.Is(nil, t)\<close> is false for \<open>t\<close> not nil.\<close>

definition errors_Is_opt :: "go_error option \<Rightarrow> go_error \<Rightarrow> bool" where
  "errors_Is_opt e t = (case e of None \<Rightarrow> False | Some x \<Rightarrow> errors_Is x t)"

lemma errors_Is_opt_simps [simp]:
  "errors_Is_opt None t = False" "errors_Is_opt (Some e) t = errors_Is e t"
  by (simp_all add: errors_Is_opt_def)

subsection \<open>The package \<open>github.com/pkg/errors\<close>\<close>

text \<open>The functions of the package that the operator calls, as parameters.\<close>

record errors_pkg =
  WithStack :: "go_error option \<Rightarrow> go_error option"
  WithMessagef :: "go_error option \<Rightarrow> string \<Rightarrow> fmt_arg list \<Rightarrow> go_error option"
  Wrapf :: "go_error option \<Rightarrow> string \<Rightarrow> fmt_arg list \<Rightarrow> go_error option"
  Errorf :: "string \<Rightarrow> fmt_arg list \<Rightarrow> go_error"
  NewError :: "string \<Rightarrow> go_error"

text \<open>
  What the package documents: a wrapping function returns nil for nil and otherwise an error
  that \<open>errors.Is\<close> sees through (\<open>annotates\<close>); \<open>Errorf\<close> and \<open>New\<close> make a
  fresh error, no sentinel.
\<close>

definition annotates :: "(go_error option \<Rightarrow> go_error option) \<Rightarrow> bool" where
  "annotates g \<longleftrightarrow> g None = None \<and>
     (\<forall>e. case g (Some e) of None \<Rightarrow> False
        | Some e' \<Rightarrow> (\<forall>n. errors_Is e' (Sentinel n) = errors_Is e (Sentinel n)))"

definition errors_pkg_ok :: "errors_pkg \<Rightarrow> bool" where
  "errors_pkg_ok P \<longleftrightarrow>
     annotates (WithStack P) \<and>
     (\<forall>f as. annotates (\<lambda>e. WithMessagef P e f as)) \<and>
     (\<forall>f as. annotates (\<lambda>e. Wrapf P e f as)) \<and>
     (\<forall>f as n. \<not> errors_Is (Errorf P f as) (Sentinel n)) \<and>
     (\<forall>m n. \<not> errors_Is (NewError P m) (Sentinel n))"

lemma annotates_nil: "annotates g \<Longrightarrow> g e = None \<longleftrightarrow> e = None"
  by (cases e) (auto simp: annotates_def split: option.splits)

lemma annotates_is:
  "annotates g \<Longrightarrow> errors_Is_opt (g e) (Sentinel n) = errors_Is_opt e (Sentinel n)"
proof (cases e)
  case (Some a)
  assume "annotates g"
  then have "case g (Some a) of None \<Rightarrow> False
      | Some e' \<Rightarrow> (\<forall>n. errors_Is e' (Sentinel n) = errors_Is a (Sentinel n))"
    by (simp add: annotates_def)
  with Some show ?thesis by (simp split: option.splits)
qed (simp add: annotates_def)

lemma errors_pkg_nil [err_simps]:
  assumes "errors_pkg_ok P"
  shows "WithStack P e = None \<longleftrightarrow> e = None"
    and "WithMessagef P e f as = None \<longleftrightarrow> e = None"
    and "Wrapf P e f as = None \<longleftrightarrow> e = None"
  using assms annotates_nil [of "WithStack P"] annotates_nil [of "\<lambda>e. WithMessagef P e f as"]
    annotates_nil [of "\<lambda>e. Wrapf P e f as"]
  by (simp_all add: errors_pkg_ok_def)

lemma errors_pkg_None [simp]:
  assumes "errors_pkg_ok P"
  shows "WithStack P None = None" "WithMessagef P None f as = None" "Wrapf P None f as = None"
  using assms by (simp_all add: err_simps)

lemma errors_pkg_Some [simp]:
  assumes "errors_pkg_ok P"
  shows "\<exists>y. WithStack P (Some e) = Some y" "\<exists>y. WithMessagef P (Some e) f as = Some y"
    "\<exists>y. Wrapf P (Some e) f as = Some y"
  using assms by (simp_all add: err_simps flip: not_None_eq)

lemma errors_pkg_is [err_simps]:
  assumes "errors_pkg_ok P"
  shows "errors_Is_opt (WithStack P e) (Sentinel n) = errors_Is_opt e (Sentinel n)"
    and "errors_Is_opt (WithMessagef P e f as) (Sentinel n) = errors_Is_opt e (Sentinel n)"
    and "errors_Is_opt (Wrapf P e f as) (Sentinel n) = errors_Is_opt e (Sentinel n)"
    and "\<not> errors_Is (Errorf P f as) (Sentinel n)"
    and "\<not> errors_Is (NewError P m) (Sentinel n)"
  using assms annotates_is [of "WithStack P"] annotates_is [of "\<lambda>e. WithMessagef P e f as"]
    annotates_is [of "\<lambda>e. Wrapf P e f as"]
  by (simp_all add: errors_pkg_ok_def)

text \<open>A concrete package with these laws, for witnesses.\<close>

definition sample_errors :: errors_pkg where
  "sample_errors = \<lparr>
     WithStack = map_option (Wrapped ''stack'' []),
     WithMessagef = (\<lambda>e f as. map_option (Wrapped f as) e),
     Wrapf = (\<lambda>e f as. map_option (Wrapped f as) e),
     Errorf = Failure,
     NewError = (\<lambda>m. Failure m [])\<rparr>"

lemma sample_errors_ok [simp]: "errors_pkg_ok sample_errors"
  by (simp add: errors_pkg_ok_def annotates_def sample_errors_def)

subsection \<open>Results\<close>

text \<open>
  A Go function with results \<open>(T, error)\<close> returns a pair \<open>T \<times> go_error option\<close>; a pointer is
  an option, nil being \<open>None\<close>.  A function that may dereference a nil pointer returns an
  \<open>outcome\<close>.
\<close>

datatype 'a outcome = Returns 'a | Panics

subsection \<open>Searching a list\<close>

lemma find_None_conv: "List.find P xs = None \<longleftrightarrow> (\<forall>x \<in> set xs. \<not> P x)"
  by (induction xs) auto

lemma find_SomeD: "List.find P xs = Some x \<Longrightarrow> x \<in> set xs \<and> P x"
  by (induction xs) (auto split: if_splits)

lemma find_filter: "List.find P (filter Q xs) = List.find (\<lambda>x. Q x \<and> P x) xs"
  by (induction xs) auto

lemma find_unique:
  assumes "\<And>x. x \<in> set xs \<and> P x \<longleftrightarrow> found = Some x"
  shows "List.find P xs = found"
proof (cases "List.find P xs")
  case None
  then show ?thesis using assms by (cases found) (auto simp: find_None_conv)
next
  case (Some x)
  with find_SomeD [OF Some] assms show ?thesis by simp
qed

subsection \<open>Round trips\<close>

text \<open>The contract of a printer and its parser: on the values of \<open>dom\<close> the parser returns
  what was printed.  Printing is then injective there.\<close>

locale round_trip =
  fixes enc :: "'a \<Rightarrow> 'b" and dec :: "'b \<Rightarrow> 'a option" and valid :: "'a \<Rightarrow> bool"
  assumes dec_enc: "valid x \<Longrightarrow> dec (enc x) = Some x"
begin

lemma enc_inject: "\<lbrakk>valid x; valid y\<rbrakk> \<Longrightarrow> enc x = enc y \<longleftrightarrow> x = y"
  by (metis dec_enc option.inject)

lemma dec_enc_cases: "valid x \<Longrightarrow> dec (enc x) = Some y \<longleftrightarrow> y = x"
  by (auto simp: dec_enc)

end

end
