(* ===== verification/Go_Time.thy ===== *)
theory Go_Time
  imports Prelude "HOL-Library.Word" "HOL-Library.Monad_Syntax"
begin

section \<open>Go's package \<open>time\<close>, as far as the operator uses it\<close>

text \<open>
  \<open>time.Time\<close> as an instant (nanoseconds since 1970-01-01T00:00:00Z) with the offset of its
  location in seconds east of UTC; \<open>time.Date\<close>, \<open>AddDate\<close>, \<open>Add\<close>, \<open>Before\<close>, \<open>After\<close>,
  \<open>Equal\<close>, \<open>IsZero\<close> and \<open>time.Parse\<close> for the two layouts of the operator.  A location with
  daylight-saving rules is outside the model: a location is UTC or a fixed offset.
  The main facts: day numbers and calendar dates convert both ways, and parsing inverts
  printing in both layouts.
\<close>

subsection \<open>The proleptic Gregorian calendar\<close>

definition is_leap :: "int \<Rightarrow> bool" where
  "is_leap y \<longleftrightarrow> y mod 4 = 0 \<and> (y mod 100 \<noteq> 0 \<or> y mod 400 = 0)"

definition days_in :: "int \<Rightarrow> int \<Rightarrow> int" where
  "days_in m y =
     (if m = 2 then (if is_leap y then 29 else 28)
      else if m = 4 \<or> m = 6 \<or> m = 9 \<or> m = 11 then 30 else 31)"

text \<open>Days before January 1st of year \<open>y\<close>, counted from January 1st of year 0.\<close>

definition days_before_year :: "int \<Rightarrow> int" where
  "days_before_year y = 365 * y + (y + 3) div 4 - (y + 99) div 100 + (y + 399) div 400"

text \<open>Days before the first of month \<open>m\<close> within its year.\<close>

definition days_before_month :: "int \<Rightarrow> int \<Rightarrow> int" where
  "days_before_month m y =
     (if m \<le> 1 then 0 else if m = 2 then 31
      else (if is_leap y then 1 else 0) +
        (if m = 3 then 59 else if m = 4 then 90 else if m = 5 then 120 else if m = 6 then 151
         else if m = 7 then 181 else if m = 8 then 212 else if m = 9 then 243
         else if m = 10 then 273 else if m = 11 then 304 else 334))"

text \<open>The number of the day \<open>y-m-d\<close>, 1970-01-01 being 0.\<close>

definition days_of_civil :: "int \<Rightarrow> int \<Rightarrow> int \<Rightarrow> int" where
  "days_of_civil y m d = days_before_year y + days_before_month m y + (d - 1) - 719528"

text \<open>The way back: an estimate of the year, off by one at most, then the month.\<close>

definition year_of_day :: "int \<Rightarrow> int" where
  "year_of_day n =
     (let y = (400 * n) div 146097
      in if n < days_before_year y then y - 1
         else if days_before_year (y + 1) \<le> n then y + 1 else y)"

definition month_of_yday :: "int \<Rightarrow> int \<Rightarrow> int" where
  "month_of_yday k y =
     (if k < 31 then 1
      else if k < days_before_month 3 y then 2 else if k < days_before_month 4 y then 3
      else if k < days_before_month 5 y then 4 else if k < days_before_month 6 y then 5
      else if k < days_before_month 7 y then 6 else if k < days_before_month 8 y then 7
      else if k < days_before_month 9 y then 8 else if k < days_before_month 10 y then 9
      else if k < days_before_month 11 y then 10 else if k < days_before_month 12 y then 11
      else 12)"

definition civil_of_days :: "int \<Rightarrow> int \<times> int \<times> int" where
  "civil_of_days n =
     (let a = n + 719528; y = year_of_day a; k = a - days_before_year y; m = month_of_yday k y
      in (y, m, k - days_before_month m y + 1))"

definition valid_civil :: "int \<Rightarrow> int \<Rightarrow> int \<Rightarrow> bool" where
  "valid_civil y m d \<longleftrightarrow> 1 \<le> m \<and> m \<le> 12 \<and> 1 \<le> d \<and> d \<le> days_in m y"

lemma ceil_div:
  fixes c y :: int
  assumes "0 < c" and b: "b = c - 1"
  shows "(y + b) div c = y div c + (if y mod c = 0 then 0 else 1)"
proof -
  define r where "r = y mod c"
  have r: "0 \<le> r" "r < c" and y: "y = r + c * (y div c)"
    using assms by (simp_all add: r_def)
  from y have e: "y + b = (r + (c - 1)) + c * (y div c)" unfolding b by linarith
  have "(y + b) div c = y div c + (r + (c - 1)) div c"
    unfolding e using assms by simp
  also have "(r + (c - 1)) div c = (if r = 0 then 0 else 1)"
  proof (cases "r = 0")
    case True
    then show ?thesis using assms by (simp add: div_pos_pos_trivial)
  next
    case False
    have "r + (c - 1) = (r - 1) + c" by simp
    then have "(r + (c - 1)) div c = (r - 1) div c + 1"
      using assms by (simp only: div_add_self2)
    with False r show ?thesis by (simp add: div_pos_pos_trivial)
  qed
  finally show ?thesis by (simp add: r_def)
qed

lemma days_before_year_Suc:
  "days_before_year (y + 1) = days_before_year y + (if is_leap y then 366 else 365)"
proof -
  have m: "y mod 400 = 0 \<Longrightarrow> y mod 100 = 0" "y mod 100 = 0 \<Longrightarrow> y mod 4 = 0"
    using mod_mod_cancel [of 100 400 y] mod_mod_cancel [of 4 100 y] by simp_all
  have c: "(y + 3) div 4 = y div 4 + (if y mod 4 = 0 then 0 else 1)"
    "(y + 99) div 100 = y div 100 + (if y mod 100 = 0 then 0 else 1)"
    "(y + 399) div 400 = y div 400 + (if y mod 400 = 0 then 0 else 1)"
    by (rule ceil_div; simp)+
  have s: "(y + 1 + 3) div 4 = y div 4 + 1" "(y + 1 + 99) div 100 = y div 100 + 1"
    "(y + 1 + 399) div 400 = y div 400 + 1"
    by simp_all
  show ?thesis
    unfolding days_before_year_def is_leap_def c s
    by (cases "y mod 400 = 0"; cases "y mod 100 = 0"; cases "y mod 4 = 0") (simp_all add: m)
qed

lemma div_bounds:
  fixes a c :: int
  assumes "0 < c"
  shows "c * (a div c) \<le> a" "a < c * (a div c) + c"
  using assms pos_mod_sign [of c a] pos_mod_bound [of c a] mult_div_mod_eq [of c a]
  by linarith+

lemma days_before_year_bounds:
  "146097 * y - 400 \<le> 400 * days_before_year y" "400 * days_before_year y \<le> 146097 * y + 700"
proof -
  have n: "(0::int) < 4" "(0::int) < 100" "(0::int) < 400" by simp_all
  show "146097 * y - 400 \<le> 400 * days_before_year y"
    "400 * days_before_year y \<le> 146097 * y + 700"
    using div_bounds [OF n(1), of "y + 3"] div_bounds [OF n(2), of "y + 99"]
      div_bounds [OF n(3), of "y + 399"]
    by (simp_all add: days_before_year_def)
qed

lemma days_before_year_mono: "x \<le> y \<Longrightarrow> days_before_year x \<le> days_before_year y"
proof (induction y rule: int_ge_induct)
  case (step i)
  then show ?case by (simp add: days_before_year_Suc)
qed simp

lemma year_of_day_bounds:
  "days_before_year (year_of_day n) \<le> n" "n < days_before_year (year_of_day n + 1)"
proof -
  define y where "y = (400 * n) div 146097"
  have y: "146097 * y \<le> 400 * n" "400 * n < 146097 * y + 146097"
    by (simp_all add: y_def)
  have lo: "days_before_year (y - 1) \<le> n"
    using days_before_year_bounds(2) [of "y - 1"] y by simp
  have hi: "n < days_before_year (y + 2)"
    using days_before_year_bounds(1) [of "y + 2"] y by simp
  show "days_before_year (year_of_day n) \<le> n" "n < days_before_year (year_of_day n + 1)"
    using lo hi by (auto simp: year_of_day_def Let_def y_def [symmetric] add.commute)
qed

lemma year_of_day_unique:
  assumes "days_before_year y \<le> n" "n < days_before_year (y + 1)"
  shows "year_of_day n = y"
proof -
  note b = year_of_day_bounds [of n]
  have "\<not> year_of_day n + 1 \<le> y"
    using days_before_year_mono [of "year_of_day n + 1" y] b assms by linarith
  moreover have "\<not> y + 1 \<le> year_of_day n"
    using days_before_year_mono [of "y + 1" "year_of_day n"] b assms by linarith
  ultimately show ?thesis by simp
qed

lemma month_cases:
  fixes m :: int
  assumes "1 \<le> m" "m \<le> 12"
  obtains "m = 1" | "m = 2" | "m = 3" | "m = 4" | "m = 5" | "m = 6" | "m = 7" | "m = 8"
    | "m = 9" | "m = 10" | "m = 11" | "m = 12"
proof -
  from assms have "m = 1 \<or> m = 2 \<or> m = 3 \<or> m = 4 \<or> m = 5 \<or> m = 6 \<or> m = 7 \<or> m = 8 \<or> m = 9
      \<or> m = 10 \<or> m = 11 \<or> m = 12"
    by arith
  then show thesis using that by blast
qed

lemma month_of_yday_civil:
  assumes "valid_civil y m d"
  shows "month_of_yday (days_before_month m y + (d - 1)) y = m"
proof -
  from assms have "1 \<le> m" "m \<le> 12" by (simp_all add: valid_civil_def)
  then show ?thesis
    using assms
    by (cases rule: month_cases)
      (auto simp: valid_civil_def month_of_yday_def days_before_month_def days_in_def
        split: if_splits)
qed

lemma yday_bounds:
  assumes "valid_civil y m d"
  shows "0 \<le> days_before_month m y + (d - 1)"
    and "days_before_month m y + (d - 1) < (if is_leap y then 366 else 365)"
proof -
  from assms have "1 \<le> m" "m \<le> 12" by (simp_all add: valid_civil_def)
  then have "0 \<le> days_before_month m y + (d - 1) \<and>
      days_before_month m y + (d - 1) < (if is_leap y then 366 else 365)"
    using assms
    by (cases rule: month_cases)
      (auto simp: valid_civil_def days_before_month_def days_in_def split: if_splits)
  then show "0 \<le> days_before_month m y + (d - 1)"
    "days_before_month m y + (d - 1) < (if is_leap y then 366 else 365)"
    by simp_all
qed

text \<open>A calendar date survives the conversion to a day number and back.\<close>

lemma civil_of_days_of_civil:
  assumes "valid_civil y m d"
  shows "civil_of_days (days_of_civil y m d) = (y, m, d)"
proof -
  let ?k = "days_before_month m y + (d - 1)"
  have "year_of_day (days_before_year y + ?k) = y"
    using yday_bounds [OF assms] by (intro year_of_day_unique) (simp_all add: days_before_year_Suc)
  then show ?thesis
    using month_of_yday_civil [OF assms]
    by (simp add: civil_of_days_def days_of_civil_def Let_def algebra_simps)
qed

lemma yday_cases:
  obtains "k < 31" | "31 \<le> k" "k < days_before_month 3 y"
    | "days_before_month 3 y \<le> k" "k < days_before_month 4 y"
    | "days_before_month 4 y \<le> k" "k < days_before_month 5 y"
    | "days_before_month 5 y \<le> k" "k < days_before_month 6 y"
    | "days_before_month 6 y \<le> k" "k < days_before_month 7 y"
    | "days_before_month 7 y \<le> k" "k < days_before_month 8 y"
    | "days_before_month 8 y \<le> k" "k < days_before_month 9 y"
    | "days_before_month 9 y \<le> k" "k < days_before_month 10 y"
    | "days_before_month 10 y \<le> k" "k < days_before_month 11 y"
    | "days_before_month 11 y \<le> k" "k < days_before_month 12 y"
    | "days_before_month 12 y \<le> k"
  by (meson not_le)

lemma month_of_yday_valid:
  assumes "0 \<le> k" "k < (if is_leap y then 366 else 365)"
  shows "valid_civil y (month_of_yday k y) (k - days_before_month (month_of_yday k y) y + 1)"
proof (cases "is_leap y")
  case True
  show ?thesis
    by (cases rule: yday_cases [where k = k and y = y])
      (use assms True in \<open>simp_all add: valid_civil_def month_of_yday_def days_before_month_def
        days_in_def\<close>)
next
  case False
  show ?thesis
    by (cases rule: yday_cases [where k = k and y = y])
      (use assms False in \<open>simp_all add: valid_civil_def month_of_yday_def days_before_month_def
        days_in_def\<close>)
qed

text \<open>And a day number survives the conversion to a date, which is always a valid one.\<close>

lemma days_of_civil_of_days:
  assumes "civil_of_days n = (y, m, d)"
  shows "days_of_civil y m d = n" "valid_civil y m d"
proof -
  define k where "k = n + 719528 - days_before_year (year_of_day (n + 719528))"
  have y: "y = year_of_day (n + 719528)" and m: "m = month_of_yday k y"
    and d: "d = k - days_before_month m y + 1"
    using assms by (auto simp: civil_of_days_def Let_def k_def)
  have k: "0 \<le> k" "k < (if is_leap y then 366 else 365)"
    using year_of_day_bounds [of "n + 719528"] by (simp_all add: k_def y days_before_year_Suc)
  show "valid_civil y m d"
    using month_of_yday_valid [OF k] by (simp add: m d)
  show "days_of_civil y m d = n"
    by (simp add: days_of_civil_def d k_def y)
qed

subsection \<open>Instants\<close>

record Time =
  unix_ns :: int
  zone_off :: int

text \<open>Instants are compared without regard to their locations: a preorder.\<close>

instantiation Time_ext :: (type) preorder
begin

definition less_eq_Time_ext :: "'a Time_ext \<Rightarrow> 'a Time_ext \<Rightarrow> bool" where
  "less_eq_Time_ext t u \<longleftrightarrow> unix_ns t \<le> unix_ns u"

definition less_Time_ext :: "'a Time_ext \<Rightarrow> 'a Time_ext \<Rightarrow> bool" where
  "less_Time_ext t u \<longleftrightarrow> unix_ns t < unix_ns u"

instance
  by standard (auto simp: less_eq_Time_ext_def less_Time_ext_def)

end

definition Before :: "Time \<Rightarrow> Time \<Rightarrow> bool" where
  "Before t u \<longleftrightarrow> t < u"

definition After :: "Time \<Rightarrow> Time \<Rightarrow> bool" where
  "After t u \<longleftrightarrow> u < t"

definition Equal :: "Time \<Rightarrow> Time \<Rightarrow> bool" where
  "Equal t u \<longleftrightarrow> unix_ns t = unix_ns u"

lemmas time_order = Before_def After_def Equal_def less_Time_ext_def less_eq_Time_ext_def

abbreviation second :: int where "second \<equiv> 1000000000"

text \<open>The zero \<open>time.Time\<close>: January 1st of year 1, midnight UTC.\<close>

definition time_zero :: Time where
  "time_zero = \<lparr>unix_ns = -62135596800 * second, zone_off = 0\<rparr>"

definition IsZero :: "Time \<Rightarrow> bool" where
  "IsZero t \<longleftrightarrow> unix_ns t = unix_ns time_zero"

text \<open>\<open>t.Add(d)\<close>, where \<open>d\<close> is an \<open>int64\<close> count of nanoseconds.\<close>

type_synonym Duration = "64 word"

definition time_Add :: "Time \<Rightarrow> Duration \<Rightarrow> Time" where
  "time_Add t d = t\<lparr>unix_ns := unix_ns t + sint d\<rparr>"

text \<open>\<open>time.Date\<close>: months outside 1..12 carry into the year, every other field into the
  instant.\<close>

definition time_Date :: "int \<Rightarrow> int \<Rightarrow> int \<Rightarrow> int \<Rightarrow> int \<Rightarrow> int \<Rightarrow> int \<Rightarrow> int \<Rightarrow> Time" where
  "time_Date y mo d h mi s ns off =
     (let y' = y + (mo - 1) div 12; mo' = (mo - 1) mod 12 + 1
      in \<lparr>unix_ns = ((days_of_civil y' mo' d) * 86400 + h * 3600 + mi * 60 + s - off) * second + ns,
          zone_off = off\<rparr>)"

text \<open>The wall clock of an instant in its location: date, second of the day, nanosecond.\<close>

definition wall_secs :: "Time \<Rightarrow> int" where
  "wall_secs t = unix_ns t div second + zone_off t"

definition date_of :: "Time \<Rightarrow> int \<times> int \<times> int" where
  "date_of t = civil_of_days (wall_secs t div 86400)"

definition clock_of :: "Time \<Rightarrow> int \<times> int \<times> int" where
  "clock_of t = (let k = wall_secs t mod 86400 in (k div 3600, k mod 3600 div 60, k mod 60))"

definition nanosecond_of :: "Time \<Rightarrow> int" where
  "nanosecond_of t = unix_ns t mod second"

definition time_AddDate :: "Time \<Rightarrow> int \<Rightarrow> int \<Rightarrow> int \<Rightarrow> Time" where
  "time_AddDate t years months days =
     (case date_of t of (y, m, d) \<Rightarrow> case clock_of t of (h, mi, s) \<Rightarrow>
        time_Date (y + years) (m + months) (d + days) h mi s (nanosecond_of t) (zone_off t))"

lemma time_order_total: "\<not> Before t u \<longleftrightarrow> After t u \<or> Equal t u"
  by (auto simp: time_order)

lemma clock_of_bounds:
  assumes "clock_of t = (h, mi, s)"
  shows "0 \<le> h" "h \<le> 23" "0 \<le> mi" "mi \<le> 59" "0 \<le> s" "s \<le> 59"
    "h * 3600 + mi * 60 + s = wall_secs t mod 86400"
proof -
  define k where "k = wall_secs t mod 86400"
  have k: "0 \<le> k" "k < 86400" by (simp_all add: k_def)
  have e: "h = k div 3600" "mi = k mod 3600 div 60" "s = k mod 60"
    using assms by (simp_all add: clock_of_def Let_def k_def)
  have "k mod 3600 mod 60 = k mod 60" by (rule mod_mod_cancel) simp
  then have "k mod 3600 = 60 * mi + s"
    using mult_div_mod_eq [of 60 "k mod 3600"] by (simp add: e)
  then show "h * 3600 + mi * 60 + s = wall_secs t mod 86400"
    using mult_div_mod_eq [of 3600 k] by (simp add: e(1) k_def [symmetric])
  have "0 \<le> k mod 3600" "k mod 3600 < 3600" by simp_all
  then show "0 \<le> mi" "mi \<le> 59"
    using div_bounds [of 60 "k mod 3600"] by (simp_all add: e(2))
  show "0 \<le> h" "h \<le> 23"
    using k div_bounds [of 3600 k] by (simp_all add: e(1))
  show "0 \<le> s" "s \<le> 59"
    using pos_mod_bound [of 60 k] by (simp_all add: e(3))
qed

lemma unix_ns_time_Date:
  assumes "1 \<le> mo" "mo \<le> 12"
  shows "unix_ns (time_Date y mo d h mi s ns off)
    = (days_of_civil y mo d * 86400 + h * 3600 + mi * 60 + s - off) * second + ns"
proof -
  have "(mo - 1) div 12 = 0" "(mo - 1) mod 12 = mo - 1" using assms by simp_all
  then show ?thesis by (simp add: time_Date_def Let_def)
qed

text \<open>Reassembling the wall clock of an instant gives the instant.\<close>

lemma time_Date_of_parts:
  assumes "date_of t = (y, m, d)" "clock_of t = (h, mi, s)"
  shows "time_Date y m d h mi s (nanosecond_of t) (zone_off t) = t"
proof -
  have m: "1 \<le> m" "m \<le> 12" and n: "days_of_civil y m d = wall_secs t div 86400"
    using days_of_civil_of_days [OF assms(1) [unfolded date_of_def]] by (simp_all add: valid_civil_def)
  have "wall_secs t div 86400 * 86400 + wall_secs t mod 86400 = wall_secs t" by simp
  then have "wall_secs t div 86400 * 86400 + h * 3600 + mi * 60 + s - zone_off t
      = unix_ns t div second"
    using clock_of_bounds(7) [OF assms(2)] unfolding wall_secs_def by linarith
  then have "unix_ns (time_Date y m d h mi s (nanosecond_of t) (zone_off t))
      = unix_ns t div second * second + unix_ns t mod second"
    unfolding unix_ns_time_Date [OF m] n nanosecond_of_def by (simp only:)
  then have "unix_ns (time_Date y m d h mi s (nanosecond_of t) (zone_off t)) = unix_ns t"
    by simp
  then show ?thesis
    by (simp add: time_Date_def Let_def)
qed

text \<open>And the parts of an assembled instant are the parts it was assembled from.\<close>

lemma parts_of_time_Date:
  assumes "valid_civil y m d" "0 \<le> h" "h \<le> 23" "0 \<le> mi" "mi \<le> 59" "0 \<le> s" "s \<le> 59"
    "0 \<le> ns" "ns < second"
  shows "date_of (time_Date y m d h mi s ns off) = (y, m, d)"
    "clock_of (time_Date y m d h mi s ns off) = (h, mi, s)"
    "nanosecond_of (time_Date y m d h mi s ns off) = ns"
    "zone_off (time_Date y m d h mi s ns off) = off"
proof -
  let ?t = "time_Date y m d h mi s ns off"
  let ?D = "days_of_civil y m d"
  let ?c = "h * 3600 + mi * 60 + s"
  define X where "X = ?D * 86400 + ?c - off"
  have u: "unix_ns ?t = X * second + ns"
    using assms(1) unix_ns_time_Date [of m y d h mi s ns off]
    by (simp add: valid_civil_def X_def)
  show z: "zone_off ?t = off" by (simp add: time_Date_def Let_def)
  show "nanosecond_of ?t = ns"
    using assms(8,9) by (simp add: nanosecond_of_def u)
  have "unix_ns ?t div second = X"
    using assms(8,9) by (simp add: u)
  then have w: "wall_secs ?t = ?D * 86400 + ?c"
    by (simp add: wall_secs_def z X_def)
  have c: "0 \<le> ?c" "?c < 86400" using assms(2-7) by simp_all
  have wd: "wall_secs ?t div 86400 = ?D" "wall_secs ?t mod 86400 = ?c"
    using c by (simp_all add: w)
  show "date_of ?t = (y, m, d)"
    using civil_of_days_of_civil [OF assms(1)] by (simp add: date_of_def wd)
  have c60: "?c = s + (60 * h + mi) * 60" and c3600: "?c = (mi * 60 + s) + h * 3600" by simp_all
  have "?c div 3600 = h" "?c mod 3600 = mi * 60 + s"
    unfolding c3600 using assms(2-7) by simp_all
  moreover have "(mi * 60 + s) div 60 = mi" "?c mod 60 = s"
    unfolding c60 using assms(4-7) by (simp_all only: mod_mult_self1 mod_pos_pos_trivial)
  ultimately show "clock_of ?t = (h, mi, s)"
    by (simp add: clock_of_def Let_def wd)
qed

subsection \<open>Parsing: the tokens\<close>

text \<open>
  \<open>time.Parse\<close> reads its input token by token; a token parser returns the value and the rest
  of the input, or \<open>None\<close> where the package reports a bad value or a value out of range.
\<close>

definition is_digit :: "char \<Rightarrow> bool" where
  "is_digit c \<longleftrightarrow> 48 \<le> (of_char c :: nat) \<and> (of_char c :: nat) \<le> 57"

definition digit_val :: "char \<Rightarrow> int" where
  "digit_val c = int (of_char c) - 48"

definition digits_val :: "string \<Rightarrow> int" where
  "digits_val cs = foldl (\<lambda>n c. n * 10 + digit_val c) 0 cs"

definition guard :: "bool \<Rightarrow> unit option" where
  "guard b = (if b then Some () else None)"

lemma guard_simps [simp]: "guard True = Some ()" "guard False = None"
  by (simp_all add: guard_def)

text \<open>A literal character of the layout.\<close>

fun lit :: "char \<Rightarrow> string \<Rightarrow> string option" where
  "lit p (c # r) = (if c = p then Some r else None)"
| "lit p [] = None"

text \<open>\<open>getnum\<close>: two digits, or one when the field is not fixed.\<close>

fun getnum :: "bool \<Rightarrow> string \<Rightarrow> (int \<times> string) option" where
  "getnum fixed (a # b # r) =
     (if \<not> is_digit a then None
      else if is_digit b then Some (digit_val a * 10 + digit_val b, r)
      else if fixed then None else Some (digit_val a, b # r))"
| "getnum fixed [a] = (if is_digit a \<and> \<not> fixed then Some (digit_val a, []) else None)"
| "getnum fixed [] = None"

definition get_ranged :: "bool \<Rightarrow> int \<Rightarrow> int \<Rightarrow> string \<Rightarrow> (int \<times> string) option" where
  "get_ranged fixed lo hi s = do {
     (n, r) \<leftarrow> getnum fixed s;
     guard (lo \<le> n \<and> n \<le> hi);
     Some (n, r)}"

text \<open>\<open>stdLongYear\<close>: exactly four digits.\<close>

fun get_year :: "string \<Rightarrow> (int \<times> string) option" where
  "get_year (a # b # c # d # r) =
     (if list_all is_digit [a, b, c, d] then Some (digits_val [a, b, c, d], r) else None)"
| "get_year _ = None"

text \<open>
  A fraction after the seconds, with a period or a comma, is accepted although the layout has
  none; nine digits count and the rest is cut off.
\<close>

definition frac_ns :: "string \<Rightarrow> int" where
  "frac_ns ds = digits_val (take 9 ds) * 10 ^ (9 - length (take 9 ds))"

definition get_frac :: "string \<Rightarrow> int \<times> string" where
  "get_frac s =
     (case s of
        p # c # r \<Rightarrow>
          (if (p = CHR ''.'' \<or> p = CHR '','') \<and> is_digit c
           then (frac_ns (takeWhile is_digit (c # r)), dropWhile is_digit (c # r))
           else (0, s))
      | _ \<Rightarrow> (0, s))"

text \<open>The zone of \<open>RFC3339\<close>: \<open>Z\<close>, or a sign and \<open>hh:mm\<close> with hours up to 24 and minutes up
  to 60, as the package allows.\<close>

fun get_zone :: "string \<Rightarrow> (int \<times> string) option" where
  "get_zone (z # s) =
     (if z = CHR ''Z'' then Some (0, s)
      else do {
        (hr, s) \<leftarrow> get_ranged True 0 24 s;
        s \<leftarrow> lit (CHR '':'') s;
        (mm, s) \<leftarrow> get_ranged True 0 60 s;
        if z = CHR ''+'' then Some ((hr * 60 + mm) * 60, s)
        else if z = CHR ''-'' then Some (- ((hr * 60 + mm) * 60), s)
        else None})"
| "get_zone [] = None"

definition get_ymd :: "string \<Rightarrow> (int \<times> int \<times> int \<times> string) option" where
  "get_ymd s = do {
     (y, s) \<leftarrow> get_year s;
     s \<leftarrow> lit (CHR ''-'') s;
     (m, s) \<leftarrow> get_ranged True 1 12 s;
     s \<leftarrow> lit (CHR ''-'') s;
     (d, s) \<leftarrow> getnum True s;
     Some (y, m, d, s)}"

subsection \<open>Parsing: the two layouts\<close>

text \<open>The layout \<open>2006-01-02\<close>; the day is checked against the month once all is read.\<close>

definition parse_date_only :: "string \<Rightarrow> Time option" where
  "parse_date_only v = do {
     (y, m, d, r) \<leftarrow> get_ymd v;
     guard (r = [] \<and> 1 \<le> d \<and> d \<le> days_in m y);
     Some (time_Date y m d 0 0 0 0 0)}"

text \<open>The layout \<open>2006-01-02T15:04:05Z07:00\<close>.  \<open>time.Parse\<close> first tries a strict scanner
  that accepts a subset of this with the same result.\<close>

definition parse_rfc3339 :: "string \<Rightarrow> Time option" where
  "parse_rfc3339 v = do {
     (y, m, d, s) \<leftarrow> get_ymd v;
     s \<leftarrow> lit (CHR ''T'') s;
     (hh, s) \<leftarrow> get_ranged False 0 23 s;
     s \<leftarrow> lit (CHR '':'') s;
     (mi, s) \<leftarrow> get_ranged True 0 59 s;
     s \<leftarrow> lit (CHR '':'') s;
     (ss, s) \<leftarrow> get_ranged True 0 59 s;
     let (ns, s) = get_frac s;
     (off, s) \<leftarrow> get_zone s;
     guard (s = [] \<and> 1 \<le> d \<and> d \<le> days_in m y);
     Some (time_Date y m d hh mi ss ns off)}"

definition RFC3339 :: string where "RFC3339 = ''2006-01-02T15:04:05Z07:00''"

definition ParseError :: "string \<Rightarrow> string \<Rightarrow> go_error" where
  "ParseError layout v = Failure ''parsing time'' [FStr layout, FStr v]"

text \<open>\<open>time.Parse(layout, v)\<close> with Go's two results, for a layout given with its parser.\<close>

definition time_Parse :: "string \<Rightarrow> (string \<Rightarrow> Time option) \<Rightarrow> string \<Rightarrow> Time \<times> go_error option" where
  "time_Parse layout p v =
     (case p v of Some t \<Rightarrow> (t, None) | None \<Rightarrow> (time_zero, Some (ParseError layout v)))"

subsection \<open>Printing, and the round trips\<close>

definition digit_char :: "int \<Rightarrow> char" where
  "digit_char n = char_of (nat (n + 48))"

definition print2 :: "int \<Rightarrow> string" where
  "print2 n = [digit_char (n div 10), digit_char (n mod 10)]"

definition print4 :: "int \<Rightarrow> string" where
  "print4 n = print2 (n div 100) @ print2 (n mod 100)"

definition print_ymd :: "int \<Rightarrow> int \<Rightarrow> int \<Rightarrow> string" where
  "print_ymd y m d = print4 y @ CHR ''-'' # print2 m @ CHR ''-'' # print2 d"

definition print_zone :: "int \<Rightarrow> string" where
  "print_zone off =
     (if off = 0 then ''Z''
      else (if off < 0 then CHR ''-'' else CHR ''+'') #
        print2 (\<bar>off\<bar> div 3600) @ CHR '':'' # print2 (\<bar>off\<bar> div 60 mod 60))"

text \<open>\<open>t.Format(time.RFC3339)\<close> for a year of four digits.\<close>

definition format_rfc3339 :: "Time \<Rightarrow> string" where
  "format_rfc3339 t =
     (case date_of t of (y, m, d) \<Rightarrow> case clock_of t of (h, mi, s) \<Rightarrow>
        print_ymd y m d @ CHR ''T'' # print2 h @ CHR '':'' # print2 mi @ CHR '':'' # print2 s
          @ print_zone (zone_off t))"

lemma digit_char [simp]:
  assumes "0 \<le> n" "n \<le> 9"
  shows "is_digit (digit_char n)" "digit_val (digit_char n) = n"
  using assms by (auto simp: is_digit_def digit_val_def digit_char_def of_char_of)

lemma getnum_print2 [simp]:
  assumes "0 \<le> n" "n \<le> 99"
  shows "getnum fixed (print2 n @ r) = Some (n, r)"
proof -
  have "0 \<le> n div 10" "n div 10 \<le> 9" "0 \<le> n mod 10" "n mod 10 \<le> 9"
    using assms div_bounds [of 10 n] by simp_all
  moreover have "n div 10 * 10 + n mod 10 = n" by simp
  ultimately show ?thesis by (simp add: print2_def)
qed

lemma get_ranged_print2 [simp]:
  "\<lbrakk>0 \<le> lo; lo \<le> n; n \<le> hi; hi \<le> 99\<rbrakk> \<Longrightarrow> get_ranged fixed lo hi (print2 n @ r) = Some (n, r)"
  by (simp add: get_ranged_def)

lemma get_year_print4 [simp]:
  assumes "0 \<le> n" "n \<le> 9999"
  shows "get_year (print4 n @ r) = Some (n, r)"
proof -
  have hi: "0 \<le> n div 100" "n div 100 \<le> 99" and lo: "0 \<le> n mod 100" "n mod 100 \<le> 99"
    using assms div_bounds [of 100 n] by simp_all
  have d: "0 \<le> k div 10" "k div 10 \<le> 9" "0 \<le> k mod 10" "k mod 10 \<le> 9"
    if "0 \<le> k" "k \<le> 99" for k :: int
    using that div_bounds [of 10 k] by simp_all
  define p q u v where "p = n div 100 div 10" "q = n div 100 mod 10"
    "u = n mod 100 div 10" "v = n mod 100 mod 10"
  note defs = p_q_u_v_def
  have "p * 10 + q = n div 100" "u * 10 + v = n mod 100" "n div 100 * 100 + n mod 100 = n"
    unfolding defs by (rule div_mult_mod_eq)+
  moreover have "((p * 10 + q) * 10 + u) * 10 + v = (p * 10 + q) * 100 + (u * 10 + v)" by simp
  ultimately have "((p * 10 + q) * 10 + u) * 10 + v = n" by (simp only:)
  then show ?thesis
    using d [OF hi] d [OF lo]
    by (simp add: print4_def print2_def digits_val_def defs [symmetric])
qed

lemma get_ymd_print [simp]:
  assumes "0 \<le> y" "y \<le> 9999" "valid_civil y m d"
  shows "get_ymd (print_ymd y m d @ r) = Some (y, m, d, r)"
proof -
  have "d \<le> 31" using assms(3) by (auto simp: valid_civil_def days_in_def split: if_splits)
  then show ?thesis
    using assms by (simp add: get_ymd_def print_ymd_def valid_civil_def)
qed

lemma get_zone_print [simp]:
  assumes "off mod 60 = 0" "\<bar>off\<bar> < 86400"
  shows "get_zone (print_zone off @ r) = Some (off, r)"
proof (cases "off = 0")
  case False
  define a where "a = \<bar>off\<bar>"
  have a: "0 \<le> a" "a < 86400" "a mod 60 = 0"
    using assms by (auto simp: a_def abs_if zmod_zminus1_eq_if)
  have h: "0 \<le> a div 3600" "a div 3600 \<le> 23"
    using a div_bounds [of 3600 a] by simp_all
  have mm: "0 \<le> a div 60 mod 60" "a div 60 mod 60 \<le> 59"
    using pos_mod_bound [of 60 "a div 60"] by simp_all
  have "a div 60 div 60 = a div 3600" by (simp add: div_mult2_eq [symmetric])
  then have "a div 3600 * 60 + a div 60 mod 60 = a div 60"
    using div_mult_mod_eq [of "a div 60" 60] by simp
  then have "(a div 3600 * 60 + a div 60 mod 60) * 60 = a"
    using a(3) div_mult_mod_eq [of a 60] by simp
  then have s: "3600 * (a div 3600) + a div 60 mod 60 * 60 = a"
    "- (3600 * (a div 3600)) - a div 60 mod 60 * 60 = - a"
    by (simp_all add: distrib_right)
  have m0: "get_ranged True 0 60 (print2 (a div 60 mod 60) @ r) = Some (a div 60 mod 60, r)"
    and h0: "\<And>r. get_ranged True 0 24 (print2 (a div 3600) @ r) = Some (a div 3600, r)"
    using h mm by simp_all
  have "get_zone (print_zone off @ r) = Some (if off < 0 then - a else a, r)"
    using False unfolding print_zone_def a_def [symmetric]
    by (simp only: append_Cons append_assoc get_zone.simps if_False) (simp add: m0 h0 s)
  then show ?thesis by (simp add: a_def)
qed (simp add: print_zone_def)

lemma get_frac_zone [simp]:
  "get_frac (CHR ''Z'' # r) = (0, CHR ''Z'' # r)"
  "get_frac (print_zone off) = (0, print_zone off)"
  by (auto simp: get_frac_def print_zone_def split: list.split)

definition year4 :: "int \<Rightarrow> bool" where
  "year4 y \<longleftrightarrow> 0 \<le> y \<and> y \<le> 9999"

lemma parse_date_only_print:
  assumes "year4 y" "valid_civil y m d"
  shows "parse_date_only (print_ymd y m d) = Some (time_Date y m d 0 0 0 0 0)"
  using get_ymd_print [of y m d "[]"] assms
  by (simp add: parse_date_only_def valid_civil_def year4_def)

lemma parse_rfc3339_date_only:
  assumes "year4 y" "valid_civil y m d"
  shows "parse_rfc3339 (print_ymd y m d) = None"
  using get_ymd_print [of y m d "[]"] assms by (simp add: parse_rfc3339_def year4_def)

text \<open>The instants whose RFC 3339 text in seconds is exact: a year of four digits, no fraction
  of a second, an offset of whole minutes below a day.\<close>

definition rfc3339_exact :: "Time \<Rightarrow> bool" where
  "rfc3339_exact t \<longleftrightarrow> year4 (fst (date_of t)) \<and> nanosecond_of t = 0 \<and>
     zone_off t mod 60 = 0 \<and> \<bar>zone_off t\<bar> < 86400"

lemma parse_format_rfc3339:
  assumes "rfc3339_exact t"
  shows "parse_rfc3339 (format_rfc3339 t) = Some t"
proof -
  obtain y m d h mi s where parts: "date_of t = (y, m, d)" "clock_of t = (h, mi, s)"
    by (cases "date_of t", cases "clock_of t")
  have v: "valid_civil y m d"
    using days_of_civil_of_days(2) parts(1) by (simp add: date_of_def)
  then have day: "1 \<le> d" "d \<le> days_in m y" by (simp_all add: valid_civil_def)
  note c = clock_of_bounds [OF parts(2)]
  have ymd: "get_ymd (print_ymd y m d @ r) = Some (y, m, d, r)" for r
    using assms parts v by (simp add: rfc3339_exact_def year4_def)
  have z: "get_zone (print_zone (zone_off t)) = Some (zone_off t, [])"
    using get_zone_print [of "zone_off t" "[]"] assms by (simp add: rfc3339_exact_def)
  have "parse_rfc3339 (format_rfc3339 t) = Some (time_Date y m d h mi s 0 (zone_off t))"
    using c day by (simp add: parse_rfc3339_def format_rfc3339_def parts ymd z)
  also have "time_Date y m d h mi s 0 (zone_off t) = t"
    using time_Date_of_parts [OF parts] assms by (simp add: rfc3339_exact_def)
  finally show ?thesis .
qed

interpretation rfc3339: round_trip format_rfc3339 parse_rfc3339 rfc3339_exact
  by unfold_locales (rule parse_format_rfc3339)

interpretation date_only: round_trip
  "\<lambda>(y, m, d). print_ymd y m d" "\<lambda>v. map_option date_of (parse_date_only v)"
  "\<lambda>(y, m, d). year4 y \<and> valid_civil y m d"
  by unfold_locales (auto simp: parse_date_only_print parts_of_time_Date)

subsection \<open>A hundred years later\<close>

lemma date_of_valid: "date_of t = (y, m, d) \<Longrightarrow> valid_civil y m d"
  using days_of_civil_of_days(2) by (simp add: date_of_def)

text \<open>February 29th of a common year is March 1st.\<close>

lemma time_Date_feb29:
  "\<not> is_leap y \<Longrightarrow> time_Date y 2 29 h mi s ns off = time_Date y 3 1 h mi s ns off"
  by (simp add: time_Date_def days_of_civil_def days_before_month_def)

lemma AddDate_years:
  assumes "date_of t = (y, m, d)"
  shows "date_of (time_AddDate t k 0 0) =
      (if m = 2 \<and> d = 29 \<and> \<not> is_leap (y + k) then (y + k, 3, 1) else (y + k, m, d))"
    and "clock_of (time_AddDate t k 0 0) = clock_of t"
    and "nanosecond_of (time_AddDate t k 0 0) = nanosecond_of t"
    and "zone_off (time_AddDate t k 0 0) = zone_off t"
proof -
  obtain h mi s where c: "clock_of t = (h, mi, s)" by (cases "clock_of t")
  note b = clock_of_bounds [OF c]
  have ns: "0 \<le> nanosecond_of t" "nanosecond_of t < second" by (simp_all add: nanosecond_of_def)
  have v: "valid_civil y m d" using date_of_valid [OF assms] .
  obtain m' d' where md: "(m', d') = (if m = 2 \<and> d = 29 \<and> \<not> is_leap (y + k) then (3, 1) else (m, d))"
    and v': "valid_civil (y + k) m' d'"
    using v by (cases "m = 2 \<and> d = 29 \<and> \<not> is_leap (y + k)")
      (auto simp: valid_civil_def days_in_def split: if_splits)
  have "time_AddDate t k 0 0 = time_Date (y + k) m' d' h mi s (nanosecond_of t) (zone_off t)"
    using md by (auto simp: time_AddDate_def assms c time_Date_feb29 split: if_splits)
  then show "date_of (time_AddDate t k 0 0) =
      (if m = 2 \<and> d = 29 \<and> \<not> is_leap (y + k) then (y + k, 3, 1) else (y + k, m, d))"
    "clock_of (time_AddDate t k 0 0) = clock_of t"
    "nanosecond_of (time_AddDate t k 0 0) = nanosecond_of t"
    "zone_off (time_AddDate t k 0 0) = zone_off t"
    using parts_of_time_Date [OF v' b(1-6) ns] md c by (auto split: if_splits)
qed

end
