(* ===== verification/Go_Http.thy ===== *)
theory Go_Http
  imports Prelude "HOL-Library.Monad_Syntax"
begin

section \<open>Go's packages \<open>net/http\<close> and \<open>net/url\<close>, as far as the operator uses them\<close>

text \<open>
  Requests with their header, \<open>Header.Add\<close> with canonical keys, \<open>url.PathEscape\<close>, and the
  network as a parameter: \<open>http_Do\<close> answers a request in a world \<open>'w\<close> that only it and the
  other parameters of the environment look into.  A request that reaches \<open>http_Do\<close> was sent.
\<close>

subsection \<open>Headers\<close>

definition is_upper :: "char \<Rightarrow> bool" where
  "is_upper c \<longleftrightarrow> 65 \<le> (of_char c :: nat) \<and> (of_char c :: nat) \<le> 90"

definition is_lower :: "char \<Rightarrow> bool" where
  "is_lower c \<longleftrightarrow> 97 \<le> (of_char c :: nat) \<and> (of_char c :: nat) \<le> 122"

definition is_alnum :: "char \<Rightarrow> bool" where
  "is_alnum c \<longleftrightarrow> is_upper c \<or> is_lower c \<or>
     48 \<le> (of_char c :: nat) \<and> (of_char c :: nat) \<le> 57"

definition to_upper :: "char \<Rightarrow> char" where
  "to_upper c = (if is_lower c then char_of ((of_char c :: nat) - 32) else c)"

definition to_lower :: "char \<Rightarrow> char" where
  "to_lower c = (if is_upper c then char_of ((of_char c :: nat) + 32) else c)"

text \<open>The bytes of a header token, RFC 7230.\<close>

definition token_byte :: "char \<Rightarrow> bool" where
  "token_byte c \<longleftrightarrow> is_alnum c \<or>
     (of_char c :: nat) \<in> {33, 35, 36, 37, 38, 39, 42, 43, 45, 46, 94, 95, 96, 124, 126}"

fun canonical_from :: "bool \<Rightarrow> string \<Rightarrow> string" where
  "canonical_from up [] = []"
| "canonical_from up (c # cs) =
     (if up then to_upper c else to_lower c) # canonical_from (c = CHR ''-'') cs"

definition CanonicalHeaderKey :: "string \<Rightarrow> string" where
  "CanonicalHeaderKey k = (if list_all token_byte k then canonical_from True k else k)"

type_synonym header = "(string \<times> string) list"

record http_request =
  Method :: string
  URL :: string
  Header :: header
  Body :: "string option"

definition Header_Add :: "string \<Rightarrow> string \<Rightarrow> http_request \<Rightarrow> http_request" where
  "Header_Add k v r = r\<lparr>Header := Header r @ [(CanonicalHeaderKey k, v)]\<rparr>"

text \<open>All values of a header key.\<close>

definition Header_Values :: "http_request \<Rightarrow> string \<Rightarrow> string list" where
  "Header_Values r k = map snd (filter (\<lambda>kv. fst kv = CanonicalHeaderKey k) (Header r))"

lemma Header_Add_sel [simp]:
  "Method (Header_Add k v r) = Method r" "URL (Header_Add k v r) = URL r"
  "Body (Header_Add k v r) = Body r"
  by (simp_all add: Header_Add_def)

lemma Header_Values_Nil [simp]: "Header r = [] \<Longrightarrow> Header_Values r k = []"
  by (simp add: Header_Values_def)

lemma Header_Values_Add:
  "Header_Values (Header_Add k v r) k' =
     Header_Values r k' @ (if CanonicalHeaderKey k = CanonicalHeaderKey k' then [v] else [])"
  by (simp add: Header_Values_def Header_Add_def)

lemma canonical_keys [simp]:
  "CanonicalHeaderKey ''Content-Type'' = ''Content-Type''"
  "CanonicalHeaderKey ''Authorization'' = ''Authorization''"
  "CanonicalHeaderKey ''X-Scope-OrgID'' = ''X-Scope-Orgid''"
  by code_simp+

subsection \<open>Escaping a path segment\<close>

definition path_unreserved :: "char \<Rightarrow> bool" where
  "path_unreserved c \<longleftrightarrow> is_alnum c \<or> c \<in> set ''-_.~$&+:=@''"

definition hex_digit :: "nat \<Rightarrow> char" where
  "hex_digit n = char_of (if n < 10 then 48 + n else 55 + n)"

definition hex_value :: "char \<Rightarrow> nat option" where
  "hex_value c =
     (let n = of_char c :: nat
      in if 48 \<le> n \<and> n \<le> 57 then Some (n - 48)
         else if 65 \<le> n \<and> n \<le> 70 then Some (n - 55)
         else if 97 \<le> n \<and> n \<le> 102 then Some (n - 87) else None)"

definition escape_byte :: "char \<Rightarrow> string" where
  "escape_byte c =
     (if path_unreserved c then [c]
      else [CHR ''%'', hex_digit (of_char c div 16), hex_digit (of_char c mod 16)])"

definition PathEscape :: "string \<Rightarrow> string" where
  "PathEscape s = concat (map escape_byte s)"

fun PathUnescape :: "string \<Rightarrow> string option" where
  "PathUnescape [] = Some []"
| "PathUnescape (c # r) =
     (if c = CHR ''%'' then
        (case r of
           a # b # r' \<Rightarrow> do {
             x \<leftarrow> hex_value a;
             y \<leftarrow> hex_value b;
             t \<leftarrow> PathUnescape r';
             Some (char_of (x * 16 + y) # t)}
         | _ \<Rightarrow> None)
      else map_option ((#) c) (PathUnescape r))"

lemma hex_value_digit [simp]: "n < 16 \<Longrightarrow> hex_value (hex_digit n) = Some n"
  by (auto simp: hex_value_def hex_digit_def of_char_of Let_def)

lemma hex_digit_alnum: "n < 16 \<Longrightarrow> is_alnum (hex_digit n)"
  by (auto simp: hex_digit_def is_alnum_def is_upper_def is_lower_def of_char_of)

lemma of_char_less [simp]: "(of_char c :: nat) < 256"
  by (cases c) (simp add: of_char_def horner_sum_simps)

lemma PathUnescape_escape_byte:
  "PathUnescape (escape_byte c @ r) = map_option ((#) c) (PathUnescape r)"
proof (cases "path_unreserved c")
  case True
  then have "c \<noteq> CHR ''%''"
    by (auto simp: path_unreserved_def is_alnum_def is_upper_def is_lower_def)
  with True show ?thesis by (simp add: escape_byte_def)
next
  case False
  have "(of_char c :: nat) div 16 < 16" by (simp add: less_mult_imp_div_less)
  moreover have "char_of ((of_char c :: nat) div 16 * 16 + of_char c mod 16) = c" by simp
  ultimately show ?thesis
    using False by (cases "PathUnescape r") (simp_all add: escape_byte_def)
qed

lemma PathUnescape_PathEscape: "PathUnescape (PathEscape s) = Some s"
  by (induction s) (simp_all add: PathEscape_def PathUnescape_escape_byte)

text \<open>An escaped segment adds no separator, query or fragment to the path.\<close>

lemma PathEscape_segment: "set (PathEscape s) \<inter> set ''/?#;, '' = {}"
proof -
  have "set (escape_byte c) \<inter> set ''/?#;, '' = {}" for c
  proof (cases "path_unreserved c")
    case True
    then show ?thesis
      by (auto simp: escape_byte_def path_unreserved_def is_alnum_def is_upper_def is_lower_def)
  next
    case False
    have h: "hex_digit n \<notin> set ''/?#;, ''" if "n < 16" for n
      using hex_digit_alnum [OF that] by (auto simp: is_alnum_def is_upper_def is_lower_def)
    have "(of_char c :: nat) div 16 < 16" by (simp add: less_mult_imp_div_less)
    with False h [of "of_char c div 16"] h [of "of_char c mod 16"] show ?thesis
      by (auto simp: escape_byte_def)
  qed
  then show ?thesis by (fastforce simp: PathEscape_def)
qed

interpretation path: round_trip PathEscape PathUnescape "\<lambda>_. True"
  by unfold_locales (rule PathUnescape_PathEscape)

subsection \<open>The network\<close>

text \<open>A response body is read with \<open>io.ReadAll\<close>, which can fail.\<close>

record http_response =
  StatusCode :: int
  RespBody :: "go_error + string"

text \<open>The environment: whether \<open>url.Parse\<close> rejects a URL, the round trip of a request, and the
  clock.  Each call may change the world.\<close>

record ('w, 'time) Env =
  url_Parse_error :: "string \<Rightarrow> go_error option"
  http_Do :: "http_request \<Rightarrow> 'w \<Rightarrow> (go_error + http_response) \<times> 'w"
  time_Now :: "'w \<Rightarrow> 'time \<times> 'w"

text \<open>\<open>http.NewRequest\<close> with a valid method fails when the URL does not parse.\<close>

definition http_NewRequest ::
  "('w, 'time) Env \<Rightarrow> string \<Rightarrow> string \<Rightarrow> string option \<Rightarrow> go_error + http_request" where
  "http_NewRequest E method url body =
     (case url_Parse_error E url of
        Some e \<Rightarrow> Inl e
      | None \<Rightarrow> Inr \<lparr>Method = method, URL = url, Header = [], Body = body\<rparr>)"

subsection \<open>Paths\<close>

fun split_slash :: "string \<Rightarrow> string list" where
  "split_slash [] = [[]]"
| "split_slash (c # s) =
     (if c = CHR ''/'' then [] # split_slash s
      else (case split_slash s of [] \<Rightarrow> [[c]] | x # xs \<Rightarrow> (c # x) # xs))"

definition join_slash :: "string list \<Rightarrow> string" where
  "join_slash segs = (case segs of [] \<Rightarrow> '''' | x # xs \<Rightarrow> x @ concat (map ((#) (CHR ''/'')) xs))"

lemma split_slash_none: "CHR ''/'' \<notin> set s \<Longrightarrow> split_slash s = [s]"
  by (induction s) auto

end
