(* ===== verification/Go_Json.thy ===== *)
theory Go_Json
  imports Go_Http
begin

section \<open>Go's package \<open>encoding/json\<close>, as far as the operator uses it\<close>

text \<open>
  JSON texts and their syntax trees.  A tree keeps the raw bytes between the quotes of a
  string, as the decoder does, since a \<open>time.Time\<close> is read from them and a \<open>string\<close> from their
  unquoted form.  \<open>json_parse\<close> reads a whole text; \<open>json_text\<close> writes one as the encoder does,
  without white space and with \<open><\<close>, \<open>>\<close> and \<open>&\<close> escaped.  Not modelled: the decoder's limit of
  10000 nested values.
\<close>

datatype json =
    JNull
  | JBool bool
  | JNum string
  | JStr string
  | JArr "json list"
  | JObj "(string \<times> json) list"

subsection \<open>UTF-8\<close>

text \<open>The continuation bytes a leading byte asks for, by the ranges of the UTF-8 table.\<close>

definition rune_ranges :: "nat \<Rightarrow> (nat \<times> nat) list option" where
  "rune_ranges n =
     (if 0xC2 \<le> n \<and> n \<le> 0xDF then Some [(0x80, 0xBF)]
      else if n = 0xE0 then Some [(0xA0, 0xBF), (0x80, 0xBF)]
      else if n = 0xED then Some [(0x80, 0x9F), (0x80, 0xBF)]
      else if 0xE1 \<le> n \<and> n \<le> 0xEF then Some [(0x80, 0xBF), (0x80, 0xBF)]
      else if n = 0xF0 then Some [(0x90, 0xBF), (0x80, 0xBF), (0x80, 0xBF)]
      else if 0xF1 \<le> n \<and> n \<le> 0xF3 then Some [(0x80, 0xBF), (0x80, 0xBF), (0x80, 0xBF)]
      else if n = 0xF4 then Some [(0x80, 0x8F), (0x80, 0xBF), (0x80, 0xBF)]
      else None)"

fun in_ranges :: "(nat \<times> nat) list \<Rightarrow> string \<Rightarrow> bool" where
  "in_ranges [] cs = True"
| "in_ranges ((lo, hi) # rs) (c # cs) = (lo \<le> of_char c \<and> of_char c \<le> hi \<and> in_ranges rs cs)"
| "in_ranges (_ # _) [] = False"

text \<open>How many bytes after \<open>c\<close> complete its rune; \<open>None\<close> for an invalid encoding.\<close>

definition rune_tail :: "char \<Rightarrow> string \<Rightarrow> nat option" where
  "rune_tail c r =
     (case rune_ranges (of_char c) of
        Some rs \<Rightarrow> if in_ranges rs r then Some (length rs) else None
      | None \<Rightarrow> None)"

fun utf8_valid :: "string \<Rightarrow> bool" where
  "utf8_valid [] = True"
| "utf8_valid (c # r) =
     (if (of_char c :: nat) < 128 then utf8_valid r
      else case rune_tail c r of Some j \<Rightarrow> utf8_valid (drop j r) | None \<Rightarrow> False)"

definition utf8_encode :: "nat \<Rightarrow> string" where
  "utf8_encode n =
     (if n < 0x80 then [char_of n]
      else if n < 0x800 then [char_of (0xC0 + n div 64), char_of (0x80 + n mod 64)]
      else if n < 0x10000 then
        [char_of (0xE0 + n div 4096), char_of (0x80 + n div 64 mod 64), char_of (0x80 + n mod 64)]
      else [char_of (0xF0 + n div 262144), char_of (0x80 + n div 4096 mod 64),
            char_of (0x80 + n div 64 mod 64), char_of (0x80 + n mod 64)])"

text \<open>U+FFFD, which replaces what is no character.\<close>

definition replacement :: string where
  "replacement = [CHR 0xEF, CHR 0xBF, CHR 0xBD]"

subsection \<open>Quoting a string\<close>

definition hex_lower :: "nat \<Rightarrow> char" where
  "hex_lower n = char_of (if n < 10 then 48 + n else 87 + n)"

definition escape_ascii :: "char \<Rightarrow> string" where
  "escape_ascii c =
     (let n = of_char c :: nat
      in if n = 0x22 \<or> n = 0x5C then [CHR 0x5C, c]
         else if n = 8 then [CHR 0x5C, CHR ''b''] else if n = 12 then [CHR 0x5C, CHR ''f'']
         else if n = 10 then [CHR 0x5C, CHR ''n''] else if n = 13 then [CHR 0x5C, CHR ''r'']
         else if n = 9 then [CHR 0x5C, CHR ''t'']
         else if n < 32 \<or> n = 0x3C \<or> n = 0x3E \<or> n = 0x26
           then CHR 0x5C # ''u00'' @ [hex_lower (n div 16), hex_lower (n mod 16)]
         else [c])"

fun json_escape :: "string \<Rightarrow> string" where
  "json_escape [] = []"
| "json_escape (c # r) =
     (if (of_char c :: nat) < 128 then escape_ascii c @ json_escape r
      else case rune_tail c r of
             None \<Rightarrow> CHR 0x5C # ''ufffd'' @ json_escape r
           | Some j \<Rightarrow>
               (let t = c # take j r
                in if t = [CHR 0xE2, CHR 0x80, CHR 0xA8] then CHR 0x5C # ''u2028''
                   else if t = [CHR 0xE2, CHR 0x80, CHR 0xA9] then CHR 0x5C # ''u2029''
                   else t) @ json_escape (drop j r))"

subsection \<open>Unquoting a string\<close>

text \<open>\<open>getu4\<close>: the code unit of a \<open>\u\<close> escape.\<close>

definition hex4 :: "string \<Rightarrow> nat option" where
  "hex4 cs = foldl (\<lambda>n c. do {x \<leftarrow> n; y \<leftarrow> hex_value c; Some (x * 16 + y)}) (Some 0) cs"

definition getu4 :: "string \<Rightarrow> (nat \<times> string) option" where
  "getu4 s =
     (if 6 \<le> length s \<and> take 2 s = [CHR 0x5C, CHR ''u'']
      then map_option (\<lambda>n. (n, drop 6 s)) (hex4 (take 4 (drop 2 s))) else None)"

definition simple_escape :: "char \<Rightarrow> char" where
  "simple_escape e =
     (if e = CHR ''b'' then CHR 8 else if e = CHR ''f'' then CHR 12
      else if e = CHR ''n'' then CHR 10 else if e = CHR ''r'' then CHR 13
      else if e = CHR ''t'' then CHR 9 else e)"

definition surrogate :: "nat \<Rightarrow> bool" where
  "surrogate n \<longleftrightarrow> 0xD800 \<le> n \<and> n < 0xE000"

text \<open>A \<open>\u\<close> escape at the head of \<open>s\<close>: its bytes and the rest.  A surrogate without its
  partner is replaced.\<close>

definition unquote_u4 :: "string \<Rightarrow> (string \<times> string) option" where
  "unquote_u4 s =
     (case getu4 s of
        None \<Rightarrow> None
      | Some (n, t) \<Rightarrow>
          Some (if \<not> surrogate n then (utf8_encode n, t)
                else case getu4 t of
                       Some (m, t') \<Rightarrow>
                         if n < 0xDC00 \<and> 0xDC00 \<le> m \<and> m < 0xE000
                         then (utf8_encode ((n - 0xD800) * 1024 + (m - 0xDC00) + 0x10000), t')
                         else (replacement, t)
                     | None \<Rightarrow> (replacement, t)))"

lemma getu4_length: "getu4 s = Some (n, t) \<Longrightarrow> length t < length s"
  by (auto simp: getu4_def split: if_splits)

lemma unquote_u4_length: "unquote_u4 s = Some (x, t) \<Longrightarrow> length t < length s"
  by (auto simp: unquote_u4_def split: option.splits if_splits dest!: getu4_length)

function unquote :: "string \<Rightarrow> string" where
  "unquote s =
     (case s of
        [] \<Rightarrow> []
      | c # r \<Rightarrow>
          if c = CHR 0x5C then
            (case unquote_u4 s of
               Some (x, t) \<Rightarrow> x @ unquote t
             | None \<Rightarrow> (case r of e # r' \<Rightarrow> simple_escape e # unquote r' | [] \<Rightarrow> []))
          else if (of_char c :: nat) < 128 then c # unquote r
          else (case rune_tail c r of
                  Some j \<Rightarrow> c # take j r @ unquote (drop j r)
                | None \<Rightarrow> replacement @ unquote r))"
  by pat_completeness auto
termination
  by (relation "measure length") (auto dest: unquote_u4_length)

declare unquote.simps [simp del]

subsection \<open>Scanning\<close>

type_synonym 'a scanner = "string \<Rightarrow> ('a \<times> string) option"

definition json_space :: "char \<Rightarrow> bool" where
  "json_space c \<longleftrightarrow> (of_char c :: nat) \<in> {32, 9, 13, 10}"

definition skip_ws :: "string \<Rightarrow> string" where
  "skip_ws = dropWhile json_space"

text \<open>The rest of a string after its opening quote.\<close>

fun scan_str :: "string scanner" where
  "scan_str [] = None"
| "scan_str (c # r) =
     (if c = CHR 0x22 then Some ([], r)
      else if c = CHR 0x5C then
        (case r of
           [] \<Rightarrow> None
         | e # r' \<Rightarrow>
             if (of_char e :: nat) \<in> {0x22, 0x5C, 0x2F, 98, 102, 110, 114, 116} then
               map_option (\<lambda>(x, t). (c # e # x, t)) (scan_str r')
             else if e = CHR ''u'' \<and> 4 \<le> length r' \<and> hex4 (take 4 r') \<noteq> None then
               map_option (\<lambda>(x, t). (c # e # x, t)) (scan_str r')
             else None)
      else if (of_char c :: nat) < 32 then None
      else map_option (\<lambda>(x, t). (c # x, t)) (scan_str r))"

definition ascii_digit :: "char \<Rightarrow> bool" where
  "ascii_digit c \<longleftrightarrow> 48 \<le> (of_char c :: nat) \<and> (of_char c :: nat) \<le> 57"

definition scan_digits :: "string scanner" where
  "scan_digits s =
     (if s \<noteq> [] \<and> ascii_digit (hd s) then Some (takeWhile ascii_digit s, dropWhile ascii_digit s)
      else None)"

definition scan_opt :: "(char \<Rightarrow> bool) \<Rightarrow> string \<Rightarrow> string \<times> string" where
  "scan_opt p s = (case s of c # r \<Rightarrow> if p c then ([c], r) else ([], s) | [] \<Rightarrow> ([], s))"

definition scan_int :: "string scanner" where
  "scan_int s =
     (case s of c # r \<Rightarrow> if c = CHR ''0'' then Some ([c], r) else scan_digits s | [] \<Rightarrow> None)"

definition scan_frac :: "string scanner" where
  "scan_frac s =
     (case s of
        c # r \<Rightarrow> if c = CHR ''.'' then map_option (\<lambda>(x, t). (c # x, t)) (scan_digits r)
                 else Some ([], s)
      | [] \<Rightarrow> Some ([], s))"

definition scan_exp :: "string scanner" where
  "scan_exp s =
     (case s of
        c # r \<Rightarrow>
          if c = CHR ''e'' \<or> c = CHR ''E'' then
            (let (sg, r) = scan_opt (\<lambda>x. x = CHR ''+'' \<or> x = CHR ''-'') r
             in map_option (\<lambda>(x, t). (c # sg @ x, t)) (scan_digits r))
          else Some ([], s)
      | [] \<Rightarrow> Some ([], s))"

definition scan_num :: "string scanner" where
  "scan_num s =
     (let (sg, s) = scan_opt (\<lambda>x. x = CHR ''-'') s
      in do {
        (i, s) \<leftarrow> scan_int s;
        (f, s) \<leftarrow> scan_frac s;
        (e, s) \<leftarrow> scan_exp s;
        Some (sg @ i @ f @ e, s)})"

definition scan_lit :: "string \<Rightarrow> 'a \<Rightarrow> 'a scanner" where
  "scan_lit l v s = (if take (length l) s = l then Some (v, drop (length l) s) else None)"

text \<open>
  Values, the elements of an array after its bracket, the members of an object after its brace.
  Every call spends one unit of fuel; \<open>json_parse\<close> gives enough for any text.
\<close>

fun scan_value :: "nat \<Rightarrow> json scanner"
and scan_elems :: "nat \<Rightarrow> json list scanner"
and scan_members :: "nat \<Rightarrow> (string \<times> json) list scanner" where
  "scan_value 0 s = None"
| "scan_value (Suc n) s =
     (case skip_ws s of
        [] \<Rightarrow> None
      | c # r \<Rightarrow>
          if c = CHR ''{'' then
            (case skip_ws r of
               [] \<Rightarrow> None
             | d # r' \<Rightarrow> if d = CHR ''}'' then Some (JObj [], r')
                         else map_option (\<lambda>(ms, t). (JObj ms, t)) (scan_members n (d # r')))
          else if c = CHR ''['' then
            (case skip_ws r of
               [] \<Rightarrow> None
             | d # r' \<Rightarrow> if d = CHR '']'' then Some (JArr [], r')
                         else map_option (\<lambda>(vs, t). (JArr vs, t)) (scan_elems n (d # r')))
          else if c = CHR 0x22 then map_option (\<lambda>(x, t). (JStr x, t)) (scan_str r)
          else if c = CHR ''n'' then scan_lit ''null'' JNull (c # r)
          else if c = CHR ''t'' then scan_lit ''true'' (JBool True) (c # r)
          else if c = CHR ''f'' then scan_lit ''false'' (JBool False) (c # r)
          else map_option (\<lambda>(x, t). (JNum x, t)) (scan_num (c # r)))"
| "scan_elems 0 s = None"
| "scan_elems (Suc n) s = do {
     (v, s) \<leftarrow> scan_value n s;
     (case skip_ws s of
        [] \<Rightarrow> None
      | c # r \<Rightarrow> if c = CHR '','' then map_option (\<lambda>(vs, t). (v # vs, t)) (scan_elems n r)
                 else if c = CHR '']'' then Some ([v], r) else None)}"
| "scan_members 0 s = None"
| "scan_members (Suc n) s =
     (case skip_ws s of
        [] \<Rightarrow> None
      | q # r \<Rightarrow>
          if q \<noteq> CHR 0x22 then None
          else do {
            (k, s) \<leftarrow> scan_str r;
            (case skip_ws s of
               [] \<Rightarrow> None
             | c # s \<Rightarrow>
                 if c \<noteq> CHR '':'' then None
                 else do {
                   (v, s) \<leftarrow> scan_value n s;
                   (case skip_ws s of
                      [] \<Rightarrow> None
                    | c # r \<Rightarrow>
                        if c = CHR '','' then
                          map_option (\<lambda>(ms, t). ((k, v) # ms, t)) (scan_members n r)
                        else if c = CHR ''}'' then Some ([(k, v)], r) else None)})})"

definition json_parse :: "string \<Rightarrow> json option" where
  "json_parse s =
     (case scan_value (2 * length s + 2) s of
        Some (v, r) \<Rightarrow> if skip_ws r = [] then Some v else None
      | None \<Rightarrow> None)"

subsection \<open>Writing\<close>

fun json_text :: "json \<Rightarrow> string" where
  "json_text JNull = ''null''"
| "json_text (JBool b) = (if b then ''true'' else ''false'')"
| "json_text (JNum n) = n"
| "json_text (JStr x) = CHR 0x22 # x @ [CHR 0x22]"
| "json_text (JArr vs) =
     CHR ''['' # concat (case map json_text vs of [] \<Rightarrow> [] | t # ts \<Rightarrow> t # map ((#) (CHR '','')) ts)
       @ '']''"
| "json_text (JObj ms) =
     CHR ''{'' # concat
       (case map (\<lambda>(k, v). CHR 0x22 # k @ CHR 0x22 # CHR '':'' # json_text v) ms of
          [] \<Rightarrow> [] | t # ts \<Rightarrow> t # map ((#) (CHR '','')) ts) @ ''}''"

end
