(* ===== verification/Alertmanager_Types.thy ===== *)
theory Alertmanager_Types
  imports Go_Time Go_Json
begin

section \<open>The Alertmanager data model and its JSON form\<close>

text \<open>
  The structs of \<open>pkg/alertmanager/types.go\<close> with their field tags: \<open>json_Marshal\<close> writes a
  silence as \<open>json.Marshal\<close> does, \<open>json_Unmarshal\<close> reads a list of silences as
  \<open>json.Unmarshal\<close> does into a nil \<open>[]Silence\<close>.  A member whose value has the wrong type makes
  the whole call fail; an unknown member is skipped; \<open>null\<close> leaves a field as it is, or makes a
  pointer or slice nil.
\<close>

record Status =
  State :: string

record Matcher =
  IsRegex :: bool
  IsEqual :: bool
  Name :: string
  Value :: string

record Silence =
  Comment :: string
  CreatedBy :: string
  EndsAt :: Time
  ID :: string
  Matchers :: "Matcher slice"
  StartsAt :: Time
  Status :: "Status option"

definition zero_Status :: Status where
  "zero_Status = \<lparr>State = []\<rparr>"

definition zero_Matcher :: Matcher where
  "zero_Matcher = \<lparr>IsRegex = False, IsEqual = False, Name = [], Value = []\<rparr>"

definition zero_Silence :: Silence where
  "zero_Silence = \<lparr>Comment = [], CreatedBy = [], EndsAt = time_zero, ID = [], Matchers = None,
     StartsAt = time_zero, Status = None\<rparr>"

subsection \<open>Encoding\<close>

text \<open>\<open>Time.MarshalJSON\<close>: RFC 3339 with a fraction of up to nine digits, trailing zeros cut;
  an error for a year or an offset that the format cannot hold.\<close>

definition print9 :: "int \<Rightarrow> string" where
  "print9 n = map (\<lambda>k. digit_char (n div 10 ^ k mod 10)) [8, 7, 6, 5, 4, 3, 2, 1, 0]"

definition trim_zeros :: "string \<Rightarrow> string" where
  "trim_zeros s = rev (dropWhile (\<lambda>c. c = CHR ''0'') (rev s))"

definition print_frac :: "int \<Rightarrow> string" where
  "print_frac ns = (if ns = 0 then [] else CHR ''.'' # trim_zeros (print9 ns))"

definition time_text :: "Time \<Rightarrow> string" where
  "time_text t =
     (case date_of t of (y, m, d) \<Rightarrow> case clock_of t of (h, mi, s) \<Rightarrow>
        print_ymd y m d @ CHR ''T'' # print2 h @ CHR '':'' # print2 mi @ CHR '':'' # print2 s
          @ print_frac (nanosecond_of t) @ print_zone (zone_off t))"

definition time_encodable :: "Time \<Rightarrow> bool" where
  "time_encodable t \<longleftrightarrow> year4 (fst (date_of t)) \<and> \<bar>zone_off t\<bar> < 86400"

definition encode_matcher :: "Matcher \<Rightarrow> json" where
  "encode_matcher m = JObj
     [(''isRegex'', JBool (IsRegex m)), (''isEqual'', JBool (IsEqual m)),
      (''name'', JStr (json_escape (Name m))), (''value'', JStr (json_escape (Value m)))]"

definition encode_status :: "Status \<Rightarrow> json" where
  "encode_status st = JObj [(''state'', JStr (json_escape (State st)))]"

definition encode_silence :: "Silence \<Rightarrow> json" where
  "encode_silence s = JObj
     [(''comment'', JStr (json_escape (Comment s))),
      (''createdBy'', JStr (json_escape (CreatedBy s))),
      (''endsAt'', JStr (time_text (EndsAt s))),
      (''id'', JStr (json_escape (ID s))),
      (''matchers'', case Matchers s of None \<Rightarrow> JNull | Some ms \<Rightarrow> JArr (map encode_matcher ms)),
      (''startsAt'', JStr (time_text (StartsAt s))),
      (''status'', case Status s of None \<Rightarrow> JNull | Some st \<Rightarrow> encode_status st)]"

definition MarshalError :: go_error where
  "MarshalError = Failure ''json: error calling MarshalJSON for type time.Time'' []"

definition silence_encodable :: "Silence \<Rightarrow> bool" where
  "silence_encodable s \<longleftrightarrow> time_encodable (EndsAt s) \<and> time_encodable (StartsAt s)"

definition json_Marshal :: "Silence \<Rightarrow> go_error + string" where
  "json_Marshal s =
     (if silence_encodable s then Inr (json_text (encode_silence s)) else Inl MarshalError)"

subsection \<open>Decoding\<close>

text \<open>A member is matched to a field by its name, in any case of ASCII letters.\<close>

definition key_is :: "string \<Rightarrow> string \<Rightarrow> bool" where
  "key_is raw name \<longleftrightarrow> map to_lower (unquote raw) = map to_lower name"

fun decode_string :: "string \<Rightarrow> json \<Rightarrow> string option" where
  "decode_string old (JStr x) = Some (unquote x)"
| "decode_string old JNull = Some old"
| "decode_string old _ = None"

fun decode_bool :: "bool \<Rightarrow> json \<Rightarrow> bool option" where
  "decode_bool old (JBool b) = Some b"
| "decode_bool old JNull = Some old"
| "decode_bool old _ = None"

fun decode_time :: "Time \<Rightarrow> json \<Rightarrow> Time option" where
  "decode_time old (JStr x) = parse_rfc3339 x"
| "decode_time old JNull = Some old"
| "decode_time old _ = None"

text \<open>The members of an object, in order, each updating the struct.\<close>

fun decode_members :: "('a \<Rightarrow> string \<Rightarrow> json \<Rightarrow> 'a option) \<Rightarrow> 'a \<Rightarrow> (string \<times> json) list \<Rightarrow> 'a option"
where
  "decode_members f x [] = Some x"
| "decode_members f x ((k, v) # ms) = Option.bind (f x k v) (\<lambda>y. decode_members f y ms)"

fun decode_struct :: "('a \<Rightarrow> string \<Rightarrow> json \<Rightarrow> 'a option) \<Rightarrow> 'a \<Rightarrow> json \<Rightarrow> 'a option" where
  "decode_struct f x (JObj ms) = decode_members f x ms"
| "decode_struct f x JNull = Some x"
| "decode_struct f x _ = None"

fun decode_slice :: "(json \<Rightarrow> 'a option) \<Rightarrow> json \<Rightarrow> 'a slice option" where
  "decode_slice f (JArr vs) = map_option Some (those (map f vs))"
| "decode_slice f JNull = Some None"
| "decode_slice f _ = None"

definition status_member :: "Status \<Rightarrow> string \<Rightarrow> json \<Rightarrow> Status option" where
  "status_member st k v =
     (if key_is k ''state'' then map_option (\<lambda>x. st\<lparr>State := x\<rparr>) (decode_string (State st) v)
      else Some st)"

definition decode_status :: "json \<Rightarrow> Status option option" where
  "decode_status v =
     (if v = JNull then Some None
      else map_option Some (decode_struct status_member zero_Status v))"

definition matcher_member :: "Matcher \<Rightarrow> string \<Rightarrow> json \<Rightarrow> Matcher option" where
  "matcher_member m k v =
     (if key_is k ''isRegex'' then map_option (\<lambda>b. m\<lparr>IsRegex := b\<rparr>) (decode_bool (IsRegex m) v)
      else if key_is k ''isEqual'' then map_option (\<lambda>b. m\<lparr>IsEqual := b\<rparr>) (decode_bool (IsEqual m) v)
      else if key_is k ''name'' then map_option (\<lambda>x. m\<lparr>Name := x\<rparr>) (decode_string (Name m) v)
      else if key_is k ''value'' then map_option (\<lambda>x. m\<lparr>Value := x\<rparr>) (decode_string (Value m) v)
      else Some m)"

definition silence_member :: "Silence \<Rightarrow> string \<Rightarrow> json \<Rightarrow> Silence option" where
  "silence_member s k v =
     (if key_is k ''comment'' then
        map_option (\<lambda>x. s\<lparr>Comment := x\<rparr>) (decode_string (Comment s) v)
      else if key_is k ''createdBy'' then
        map_option (\<lambda>x. s\<lparr>CreatedBy := x\<rparr>) (decode_string (CreatedBy s) v)
      else if key_is k ''endsAt'' then
        map_option (\<lambda>t. s\<lparr>EndsAt := t\<rparr>) (decode_time (EndsAt s) v)
      else if key_is k ''id'' then map_option (\<lambda>x. s\<lparr>ID := x\<rparr>) (decode_string (ID s) v)
      else if key_is k ''matchers'' then
        map_option (\<lambda>ms. s\<lparr>Matchers := ms\<rparr>)
          (decode_slice (decode_struct matcher_member zero_Matcher) v)
      else if key_is k ''startsAt'' then
        map_option (\<lambda>t. s\<lparr>StartsAt := t\<rparr>) (decode_time (StartsAt s) v)
      else if key_is k ''status'' then map_option (\<lambda>st. s\<lparr>Status := st\<rparr>) (decode_status v)
      else Some s)"

definition decode_silence :: "json \<Rightarrow> Silence option" where
  "decode_silence = decode_struct silence_member zero_Silence"

definition UnmarshalError :: go_error where
  "UnmarshalError = Failure ''json: cannot unmarshal'' []"

definition json_Unmarshal :: "string \<Rightarrow> go_error + Silence slice" where
  "json_Unmarshal body =
     (case json_parse body of
        None \<Rightarrow> Inl UnmarshalError
      | Some v \<Rightarrow> (case decode_slice decode_silence v of None \<Rightarrow> Inl UnmarshalError
                  | Some ss \<Rightarrow> Inr ss))"

end
