(* ===== verification/Kube_Types.thy ===== *)
theory Kube_Types
  imports Go_Time
begin

section \<open>Kubernetes objects and the libraries that handle them\<close>

text \<open>
  The object metadata that the operator reads and writes, and the functions of
  \<open>controller-runtime\<close> and \<open>apimachinery\<close> it calls on them as parameters, with their documented
  behaviour (\<open>kube_lib_ok\<close>).
\<close>

type_synonym string_map = "(string \<rightharpoonup> string) option"

record ObjectMeta =
  ObjName :: string
  Namespace :: string
  Labels :: string_map
  Annotations :: string_map
  Finalizers :: "string list"
  CreationTimestamp :: Time
  DeletionTimestamp :: "Time option"

text \<open>Indexing a Go map, which may be nil.\<close>

definition map_lookup :: "string_map \<Rightarrow> string \<Rightarrow> string option" where
  "map_lookup m k = (case m of None \<Rightarrow> None | Some f \<Rightarrow> f k)"

lemma map_lookup_simps [simp]: "map_lookup None k = None" "map_lookup (Some f) k = f k"
  by (simp_all add: map_lookup_def)

record NamespacedName =
  KeyNamespace :: string
  KeyName :: string

record kube_lib =
  ContainsFinalizer :: "ObjectMeta \<Rightarrow> string \<Rightarrow> bool"
  AddFinalizer :: "ObjectMeta \<Rightarrow> string \<Rightarrow> ObjectMeta"
  RemoveFinalizer :: "ObjectMeta \<Rightarrow> string \<Rightarrow> ObjectMeta"
  IgnoreNotFound :: "go_error option \<Rightarrow> go_error option"
  metaTime_IsZero :: "Time option \<Rightarrow> bool"

text \<open>A function on finalizers: it leaves everything else of the object alone.\<close>

definition edits_finalizers ::
  "(ObjectMeta \<Rightarrow> string \<Rightarrow> ObjectMeta) \<Rightarrow> (string \<Rightarrow> string set \<Rightarrow> string set) \<Rightarrow> bool" where
  "edits_finalizers g upd \<longleftrightarrow>
     (\<forall>obj f. g obj f = obj\<lparr>Finalizers := Finalizers (g obj f)\<rparr> \<and>
        set (Finalizers (g obj f)) = upd f (set (Finalizers obj)))"

definition kube_lib_ok :: "kube_lib \<Rightarrow> bool" where
  "kube_lib_ok K \<longleftrightarrow>
     (\<forall>obj f. ContainsFinalizer K obj f \<longleftrightarrow> f \<in> set (Finalizers obj)) \<and>
     edits_finalizers (AddFinalizer K) insert \<and>
     edits_finalizers (RemoveFinalizer K) (\<lambda>f A. A - {f}) \<and>
     IgnoreNotFound K None = None \<and>
     (\<forall>e. IgnoreNotFound K (Some e) = None \<or> IgnoreNotFound K (Some e) = Some e) \<and>
     metaTime_IsZero K None \<and>
     (\<forall>t. metaTime_IsZero K (Some t) \<longleftrightarrow> IsZero t)"

lemma kube_finalizers:
  assumes "kube_lib_ok K"
  shows "ContainsFinalizer K obj f \<longleftrightarrow> f \<in> set (Finalizers obj)"
    and "set (Finalizers (AddFinalizer K obj f)) = insert f (set (Finalizers obj))"
    and "set (Finalizers (RemoveFinalizer K obj f)) = set (Finalizers obj) - {f}"
  using assms by (simp_all add: kube_lib_ok_def edits_finalizers_def)

lemma edits_finalizers_frame:
  assumes "edits_finalizers g upd"
  shows "ObjName (g obj f) = ObjName obj" "Namespace (g obj f) = Namespace obj"
    "Labels (g obj f) = Labels obj" "Annotations (g obj f) = Annotations obj"
    "CreationTimestamp (g obj f) = CreationTimestamp obj"
    "DeletionTimestamp (g obj f) = DeletionTimestamp obj"
proof -
  from assms obtain fs where e: "g obj f = obj\<lparr>Finalizers := fs\<rparr>"
    unfolding edits_finalizers_def by blast
  show "ObjName (g obj f) = ObjName obj" "Namespace (g obj f) = Namespace obj"
    "Labels (g obj f) = Labels obj" "Annotations (g obj f) = Annotations obj"
    "CreationTimestamp (g obj f) = CreationTimestamp obj"
    "DeletionTimestamp (g obj f) = DeletionTimestamp obj"
    by (simp_all add: e)
qed

lemma kube_lib_edits:
  assumes "kube_lib_ok K"
  shows "edits_finalizers (AddFinalizer K) insert"
    and "edits_finalizers (RemoveFinalizer K) (\<lambda>f A. A - {f})"
  using assms by (simp_all add: kube_lib_ok_def)

lemmas kube_frame = kube_lib_edits [THEN edits_finalizers_frame(1)]
  kube_lib_edits [THEN edits_finalizers_frame(2)] kube_lib_edits [THEN edits_finalizers_frame(3)]
  kube_lib_edits [THEN edits_finalizers_frame(4)] kube_lib_edits [THEN edits_finalizers_frame(5)]
  kube_lib_edits [THEN edits_finalizers_frame(6)]

lemma kube_IgnoreNotFound:
  assumes "kube_lib_ok K"
  shows "IgnoreNotFound K None = None"
    and "IgnoreNotFound K (Some e) = None \<or> IgnoreNotFound K (Some e) = Some e"
  using assms by (simp_all add: kube_lib_ok_def)

lemma kube_IsZero:
  assumes "kube_lib_ok K"
  shows "metaTime_IsZero K None" "metaTime_IsZero K (Some t) \<longleftrightarrow> IsZero t"
  using assms by (simp_all add: kube_lib_ok_def)

text \<open>A concrete library with these laws, for witnesses; its not-found error is a sentinel.\<close>

definition sample_kube :: kube_lib where
  "sample_kube = \<lparr>
     ContainsFinalizer = (\<lambda>obj f. f \<in> set (Finalizers obj)),
     AddFinalizer = (\<lambda>obj f. if f \<in> set (Finalizers obj) then obj
        else obj\<lparr>Finalizers := Finalizers obj @ [f]\<rparr>),
     RemoveFinalizer = (\<lambda>obj f. obj\<lparr>Finalizers := removeAll f (Finalizers obj)\<rparr>),
     IgnoreNotFound = (\<lambda>e. if e = Some (Sentinel ''not found'') then None else e),
     metaTime_IsZero = (\<lambda>t. case t of None \<Rightarrow> True | Some u \<Rightarrow> IsZero u)\<rparr>"

lemma sample_kube_ok [simp]: "kube_lib_ok sample_kube"
  by (auto simp: kube_lib_ok_def edits_finalizers_def sample_kube_def)

end
