(* ===== verification/Config.thy ===== *)
theory Config
  imports Kube_Types
begin

section \<open>Configuration\<close>

text \<open>
  \<open>pkg/config/config.go\<close>: the configuration record and the parsing of its two label selectors.
  Label selectors belong to \<open>apimachinery\<close>: their representation is a type parameter and the
  functions on them are parameters.
\<close>

record 'sel Config =
  Address :: string
  Authentication :: bool
  BearerToken :: string
  TenantId :: string
  SilenceSelector :: "'sel option"
  NamespaceSelector :: "'sel option"
  TenancyEnabled :: bool
  TenancyLabelKey :: string
  TenancyDefaultTenant :: string

record ('ls, 'sel) selector_lib =
  ParseToLabelSelector :: "string \<Rightarrow> go_error + 'ls"
  LabelSelectorAsSelector :: "'ls \<Rightarrow> go_error + 'sel"
  Selector_Empty :: "'sel \<Rightarrow> bool"
  Selector_String :: "'sel \<Rightarrow> string"
  Selector_Matches :: "'sel \<Rightarrow> string_map \<Rightarrow> bool"

definition parseSelector ::
  "('ls, 'sel) selector_lib \<Rightarrow> string \<Rightarrow> 'sel option \<times> go_error option" where
  "parseSelector S selectorString =
     (if selectorString = '''' then (None, None)
      else case ParseToLabelSelector S selectorString of
        Inl err \<Rightarrow> (None, Some err)
      | Inr parsedSelector \<Rightarrow>
          (case LabelSelectorAsSelector S parsedSelector of
             Inl err \<Rightarrow> (None, Some err)
           | Inr selector \<Rightarrow> (Some selector, None)))"

definition ParseSilenceSelector ::
  "errors_pkg \<Rightarrow> ('ls, 'sel) selector_lib \<Rightarrow> string \<Rightarrow> 'sel option \<times> go_error option" where
  "ParseSilenceSelector P S silenceSelector =
     (case parseSelector S silenceSelector of
        (_, Some err) \<Rightarrow>
          (None, Wrapf P (Some err) ''unable to parse silence-selector string: %q''
                   [FStr silenceSelector])
      | (selector, None) \<Rightarrow> (selector, None))"

definition ParseNamespaceSelector ::
  "errors_pkg \<Rightarrow> ('ls, 'sel) selector_lib \<Rightarrow> string \<Rightarrow> 'sel option \<times> go_error option" where
  "ParseNamespaceSelector P S namespaceSelector =
     (case parseSelector S namespaceSelector of
        (_, Some err) \<Rightarrow>
          (None, Wrapf P (Some err) ''unable to parse namespace-selector string: %q''
                   [FStr namespaceSelector])
      | (selector, None) \<Rightarrow> (selector, None))"

lemmas selector_parsers =
  parseSelector_def ParseSilenceSelector_def ParseNamespaceSelector_def

text \<open>What a selector string means: none for the empty string, else the two library calls in
  a row.\<close>

definition selector_of :: "('ls, 'sel) selector_lib \<Rightarrow> string \<Rightarrow> 'sel option" where
  "selector_of S s =
     (case ParseToLabelSelector S s of
        Inl _ \<Rightarrow> None
      | Inr ls \<Rightarrow> (case LabelSelectorAsSelector S ls of Inl _ \<Rightarrow> None | Inr sel \<Rightarrow> Some sel))"

text \<open>Both selector options: the empty string selects everything (no selector, no error), another
  string gives the selector the library reads from it, and an error that is not nil when the
  library reads none.\<close>

theorem ParseSelectors_spec:
  assumes "errors_pkg_ok P" "parse \<in> {ParseSilenceSelector P S, ParseNamespaceSelector P S}"
  shows "if s = '''' then parse s = (None, None)
    else (case selector_of S s of
            Some sel \<Rightarrow> parse s = (Some sel, None)
          | None \<Rightarrow> fst (parse s) = None \<and> snd (parse s) \<noteq> None)"
  using assms
  by (auto simp: selector_parsers selector_of_def split: sum.splits prod.splits)

text \<open>A selector library that reads single label names.\<close>

definition sample_selectors :: "(string, string) selector_lib" where
  "sample_selectors = \<lparr>
     ParseToLabelSelector = (\<lambda>s. if CHR ''!'' \<in> set s then Inl (Failure s []) else Inr s),
     LabelSelectorAsSelector = Inr, Selector_Empty = (\<lambda>s. s = ''''), Selector_String = (\<lambda>s. s),
     Selector_Matches = (\<lambda>s m. s = '''' \<or> map_lookup m s \<noteq> None)\<rparr>"

theorem ParseSelectors_spec_witness:
  "ParseSilenceSelector sample_errors sample_selectors ''team'' = (Some ''team'', None) \<and>
   snd (ParseNamespaceSelector sample_errors sample_selectors ''a!'') \<noteq> None"
proof
  have "selector_of sample_selectors ''team'' = Some ''team''" "selector_of sample_selectors ''a!'' = None"
    by code_simp+
  then show "ParseSilenceSelector sample_errors sample_selectors ''team'' = (Some ''team'', None)"
    "snd (ParseNamespaceSelector sample_errors sample_selectors ''a!'') \<noteq> None"
    using ParseSelectors_spec [OF sample_errors_ok,
        where S = sample_selectors and parse = "ParseSilenceSelector sample_errors sample_selectors"
          and s = "''team''"]
      ParseSelectors_spec [OF sample_errors_ok,
        where S = sample_selectors and parse = "ParseNamespaceSelector sample_errors sample_selectors"
          and s = "''a!''"]
    by auto
qed

end
