(* ===== verification/Tenancy.thy ===== *)
theory Tenancy
  imports Config
begin

section \<open>Tenancy\<close>

text \<open>
  \<open>pkg/tenancy/tenancy.go\<close>: which tenant a resource belongs to.  Both controllers ask this helper,
  and the Alertmanager client sends the answer with each request.
\<close>

record 'sel Helper =
  config :: "'sel Config"

definition NewHelper :: "'sel Config \<Rightarrow> 'sel Helper" where
  "NewHelper cfg = \<lparr>config = cfg\<rparr>"

definition ExtractTenant :: "'sel Helper \<Rightarrow> ObjectMeta \<Rightarrow> string" where
  "ExtractTenant h obj =
     (if \<not> TenancyEnabled (config h) then ''''
      else if TenancyLabelKey (config h) = '''' then TenancyDefaultTenant (config h)
      else
        (let fallback = TenancyDefaultTenant (config h)
         in if Labels obj \<noteq> None then
              (case map_lookup (Labels obj) (TenancyLabelKey (config h)) of
                 Some tenant \<Rightarrow> if tenant \<noteq> '''' then tenant else fallback
               | None \<Rightarrow> fallback)
            else fallback))"

text \<open>The tenant depends on one label of the object only.\<close>

lemma ExtractTenant_cong:
  assumes "map_lookup (Labels a) (TenancyLabelKey (config h)) =
      map_lookup (Labels b) (TenancyLabelKey (config h))"
  shows "ExtractTenant h a = ExtractTenant h b"
  using assms by (cases "Labels a"; cases "Labels b") (auto simp: ExtractTenant_def split: option.splits)

end
