(* ===== verification/Alertmanager.thy ===== *)
theory Alertmanager
  imports Alertmanager_Types Config
begin

section \<open>The Alertmanager client\<close>

text \<open>
  \<open>pkg/alertmanager/alertmanager.go\<close> and \<open>http.go\<close>: the interface \<open>Client\<close> as a record of
  operations, and \<open>*Alertmanager\<close>, which implements it over HTTP.  An operation takes the world
  and returns its result with the world after it; the only access to the world is \<open>http_Do\<close>.
  Parameters: the error package \<open>P\<close> and the environment \<open>E\<close>.
\<close>

definition CreatedBy_operator :: string where
  "CreatedBy_operator = ''silence-operator''"

definition apiV2SilencesPath :: string where
  "apiV2SilencesPath = ''/api/v2/silences''"

definition apiV2SilencePath :: string where
  "apiV2SilencePath = ''/api/v2/silence''"

definition SilenceStateExpired :: string where
  "SilenceStateExpired = ''expired''"

definition ErrSilenceNotFound :: go_error where
  "ErrSilenceNotFound = Sentinel ''silence not found''"

record 'w Client =
  Client_GetSilenceByComment :: "string \<Rightarrow> string \<Rightarrow> 'w \<Rightarrow> (Silence option \<times> go_error option) \<times> 'w"
  Client_CreateSilence :: "Silence \<Rightarrow> string \<Rightarrow> 'w \<Rightarrow> go_error option \<times> 'w"
  Client_UpdateSilence :: "Silence \<Rightarrow> string \<Rightarrow> 'w \<Rightarrow> go_error option \<times> 'w"
  Client_DeleteSilenceByComment :: "string \<Rightarrow> string \<Rightarrow> 'w \<Rightarrow> go_error option \<times> 'w"
  Client_DeleteSilenceByID :: "string \<Rightarrow> string \<Rightarrow> 'w \<Rightarrow> go_error option \<times> 'w"
  Client_ListSilences :: "string \<Rightarrow> 'w \<Rightarrow> (Silence slice \<times> go_error option) \<times> 'w"

record Alertmanager =
  address :: string
  authentication :: bool
  token :: string
  tenantId :: string

definition New :: "errors_pkg \<Rightarrow> 'sel Config \<Rightarrow> Alertmanager option \<times> go_error option" where
  "New P cfg =
     (if Address cfg = '''' then
        (None, Some (Errorf P ''%T.Address must not be empty'' [FStr ''config.Config'']))
      else
        (Some \<lparr>address = Address cfg, authentication = Authentication cfg,
               token = BearerToken cfg, tenantId = TenantId cfg\<rparr>, None))"

subsection \<open>Requests\<close>

definition NewRequest ::
  "('w, Time) Env \<Rightarrow> Alertmanager \<Rightarrow> string \<Rightarrow> string \<Rightarrow> string option \<Rightarrow> string
     \<Rightarrow> go_error + http_request" where
  "NewRequest E am method url body tenant =
     (case http_NewRequest E method url body of
        Inl err \<Rightarrow> Inl err
      | Inr req \<Rightarrow>
          (let effectiveTenant = (if tenant \<noteq> '''' then tenant else tenantId am)
           in Inr (if effectiveTenant \<noteq> '''' then Header_Add ''X-Scope-OrgID'' effectiveTenant req
                   else req)))"

text \<open>The lines \<open>if am.authentication { req.Header.Add("Authorization", ...) }\<close>.\<close>

definition authorize :: "Alertmanager \<Rightarrow> http_request \<Rightarrow> http_request" where
  "authorize am req =
     (if authentication am then Header_Add ''Authorization'' (''Bearer '' @ token am) req else req)"

lemma authorize_sel [simp]:
  "Method (authorize am req) = Method req" "URL (authorize am req) = URL req"
  "Body (authorize am req) = Body req"
  by (simp_all add: authorize_def)

subsection \<open>Operations\<close>

definition CreateSilence ::
  "errors_pkg \<Rightarrow> ('w, Time) Env \<Rightarrow> Alertmanager \<Rightarrow> Silence \<Rightarrow> string \<Rightarrow> 'w
     \<Rightarrow> go_error option \<times> 'w" where
  "CreateSilence P E am s tenant w =
     (case json_Marshal s of
        Inl err \<Rightarrow> (WithStack P (Some err), w)
      | Inr jsonValues \<Rightarrow>
          (case NewRequest E am ''POST'' (address am @ apiV2SilencesPath) (Some jsonValues) tenant of
             Inl err \<Rightarrow> (WithStack P (Some err), w)
           | Inr req \<Rightarrow>
               (case http_Do E (authorize am (Header_Add ''Content-Type'' ''application/json'' req)) w of
                  (Inl err, w') \<Rightarrow> (WithStack P (Some err), w')
                | (Inr resp, w') \<Rightarrow>
                    if StatusCode resp \<noteq> 200 then
                      (Some (Errorf P ''failed to create/update silence %#q, expected code 200, got %d''
                         [FStr (Comment s), FInt (StatusCode resp)]), w')
                    else (None, w'))))"

definition UpdateSilence ::
  "errors_pkg \<Rightarrow> ('w, Time) Env \<Rightarrow> Alertmanager \<Rightarrow> Silence \<Rightarrow> string \<Rightarrow> 'w
     \<Rightarrow> go_error option \<times> 'w" where
  "UpdateSilence P E am s tenant w =
     (if ID s = '''' then
        (Some (Errorf P ''failed to update silence %#q, missing ID'' [FStr (Comment s)]), w)
      else CreateSilence P E am s tenant w)"

text \<open>The loop that keeps the silences with a status other than expired.\<close>

definition not_expired :: "Silence \<Rightarrow> bool" where
  "not_expired s \<longleftrightarrow> (case Status s of None \<Rightarrow> False | Some st \<Rightarrow> State st \<noteq> SilenceStateExpired)"

definition ListSilences ::
  "errors_pkg \<Rightarrow> ('w, Time) Env \<Rightarrow> Alertmanager \<Rightarrow> string \<Rightarrow> 'w
     \<Rightarrow> (Silence slice \<times> go_error option) \<times> 'w" where
  "ListSilences P E am tenant w =
     (case NewRequest E am ''GET'' (address am @ apiV2SilencesPath) None tenant of
        Inl err \<Rightarrow> ((None, WithStack P (Some err)), w)
      | Inr req \<Rightarrow>
          (case http_Do E (authorize am req) w of
             (Inl err, w') \<Rightarrow> ((None, WithStack P (Some err)), w')
           | (Inr resp, w') \<Rightarrow>
               (case RespBody resp of
                  Inl err \<Rightarrow> ((None, WithStack P (Some err)), w')
                | Inr body \<Rightarrow>
                    (case json_Unmarshal body of
                       Inl err \<Rightarrow> ((None, WithStack P (Some err)), w')
                     | Inr silences \<Rightarrow>
                         ((slice_of_list (filter not_expired (slice_elems silences)), None), w')))))"

definition GetSilenceByComment ::
  "errors_pkg \<Rightarrow> ('w, Time) Env \<Rightarrow> Alertmanager \<Rightarrow> string \<Rightarrow> string \<Rightarrow> 'w
     \<Rightarrow> (Silence option \<times> go_error option) \<times> 'w" where
  "GetSilenceByComment P E am comment tenant w =
     (case ListSilences P E am tenant w of
        ((_, Some err), w') \<Rightarrow> ((None, WithStack P (Some err)), w')
      | ((silences, None), w') \<Rightarrow>
          (case List.find (\<lambda>s. Comment s = comment) (slice_elems silences) of
             Some s \<Rightarrow> ((Some s, None), w')
           | None \<Rightarrow>
               ((None, WithMessagef P (Some ErrSilenceNotFound)
                         ''failed to get silence with comment %#q'' [FStr comment]), w')))"

text \<open>In the branch for a status other than 200 the variable \<open>err\<close> is nil, as the call that
  set it succeeded.\<close>

definition DeleteSilenceByID ::
  "errors_pkg \<Rightarrow> ('w, Time) Env \<Rightarrow> Alertmanager \<Rightarrow> string \<Rightarrow> string \<Rightarrow> 'w
     \<Rightarrow> go_error option \<times> 'w" where
  "DeleteSilenceByID P E am sid tenant w =
     (case NewRequest E am ''DELETE''
             (address am @ apiV2SilencePath @ ''/'' @ PathEscape sid) None tenant of
        Inl err \<Rightarrow> (WithStack P (Some err), w)
      | Inr req \<Rightarrow>
          (case http_Do E (authorize am (Header_Add ''Content-Type'' ''application/json'' req)) w of
             (Inl err, w') \<Rightarrow> (WithStack P (Some err), w')
           | (Inr resp, w') \<Rightarrow>
               (let err = None
                in if StatusCode resp \<noteq> 200 then
                     (WithMessagef P (WithStack P err)
                        ''failed to delete silence %#q, expected code 200, got %d''
                        [FStr sid, FInt (StatusCode resp)], w')
                   else (None, w'))))"

definition DeleteSilenceByComment ::
  "errors_pkg \<Rightarrow> ('w, Time) Env \<Rightarrow> Alertmanager \<Rightarrow> string \<Rightarrow> string \<Rightarrow> 'w
     \<Rightarrow> go_error option \<times> 'w" where
  "DeleteSilenceByComment P E am comment tenant w =
     (case ListSilences P E am tenant w of
        ((_, Some err), w') \<Rightarrow> (WithStack P (Some err), w')
      | ((silences, None), w') \<Rightarrow>
          (case List.find (\<lambda>s. Comment s = comment \<and> CreatedBy s = CreatedBy_operator)
                  (slice_elems silences) of
             Some s \<Rightarrow> DeleteSilenceByID P E am (ID s) tenant w'
           | None \<Rightarrow>
               (WithMessagef P (Some ErrSilenceNotFound)
                  ''failed to delete silence by comment %#q'' [FStr comment], w')))"

text \<open>\<open>var _ Client = (*Alertmanager)(nil)\<close>: the method set as the interface.\<close>

definition Alertmanager_Client ::
  "errors_pkg \<Rightarrow> ('w, Time) Env \<Rightarrow> Alertmanager \<Rightarrow> 'w Client" where
  "Alertmanager_Client P E am = \<lparr>
     Client_GetSilenceByComment = GetSilenceByComment P E am,
     Client_CreateSilence = CreateSilence P E am,
     Client_UpdateSilence = UpdateSilence P E am,
     Client_DeleteSilenceByComment = DeleteSilenceByComment P E am,
     Client_DeleteSilenceByID = DeleteSilenceByID P E am,
     Client_ListSilences = ListSilences P E am\<rparr>"

lemma Alertmanager_Client_sel [simp]:
  "Client_GetSilenceByComment (Alertmanager_Client P E am) = GetSilenceByComment P E am"
  "Client_CreateSilence (Alertmanager_Client P E am) = CreateSilence P E am"
  "Client_UpdateSilence (Alertmanager_Client P E am) = UpdateSilence P E am"
  "Client_DeleteSilenceByComment (Alertmanager_Client P E am) = DeleteSilenceByComment P E am"
  "Client_DeleteSilenceByID (Alertmanager_Client P E am) = DeleteSilenceByID P E am"
  "Client_ListSilences (Alertmanager_Client P E am) = ListSilences P E am"
  by (simp_all add: Alertmanager_Client_def)

lemma not_found_message:
  assumes "errors_pkg_ok P"
  shows "\<exists>e. WithMessagef P (Some ErrSilenceNotFound) f as = Some e \<and> errors_Is e ErrSilenceNotFound"
proof -
  obtain e where e: "WithMessagef P (Some ErrSilenceNotFound) f as = Some e"
    using errors_pkg_Some(2) [OF assms] by blast
  have "errors_Is_opt (WithMessagef P (Some ErrSilenceNotFound) f as) ErrSilenceNotFound"
    unfolding ErrSilenceNotFound_def by (simp add: errors_pkg_is(2) [OF assms])
  with e show ?thesis by simp
qed

subsection \<open>Samples for witnesses\<close>

text \<open>A network that gives every request one answer, for witnesses.\<close>

definition fixed_env :: "int \<Rightarrow> string \<Rightarrow> (unit, Time) Env" where
  "fixed_env code body = \<lparr>url_Parse_error = (\<lambda>_. None),
     http_Do = (\<lambda>_ w. (Inr \<lparr>StatusCode = code, RespBody = Inr body\<rparr>, w)),
     time_Now = (\<lambda>w. (time_zero, w))\<rparr>"

definition sample_am :: Alertmanager where
  "sample_am = \<lparr>address = ''http://am'', authentication = True, token = ''t0k'', tenantId = ''anonymous''\<rparr>"

definition sample_silence :: Silence where
  "sample_silence = \<lparr>Comment = ''silence-operator-ns-a'', CreatedBy = CreatedBy_operator,
     EndsAt = time_Date 2030 1 1 8 0 0 0 0, ID = '''', Matchers = None, StartsAt = time_zero,
     Status = None\<rparr>"

end
