(* ===== verification/Silence_Meta.thy ===== *)
theory Silence_Meta
  imports Alertmanager Kube_Types
begin

section \<open>What a custom resource says about its silence\<close>

text \<open>
  The two functions of \<open>pkg/alertmanager/alertmanager.go\<close> that read object metadata: the comment
  that identifies a silence in Alertmanager, and the end of the silence from the annotation
  \<open>valid-until\<close>.
\<close>

definition ValidUntilAnnotationName :: string where
  "ValidUntilAnnotationName = ''valid-until''"

definition DateOnlyLayout :: string where
  "DateOnlyLayout = ''2006-01-02''"

definition SilenceComment :: "ObjectMeta \<Rightarrow> string" where
  "SilenceComment silence =
     (if Namespace silence \<noteq> '''' then
        CreatedBy_operator @ ''-'' @ Namespace silence @ ''-'' @ ObjName silence
      else CreatedBy_operator @ ''-'' @ ObjName silence)"

definition SilenceEndsAt :: "errors_pkg \<Rightarrow> ObjectMeta \<Rightarrow> Time \<times> go_error option" where
  "SilenceEndsAt P silence =
     (case map_lookup (Annotations silence) ValidUntilAnnotationName of
        None \<Rightarrow> (time_AddDate (CreationTimestamp silence) 100 0 0, None)
      | Some value \<Rightarrow>
          (case time_Parse RFC3339 parse_rfc3339 value of
             (expirationDate, None) \<Rightarrow> (expirationDate, None)
           | (_, Some errRFC3339) \<Rightarrow>
               (case time_Parse DateOnlyLayout parse_date_only value of
                  (_, Some errDateOnly) \<Rightarrow>
                    (time_zero,
                     Wrapf P (Some errRFC3339)
                       ''annotation %q date %q does not match expected formats %q or %q (legacy format error: %v)''
                       [FStr ValidUntilAnnotationName, FStr value, FStr RFC3339, FStr DateOnlyLayout])
                | (expirationDate, None) \<Rightarrow>
                    (case date_of expirationDate of
                       (y, m, d) \<Rightarrow> (time_Date y m d 8 0 0 0 0, None)))))"

subsection \<open>The comment\<close>

lemma dash_split:
  assumes "CHR ''-'' \<notin> set a" "CHR ''-'' \<notin> set b"
  shows "a @ CHR ''-'' # x = b @ CHR ''-'' # y \<longleftrightarrow> a = b \<and> x = y"
proof
  assume eq: "a @ CHR ''-'' # x = b @ CHR ''-'' # y"
  then have "takeWhile (\<lambda>c. c \<noteq> CHR ''-'') (a @ CHR ''-'' # x)
      = takeWhile (\<lambda>c. c \<noteq> CHR ''-'') (b @ CHR ''-'' # y)" by simp
  then have "a = b"
    using assms by (simp add: takeWhile_append split: if_splits) (metis+)?
  with eq show "a = b \<and> x = y" by simp
qed simp

subsection \<open>The end of a silence\<close>

lemma SilenceEndsAt_annotated:
  assumes "map_lookup (Annotations obj) ValidUntilAnnotationName = Some v"
  shows "SilenceEndsAt P obj =
     (case parse_rfc3339 v of
        Some t \<Rightarrow> (t, None)
      | None \<Rightarrow>
          (case parse_date_only v of
             Some t \<Rightarrow> (case date_of t of (y, m, d) \<Rightarrow> (time_Date y m d 8 0 0 0 0, None))
           | None \<Rightarrow> (time_zero,
               Wrapf P (Some (ParseError RFC3339 v))
                 ''annotation %q date %q does not match expected formats %q or %q (legacy format error: %v)''
                 [FStr ValidUntilAnnotationName, FStr v, FStr RFC3339, FStr DateOnlyLayout])))"
  using assms by (simp add: SilenceEndsAt_def time_Parse_def split: option.split)

subsection \<open>Properties\<close>

definition sample_meta :: "string \<Rightarrow> string \<Rightarrow> string_map \<Rightarrow> ObjectMeta" where
  "sample_meta ns n ann = \<lparr>ObjName = n, Namespace = ns, Labels = None, Annotations = ann,
     Finalizers = [], CreationTimestamp = time_zero, DeletionTimestamp = None\<rparr>"

lemma sample_meta_sel [simp]:
  "ObjName (sample_meta ns n ann) = n" "Namespace (sample_meta ns n ann) = ns"
  "Annotations (sample_meta ns n ann) = ann" "CreationTimestamp (sample_meta ns n ann) = time_zero"
  by (simp_all add: sample_meta_def)

text \<open>Two namespaced resources whose namespaces have no dash share a comment only when they
  are the same resource.\<close>

theorem SilenceComment_identifies:
  assumes "CHR ''-'' \<notin> set (Namespace a)" "CHR ''-'' \<notin> set (Namespace b)"
    and "Namespace a \<noteq> ''''" "Namespace b \<noteq> ''''"
  shows "SilenceComment a = SilenceComment b \<longleftrightarrow> Namespace a = Namespace b \<and> ObjName a = ObjName b"
  using assms dash_split [OF assms(1,2), of "ObjName a" "ObjName b"]
  by (simp add: SilenceComment_def)

theorem SilenceComment_identifies_witness:
  "SilenceComment (sample_meta ''ns'' ''a'' None) \<noteq> SilenceComment (sample_meta ''ns'' ''b'' None)"
  using SilenceComment_identifies [of "sample_meta ''ns'' ''a'' None" "sample_meta ''ns'' ''b'' None"]
  by simp

text \<open>With a dash in a namespace the comment is ambiguous: resource \<open>c\<close> of the namespace
  \<open>a-b\<close> and resource \<open>b-c\<close> of the namespace \<open>a\<close> share it, and so do resource \<open>n\<close> of the namespace
  \<open>a\<close> and the cluster-scoped resource \<open>a-n\<close>.\<close>

theorem SilenceComment_ambiguous:
  "SilenceComment (m\<lparr>Namespace := (x # a) @ ''-'' @ b, ObjName := c\<rparr>) =
     SilenceComment (m\<lparr>Namespace := x # a, ObjName := b @ ''-'' @ c\<rparr>) \<and>
   SilenceComment (m\<lparr>Namespace := x # a, ObjName := c\<rparr>) =
     SilenceComment (m\<lparr>Namespace := '''', ObjName := (x # a) @ ''-'' @ c\<rparr>)"
  by (simp add: SilenceComment_def)

lemma joined_eq:
  assumes "n @ CHR ''-'' # x = m @ CHR ''-'' # y" "length m \<le> length n"
  shows "n = m \<and> x = y \<or> (\<exists>d. n = m @ ''-'' @ d \<and> y = d @ ''-'' @ x)"
proof -
  obtain u where u: "n = m @ u" "u @ CHR ''-'' # x = CHR ''-'' # y"
    using assms by (auto simp: append_eq_append_conv2)
  then show ?thesis by (cases u) auto
qed

lemma namespaced_comments:
  assumes "Namespace a \<noteq> ''''" "Namespace b \<noteq> ''''"
  shows "SilenceComment a = SilenceComment b \<longleftrightarrow>
    Namespace a = Namespace b \<and> ObjName a = ObjName b \<or>
    (\<exists>d. Namespace a = Namespace b @ ''-'' @ d \<and> ObjName b = d @ ''-'' @ ObjName a) \<or>
    (\<exists>d. Namespace b = Namespace a @ ''-'' @ d \<and> ObjName a = d @ ''-'' @ ObjName b)"
proof -
  let ?a = "Namespace a @ CHR ''-'' # ObjName a" and ?b = "Namespace b @ CHR ''-'' # ObjName b"
  have c: "SilenceComment a = SilenceComment b \<longleftrightarrow> ?a = ?b" using assms by (simp add: SilenceComment_def)
  show ?thesis
    unfolding c
  proof
    assume eq: "?a = ?b"
    show "Namespace a = Namespace b \<and> ObjName a = ObjName b \<or>
      (\<exists>d. Namespace a = Namespace b @ ''-'' @ d \<and> ObjName b = d @ ''-'' @ ObjName a) \<or>
      (\<exists>d. Namespace b = Namespace a @ ''-'' @ d \<and> ObjName a = d @ ''-'' @ ObjName b)"
    proof (cases "length (Namespace b) \<le> length (Namespace a)")
      case True
      from joined_eq [OF eq True] show ?thesis by blast
    next
      case False
      then have "length (Namespace a) \<le> length (Namespace b)" by simp
      from joined_eq [OF eq [symmetric] this] show ?thesis by (elim disjE conjE) (rule disjI1, simp, intro disjI2)
    qed
  qed (elim disjE exE conjE, simp_all)
qed

text \<open>C38: exactly which resources share a comment: the same ones; two namespaced ones, when the namespace of one is
  that of the other followed by a dash and a text that, with another dash, starts the other's name; and a cluster-scoped
  one (v1alpha1) with a namespaced one (v1alpha2) whose namespace and name, joined by a dash, are the first one's
  name.  So the comment does not identify a resource.\<close>

theorem SilenceComment_shared:
  "SilenceComment a = SilenceComment b \<longleftrightarrow>
    Namespace a = Namespace b \<and> ObjName a = ObjName b \<or>
    Namespace a = '''' \<and> Namespace b \<noteq> '''' \<and> ObjName a = Namespace b @ ''-'' @ ObjName b \<or>
    Namespace b = '''' \<and> Namespace a \<noteq> '''' \<and> ObjName b = Namespace a @ ''-'' @ ObjName a \<or>
    Namespace a \<noteq> '''' \<and> Namespace b \<noteq> '''' \<and>
      ((\<exists>d. Namespace a = Namespace b @ ''-'' @ d \<and> ObjName b = d @ ''-'' @ ObjName a) \<or>
       (\<exists>d. Namespace b = Namespace a @ ''-'' @ d \<and> ObjName a = d @ ''-'' @ ObjName b))"
proof (cases "Namespace a = '''' \<or> Namespace b = ''''")
  case True
  then show ?thesis by (auto simp: SilenceComment_def)
next
  case False
  then show ?thesis using namespaced_comments [of a b] by blast
qed

theorem SilenceComment_shared_witness:
  "SilenceComment (sample_meta ''a-b'' ''c'' None) = SilenceComment (sample_meta ''a'' ''b-c'' None) \<and>
   SilenceComment (sample_meta '''' ''ns-a'' None) = SilenceComment (sample_meta ''ns'' ''a'' None) \<and>
   SilenceComment (sample_meta ''ns'' ''a'' None) \<noteq> SilenceComment (sample_meta ''ns'' ''b'' None)"
  using SilenceComment_shared [of "sample_meta ''a-b'' ''c'' None" "sample_meta ''a'' ''b-c'' None"]
    SilenceComment_shared [of "sample_meta '''' ''ns-a'' None" "sample_meta ''ns'' ''a'' None"]
    SilenceComment_shared [of "sample_meta ''ns'' ''a'' None" "sample_meta ''ns'' ''b'' None"]
  by simp

text \<open>A valid date in the annotation ends the silence at 8:00 UTC of that day.\<close>

theorem SilenceEndsAt_date_only:
  assumes "map_lookup (Annotations obj) ValidUntilAnnotationName = Some (print_ymd y m d)"
    and "year4 y" "valid_civil y m d"
  shows "SilenceEndsAt P obj = (time_Date y m d 8 0 0 0 0, None)"
  using assms
  by (simp add: SilenceEndsAt_annotated parse_rfc3339_date_only parse_date_only_print
      parts_of_time_Date)

theorem SilenceEndsAt_date_only_witness:
  "SilenceEndsAt sample_errors
     (sample_meta ''ns'' ''a'' (Some [ValidUntilAnnotationName \<mapsto> ''2024-02-29'']))
     = (time_Date 2024 2 29 8 0 0 0 0, None)"
proof -
  have "print_ymd 2024 2 29 = ''2024-02-29''" by code_simp
  then show ?thesis
    using SilenceEndsAt_date_only [of "sample_meta ''ns'' ''a''
        (Some [ValidUntilAnnotationName \<mapsto> ''2024-02-29''])" 2024 2 29]
    by (simp add: year4_def valid_civil_def days_in_def is_leap_def)
qed

text \<open>C37: an RFC 3339 time in the annotation is the end of the silence, with its offset.\<close>

theorem SilenceEndsAt_rfc3339:
  assumes "map_lookup (Annotations obj) ValidUntilAnnotationName = Some (format_rfc3339 t)"
    and "rfc3339_exact t"
  shows "SilenceEndsAt P obj = (t, None)"
  using assms by (simp add: SilenceEndsAt_annotated rfc3339.dec_enc)

theorem SilenceEndsAt_rfc3339_witness:
  "SilenceEndsAt sample_errors
     (sample_meta ''ns'' ''a'' (Some [ValidUntilAnnotationName \<mapsto> ''0001-01-01T00:00:00Z'']))
     = (time_zero, None)"
proof -
  have "format_rfc3339 time_zero = ''0001-01-01T00:00:00Z''" "rfc3339_exact time_zero" by code_simp+
  then show ?thesis
    using SilenceEndsAt_rfc3339 [of "sample_meta ''ns'' ''a''
        (Some [ValidUntilAnnotationName \<mapsto> ''0001-01-01T00:00:00Z''])" time_zero]
    by simp
qed

text \<open>Without the annotation the silence ends on the day of its creation a hundred years
  later, at the same time of day; March 1st replaces a February 29th that year lacks.\<close>

theorem SilenceEndsAt_default:
  assumes "map_lookup (Annotations obj) ValidUntilAnnotationName = None"
    and "date_of (CreationTimestamp obj) = (y, m, d)"
  shows "snd (SilenceEndsAt P obj) = None \<and>
    date_of (fst (SilenceEndsAt P obj)) =
      (if m = 2 \<and> d = 29 \<and> \<not> is_leap (y + 100) then (y + 100, 3, 1) else (y + 100, m, d)) \<and>
    clock_of (fst (SilenceEndsAt P obj)) = clock_of (CreationTimestamp obj)"
  using assms AddDate_years [OF assms(2), of 100] by (simp add: SilenceEndsAt_def)

theorem SilenceEndsAt_default_witness:
  "date_of (fst (SilenceEndsAt sample_errors (sample_meta ''ns'' ''a'' None))) = (101, 1, 1)"
proof -
  have "date_of time_zero = (1, 1, 1)" by code_simp
  then show ?thesis
    using SilenceEndsAt_default [of "sample_meta ''ns'' ''a'' None" 1 1 1 sample_errors] by simp
qed

text \<open>The end is rejected exactly when the annotation is there and neither format reads it;
  the result then holds the zero time.\<close>

theorem SilenceEndsAt_error_iff:
  assumes "errors_pkg_ok P"
  shows "(snd (SilenceEndsAt P obj) \<noteq> None \<longleftrightarrow>
      (\<exists>v. map_lookup (Annotations obj) ValidUntilAnnotationName = Some v \<and>
         parse_rfc3339 v = None \<and> parse_date_only v = None)) \<and>
    (snd (SilenceEndsAt P obj) = None \<or> fst (SilenceEndsAt P obj) = time_zero)"
  using errors_pkg_nil(3) [OF assms]
  by (cases "map_lookup (Annotations obj) ValidUntilAnnotationName")
    (auto simp: SilenceEndsAt_def time_Parse_def split: option.splits prod.splits)

theorem SilenceEndsAt_error_iff_witness:
  "snd (SilenceEndsAt sample_errors
     (sample_meta ''ns'' ''a'' (Some [ValidUntilAnnotationName \<mapsto> ''2023-02-29'']))) \<noteq> None"
proof -
  have "parse_rfc3339 ''2023-02-29'' = None" "parse_date_only ''2023-02-29'' = None" by code_simp+
  then show ?thesis
    using SilenceEndsAt_error_iff [of sample_errors
        "sample_meta ''ns'' ''a'' (Some [ValidUntilAnnotationName \<mapsto> ''2023-02-29''])"]
    by simp
qed

end
