(* ===== verification/Service.thy ===== *)
theory Service
  imports Alertmanager
begin

section \<open>The silence service\<close>

text \<open>
  \<open>pkg/service/silence.go\<close>: how a wanted silence is reconciled with Alertmanager.  The service
  works on the interface \<open>Client\<close>; a nil pointer that is dereferenced is the outcome \<open>Panics\<close>.
\<close>

record 'w SilenceService =
  alertmanager :: "'w Client"

definition NewSilenceService :: "'w Client \<Rightarrow> 'w SilenceService" where
  "NewSilenceService c = \<lparr>alertmanager = c\<rparr>"

definition updateNeeded :: "Silence \<Rightarrow> Silence \<Rightarrow> bool" where
  "updateNeeded existingSilence newSilence \<longleftrightarrow>
     Matchers existingSilence \<noteq> Matchers newSilence \<or>
     \<not> Equal (EndsAt existingSilence) (EndsAt newSilence)"

definition SyncSilence ::
  "errors_pkg \<Rightarrow> ('w, Time) Env \<Rightarrow> 'w SilenceService \<Rightarrow> Silence option \<Rightarrow> string \<Rightarrow> 'w
     \<Rightarrow> go_error option outcome \<times> 'w" where
  "SyncSilence P E s newSilence_ptr tenant w =
     (case time_Now E w of (now, w) \<Rightarrow>
      case newSilence_ptr of
        None \<Rightarrow> (Panics, w)
      | Some newSilence \<Rightarrow>
      (case Client_GetSilenceByComment (alertmanager s) (Comment newSilence) tenant w of
        ((existing, err), w) \<Rightarrow>
          if err \<noteq> None \<and> \<not> errors_Is_opt err ErrSilenceNotFound then
            (Returns (Wrapf P err ''failed to get silence from Alertmanager'' []), w)
          else if errors_Is_opt err ErrSilenceNotFound then
            (if After (EndsAt newSilence) now then
               (case Client_CreateSilence (alertmanager s) newSilence tenant w of
                  (err, w) \<Rightarrow>
                    if err \<noteq> None then
                      (Returns (Wrapf P err ''failed to create silence in Alertmanager'' []), w)
                    else (Returns None, w))
             else (Returns None, w))
          else
            (case existing of
               None \<Rightarrow> (Panics, w)
             | Some existingSilence \<Rightarrow>
                 if Before (EndsAt newSilence) now then
                   (case Client_DeleteSilenceByID (alertmanager s) (ID existingSilence) tenant w of
                      (err, w) \<Rightarrow>
                        if err \<noteq> None then
                          (Returns (Wrapf P err ''failed to delete expired silence from Alertmanager'' []), w)
                        else (Returns None, w))
                 else if updateNeeded existingSilence newSilence then
                   (case Client_UpdateSilence (alertmanager s)
                           (newSilence\<lparr>ID := ID existingSilence\<rparr>) tenant w of
                      (err, w) \<Rightarrow>
                        if err \<noteq> None then
                          (Returns (Wrapf P err ''failed to update silence in Alertmanager'' []), w)
                        else (Returns None, w))
                 else (Returns None, w))))"

definition DeleteSilence ::
  "errors_pkg \<Rightarrow> 'w SilenceService \<Rightarrow> string \<Rightarrow> string \<Rightarrow> 'w \<Rightarrow> go_error option \<times> 'w" where
  "DeleteSilence P s comment tenant w =
     (case Client_DeleteSilenceByComment (alertmanager s) comment tenant w of
        (err, w) \<Rightarrow>
          if err \<noteq> None then
            (if errors_Is_opt err ErrSilenceNotFound then (None, w)
             else (Wrapf P err ''failed to delete silence from Alertmanager'' [], w))
          else (None, w))"

end
