(* ===== verification/Service_Contract.thy ===== *)
theory Service_Contract
  imports Service
begin

section \<open>What the service needs from its client\<close>

text \<open>
  The service reads and changes Alertmanager through the interface \<open>Client\<close>.  \<open>sync_plan\<close> says
  what it decides, as a function of the clock, the silence that exists and the one wanted;
  \<open>run_plan\<close> is the call that carries the decision out.  The locale \<open>client_contract\<close> holds the laws
  of a client under which \<open>SyncSilence\<close> refines the plan and never panics.
\<close>

datatype plan = Keep | Create Silence | Replace Silence | Remove string

definition sync_plan :: "Time \<Rightarrow> Silence option \<Rightarrow> Silence \<Rightarrow> plan" where
  "sync_plan now existing wanted =
     (case existing of
        None \<Rightarrow> if After (EndsAt wanted) now then Create wanted else Keep
      | Some s \<Rightarrow>
          if Before (EndsAt wanted) now then Remove (ID s)
          else if Matchers s = Matchers wanted \<and> Equal (EndsAt s) (EndsAt wanted) then Keep
          else Replace (wanted\<lparr>ID := ID s\<rparr>))"

text \<open>A wrapped error of the call that carries out a plan.\<close>

definition reported :: "errors_pkg \<Rightarrow> string \<Rightarrow> go_error option \<times> 'w \<Rightarrow> go_error option outcome \<times> 'w" where
  "reported P msg res = (Returns (if fst res = None then None else Wrapf P (fst res) msg []), snd res)"

definition run_plan ::
  "errors_pkg \<Rightarrow> 'w Client \<Rightarrow> string \<Rightarrow> plan \<Rightarrow> 'w \<Rightarrow> go_error option outcome \<times> 'w" where
  "run_plan P C tenant p w =
     (case p of
        Keep \<Rightarrow> (Returns None, w)
      | Create s \<Rightarrow> reported P ''failed to create silence in Alertmanager''
                     (Client_CreateSilence C s tenant w)
      | Replace s \<Rightarrow> reported P ''failed to update silence in Alertmanager''
                     (Client_UpdateSilence C s tenant w)
      | Remove i \<Rightarrow> reported P ''failed to delete expired silence from Alertmanager''
                     (Client_DeleteSilenceByID C i tenant w))"

text \<open>A lookup has one of three results.\<close>

datatype lookup = Found Silence | Missing | Broken "go_error option"

definition lookup_result :: "Silence option \<times> go_error option \<Rightarrow> lookup option" where
  "lookup_result res =
     (case res of
        (Some s, None) \<Rightarrow> Some (Found s)
      | (None, Some e) \<Rightarrow> Some (if errors_Is e ErrSilenceNotFound then Missing else Broken (Some e))
      | _ \<Rightarrow> None)"

definition sync_spec ::
  "errors_pkg \<Rightarrow> ('w, Time) Env \<Rightarrow> 'w Client \<Rightarrow> Silence \<Rightarrow> string \<Rightarrow> 'w
     \<Rightarrow> go_error option outcome \<times> 'w" where
  "sync_spec P E C wanted tenant w =
     (let (now, w) = time_Now E w;
          (res, w) = Client_GetSilenceByComment C (Comment wanted) tenant w
      in case lookup_result res of
           Some (Found s) \<Rightarrow> run_plan P C tenant (sync_plan now (Some s) wanted) w
         | Some Missing \<Rightarrow> run_plan P C tenant (sync_plan now None wanted) w
         | Some (Broken e) \<Rightarrow> (Returns (Wrapf P e ''failed to get silence from Alertmanager'' []), w)
         | None \<Rightarrow> (Panics, w))"

locale client_contract =
  fixes P :: errors_pkg and C :: "'w Client" and ok :: bool
  assumes ok_errors: "ok \<Longrightarrow> errors_pkg_ok P"
    and get_result: "ok \<Longrightarrow> lookup_result (fst (Client_GetSilenceByComment C c t w)) \<noteq> None"
    and get_comment: "fst (Client_GetSilenceByComment C c t w) = (Some s, e) \<Longrightarrow> Comment s = c"
begin

lemma sync_refines:
  assumes ok
  shows "SyncSilence P E (NewSilenceService C) (Some wanted) tenant w = sync_spec P E C wanted tenant w"
proof -
  obtain now w1 where now: "time_Now E w = (now, w1)" by (cases "time_Now E w")
  obtain ex err w2 where get: "Client_GetSilenceByComment C (Comment wanted) tenant w1 = ((ex, err), w2)"
    by (metis prod.exhaust)
  from get_result [OF assms, of "Comment wanted" tenant w1] have "lookup_result (ex, err) \<noteq> None"
    by (simp add: get)
  then consider s where "ex = Some s" "err = None" | e where "ex = None" "err = Some e"
    by (cases ex; cases err) (auto simp: lookup_result_def)
  then show ?thesis
    by cases
      (auto simp: SyncSilence_def NewSilenceService_def sync_spec_def now get lookup_result_def
        run_plan_def sync_plan_def reported_def updateNeeded_def split_beta)
qed

lemma sync_spec_returns:
  assumes ok
  shows "\<exists>e. fst (sync_spec P E C wanted tenant w) = Returns e"
proof -
  have run: "\<exists>e. fst (run_plan P C tenant p w') = Returns e" for p w'
    by (cases p) (simp_all add: run_plan_def reported_def)
  show ?thesis
    using get_result [OF assms, of "Comment wanted" tenant "snd (time_Now E w)"] run
    by (auto simp: sync_spec_def Let_def split_beta split: option.splits lookup.splits)
qed

text \<open>A silence that exists as wanted and has not ended is left alone.\<close>

lemma settled:
  assumes ok and now: "time_Now E w = (now, w1)"
    and get: "Client_GetSilenceByComment C (Comment wanted) tenant w1 = ((Some s, None), w2)"
    and same: "Matchers s = Matchers wanted" "Equal (EndsAt s) (EndsAt wanted)"
      "\<not> Before (EndsAt wanted) now"
  shows "SyncSilence P E (NewSilenceService C) (Some wanted) tenant w = (Returns None, w2)"
  using now get same unfolding sync_refines [OF \<open>ok\<close>]
  by (simp add: sync_spec_def lookup_result_def sync_plan_def run_plan_def)

text \<open>Neither the start, the creator, the id nor the status of the wanted silence decides.\<close>

lemma decision_ignores:
  assumes "Comment a = Comment b" "Matchers a = Matchers b" "EndsAt a = EndsAt b"
  shows "case (sync_plan now ex a, sync_plan now ex b) of
      (Create x, Create y) \<Rightarrow> x = a \<and> y = b
    | (Replace x, Replace y) \<Rightarrow> ID x = ID y
    | (p, q) \<Rightarrow> p = q"
  using assms by (auto simp: sync_plan_def split: option.splits)

end

lemma GetSilenceByComment_lookup:
  assumes "errors_pkg_ok P"
  shows "lookup_result (fst (GetSilenceByComment P E am c t w)) \<noteq> None"
  using errors_pkg_nil [OF assms]
  by (auto simp: GetSilenceByComment_def lookup_result_def split: prod.splits option.splits)

lemma GetSilenceByComment_comment:
  "fst (GetSilenceByComment P E am c t w) = (Some s, e) \<Longrightarrow> Comment s = c"
  by (auto simp: GetSilenceByComment_def split: prod.splits option.splits dest: find_SomeD)

interpretation am: client_contract P "Alertmanager_Client P E am" "errors_pkg_ok P"
  for P :: errors_pkg and E :: "('w, Time) Env" and am :: Alertmanager
  by unfold_locales (auto simp: GetSilenceByComment_lookup dest: GetSilenceByComment_comment)

subsection \<open>Properties\<close>

text \<open>C21: a synchronisation is the decision \<open>sync_plan\<close> takes from the clock and the silence found
  under the comment, carried out by \<open>run_plan\<close>; a lookup that breaks is reported, and the
  service never panics on a silence that is there.\<close>

theorem SyncSilence_refines_plan:
  assumes "errors_pkg_ok P"
  shows "SyncSilence P E (NewSilenceService (Alertmanager_Client P E am)) (Some wanted) tenant w
      = sync_spec P E (Alertmanager_Client P E am) wanted tenant w \<and>
    (\<exists>e. fst (sync_spec P E (Alertmanager_Client P E am) wanted tenant w) = Returns e)"
  by (simp add: am.sync_refines assms am.sync_spec_returns)

theorem SyncSilence_refines_plan_witness:
  "\<exists>e. fst (SyncSilence sample_errors (fixed_env 200 ''[]'')
      (NewSilenceService (Alertmanager_Client sample_errors (fixed_env 200 ''[]'') sample_am))
      (Some sample_silence) ''t'' ()) = Returns e"
  using SyncSilence_refines_plan [of sample_errors "fixed_env 200 ''[]''" sample_am sample_silence]
  by simp

text \<open>C33: a silence that is found with the wanted matchers and end, and has not ended, is not
  touched, whatever start the resource now asks for: no request follows the lookup.\<close>

theorem SyncSilence_settled:
  assumes "errors_pkg_ok P" "time_Now E w = (now, w1)"
    and "GetSilenceByComment P E am (Comment wanted) tenant w1 = ((Some s, None), w2)"
    and "Matchers s = Matchers wanted" "Equal (EndsAt s) (EndsAt wanted)"
    and "\<not> Before (EndsAt wanted) now"
  shows "SyncSilence P E (NewSilenceService (Alertmanager_Client P E am))
    (Some (wanted\<lparr>StartsAt := t\<rparr>)) tenant w = (Returns None, w2)"
  using assms by (intro am.settled [OF assms(1,2)]) simp_all


definition active_silence :: Silence where
  "active_silence = sample_silence\<lparr>ID := ''7'', Status := Some \<lparr>State = ''active''\<rparr>\<rparr>"

definition sample_list :: string where
  "sample_list = json_text (JArr [encode_silence active_silence])"

lemma sample_lookup:
  "GetSilenceByComment sample_errors (fixed_env 200 sample_list) sample_am
     ''silence-operator-ns-a'' ''t'' () = ((Some active_silence, None), ())"
  by code_simp

theorem SyncSilence_settled_witness:
  "SyncSilence sample_errors (fixed_env 200 sample_list)
     (NewSilenceService (Alertmanager_Client sample_errors (fixed_env 200 sample_list) sample_am))
     (Some (sample_silence\<lparr>StartsAt := time_Date 2029 1 1 0 0 0 0 0\<rparr>)) ''t'' () = (Returns None, ())"
proof (rule SyncSilence_settled [where s = active_silence])
  show "time_Now (fixed_env 200 sample_list) () = (time_zero, ())" by (simp add: fixed_env_def)
  show "GetSilenceByComment sample_errors (fixed_env 200 sample_list) sample_am
      (Comment sample_silence) ''t'' () = ((Some active_silence, None), ())"
    using sample_lookup by (simp add: sample_silence_def)
  show "\<not> Before (EndsAt sample_silence) time_zero" by code_simp
qed (simp_all add: active_silence_def Equal_def)

end
