(* ===== verification/Api_Types.thy ===== *)
theory Api_Types
  imports Kube_Types
begin

section \<open>The custom resources\<close>

text \<open>
  The types of \<open>api/v1alpha1/silence_types.go\<close> and \<open>api/v1alpha2/silence_types.go\<close>, with the suffix
  \<open>_v1\<close> or \<open>_v2\<close>; a pointer is an option.  \<open>str2duration.ParseDuration\<close>, a third-party function,
  is the parameter \<open>PD\<close> of \<open>Duration_v2\<close>.
\<close>

subsection \<open>\<open>monitoring.giantswarm.io/v1alpha1\<close>\<close>

record TargetTag_v1 =
  TagName_v1 :: string
  TagValue_v1 :: string

record Matcher_v1 =
  IsRegex_v1 :: bool
  IsEqual_v1 :: "bool option"
  Name_v1 :: string
  Value_v1 :: string

record SilenceSpec_v1 =
  TargetTags_v1 :: "TargetTag_v1 slice"
  Matchers_v1 :: "Matcher_v1 slice"
  Owner_v1 :: string
  PostmortemURL_v1 :: "string option"
  IssueURL_v1 :: string

record Silence_v1 =
  Meta_v1 :: ObjectMeta
  Spec_v1 :: SilenceSpec_v1

subsection \<open>\<open>observability.giantswarm.io/v1alpha2\<close>\<close>

type_synonym MatchType_v2 = string

definition MatchEqual :: MatchType_v2 where "MatchEqual = ''=''"
definition MatchNotEqual :: MatchType_v2 where "MatchNotEqual = ''!=''"
definition MatchRegexMatch :: MatchType_v2 where "MatchRegexMatch = ''=~''"
definition MatchRegexNotMatch :: MatchType_v2 where "MatchRegexNotMatch = ''!~''"

lemmas match_types = MatchEqual_def MatchNotEqual_def MatchRegexMatch_def MatchRegexNotMatch_def

type_synonym SilenceDuration_v2 = string

definition Duration_v2 ::
  "(string \<Rightarrow> go_error + Duration) \<Rightarrow> SilenceDuration_v2 \<Rightarrow> Duration \<times> go_error option" where
  "Duration_v2 PD sd =
     (case PD sd of
        Inl err \<Rightarrow> (0, Some (Wrapped ''invalid duration %q: %w'' [FStr sd] err))
      | Inr duration \<Rightarrow> (duration, None))"

record SilenceMatcher_v2 =
  Name_v2 :: string
  Value_v2 :: string
  MatchType :: MatchType_v2

record SilenceSpec_v2 =
  Matchers_v2 :: "SilenceMatcher_v2 slice"
  StartsAt_v2 :: "Time option"
  EndsAt_v2 :: "Time option"
  DurationField_v2 :: "SilenceDuration_v2 option"

record Silence_v2 =
  Meta_v2 :: ObjectMeta
  Spec_v2 :: SilenceSpec_v2

end
