(* ===== verification/Controller_V1.thy ===== *)
theory Controller_V1
  imports Silence_Meta Service Tenancy Api_Types
begin

section \<open>The controller of v1alpha1 silences\<close>

text \<open>
  \<open>internal/controller/silence_controller.go\<close>.  The Kubernetes client is a parameter: \<open>Kube_Get\<close>
  returns the object or an error, \<open>Kube_Update\<close> the object as the API server stored it or an
  error.  \<open>ctrl.Result{}\<close>, the first result of every path, is left out; logging is not modelled.
\<close>

record ('w, 'obj) KubeClient =
  Kube_Get :: "NamespacedName \<Rightarrow> 'w \<Rightarrow> (go_error + 'obj) \<times> 'w"
  Kube_Update :: "'obj \<Rightarrow> 'w \<Rightarrow> (go_error + 'obj) \<times> 'w"

definition silenceFinalizer :: string where
  "silenceFinalizer = ''monitoring.giantswarm.io/silence-protection''"

definition legacySilenceFinalizer :: string where
  "legacySilenceFinalizer = ''operatorkit.giantswarm.io/silence-operator-silence-controller''"

record ('w, 'sel) SilenceReconciler =
  client :: "('w, Silence_v1) KubeClient"
  silenceService :: "'w SilenceService"
  tenancyHelper :: "'sel Helper"

definition NewSilenceReconciler ::
  "('w, Silence_v1) KubeClient \<Rightarrow> 'w SilenceService \<Rightarrow> 'sel Helper \<Rightarrow> ('w, 'sel) SilenceReconciler"
where
  "NewSilenceReconciler c s h = \<lparr>client = c, silenceService = s, tenancyHelper = h\<rparr>"

text \<open>The body of the loop over the matchers.\<close>

definition convertMatcher_v1 :: "Matcher_v1 \<Rightarrow> Matcher" where
  "convertMatcher_v1 matcher =
     \<lparr>IsRegex = IsRegex_v1 matcher,
      IsEqual = (case IsEqual_v1 matcher of None \<Rightarrow> True | Some b \<Rightarrow> b),
      Name = Name_v1 matcher,
      Value = Value_v1 matcher\<rparr>"

definition getSilenceFromCR_v1 :: "errors_pkg \<Rightarrow> Silence_v1 \<Rightarrow> Silence option \<times> go_error option" where
  "getSilenceFromCR_v1 P silence =
     (let matchers = fold (\<lambda>matcher ms. slice_append ms (convertMatcher_v1 matcher))
                       (slice_elems (Matchers_v1 (Spec_v1 silence))) None
      in case SilenceEndsAt P (Meta_v1 silence) of
           (_, Some err) \<Rightarrow> (None, WithStack P (Some err))
         | (endsAt, None) \<Rightarrow>
             (Some \<lparr>Comment = SilenceComment (Meta_v1 silence),
                    CreatedBy = CreatedBy_operator,
                    EndsAt = endsAt,
                    ID = '''',
                    Matchers = matchers,
                    StartsAt = CreationTimestamp (Meta_v1 silence),
                    Status = None\<rparr>, None))"

definition cleanUpLegacyFinalizer ::
  "errors_pkg \<Rightarrow> kube_lib \<Rightarrow> ('w, 'sel) SilenceReconciler \<Rightarrow> Silence_v1 \<Rightarrow> 'w
     \<Rightarrow> (Silence_v1 \<times> go_error option) \<times> 'w" where
  "cleanUpLegacyFinalizer P K r silence w =
     (if ContainsFinalizer K (Meta_v1 silence) legacySilenceFinalizer then
        (let silence = silence\<lparr>Meta_v1 := RemoveFinalizer K (Meta_v1 silence) legacySilenceFinalizer\<rparr>
         in case Kube_Update (client r) silence w of
              (Inl err, w) \<Rightarrow> ((silence, WithStack P (Some err)), w)
            | (Inr silence, w) \<Rightarrow> ((silence, None), w))
      else ((silence, None), w))"

definition reconcileCreate_v1 ::
  "errors_pkg \<Rightarrow> ('w, Time) Env \<Rightarrow> ('w, 'sel) SilenceReconciler \<Rightarrow> Silence_v1 \<Rightarrow> 'w
     \<Rightarrow> go_error option outcome \<times> 'w" where
  "reconcileCreate_v1 P E r silence w =
     (case getSilenceFromCR_v1 P silence of
        (_, Some err) \<Rightarrow> (Returns (WithStack P (Some err)), w)
      | (newSilence, None) \<Rightarrow>
          (let tenant = ExtractTenant (tenancyHelper r) (Meta_v1 silence)
           in case SyncSilence P E (silenceService r) newSilence tenant w of
                (Panics, w) \<Rightarrow> (Panics, w)
              | (Returns (Some err), w) \<Rightarrow> (Returns (WithStack P (Some err)), w)
              | (Returns None, w) \<Rightarrow> (Returns None, w)))"

definition reconcileDelete_v1 ::
  "errors_pkg \<Rightarrow> ('w, 'sel) SilenceReconciler \<Rightarrow> Silence_v1 \<Rightarrow> 'w \<Rightarrow> go_error option \<times> 'w" where
  "reconcileDelete_v1 P r silence w =
     (let tenant = ExtractTenant (tenancyHelper r) (Meta_v1 silence);
          comment = SilenceComment (Meta_v1 silence)
      in case DeleteSilence P (silenceService r) comment tenant w of
           (Some err, w) \<Rightarrow> (Wrapf P (Some err) ''failed to delete silence from Alertmanager'' [], w)
         | (None, w) \<Rightarrow> (None, w))"

text \<open>The end of both branches of \<open>Reconcile\<close>: the legacy finalizer goes, then the
  continuation runs on the object.\<close>

definition after_legacy_cleanup ::
  "errors_pkg \<Rightarrow> kube_lib \<Rightarrow> ('w, 'sel) SilenceReconciler \<Rightarrow> Silence_v1
     \<Rightarrow> (Silence_v1 \<Rightarrow> 'w \<Rightarrow> go_error option outcome \<times> 'w) \<Rightarrow> 'w \<Rightarrow> go_error option outcome \<times> 'w"
where
  "after_legacy_cleanup P K r silence k w =
     (case cleanUpLegacyFinalizer P K r silence w of
        ((_, Some err), w) \<Rightarrow> (Returns (WithStack P (Some err)), w)
      | ((silence, None), w) \<Rightarrow> k silence w)"

definition Reconcile_v1 ::
  "errors_pkg \<Rightarrow> kube_lib \<Rightarrow> ('w, Time) Env \<Rightarrow> ('w, 'sel) SilenceReconciler \<Rightarrow> NamespacedName \<Rightarrow> 'w
     \<Rightarrow> go_error option outcome \<times> 'w" where
  "Reconcile_v1 P K E r req w =
     (case Kube_Get (client r) req w of
        (Inl err, w) \<Rightarrow> (Returns (WithStack P (IgnoreNotFound K (Some err))), w)
      | (Inr silence, w) \<Rightarrow>
          if \<not> metaTime_IsZero K (DeletionTimestamp (Meta_v1 silence)) then
            (if ContainsFinalizer K (Meta_v1 silence) silenceFinalizer then
               (case reconcileDelete_v1 P r silence w of
                  (Some err, w) \<Rightarrow> (Returns (Some err), w)
                | (None, w) \<Rightarrow>
                    (case Kube_Update (client r)
                            (silence\<lparr>Meta_v1 := RemoveFinalizer K (Meta_v1 silence) silenceFinalizer\<rparr>) w of
                       (Inl err, w) \<Rightarrow> (Returns (WithStack P (Some err)), w)
                     | (Inr silence, w) \<Rightarrow>
                         after_legacy_cleanup P K r silence (\<lambda>_ w. (Returns None, w)) w))
             else after_legacy_cleanup P K r silence (\<lambda>_ w. (Returns None, w)) w)
          else if \<not> ContainsFinalizer K (Meta_v1 silence) silenceFinalizer then
            (case Kube_Update (client r)
                    (silence\<lparr>Meta_v1 := AddFinalizer K (Meta_v1 silence) silenceFinalizer\<rparr>) w of
               (Inl err, w) \<Rightarrow> (Returns (WithStack P (Some err)), w)
             | (Inr silence, w) \<Rightarrow> after_legacy_cleanup P K r silence (reconcileCreate_v1 P E r) w)
          else after_legacy_cleanup P K r silence (reconcileCreate_v1 P E r) w)"

end
