(* ===== verification/Controller_V2.thy ===== *)
theory Controller_V2
  imports Controller_V1
begin

section \<open>The controller of v1alpha2 silences\<close>

text \<open>
  \<open>internal/controller/silence_v2_controller.go\<close>.  As in the first controller, the Kubernetes
  client is a parameter; \<open>PD\<close> is \<open>str2duration.ParseDuration\<close>.
\<close>

definition FinalizerName :: string where
  "FinalizerName = ''observability.giantswarm.io/silence-protection''"

record ('w, 'sel) SilenceV2Reconciler =
  client_v2 :: "('w, Silence_v2) KubeClient"
  silenceService_v2 :: "'w SilenceService"
  tenancyHelper_v2 :: "'sel Helper"

definition NewSilenceV2Reconciler ::
  "('w, Silence_v2) KubeClient \<Rightarrow> 'w SilenceService \<Rightarrow> 'sel Helper \<Rightarrow> ('w, 'sel) SilenceV2Reconciler"
where
  "NewSilenceV2Reconciler c s h =
     \<lparr>client_v2 = c, silenceService_v2 = s, tenancyHelper_v2 = h\<rparr>"

text \<open>The switch over the match type: \<open>(isRegex, isEqual)\<close>, or \<open>None\<close> in the default case.\<close>

definition match_flags :: "MatchType_v2 \<Rightarrow> (bool \<times> bool) option" where
  "match_flags matchType =
     (if matchType = MatchEqual then Some (False, True)
      else if matchType = MatchNotEqual then Some (False, False)
      else if matchType = MatchRegexMatch then Some (True, True)
      else if matchType = MatchRegexNotMatch then Some (True, False)
      else None)"

fun convertMatchers_loop ::
  "errors_pkg \<Rightarrow> Matcher slice \<Rightarrow> SilenceMatcher_v2 list \<Rightarrow> Matcher slice \<times> go_error option" where
  "convertMatchers_loop P matchers [] = (matchers, None)"
| "convertMatchers_loop P matchers (matcher # rest) =
     (let matchType = (if MatchType matcher = '''' then MatchEqual else MatchType matcher)
      in case match_flags matchType of
           Some (isRegex, isEqual) \<Rightarrow>
             convertMatchers_loop P
               (slice_append matchers
                  \<lparr>IsRegex = isRegex, IsEqual = isEqual, Name = Name_v2 matcher, Value = Value_v2 matcher\<rparr>)
               rest
         | None \<Rightarrow> (None, Some (Errorf P ''unsupported match type: %s'' [FStr matchType])))"

definition convertMatchers ::
  "errors_pkg \<Rightarrow> SilenceMatcher_v2 slice \<Rightarrow> Matcher slice \<times> go_error option" where
  "convertMatchers P silenceMatchers = convertMatchers_loop P None (slice_elems silenceMatchers)"

definition calculateSilenceTimes ::
  "errors_pkg \<Rightarrow> (string \<Rightarrow> go_error + Duration) \<Rightarrow> Silence_v2 \<Rightarrow> (Time \<times> Time) \<times> go_error option" where
  "calculateSilenceTimes P PD silence =
     (let finish = (\<lambda>startsAt.
        case EndsAt_v2 (Spec_v2 silence) of
          Some e \<Rightarrow> ((startsAt, e), None)
        | None \<Rightarrow>
            (case DurationField_v2 (Spec_v2 silence) of
               Some sd \<Rightarrow>
                 (case Duration_v2 PD sd of
                    (_, Some err) \<Rightarrow> ((time_zero, time_zero), Some err)
                  | (d, None) \<Rightarrow> ((startsAt, time_Add startsAt d), None))
             | None \<Rightarrow>
                 (case SilenceEndsAt P (Meta_v2 silence) of
                    (_, Some err) \<Rightarrow> ((time_zero, time_zero), WithStack P (Some err))
                  | (endsAt, None) \<Rightarrow> ((startsAt, endsAt), None))))
      in case StartsAt_v2 (Spec_v2 silence) of
           Some t \<Rightarrow> finish t
         | None \<Rightarrow>
             (let startsAt = CreationTimestamp (Meta_v2 silence)
              in if IsZero startsAt
                 then ((time_zero, time_zero), Some (NewError P ''creationTimestamp is zero''))
                 else finish startsAt))"

definition getSilenceFromCR_v2 ::
  "errors_pkg \<Rightarrow> (string \<Rightarrow> go_error + Duration) \<Rightarrow> Silence_v2 \<Rightarrow> Silence option \<times> go_error option" where
  "getSilenceFromCR_v2 P PD silence =
     (case convertMatchers P (Matchers_v2 (Spec_v2 silence)) of
        (_, Some err) \<Rightarrow> (None, WithStack P (Some err))
      | (matchers, None) \<Rightarrow>
          (case calculateSilenceTimes P PD silence of
             (_, Some err) \<Rightarrow> (None, WithStack P (Some err))
           | ((startsAt, endsAt), None) \<Rightarrow>
               (Some \<lparr>Comment = SilenceComment (Meta_v2 silence),
                      CreatedBy = CreatedBy_operator,
                      EndsAt = endsAt,
                      ID = '''',
                      Matchers = matchers,
                      StartsAt = startsAt,
                      Status = None\<rparr>, None)))"

definition reconcileCreate_v2 ::
  "errors_pkg \<Rightarrow> (string \<Rightarrow> go_error + Duration) \<Rightarrow> ('w, Time) Env \<Rightarrow> ('w, 'sel) SilenceV2Reconciler
     \<Rightarrow> Silence_v2 \<Rightarrow> 'w \<Rightarrow> go_error option outcome \<times> 'w" where
  "reconcileCreate_v2 P PD E r silence w =
     (case getSilenceFromCR_v2 P PD silence of
        (_, Some err) \<Rightarrow> (Returns (WithStack P (Some err)), w)
      | (alertmanagerSilence, None) \<Rightarrow>
          (let tenant = ExtractTenant (tenancyHelper_v2 r) (Meta_v2 silence)
           in case SyncSilence P E (silenceService_v2 r) alertmanagerSilence tenant w of
                (Panics, w) \<Rightarrow> (Panics, w)
              | (Returns (Some err), w) \<Rightarrow> (Returns (Some err), w)
              | (Returns None, w) \<Rightarrow> (Returns None, w)))"

definition reconcileDelete_v2 ::
  "errors_pkg \<Rightarrow> ('w, 'sel) SilenceV2Reconciler \<Rightarrow> Silence_v2 \<Rightarrow> 'w \<Rightarrow> go_error option \<times> 'w" where
  "reconcileDelete_v2 P r silence w =
     (let tenant = ExtractTenant (tenancyHelper_v2 r) (Meta_v2 silence);
          comment = SilenceComment (Meta_v2 silence)
      in case DeleteSilence P (silenceService_v2 r) comment tenant w of
           (Some err, w) \<Rightarrow> (Wrapf P (Some err) ''failed to delete silence from Alertmanager'' [], w)
         | (None, w) \<Rightarrow> (None, w))"

definition Reconcile_v2 ::
  "errors_pkg \<Rightarrow> kube_lib \<Rightarrow> (string \<Rightarrow> go_error + Duration) \<Rightarrow> ('w, Time) Env
     \<Rightarrow> ('w, 'sel) SilenceV2Reconciler \<Rightarrow> NamespacedName \<Rightarrow> 'w \<Rightarrow> go_error option outcome \<times> 'w" where
  "Reconcile_v2 P K PD E r req w =
     (case Kube_Get (client_v2 r) req w of
        (Inl err, w) \<Rightarrow> (Returns (WithStack P (IgnoreNotFound K (Some err))), w)
      | (Inr silence, w) \<Rightarrow>
          if \<not> metaTime_IsZero K (DeletionTimestamp (Meta_v2 silence)) then
            (if ContainsFinalizer K (Meta_v2 silence) FinalizerName then
               (case reconcileDelete_v2 P r silence w of
                  (Some err, w) \<Rightarrow> (Returns (Some err), w)
                | (None, w) \<Rightarrow>
                    (case Kube_Update (client_v2 r)
                            (silence\<lparr>Meta_v2 := RemoveFinalizer K (Meta_v2 silence) FinalizerName\<rparr>) w of
                       (Inl err, w) \<Rightarrow> (Returns (WithStack P (Some err)), w)
                     | (Inr _, w) \<Rightarrow> (Returns None, w)))
             else (Returns None, w))
          else if \<not> ContainsFinalizer K (Meta_v2 silence) FinalizerName then
            (case Kube_Update (client_v2 r)
                    (silence\<lparr>Meta_v2 := AddFinalizer K (Meta_v2 silence) FinalizerName\<rparr>) w of
               (Inl err, w) \<Rightarrow> (Returns (WithStack P (Some err)), w)
             | (Inr silence, w) \<Rightarrow> reconcileCreate_v2 P PD E r silence w)
          else reconcileCreate_v2 P PD E r silence w)"

end
