(* ===== verification/Trace.thy ===== *)
theory Trace
  imports Controller_V2
begin

section \<open>Runs with a log of their effects\<close>

text \<open>
  \<open>traced_env\<close> and \<open>traced_kube\<close> are the environment and the Kubernetes client with a log
  beside the world: each request with its answer, each reading of the clock, each object read
  and each object written, in order.  The lemmas say which events an operation appends to the
  log; the safety properties of the controllers are about that log.
\<close>

datatype event =
    Request http_request "go_error + http_response"
  | Clock Time
  | Read NamespacedName bool
  | Write ObjectMeta bool

definition traced_env :: "('w, Time) Env \<Rightarrow> ('w \<times> event list, Time) Env" where
  "traced_env E = \<lparr>
     url_Parse_error = url_Parse_error E,
     http_Do = (\<lambda>req (w, tr). case http_Do E req w of (a, w) \<Rightarrow> (a, (w, tr @ [Request req a]))),
     time_Now = (\<lambda>(w, tr). case time_Now E w of (t, w) \<Rightarrow> (t, (w, tr @ [Clock t])))\<rparr>"

definition traced_kube ::
  "('obj \<Rightarrow> ObjectMeta) \<Rightarrow> ('w, 'obj) KubeClient \<Rightarrow> ('w \<times> event list, 'obj) KubeClient" where
  "traced_kube meta C = \<lparr>
     Kube_Get = (\<lambda>key (w, tr). case Kube_Get C key w of
        (a, w) \<Rightarrow> (a, (w, tr @ [Read key (\<not> isl a)]))),
     Kube_Update = (\<lambda>obj (w, tr). case Kube_Update C obj w of
        (a, w) \<Rightarrow> (a, (w, tr @ [Write (meta obj) (\<not> isl a)])))\<rparr>"

lemma traced_env_sel [simp]:
  "url_Parse_error (traced_env E) = url_Parse_error E"
  "http_Do (traced_env E) req (w, tr) =
     (case http_Do E req w of (a, w) \<Rightarrow> (a, (w, tr @ [Request req a])))"
  "time_Now (traced_env E) (w, tr) = (case time_Now E w of (t, w) \<Rightarrow> (t, (w, tr @ [Clock t])))"
  by (simp_all add: traced_env_def)

lemma traced_kube_sel [simp]:
  "Kube_Get (traced_kube meta C) key (w, tr) =
     (case Kube_Get C key w of (a, w) \<Rightarrow> (a, (w, tr @ [Read key (\<not> isl a)])))"
  "Kube_Update (traced_kube meta C) obj (w, tr) =
     (case Kube_Update C obj w of (a, w) \<Rightarrow> (a, (w, tr @ [Write (meta obj) (\<not> isl a)])))"
  by (simp_all add: traced_kube_def)

lemma http_NewRequest_traced [simp]: "http_NewRequest (traced_env E) = http_NewRequest E"
  by (intro ext) (simp add: http_NewRequest_def)

lemma NewRequest_traced [simp]: "NewRequest (traced_env E) = NewRequest E"
  by (intro ext) (simp add: NewRequest_def)

subsection \<open>Requests of the client\<close>

text \<open>The tenant a request is sent for, and the header that carries it.\<close>

definition effective_tenant :: "Alertmanager \<Rightarrow> string \<Rightarrow> string" where
  "effective_tenant am tenant = (if tenant \<noteq> '''' then tenant else tenantId am)"

definition well_addressed :: "Alertmanager \<Rightarrow> string \<Rightarrow> http_request \<Rightarrow> bool" where
  "well_addressed am tenant req \<longleftrightarrow>
     Header_Values req ''X-Scope-OrgID'' =
       (if effective_tenant am tenant = '''' then [] else [effective_tenant am tenant]) \<and>
     Header_Values req ''Authorization'' =
       (if authentication am then [''Bearer '' @ token am] else [])"

lemma NewRequest_fields:
  assumes "NewRequest E am method url body tenant = Inr req"
  shows "Method req = method" "URL req = url" "Body req = body"
    "Header_Values req ''X-Scope-OrgID'' =
       (if effective_tenant am tenant = '''' then [] else [effective_tenant am tenant])"
    "Header_Values req ''Authorization'' = []"
  using assms
  by (auto simp: NewRequest_def http_NewRequest_def Let_def effective_tenant_def Header_Values_Add
      split: option.splits if_splits)

lemma well_addressed_request:
  assumes "NewRequest E am method url body tenant = Inr req"
  shows "well_addressed am tenant (authorize am req)"
    "well_addressed am tenant (authorize am (Header_Add ''Content-Type'' v req))"
  using NewRequest_fields(4,5) [OF assms]
  by (simp_all add: well_addressed_def authorize_def Header_Values_Add)

subsection \<open>What an operation appends to the log\<close>

text \<open>Events that only the client of one tenant causes; requests that change Alertmanager.\<close>

fun client_event :: "Alertmanager \<Rightarrow> string \<Rightarrow> event \<Rightarrow> bool" where
  "client_event am tenant (Request req _) = well_addressed am tenant req"
| "client_event am tenant (Clock _) = True"
| "client_event am tenant _ = False"

fun mutating :: "event \<Rightarrow> bool" where
  "mutating (Request req _) = (Method req \<noteq> ''GET'')"
| "mutating _ = False"

definition mutations :: "event list \<Rightarrow> event list" where
  "mutations = filter mutating"

lemma mutations_simps [simp]:
  "mutations [] = []" "mutations (xs @ ys) = mutations xs @ mutations ys"
  "mutations (e # xs) = (if mutating e then e # mutations xs else mutations xs)"
  by (simp_all add: mutations_def)

definition appends :: "(event list \<Rightarrow> bool) \<Rightarrow> event list \<Rightarrow> event list \<Rightarrow> bool" where
  "appends Q tr tr' \<longleftrightarrow> (\<exists>evs. tr' = tr @ evs \<and> Q evs)"

lemma appendsI: "Q evs \<Longrightarrow> appends Q tr (tr @ evs)"
  by (auto simp: appends_def)

lemma appends_refl: "Q [] \<Longrightarrow> appends Q tr tr"
  by (auto simp: appends_def)

lemma appends_trans:
  assumes "appends Q tr tr'" "appends R tr' tr''" "\<And>xs ys. Q xs \<Longrightarrow> R ys \<Longrightarrow> S (xs @ ys)"
  shows "appends S tr tr''"
  using assms by (force simp: appends_def)

lemma appends_mono: "appends Q tr tr' \<Longrightarrow> (\<And>xs. Q xs \<Longrightarrow> R xs) \<Longrightarrow> appends R tr tr'"
  by (auto simp: appends_def)

definition quiet :: "Alertmanager \<Rightarrow> string \<Rightarrow> event list \<Rightarrow> bool" where
  "quiet am tenant evs \<longleftrightarrow> list_all (client_event am tenant) evs \<and> mutations evs = []"

definition one_change :: "Alertmanager \<Rightarrow> string \<Rightarrow> event list \<Rightarrow> bool" where
  "one_change am tenant evs \<longleftrightarrow>
     list_all (client_event am tenant) evs \<and> length (mutations evs) \<le> 1"

lemma one_change_cases [simp]:
  "quiet am tenant []" "one_change am tenant []"
  "quiet am tenant xs \<Longrightarrow> one_change am tenant xs"
  by (simp_all add: quiet_def one_change_def)

lemma quiet_append:
  "quiet am tenant xs \<Longrightarrow> quiet am tenant ys \<Longrightarrow> quiet am tenant (xs @ ys)"
  "quiet am tenant xs \<Longrightarrow> one_change am tenant ys \<Longrightarrow> one_change am tenant (xs @ ys)"
  by (simp_all add: quiet_def one_change_def)

lemma quiet_then:
  "\<lbrakk>appends (quiet am tenant) tr tr'; appends (one_change am tenant) tr' tr''\<rbrakk>
     \<Longrightarrow> appends (one_change am tenant) tr tr''"
  "\<lbrakk>appends (quiet am tenant) tr tr'; appends (quiet am tenant) tr' tr''\<rbrakk>
     \<Longrightarrow> appends (quiet am tenant) tr tr''"
  by (erule (1) appends_trans, erule (1) quiet_append)+

lemma ListSilences_trace:
  assumes "ListSilences P (traced_env E) am tenant (w, tr) = (r, (w', tr'))"
  shows "appends (quiet am tenant) tr tr'"
  using assms well_addressed_request(1) [of E am _ _ _ tenant] NewRequest_fields(1) [of E am]
  by (auto simp: ListSilences_def quiet_def intro!: appends_refl appendsI
      split: sum.splits prod.splits)

lemma GetSilenceByComment_trace:
  assumes "GetSilenceByComment P (traced_env E) am c tenant (w, tr) = (r, (w', tr'))"
  shows "appends (quiet am tenant) tr tr'"
  using assms
  by (auto simp: GetSilenceByComment_def split: prod.splits option.splits
      dest: ListSilences_trace)

lemma CreateSilence_trace:
  assumes "CreateSilence P (traced_env E) am s tenant (w, tr) = (r, (w', tr'))"
  shows "appends (one_change am tenant) tr tr'"
  using assms well_addressed_request(2) [of E am _ _ _ tenant] NewRequest_fields(1) [of E am]
  by (auto simp: CreateSilence_def one_change_def intro!: appends_refl appendsI
      split: sum.splits prod.splits if_splits)

lemma UpdateSilence_trace:
  assumes "UpdateSilence P (traced_env E) am s tenant (w, tr) = (r, (w', tr'))"
  shows "appends (one_change am tenant) tr tr'"
  using assms by (auto simp: UpdateSilence_def intro: appends_refl CreateSilence_trace split: if_splits)

lemma DeleteSilenceByID_trace:
  assumes "DeleteSilenceByID P (traced_env E) am i tenant (w, tr) = (r, (w', tr'))"
  shows "appends (one_change am tenant) tr tr'"
  using assms well_addressed_request(2) [of E am _ _ _ tenant] NewRequest_fields(1) [of E am]
  by (auto simp: DeleteSilenceByID_def one_change_def Let_def intro!: appends_refl appendsI
      split: sum.splits prod.splits if_splits)

lemma DeleteSilenceByComment_trace:
  assumes "DeleteSilenceByComment P (traced_env E) am c tenant (w, tr) = (r, (w', tr'))"
  shows "appends (one_change am tenant) tr tr'"
  using assms
  by (auto simp: DeleteSilenceByComment_def split: prod.splits option.splits
      dest: ListSilences_trace DeleteSilenceByID_trace
      intro: appends_mono [where Q = "quiet am tenant"] quiet_then)

lemmas client_traces = ListSilences_trace GetSilenceByComment_trace CreateSilence_trace
  UpdateSilence_trace DeleteSilenceByID_trace DeleteSilenceByComment_trace

end
