(* ===== verification/Log_Safety.thy ===== *)
theory Log_Safety
  imports Trace
begin

section \<open>Safety of the controllers, on their logs\<close>

text \<open>
  The service and the two controllers over the traced environment: which events one call of
  \<open>Reconcile\<close> causes and in which order.
\<close>

subsection \<open>The service\<close>

definition traced_service ::
  "errors_pkg \<Rightarrow> ('w, Time) Env \<Rightarrow> Alertmanager \<Rightarrow> ('w \<times> event list) SilenceService" where
  "traced_service P E am = NewSilenceService (Alertmanager_Client P (traced_env E) am)"

lemma alertmanager_traced_service [simp]:
  "alertmanager (traced_service P E am) = Alertmanager_Client P (traced_env E) am"
  by (simp add: traced_service_def NewSilenceService_def)

text \<open>The network never returns the package's own sentinel \<open>ErrSilenceNotFound\<close>.\<close>

definition env_ok :: "('w, Time) Env \<Rightarrow> bool" where
  "env_ok E \<longleftrightarrow>
     (\<forall>u e. url_Parse_error E u = Some e \<longrightarrow> \<not> errors_Is e ErrSilenceNotFound) \<and>
     (\<forall>req w. case fst (http_Do E req w) of
        Inl e \<Rightarrow> \<not> errors_Is e ErrSilenceNotFound
      | Inr resp \<Rightarrow> (case RespBody resp of Inl e \<Rightarrow> \<not> errors_Is e ErrSilenceNotFound | Inr _ \<Rightarrow> True))"

lemma env_ok_url: "env_ok E \<Longrightarrow> url_Parse_error E u = Some e \<Longrightarrow> \<not> errors_Is e ErrSilenceNotFound"
  by (simp add: env_ok_def)

lemma env_ok_do:
  "env_ok E \<Longrightarrow> http_Do E req w = (Inl e, w') \<Longrightarrow> \<not> errors_Is e ErrSilenceNotFound"
  "env_ok E \<Longrightarrow> http_Do E req w = (Inr resp, w') \<Longrightarrow> RespBody resp = Inl e
     \<Longrightarrow> \<not> errors_Is e ErrSilenceNotFound"
  unfolding env_ok_def by (metis fst_conv sum.simps(5) sum.simps(6))+

lemma env_ok_request:
  "env_ok E \<Longrightarrow> NewRequest E am m u b t = Inl e \<Longrightarrow> \<not> errors_Is e ErrSilenceNotFound"
  by (auto simp: NewRequest_def http_NewRequest_def Let_def dest: env_ok_url
      split: sum.splits option.splits)

lemma json_Unmarshal_error: "json_Unmarshal b = Inl e \<Longrightarrow> \<not> errors_Is e ErrSilenceNotFound"
  by (auto simp: json_Unmarshal_def UnmarshalError_def ErrSilenceNotFound_def split: option.splits)

lemma traced_env_ok [simp]: "env_ok (traced_env E) = env_ok E"
  by (simp add: env_ok_def traced_env_def split_beta)

lemma SyncSilence_trace:
  assumes "SyncSilence P (traced_env E) (traced_service P E am) s tenant (w, tr) = (r, (w', tr'))"
  shows "appends (one_change am tenant) tr tr'"
proof -
  obtain now w1 where now: "time_Now E w = (now, w1)" by (cases "time_Now E w")
  have clock: "appends (quiet am tenant) tr (tr @ [Clock now])"
    by (rule appendsI) (simp add: quiet_def)
  show ?thesis
  proof (cases s)
    case None
    with assms now clock show ?thesis
      by (auto simp: SyncSilence_def intro: appends_mono [where Q = "quiet am tenant"])
  next
    case (Some new)
    obtain ex e w2 tr2 where get: "GetSilenceByComment P (traced_env E) am (Comment new) tenant
        (w1, tr @ [Clock now]) = ((ex, e), (w2, tr2))"
      by (metis prod.exhaust)
    have q: "appends (quiet am tenant) tr tr2"
      by (rule quiet_then(2) [OF clock GetSilenceByComment_trace [OF get]])
    have step: "appends (one_change am tenant) tr2 tr3 \<Longrightarrow> appends (one_change am tenant) tr tr3"
      for tr3
      by (rule quiet_then(1) [OF q])
    have stay: "appends (one_change am tenant) tr tr2"
      by (rule appends_mono [OF q]) simp
    show ?thesis
      using assms now get Some stay
      by (auto simp: SyncSilence_def split: if_splits option.splits prod.splits
          intro!: step dest: client_traces)
  qed
qed

lemma DeleteSilence_trace:
  assumes "DeleteSilence P (traced_service P E am) c tenant (w, tr) = (r, (w', tr'))"
  shows "appends (one_change am tenant) tr tr'"
  using assms by (auto simp: DeleteSilence_def split: prod.splits if_splits dest: client_traces)

subsection \<open>When a deletion succeeded\<close>

text \<open>The silences of a successful listing; an answered request that deletes \<open>i\<close>.\<close>

fun listed :: "Alertmanager \<Rightarrow> event \<Rightarrow> Silence list option" where
  "listed am (Request req (Inr resp)) =
     (if Method req = ''GET'' \<and> URL req = address am @ apiV2SilencesPath then
        (case RespBody resp of
           Inl _ \<Rightarrow> None
         | Inr body \<Rightarrow>
             (case json_Unmarshal body of Inl _ \<Rightarrow> None | Inr ss \<Rightarrow> Some (slice_elems ss)))
      else None)"
| "listed am _ = None"

fun answered_delete :: "Alertmanager \<Rightarrow> string \<Rightarrow> event \<Rightarrow> bool" where
  "answered_delete am i (Request req (Inr resp)) \<longleftrightarrow>
     Method req = ''DELETE'' \<and> URL req = address am @ apiV2SilencePath @ ''/'' @ PathEscape i"
| "answered_delete am i _ \<longleftrightarrow> False"

definition owned :: "string \<Rightarrow> Silence \<Rightarrow> bool" where
  "owned comment s \<longleftrightarrow> not_expired s \<and> Comment s = comment \<and> CreatedBy s = CreatedBy_operator"

text \<open>The log of a deletion that returned nil: a listing without an active silence of the
  operator under the comment, or a listing with one and the answered request that deletes it.\<close>

definition cleared :: "Alertmanager \<Rightarrow> string \<Rightarrow> event list \<Rightarrow> bool" where
  "cleared am comment evs \<longleftrightarrow>
     (case evs of
        [] \<Rightarrow> False
      | l # rest \<Rightarrow>
          (case listed am l of
             None \<Rightarrow> False
           | Some ss \<Rightarrow>
               (case List.find (owned comment) ss of
                  None \<Rightarrow> rest = []
                | Some s \<Rightarrow> (case rest of [d] \<Rightarrow> answered_delete am (ID s) d | _ \<Rightarrow> False))))"

lemma ListSilences_ok_log:
  assumes "errors_pkg_ok P"
    and "ListSilences P (traced_env E) am tenant (w, tr) = ((ss, None), (w', tr'))"
  shows "\<exists>l all. tr' = tr @ [l] \<and> listed am l = Some all \<and> slice_elems ss = filter not_expired all"
  using assms NewRequest_fields(1,2) [of E am]
  by (auto simp: ListSilences_def err_simps split: sum.splits prod.splits)

lemma WithStack_not_found:
  "\<lbrakk>errors_pkg_ok P; WithStack P (Some x) = Some e\<rbrakk>
     \<Longrightarrow> errors_Is e ErrSilenceNotFound = errors_Is x ErrSilenceNotFound"
  using errors_pkg_is(1) [of P "Some x"] by (simp add: ErrSilenceNotFound_def)

lemma ListSilences_error_log:
  assumes "errors_pkg_ok P" "env_ok E"
    and "ListSilences P E am tenant w = ((ss, Some e), w')"
  shows "\<not> errors_Is e ErrSilenceNotFound"
  using assms
  by (auto simp: ListSilences_def split: sum.splits prod.splits
      dest: WithStack_not_found env_ok_request env_ok_do json_Unmarshal_error)

lemma find_owned:
  "List.find (\<lambda>s. Comment s = c \<and> CreatedBy s = CreatedBy_operator) (filter not_expired ss)
     = List.find (owned c) ss"
  by (simp add: find_filter owned_def [abs_def])

lemma DeleteSilenceByID_nil_log:
  assumes "errors_pkg_ok P"
    and "DeleteSilenceByID P (traced_env E) am i tenant (w, tr) = (None, (w', tr'))"
  shows "\<exists>d. tr' = tr @ [d] \<and> answered_delete am i d"
  using assms NewRequest_fields(1,2) [of E am]
  by (auto simp: DeleteSilenceByID_def Let_def err_simps split: sum.splits prod.splits if_splits)

lemma DeleteSilenceByID_not_found:
  assumes "errors_pkg_ok P" "env_ok E"
    and "DeleteSilenceByID P E am i tenant w = (Some e, w')"
  shows "\<not> errors_Is e ErrSilenceNotFound"
  using assms
  by (auto simp: DeleteSilenceByID_def Let_def split: sum.splits prod.splits if_splits
      dest: WithStack_not_found env_ok_request env_ok_do)

lemma DeleteSilence_nil_log:
  assumes P: "errors_pkg_ok P" and E: "env_ok E"
    and del: "DeleteSilence P (traced_service P E am) c tenant (w, tr) = (None, (w', tr'))"
  shows "appends (cleared am c) tr tr'"
proof -
  obtain ss e w1 tr1 where ls: "ListSilences P (traced_env E) am tenant (w, tr) = ((ss, e), (w1, tr1))"
    by (metis prod.exhaust)
  show ?thesis
  proof (cases e)
    case (Some x)
    then have "\<not> errors_Is x ErrSilenceNotFound"
      using ListSilences_error_log [OF P _ ls [unfolded Some]] E by simp
    then have "\<not> errors_Is_opt (WithStack P (Some x)) ErrSilenceNotFound"
      using P by (simp add: ErrSilenceNotFound_def err_simps)
    with del ls Some P show ?thesis
      by (auto simp: DeleteSilence_def DeleteSilenceByComment_def err_simps split: if_splits)
  next
    case None
    obtain l all where l: "tr1 = tr @ [l]" "listed am l = Some all"
      "slice_elems ss = filter not_expired all"
      using ListSilences_ok_log [OF P ls [unfolded None]] by blast
    show ?thesis
    proof (cases "List.find (owned c) all")
      case None
      with del ls \<open>e = None\<close> l P have "tr' = tr @ [l]"
        by (auto simp: DeleteSilence_def DeleteSilenceByComment_def find_owned split: if_splits)
      then show ?thesis
        using l None by (auto simp: cleared_def intro!: appendsI)
    next
      case (Some s)
      obtain e2 w2 tr2 where d: "DeleteSilenceByID P (traced_env E) am (ID s) tenant (w1, tr1)
          = (e2, (w2, tr2))"
        by (metis prod.exhaust)
      have "e2 = None"
      proof (rule ccontr)
        assume "e2 \<noteq> None"
        then obtain x where x: "e2 = Some x" by blast
        then have "\<not> errors_Is x ErrSilenceNotFound"
          using DeleteSilenceByID_not_found [OF P _ d [unfolded x]] E by simp
        with del ls \<open>e = None\<close> l Some d x P show False
          by (auto simp: DeleteSilence_def DeleteSilenceByComment_def find_owned err_simps
              split: if_splits)
      qed
      with del ls \<open>e = None\<close> l Some d have "tr' = tr2"
        by (auto simp: DeleteSilence_def DeleteSilenceByComment_def find_owned)
      moreover obtain dd where "tr2 = tr1 @ [dd]" "answered_delete am (ID s) dd"
        using DeleteSilenceByID_nil_log [OF P d [unfolded \<open>e2 = None\<close>]] by blast
      ultimately show ?thesis
        using l Some by (auto simp: cleared_def appends_def)
    qed
  qed
qed

subsection \<open>The controllers\<close>

text \<open>Both controllers as \<open>cmd/main.go\<close> wires them, over the traced clients.\<close>

definition traced_v1 ::
  "errors_pkg \<Rightarrow> ('w, Time) Env \<Rightarrow> ('w, Silence_v1) KubeClient \<Rightarrow> Alertmanager \<Rightarrow> 'sel Helper
     \<Rightarrow> ('w \<times> event list, 'sel) SilenceReconciler" where
  "traced_v1 P E C am h = NewSilenceReconciler (traced_kube Meta_v1 C) (traced_service P E am) h"

definition traced_v2 ::
  "errors_pkg \<Rightarrow> ('w, Time) Env \<Rightarrow> ('w, Silence_v2) KubeClient \<Rightarrow> Alertmanager \<Rightarrow> 'sel Helper
     \<Rightarrow> ('w \<times> event list, 'sel) SilenceV2Reconciler" where
  "traced_v2 P E C am h = NewSilenceV2Reconciler (traced_kube Meta_v2 C) (traced_service P E am) h"

lemma traced_v1_sel [simp]:
  "client (traced_v1 P E C am h) = traced_kube Meta_v1 C"
  "silenceService (traced_v1 P E C am h) = traced_service P E am"
  "tenancyHelper (traced_v1 P E C am h) = h"
  by (simp_all add: traced_v1_def NewSilenceReconciler_def)

lemma traced_v2_sel [simp]:
  "client_v2 (traced_v2 P E C am h) = traced_kube Meta_v2 C"
  "silenceService_v2 (traced_v2 P E C am h) = traced_service P E am"
  "tenancyHelper_v2 (traced_v2 P E C am h) = h"
  by (simp_all add: traced_v2_def NewSilenceV2Reconciler_def)

lemma reconcileCreate_v2_trace:
  assumes "reconcileCreate_v2 P PD (traced_env E) (traced_v2 P E C am h) obj (w, tr) = (r, (w', tr'))"
  shows "appends (one_change am (ExtractTenant h (Meta_v2 obj))) tr tr'"
  using assms
  by (auto simp: reconcileCreate_v2_def Let_def intro: appends_refl dest: SyncSilence_trace
      split: prod.splits option.splits outcome.splits)

lemma reconcileDelete_v2_trace:
  assumes "reconcileDelete_v2 P (traced_v2 P E C am h) obj (w, tr) = (r, (w', tr'))"
  shows "appends (one_change am (ExtractTenant h (Meta_v2 obj))) tr tr'"
  using assms
  by (auto simp: reconcileDelete_v2_def Let_def dest: DeleteSilence_trace
      split: prod.splits option.splits)

lemma reconcileDelete_v2_nil_log:
  assumes "errors_pkg_ok P" "env_ok E"
    and "reconcileDelete_v2 P (traced_v2 P E C am h) obj (w, tr) = (None, (w', tr'))"
  shows "appends (cleared am (SilenceComment (Meta_v2 obj))) tr tr'"
  using assms
  by (auto simp: reconcileDelete_v2_def Let_def err_simps dest: DeleteSilence_nil_log
      split: prod.splits option.splits)

lemma reconcileCreate_v1_trace:
  assumes "reconcileCreate_v1 P (traced_env E) (traced_v1 P E C am h) obj (w, tr) = (r, (w', tr'))"
  shows "appends (one_change am (ExtractTenant h (Meta_v1 obj))) tr tr'"
  using assms
  by (auto simp: reconcileCreate_v1_def Let_def intro: appends_refl dest: SyncSilence_trace
      split: prod.splits option.splits outcome.splits)

lemma reconcileDelete_v1_trace:
  assumes "reconcileDelete_v1 P (traced_v1 P E C am h) obj (w, tr) = (r, (w', tr'))"
  shows "appends (one_change am (ExtractTenant h (Meta_v1 obj))) tr tr'"
  using assms
  by (auto simp: reconcileDelete_v1_def Let_def dest: DeleteSilence_trace
      split: prod.splits option.splits)

lemma reconcileDelete_v1_nil_log:
  assumes "errors_pkg_ok P" "env_ok E"
    and "reconcileDelete_v1 P (traced_v1 P E C am h) obj (w, tr) = (None, (w', tr'))"
  shows "appends (cleared am (SilenceComment (Meta_v1 obj))) tr tr'"
  using assms
  by (auto simp: reconcileDelete_v1_def Let_def err_simps dest: DeleteSilence_nil_log
      split: prod.splits option.splits)

text \<open>The client's events never touch a Kubernetes object.\<close>

lemma one_change_no_write: "one_change am t evs \<Longrightarrow> Write m b \<notin> set evs"
  "one_change am t evs \<Longrightarrow> Read k b \<notin> set evs"
  by (auto simp: one_change_def list_all_iff)

end
