(* ===== verification/Protocol.thy ===== *)
theory Protocol
  imports Log_Safety
begin

section \<open>The finalizer protocol\<close>

text \<open>
  What both controllers promise, as one abstract description of the log of a call of
  \<open>Reconcile\<close> (\<open>protocol\<close>), with the safety properties proved from it once, in the locale
  \<open>finalizer_protocol\<close>.  The two controllers are interpretations: the first with a legacy
  finalizer to clean up, the second without.
\<close>

definition deleting :: "kube_lib \<Rightarrow> ObjectMeta \<Rightarrow> bool" where
  "deleting K m \<longleftrightarrow> \<not> metaTime_IsZero K (DeletionTimestamp m)"

text \<open>The metadata of the objects that the API server returns.\<close>

definition returned :: "('obj \<Rightarrow> ObjectMeta) \<Rightarrow> ('w, 'obj) KubeClient \<Rightarrow> ObjectMeta \<Rightarrow> bool" where
  "returned meta C m \<longleftrightarrow>
     (\<exists>k w obj. fst (Kube_Get C k w) = Inr obj \<and> meta obj = m) \<or>
     (\<exists>a w obj. fst (Kube_Update C a w) = Inr obj \<and> meta obj = m)"

text \<open>The removal of a legacy finalizer: the log, and the object afterwards unless it failed.\<close>

definition legacy_cleanup ::
  "kube_lib \<Rightarrow> string option \<Rightarrow> (ObjectMeta \<Rightarrow> bool) \<Rightarrow> ObjectMeta \<Rightarrow> event list
     \<Rightarrow> ObjectMeta option \<Rightarrow> bool" where
  "legacy_cleanup K L srv m lw res \<longleftrightarrow>
     (case L of
        None \<Rightarrow> lw = [] \<and> res = Some m
      | Some l \<Rightarrow>
          if ContainsFinalizer K m l then
            lw = [Write (RemoveFinalizer K m l) (res \<noteq> None)] \<and> pred_option srv res
          else lw = [] \<and> res = Some m)"

definition after_cleanup ::
  "Alertmanager \<Rightarrow> (ObjectMeta \<Rightarrow> string) \<Rightarrow> ObjectMeta option \<Rightarrow> event list \<Rightarrow> bool" where
  "after_cleanup am tenant res evs \<longleftrightarrow>
     (case res of None \<Rightarrow> evs = [] | Some m \<Rightarrow> one_change am (tenant m) evs)"

inductive protocol ::
  "kube_lib \<Rightarrow> Alertmanager \<Rightarrow> (ObjectMeta \<Rightarrow> string) \<Rightarrow> string \<Rightarrow> string option
     \<Rightarrow> (ObjectMeta \<Rightarrow> bool) \<Rightarrow> NamespacedName \<Rightarrow> ObjectMeta option \<Rightarrow> event list \<Rightarrow> bool"
  for K am tenant fin L srv k
where
  read_failed: "protocol K am tenant fin L srv k None [Read k False]"
| delete_skipped:
    "\<lbrakk>deleting K m; \<not> ContainsFinalizer K m fin; legacy_cleanup K L srv m lw res\<rbrakk>
     \<Longrightarrow> protocol K am tenant fin L srv k (Some m) (Read k True # lw)"
| delete_failed:
    "\<lbrakk>deleting K m; ContainsFinalizer K m fin; one_change am (tenant m) evs\<rbrakk>
     \<Longrightarrow> protocol K am tenant fin L srv k (Some m) (Read k True # evs)"
| removal_failed:
    "\<lbrakk>deleting K m; ContainsFinalizer K m fin; one_change am (tenant m) evs;
      cleared am (SilenceComment m) evs\<rbrakk>
     \<Longrightarrow> protocol K am tenant fin L srv k (Some m)
           (Read k True # evs @ [Write (RemoveFinalizer K m fin) False])"
| removed:
    "\<lbrakk>deleting K m; ContainsFinalizer K m fin; one_change am (tenant m) evs;
      cleared am (SilenceComment m) evs; srv m'; legacy_cleanup K L srv m' lw res\<rbrakk>
     \<Longrightarrow> protocol K am tenant fin L srv k (Some m)
           (Read k True # evs @ Write (RemoveFinalizer K m fin) True # lw)"
| addition_failed:
    "\<lbrakk>\<not> deleting K m; \<not> ContainsFinalizer K m fin\<rbrakk>
     \<Longrightarrow> protocol K am tenant fin L srv k (Some m)
           [Read k True, Write (AddFinalizer K m fin) False]"
| added:
    "\<lbrakk>\<not> deleting K m; \<not> ContainsFinalizer K m fin; srv m'; legacy_cleanup K L srv m' lw res;
      after_cleanup am tenant res evs\<rbrakk>
     \<Longrightarrow> protocol K am tenant fin L srv k (Some m)
           (Read k True # Write (AddFinalizer K m fin) True # lw @ evs)"
| kept:
    "\<lbrakk>\<not> deleting K m; ContainsFinalizer K m fin; legacy_cleanup K L srv m lw res;
      after_cleanup am tenant res evs\<rbrakk>
     \<Longrightarrow> protocol K am tenant fin L srv k (Some m) (Read k True # lw @ evs)"

inductive_simps protocol_None: "protocol K am tenant fin L srv k None tr"

lemma legacy_cleanup_log:
  assumes "legacy_cleanup K L srv m lw res"
  shows "mutations lw = []" "Request q a \<notin> set lw"
    "res = Some m' \<Longrightarrow> m' = m \<or> srv m'"
    "Write x b \<in> set lw \<Longrightarrow> \<exists>l. L = Some l \<and> x = RemoveFinalizer K m l"
  using assms by (auto simp: legacy_cleanup_def split: option.splits if_splits)

lemma after_cleanup_log:
  assumes "after_cleanup am tenant res evs"
  shows "length (mutations evs) \<le> Suc 0" "Write x b \<notin> set evs"
    "Request q a \<in> set evs \<Longrightarrow> \<exists>m. res = Some m \<and> well_addressed am (tenant m) q"
  using assms
  by (auto simp: after_cleanup_def one_change_def list_all_iff split: option.splits)

lemma one_change_log:
  assumes "one_change am t evs"
  shows "length (mutations evs) \<le> Suc 0" "Request q a \<in> set evs \<Longrightarrow> well_addressed am t q"
  using assms by (auto simp: one_change_def list_all_iff)

subsection \<open>The contract of a controller\<close>

text \<open>\<open>read k w\<close> is the metadata the API server answers for the key, \<open>runs k w tr\<close> that a call of
  \<open>Reconcile\<close> leaves the log \<open>tr\<close>, and \<open>ok\<close> the documented behaviour of the libraries.\<close>

locale finalizer_protocol =
  fixes K :: kube_lib and am :: Alertmanager and tenant :: "ObjectMeta \<Rightarrow> string"
    and fin :: string and L :: "string option" and srv :: "ObjectMeta \<Rightarrow> bool"
    and read :: "NamespacedName \<Rightarrow> 'w \<Rightarrow> ObjectMeta option"
    and runs :: "NamespacedName \<Rightarrow> 'w \<Rightarrow> event list \<Rightarrow> bool"
    and ok :: bool
  assumes fin_not_legacy: "L \<noteq> Some fin"
    and ok_kube: "ok \<Longrightarrow> kube_lib_ok K"
    and read_srv: "read k w = Some m \<Longrightarrow> srv m"
    and runs_protocol: "\<lbrakk>ok; runs k w tr\<rbrakk> \<Longrightarrow> protocol K am tenant fin L srv k (read k w) tr"
begin

text \<open>The finalizer is dropped only after the silence is cleared from Alertmanager.\<close>

lemma removal_after_clearing:
  assumes ok: "ok" and run: "runs k w tr" and m: "read k w = Some m"
    and fin: "fin \<in> set (Finalizers m)"
    and drop: "Write x b \<in> set tr" "fin \<notin> set (Finalizers x)"
  shows "deleting K m \<and> (\<exists>evs b' rest. cleared am (SilenceComment m) evs \<and>
      tr = Read k True # evs @ Write (RemoveFinalizer K m fin) b' # rest)"
proof -
  note K = kube_finalizers [OF ok_kube [OF ok]]
  have keeps: "fin \<in> set (Finalizers (RemoveFinalizer K m l))" if "L = Some l" for l
    using that fin fin_not_legacy by (auto simp: K)
  from runs_protocol [OF ok run] m have "protocol K am tenant fin L srv k (Some m) tr" by simp
  then show ?thesis
  proof (cases rule: protocol.cases)
    case (kept lw res evs)
    have "Write x b \<in> set lw" using drop(1) kept(1) after_cleanup_log(2) [OF kept(5)] by auto
    from legacy_cleanup_log(4) [OF kept(4) this] keeps drop(2) show ?thesis by auto
  qed (use drop fin in \<open>auto simp: K dest: one_change_no_write\<close>)
qed

text \<open>On an object that lives, Alertmanager is changed only once the finalizer is stored.\<close>

lemma change_after_finalizer:
  assumes ok: "ok" and run: "runs k w tr" and m: "read k w = Some m" and live: "\<not> deleting K m"
    and e: "e \<in> set tr" "mutating e"
  shows "fin \<in> set (Finalizers m) \<or>
    (\<exists>pre post. tr = pre @ Write (AddFinalizer K m fin) True # post \<and> e \<in> set post \<and>
       mutations pre = [] \<and> fin \<in> set (Finalizers (AddFinalizer K m fin)))"
proof -
  note K = kube_finalizers [OF ok_kube [OF ok]]
  from runs_protocol [OF ok run] m have "protocol K am tenant fin L srv k (Some m) tr" by simp
  then show ?thesis
  proof (cases rule: protocol.cases)
    case (added m' lw res evs)
    then have "tr = [Read k True] @ Write (AddFinalizer K m fin) True # (lw @ evs)" by simp
    moreover have "e \<in> set (lw @ evs)" using added e by auto
    moreover have "mutations [Read k True] = []" "fin \<in> set (Finalizers (AddFinalizer K m fin))"
      by (simp_all add: K)
    ultimately show ?thesis by blast
  qed (use live e in \<open>auto simp: K\<close>)
qed

text \<open>One call changes Alertmanager at most once, and talks for one tenant only.\<close>

lemma at_most_one_change:
  assumes ok: "ok" and run: "runs k w tr"
  shows "length (mutations tr) \<le> 1"
proof (cases "read k w")
  case None
  with runs_protocol [OF ok run] show ?thesis by (simp add: protocol_None)
next
  case (Some m)
  with runs_protocol [OF ok run] have "protocol K am tenant fin L srv k (Some m) tr" by simp
  then show ?thesis
    by (cases rule: protocol.cases)
      (simp_all add: legacy_cleanup_log(1) after_cleanup_log(1) one_change_log(1))
qed

lemma one_tenant:
  assumes ok: "ok" and run: "runs k w tr"
  shows "\<exists>t. (tr \<noteq> [Read k False] \<longrightarrow> (\<exists>m. srv m \<and> t = tenant m)) \<and>
    (\<forall>q a. Request q a \<in> set tr \<longrightarrow> well_addressed am t q)"
proof (cases "read k w")
  case None
  with runs_protocol [OF ok run] show ?thesis by (auto simp: protocol_None)
next
  case (Some m)
  have "srv m" using read_srv [OF Some] .
  have tenant_of: "\<exists>t. (\<exists>m. srv m \<and> t = tenant m) \<and> (\<forall>q a. Request q a \<in> set lw \<union> set evs \<longrightarrow> well_addressed am t q)"
    if leg: "legacy_cleanup K L srv m' lw res" and aft: "after_cleanup am tenant res evs"
      and srv: "srv m'" for m' lw res evs
  proof (cases res)
    case None
    then show ?thesis using srv aft legacy_cleanup_log(2) [OF leg] by (auto simp: after_cleanup_def)
  next
    case (Some m'')
    then have "srv m''" using legacy_cleanup_log(3) [OF leg Some] srv by auto
    with Some after_cleanup_log(3) [OF aft] legacy_cleanup_log(2) [OF leg] show ?thesis by blast
  qed
  from Some runs_protocol [OF ok run] have "protocol K am tenant fin L srv k (Some m) tr" by simp
  then show ?thesis
  proof (cases rule: protocol.cases)
    case (added m' lw res evs)
    then show ?thesis
      using tenant_of [OF added(5,6,4)] by simp
  next
    case (kept lw res evs)
    then show ?thesis
      using tenant_of [OF kept(4,5) \<open>srv m\<close>] by simp
  qed (use \<open>srv m\<close> in \<open>auto dest: one_change_log(2) legacy_cleanup_log(2)\<close>)
qed

text \<open>An object that goes without the finalizer is none of the controller's business.\<close>

lemma skipped_object:
  assumes ok: "ok" and run: "runs k w tr" and m: "read k w = Some m"
    and "deleting K m" "fin \<notin> set (Finalizers m)"
  shows "mutations tr = [] \<and> (\<forall>q a. Request q a \<notin> set tr)"
proof -
  note K = kube_finalizers [OF ok_kube [OF ok]]
  from runs_protocol [OF ok run] m have "protocol K am tenant fin L srv k (Some m) tr" by simp
  then show ?thesis
    using assms(4,5)
    by (cases rule: protocol.cases) (auto simp: K legacy_cleanup_log(1,2))
qed

end

end
