(* ===== verification/Flow.thy ===== *)
theory Flow
  imports Protocol
begin

section \<open>The flow of both controllers\<close>

text \<open>
  \<open>flow\<close> is what \<open>Reconcile_v1\<close> and \<open>Reconcile_v2\<close> have in common, with the controllers' own
  operations (deletion, cleanup of a legacy finalizer, creation) as arguments.  The locale
  \<open>finalizer_flow\<close> states what these operations promise about the log; it gives the contract
  \<open>finalizer_protocol\<close>.
\<close>

definition finish ::
  "(go_error option \<Rightarrow> go_error option) \<Rightarrow> ('obj \<Rightarrow> 'w \<Rightarrow> ('obj \<times> go_error option) \<times> 'w)
     \<Rightarrow> ('obj \<Rightarrow> 'w \<Rightarrow> go_error option outcome \<times> 'w) \<Rightarrow> 'obj \<Rightarrow> 'w
     \<Rightarrow> go_error option outcome \<times> 'w" where
  "finish fail cleanup cont obj w =
     (case cleanup obj w of
        ((_, Some err), w) \<Rightarrow> (Returns (fail (Some err)), w)
      | ((obj, None), w) \<Rightarrow> cont obj w)"

definition stop :: "'obj \<Rightarrow> 'w \<Rightarrow> go_error option outcome \<times> 'w" where
  "stop obj w = (Returns None, w)"

definition flow ::
  "kube_lib \<Rightarrow> string \<Rightarrow> ('obj \<Rightarrow> ObjectMeta) \<Rightarrow> ((ObjectMeta \<Rightarrow> ObjectMeta) \<Rightarrow> 'obj \<Rightarrow> 'obj)
     \<Rightarrow> ('w, 'obj) KubeClient \<Rightarrow> (go_error option \<Rightarrow> go_error option)
     \<Rightarrow> ('obj \<Rightarrow> 'w \<Rightarrow> go_error option \<times> 'w) \<Rightarrow> ('obj \<Rightarrow> 'w \<Rightarrow> ('obj \<times> go_error option) \<times> 'w)
     \<Rightarrow> ('obj \<Rightarrow> 'w \<Rightarrow> go_error option outcome \<times> 'w) \<Rightarrow> NamespacedName \<Rightarrow> 'w
     \<Rightarrow> go_error option outcome \<times> 'w" where
  "flow K fin meta upd C fail del cleanup create k w =
     (case Kube_Get C k w of
        (Inl err, w) \<Rightarrow> (Returns (fail (IgnoreNotFound K (Some err))), w)
      | (Inr obj, w) \<Rightarrow>
          if deleting K (meta obj) then
            (if ContainsFinalizer K (meta obj) fin then
               (case del obj w of
                  (Some err, w) \<Rightarrow> (Returns (Some err), w)
                | (None, w) \<Rightarrow>
                    (case Kube_Update C (upd (\<lambda>m. RemoveFinalizer K m fin) obj) w of
                       (Inl err, w) \<Rightarrow> (Returns (fail (Some err)), w)
                     | (Inr obj, w) \<Rightarrow> finish fail cleanup stop obj w))
             else finish fail cleanup stop obj w)
          else if \<not> ContainsFinalizer K (meta obj) fin then
            (case Kube_Update C (upd (\<lambda>m. AddFinalizer K m fin) obj) w of
               (Inl err, w) \<Rightarrow> (Returns (fail (Some err)), w)
             | (Inr obj, w) \<Rightarrow> finish fail cleanup create obj w)
          else finish fail cleanup create obj w)"

text \<open>The metadata that the API server answers for a key; the log a run leaves.\<close>

definition read_meta ::
  "('obj \<Rightarrow> ObjectMeta) \<Rightarrow> ('w, 'obj) KubeClient \<Rightarrow> NamespacedName \<Rightarrow> 'w \<Rightarrow> ObjectMeta option" where
  "read_meta meta C k w = (case fst (Kube_Get C k w) of Inl _ \<Rightarrow> None | Inr obj \<Rightarrow> Some (meta obj))"

definition log_of :: "'a \<times> 'w \<times> event list \<Rightarrow> event list" where
  "log_of res = snd (snd res)"

lemma log_of_simp [simp]: "log_of (r, w, tr) = tr"
  by (simp add: log_of_def)

lemma read_meta_returned: "read_meta meta C k w = Some m \<Longrightarrow> returned meta C m"
  by (auto simp: read_meta_def returned_def split: sum.splits)

lemma updated_returned: "Kube_Update C a w = (Inr obj, w') \<Longrightarrow> returned meta C (meta obj)"
  unfolding returned_def by (metis fst_conv)

locale finalizer_flow =
  fixes K :: kube_lib and am :: Alertmanager and tenant :: "ObjectMeta \<Rightarrow> string"
    and fin :: string and L :: "string option" and meta :: "'obj \<Rightarrow> ObjectMeta"
    and upd :: "(ObjectMeta \<Rightarrow> ObjectMeta) \<Rightarrow> 'obj \<Rightarrow> 'obj" and C :: "('w, 'obj) KubeClient"
    and fail :: "go_error option \<Rightarrow> go_error option"
    and del :: "'obj \<Rightarrow> 'w \<times> event list \<Rightarrow> go_error option \<times> ('w \<times> event list)"
    and cleanup :: "'obj \<Rightarrow> 'w \<times> event list \<Rightarrow> ('obj \<times> go_error option) \<times> ('w \<times> event list)"
    and create :: "'obj \<Rightarrow> 'w \<times> event list \<Rightarrow> go_error option outcome \<times> ('w \<times> event list)"
    and ok :: bool
  assumes other_finalizer: "L \<noteq> Some fin"
    and ok_lib: "ok \<Longrightarrow> kube_lib_ok K"
    and meta_upd: "meta (upd f obj) = f (meta obj)"
    and del_log: "del obj (w, tr) = (r, (w', tr')) \<Longrightarrow> appends (one_change am (tenant (meta obj))) tr tr'"
    and del_nil_log: "\<lbrakk>ok; del obj (w, tr) = (None, (w', tr'))\<rbrakk>
      \<Longrightarrow> appends (cleared am (SilenceComment (meta obj))) tr tr'"
    and create_log: "create obj (w, tr) = (out, (w', tr'))
      \<Longrightarrow> appends (one_change am (tenant (meta obj))) tr tr'"
    and cleanup_log: "\<lbrakk>ok; cleanup obj (w, tr) = ((obj', e), (w', tr'))\<rbrakk>
      \<Longrightarrow> appends (\<lambda>lw. legacy_cleanup K L (returned meta C) (meta obj) lw
            (if e = None then Some (meta obj') else None)) tr tr'"
begin

abbreviation run :: "NamespacedName \<Rightarrow> 'w \<Rightarrow> event list" where
  "run k w \<equiv> log_of (flow K fin meta upd (traced_kube meta C) fail del cleanup create k (w, []))"

lemma finish_stop_log:
  assumes "ok"
  shows "\<exists>lw res. log_of (finish fail cleanup stop obj (w, tr)) = tr @ lw \<and>
     legacy_cleanup K L (returned meta C) (meta obj) lw res"
proof -
  obtain obj' e w' tr' where c: "cleanup obj (w, tr) = ((obj', e), (w', tr'))" by (metis prod.exhaust)
  from cleanup_log [OF assms c] show ?thesis
    by (auto simp: c finish_def stop_def appends_def split: option.splits)
qed

lemma finish_create_log:
  assumes "ok"
  shows "\<exists>lw res evs. log_of (finish fail cleanup create obj (w, tr)) = tr @ lw @ evs \<and>
     legacy_cleanup K L (returned meta C) (meta obj) lw res \<and> after_cleanup am tenant res evs"
proof -
  obtain obj' e w' tr' where c: "cleanup obj (w, tr) = ((obj', e), (w', tr'))" by (metis prod.exhaust)
  from cleanup_log [OF assms c] obtain lw where lw: "tr' = tr @ lw"
    "legacy_cleanup K L (returned meta C) (meta obj) lw (if e = None then Some (meta obj') else None)"
    by (auto simp: appends_def)
  show ?thesis
  proof (cases e)
    case (Some x)
    with c lw show ?thesis
      by (intro exI [of _ lw] exI [of _ None] exI [of _ "[]"]) (simp add: finish_def after_cleanup_def)
  next
    case None
    obtain out w2 tr2 where k: "create obj' (w', tr') = (out, (w2, tr2))" by (metis prod.exhaust)
    from create_log [OF k] obtain evs where "tr2 = tr' @ evs" "one_change am (tenant (meta obj')) evs"
      by (auto simp: appends_def)
    with c k lw None show ?thesis
      by (intro exI [of _ lw] exI [of _ "Some (meta obj')"] exI [of _ evs])
        (simp add: finish_def after_cleanup_def)
  qed
qed

lemma delete_protocol:
  assumes ok: "ok" and d: "deleting K (meta obj)" and f: "ContainsFinalizer K (meta obj) fin"
    and get: "Kube_Get C k w = (Inr obj, w1)"
  shows "protocol K am tenant fin L (returned meta C) k (Some (meta obj)) (run k w)"
proof -
  obtain e w2 tr2 where del: "del obj (w1, [Read k True]) = (e, (w2, tr2))" by (metis prod.exhaust)
  from del_log [OF del] obtain evs where evs: "tr2 = Read k True # evs"
    "one_change am (tenant (meta obj)) evs" by (auto simp: appends_def)
  obtain u w3 where u: "Kube_Update C (upd (\<lambda>m. RemoveFinalizer K m fin) obj) w2 = (u, w3)"
    by (metis prod.exhaust)
  note run = flow_def get d f del u evs(1) meta_upd
  have clr: "cleared am (SilenceComment (meta obj)) evs" if "e = None"
    using del_nil_log [OF ok del [unfolded that]] evs by (auto simp: appends_def)
  show ?thesis
  proof (cases e)
    case (Some x)
    then have "run k w = Read k True # evs" by (simp add: run)
    with d f evs show ?thesis by (simp add: delete_failed)
  next
    case None
    show ?thesis
    proof (cases u)
      case (Inl x)
      then have "run k w = Read k True # evs @ [Write (RemoveFinalizer K (meta obj) fin) False]"
        by (simp add: run None)
      with d f evs clr [OF None] show ?thesis by (simp add: removal_failed)
    next
      case (Inr obj')
      let ?tr = "Read k True # evs @ [Write (RemoveFinalizer K (meta obj) fin) True]"
      obtain lw res where "run k w = Read k True # evs @ Write (RemoveFinalizer K (meta obj) fin) True # lw"
        and lw: "legacy_cleanup K L (returned meta C) (meta obj') lw res"
        using finish_stop_log [OF ok, of obj' w3 ?tr] by (auto simp: run None Inr)
      with removed [where srv = "returned meta C" and tenant = tenant, OF d f evs(2) clr [OF None] updated_returned [OF u [unfolded Inr]] lw]
      show ?thesis by simp
    qed
  qed
qed

lemma live_protocol:
  assumes ok: "ok" and d: "\<not> deleting K (meta obj)" and get: "Kube_Get C k w = (Inr obj, w1)"
  shows "protocol K am tenant fin L (returned meta C) k (Some (meta obj)) (run k w)"
proof (cases "ContainsFinalizer K (meta obj) fin")
  case True
  obtain lw res evs where "run k w = Read k True # lw @ evs"
    "legacy_cleanup K L (returned meta C) (meta obj) lw res" "after_cleanup am tenant res evs"
    using finish_create_log [OF ok, of obj w1 "[Read k True]"]
    by (auto simp: flow_def get d True)
  with d True show ?thesis by (simp add: kept)
next
  case False
  obtain u w2 where u: "Kube_Update C (upd (\<lambda>m. AddFinalizer K m fin) obj) w1 = (u, w2)"
    by (metis prod.exhaust)
  show ?thesis
  proof (cases u)
    case (Inl x)
    then have "run k w = [Read k True, Write (AddFinalizer K (meta obj) fin) False]"
      by (simp add: flow_def get d False u meta_upd)
    with d False show ?thesis by (simp add: addition_failed)
  next
    case (Inr obj')
    obtain lw res evs where "run k w = Read k True # Write (AddFinalizer K (meta obj) fin) True # lw @ evs"
      and lw: "legacy_cleanup K L (returned meta C) (meta obj') lw res" "after_cleanup am tenant res evs"
      using finish_create_log [OF ok, of obj' w2 "[Read k True, Write (AddFinalizer K (meta obj) fin) True]"]
      by (auto simp: flow_def get d False u Inr meta_upd)
    with added [where srv = "returned meta C", OF d False updated_returned [OF u [unfolded Inr]] lw] show ?thesis by simp
  qed
qed

lemma run_protocol:
  assumes ok: "ok"
  shows "protocol K am tenant fin L (returned meta C) k (read_meta meta C k w) (run k w)"
proof -
  obtain a w1 where get: "Kube_Get C k w = (a, w1)" by (cases "Kube_Get C k w")
  show ?thesis
  proof (cases a)
    case (Inl e)
    with get show ?thesis by (simp add: read_meta_def flow_def protocol_None)
  next
    case (Inr obj)
    then have rd: "read_meta meta C k w = Some (meta obj)" using get by (simp add: read_meta_def)
    consider "deleting K (meta obj)" "ContainsFinalizer K (meta obj) fin"
      | "deleting K (meta obj)" "\<not> ContainsFinalizer K (meta obj) fin" | "\<not> deleting K (meta obj)"
      by blast
    then show ?thesis
    proof cases
      case 2
      obtain lw res where "run k w = Read k True # lw"
        "legacy_cleanup K L (returned meta C) (meta obj) lw res"
        using finish_stop_log [OF ok, of obj w1 "[Read k True]"] by (auto simp: flow_def get Inr 2)
      with rd 2 show ?thesis by (simp add: delete_skipped)
    qed (use ok get rd Inr in \<open>auto simp: delete_protocol live_protocol\<close>)
  qed
qed

end

text \<open>A flow whose operations keep their promises keeps the protocol.\<close>

sublocale finalizer_flow \<subseteq>
  finalizer_protocol K am tenant fin L "returned meta C" "read_meta meta C"
    "\<lambda>k w tr. tr = run k w" ok
  by unfold_locales (auto simp: other_finalizer ok_lib read_meta_returned run_protocol)

end
