(* ===== verification/Contracts.thy ===== *)
theory Contracts
  imports Flow
begin

section \<open>Both controllers keep the finalizer protocol\<close>

text \<open>
  \<open>log_v1\<close> and \<open>log_v2\<close> are the logs of one call of \<open>Reconcile\<close>.  Each controller is an instance
  of the common flow and its operations keep the promises of the locale \<open>finalizer_flow\<close>: the
  interpretations \<open>v1\<close> and \<open>v2\<close>.
\<close>

definition log_v1 ::
  "errors_pkg \<Rightarrow> kube_lib \<Rightarrow> ('w, Time) Env \<Rightarrow> ('w, Silence_v1) KubeClient \<Rightarrow> Alertmanager
     \<Rightarrow> 'sel Helper \<Rightarrow> NamespacedName \<Rightarrow> 'w \<Rightarrow> event list" where
  "log_v1 P K E C am h k w =
     log_of (Reconcile_v1 P K (traced_env E) (traced_v1 P E C am h) k (w, []))"

definition log_v2 ::
  "errors_pkg \<Rightarrow> kube_lib \<Rightarrow> (string \<Rightarrow> go_error + Duration) \<Rightarrow> ('w, Time) Env
     \<Rightarrow> ('w, Silence_v2) KubeClient \<Rightarrow> Alertmanager \<Rightarrow> 'sel Helper \<Rightarrow> NamespacedName \<Rightarrow> 'w
     \<Rightarrow> event list" where
  "log_v2 P K PD E C am h k w =
     log_of (Reconcile_v2 P K PD (traced_env E) (traced_v2 P E C am h) k (w, []))"

definition libs_ok :: "errors_pkg \<Rightarrow> kube_lib \<Rightarrow> ('w, Time) Env \<Rightarrow> bool" where
  "libs_ok P K E \<longleftrightarrow> errors_pkg_ok P \<and> kube_lib_ok K \<and> env_ok E"

abbreviation upd_v1 :: "(ObjectMeta \<Rightarrow> ObjectMeta) \<Rightarrow> Silence_v1 \<Rightarrow> Silence_v1" where
  "upd_v1 f obj \<equiv> obj\<lparr>Meta_v1 := f (Meta_v1 obj)\<rparr>"

abbreviation upd_v2 :: "(ObjectMeta \<Rightarrow> ObjectMeta) \<Rightarrow> Silence_v2 \<Rightarrow> Silence_v2" where
  "upd_v2 f obj \<equiv> obj\<lparr>Meta_v2 := f (Meta_v2 obj)\<rparr>"

subsection \<open>The controllers as instances of the flow\<close>

lemma after_legacy_cleanup_finish:
  "after_legacy_cleanup P K r obj k w = finish (WithStack P) (cleanUpLegacyFinalizer P K r) k obj w"
  by (simp add: after_legacy_cleanup_def finish_def)

lemma Reconcile_v1_flow:
  "Reconcile_v1 P K E r k w =
     flow K silenceFinalizer Meta_v1 upd_v1 (client r) (WithStack P) (reconcileDelete_v1 P r)
       (cleanUpLegacyFinalizer P K r) (reconcileCreate_v1 P E r) k w"
  by (simp add: Reconcile_v1_def flow_def deleting_def after_legacy_cleanup_finish stop_def [abs_def]
      cong: sum.case_cong prod.case_cong option.case_cong if_cong)

definition no_cleanup :: "'obj \<Rightarrow> 'w \<Rightarrow> ('obj \<times> go_error option) \<times> 'w" where
  "no_cleanup obj w = ((obj, None), w)"

lemma finish_no_cleanup [simp]: "finish fail no_cleanup k obj w = k obj w"
  by (simp add: finish_def no_cleanup_def)

lemma Reconcile_v2_flow:
  "Reconcile_v2 P K PD E r k w =
     flow K FinalizerName Meta_v2 upd_v2 (client_v2 r) (WithStack P) (reconcileDelete_v2 P r)
       no_cleanup (reconcileCreate_v2 P PD E r) k w"
  by (simp add: Reconcile_v2_def flow_def deleting_def stop_def
      cong: sum.case_cong prod.case_cong option.case_cong if_cong)

lemma cleanUpLegacyFinalizer_log:
  assumes "errors_pkg_ok P"
    and "cleanUpLegacyFinalizer P K (traced_v1 P E C am h) obj (w, tr) = ((obj', e), (w', tr'))"
  shows "appends (\<lambda>lw. legacy_cleanup K (Some legacySilenceFinalizer) (returned Meta_v1 C)
           (Meta_v1 obj) lw (if e = None then Some (Meta_v1 obj') else None)) tr tr'"
  using assms
  by (auto simp: cleanUpLegacyFinalizer_def legacy_cleanup_def appends_def Let_def err_simps
      intro: updated_returned split: if_splits prod.splits sum.splits)

lemma finalizers_differ: "silenceFinalizer \<noteq> legacySilenceFinalizer"
  by (simp add: silenceFinalizer_def legacySilenceFinalizer_def)

interpretation v2: finalizer_flow K am "ExtractTenant h" FinalizerName None Meta_v2 upd_v2 C
    "WithStack P" "reconcileDelete_v2 P (traced_v2 P E C am h)" no_cleanup
    "reconcileCreate_v2 P PD (traced_env E) (traced_v2 P E C am h)" "libs_ok P K E"
  for K :: kube_lib and am :: Alertmanager and h :: "'sel Helper"
    and C :: "('w, Silence_v2) KubeClient" and P :: errors_pkg
    and PD :: "string \<Rightarrow> go_error + Duration" and E :: "('w, Time) Env"
  by unfold_locales
    (auto simp: libs_ok_def no_cleanup_def appends_def legacy_cleanup_def
      dest: reconcileDelete_v2_trace reconcileDelete_v2_nil_log reconcileCreate_v2_trace)

interpretation v1: finalizer_flow K am "ExtractTenant h" silenceFinalizer "Some legacySilenceFinalizer"
    Meta_v1 upd_v1 C "WithStack P" "reconcileDelete_v1 P (traced_v1 P E C am h)"
    "cleanUpLegacyFinalizer P K (traced_v1 P E C am h)"
    "reconcileCreate_v1 P (traced_env E) (traced_v1 P E C am h)" "libs_ok P K E"
  for K :: kube_lib and am :: Alertmanager and h :: "'sel Helper"
    and C :: "('w, Silence_v1) KubeClient" and P :: errors_pkg and E :: "('w, Time) Env"
  using finalizers_differ
  by unfold_locales
    (auto simp: libs_ok_def dest: reconcileDelete_v1_trace reconcileDelete_v1_nil_log
      reconcileCreate_v1_trace cleanUpLegacyFinalizer_log)

lemma log_v1_run:
  "log_v1 P K E C am h k w =
     log_of (flow K silenceFinalizer Meta_v1 upd_v1 (traced_kube Meta_v1 C) (WithStack P)
       (reconcileDelete_v1 P (traced_v1 P E C am h)) (cleanUpLegacyFinalizer P K (traced_v1 P E C am h))
       (reconcileCreate_v1 P (traced_env E) (traced_v1 P E C am h)) k (w, []))"
  by (simp add: log_v1_def Reconcile_v1_flow)

lemma log_v2_run:
  "log_v2 P K PD E C am h k w =
     log_of (flow K FinalizerName Meta_v2 upd_v2 (traced_kube Meta_v2 C) (WithStack P)
       (reconcileDelete_v2 P (traced_v2 P E C am h)) no_cleanup
       (reconcileCreate_v2 P PD (traced_env E) (traced_v2 P E C am h)) k (w, []))"
  by (simp add: log_v2_def Reconcile_v2_flow)

end
