(* ===== verification/Client_Spec.thy ===== *)
theory Client_Spec
  imports Log_Safety Service_Contract
begin

section \<open>What the Alertmanager client promises\<close>

text \<open>
  Properties of the operations of \<open>*Alertmanager\<close>: the requests they send, for which tenant, and
  what their results say about the answers.
\<close>

text \<open>\<open>CreateSilence\<close> sends one POST with the JSON of the silence, for the tenant and with the
  token, and returns nil exactly when it is answered with status 200.\<close>

theorem CreateSilence_request:
  assumes "errors_pkg_ok P" "json_Marshal s = Inr body"
    and "url_Parse_error E (address am @ apiV2SilencesPath) = None"
  shows "\<exists>req. Method req = ''POST'' \<and> URL req = address am @ apiV2SilencesPath \<and> Body req = Some body \<and>
    well_addressed am tenant req \<and> Header_Values req ''Content-Type'' = [''application/json''] \<and>
    snd (CreateSilence P E am s tenant w) = snd (http_Do E req w) \<and>
    (fst (CreateSilence P E am s tenant w) = None \<longleftrightarrow>
       (\<exists>resp. fst (http_Do E req w) = Inr resp \<and> StatusCode resp = 200))"
proof -
  obtain req where req: "NewRequest E am ''POST'' (address am @ apiV2SilencesPath) (Some body) tenant = Inr req"
    using assms(3) by (simp add: NewRequest_def http_NewRequest_def Let_def)
  let ?r = "authorize am (Header_Add ''Content-Type'' ''application/json'' req)"
  have "Header_Values req ''Content-Type'' = []"
    using req assms(3)
    by (auto simp: NewRequest_def http_NewRequest_def Let_def Header_Values_Add split: if_splits)
  then have ct: "Header_Values ?r ''Content-Type'' = [''application/json'']"
    by (simp add: authorize_def Header_Values_Add)
  show ?thesis
    using NewRequest_fields [OF req] well_addressed_request(2) [OF req] ct assms(2) req
      errors_pkg_nil(1) [OF assms(1)]
    by (intro exI [of _ ?r]) (auto simp: CreateSilence_def split: prod.splits sum.splits)
qed

theorem CreateSilence_request_witness:
  "fst (CreateSilence sample_errors (fixed_env 500 ''[]'') sample_am sample_silence ''t'' ()) \<noteq> None"
proof -
  have "\<exists>body. json_Marshal sample_silence = Inr body" by (simp add: json_Marshal_def) code_simp
  then obtain body where "json_Marshal sample_silence = Inr body" ..
  from CreateSilence_request [OF sample_errors_ok this, of "fixed_env 500 ''[]''" sample_am "''t''" "()"]
  show ?thesis by (auto simp: fixed_env_def)
qed

lemma ListSilences_failed_log:
  assumes "errors_pkg_ok P"
    and "ListSilences P (traced_env E) am tenant (w, tr) = ((ss, Some e), (w', tr'))"
  shows "tr' = tr @ [l] \<Longrightarrow> listed am l = None"
  using assms
  by (auto simp: ListSilences_def split: sum.splits prod.splits)

lemma GetSilenceByComment_failed:
  assumes "errors_pkg_ok P" "env_ok E"
    and "GetSilenceByComment P (traced_env E) am c tenant (w, tr) = ((found, err), (w', tr'))"
    and ls: "ListSilences P (traced_env E) am tenant (w, tr) = ((ss, Some x), (w', tr'))"
  shows "\<exists>e. err = Some e \<and> found = None \<and> \<not> errors_Is e ErrSilenceNotFound \<and>
    (\<forall>l. tr' = tr @ [l] \<longrightarrow> listed am l = None)"
proof -
  obtain y where y: "WithStack P (Some x) = Some y"
    using errors_pkg_nil(1) [OF assms(1), of "Some x"] by auto
  then have "found = None" "err = Some y"
    using assms(3) ls by (auto simp: GetSilenceByComment_def)
  moreover have "\<not> errors_Is y ErrSilenceNotFound"
    using WithStack_not_found [OF assms(1) y] ListSilences_error_log [OF assms(1) _ ls] assms(2) by simp
  ultimately show ?thesis using ListSilences_failed_log [OF assms(1) ls] by blast
qed

lemma GetSilenceByComment_listed:
  assumes "errors_pkg_ok P"
    and "GetSilenceByComment P (traced_env E) am c tenant (w, tr) = ((found, err), (w', tr'))"
    and ls: "ListSilences P (traced_env E) am tenant (w, tr) = ((ss, None), (w', tr'))"
  shows "\<exists>l all. tr' = tr @ [l] \<and> listed am l = Some all \<and>
    List.find (\<lambda>s. not_expired s \<and> Comment s = c) all = found \<and>
    (case found of Some s \<Rightarrow> err = None | None \<Rightarrow> \<exists>e. err = Some e \<and> errors_Is e ErrSilenceNotFound)"
proof -
  obtain l all where l: "tr' = tr @ [l]" "listed am l = Some all" "slice_elems ss = filter not_expired all"
    using ListSilences_ok_log [OF assms(1) ls] by blast
  let ?f = "List.find (\<lambda>s. not_expired s \<and> Comment s = c) all"
  have find: "List.find (\<lambda>s. Comment s = c) (slice_elems ss) = ?f"
    using l(3) by (simp add: find_filter)
  have "?f = found \<and>
      (case found of Some s \<Rightarrow> err = None | None \<Rightarrow> \<exists>e. err = Some e \<and> errors_Is e ErrSilenceNotFound)"
  proof (cases ?f)
    case None
    then show ?thesis
      using assms(2) ls find not_found_message [OF assms(1)] by (auto simp: GetSilenceByComment_def)
  next
    case (Some s)
    then have "found = Some s \<and> err = None" using assms(2) ls find by (auto simp: GetSilenceByComment_def)
    then show ?thesis using Some by simp
  qed
  then show ?thesis using l by blast
qed

text \<open>C32: \<open>GetSilenceByComment\<close> returns the first active silence under the comment, an error that
  is \<open>ErrSilenceNotFound\<close> exactly when the listing holds none, and otherwise another error; it
  sends reading requests of that tenant only.\<close>

theorem GetSilenceByComment_spec:
  assumes "errors_pkg_ok P" "env_ok E"
    and "GetSilenceByComment P (traced_env E) am c tenant (w, tr) = ((found, err), (w', tr'))"
  shows "appends (quiet am tenant) tr tr' \<and>
    (case err of
       None \<Rightarrow> \<exists>l all s. tr' = tr @ [l] \<and> listed am l = Some all \<and> found = Some s \<and>
                 List.find (\<lambda>s. not_expired s \<and> Comment s = c) all = Some s
     | Some e \<Rightarrow> found = None \<and>
         (errors_Is e ErrSilenceNotFound \<longleftrightarrow>
            (\<exists>l all. tr' = tr @ [l] \<and> listed am l = Some all \<and>
               (\<forall>s \<in> set all. not_expired s \<longrightarrow> Comment s \<noteq> c))))"
proof (rule conjI [OF GetSilenceByComment_trace [OF assms(3)]])
  obtain ss e where ls: "ListSilences P (traced_env E) am tenant (w, tr) = ((ss, e), (w', tr'))"
    using assms(3) by (auto simp: GetSilenceByComment_def split: prod.splits option.splits)
  show "case err of
       None \<Rightarrow> \<exists>l all s. tr' = tr @ [l] \<and> listed am l = Some all \<and> found = Some s \<and>
                 List.find (\<lambda>s. not_expired s \<and> Comment s = c) all = Some s
     | Some e \<Rightarrow> found = None \<and>
         (errors_Is e ErrSilenceNotFound \<longleftrightarrow>
            (\<exists>l all. tr' = tr @ [l] \<and> listed am l = Some all \<and>
               (\<forall>s \<in> set all. not_expired s \<longrightarrow> Comment s \<noteq> c)))"
  proof (cases e)
    case (Some x)
    with GetSilenceByComment_failed [OF assms ls [unfolded Some]] show ?thesis by fastforce
  next
    case None
    with GetSilenceByComment_listed [OF assms(1,3) ls [unfolded None]] show ?thesis
      by (auto simp: find_None_conv split: option.splits)
  qed
qed

theorem GetSilenceByComment_spec_witness:
  "env_ok (fixed_env 200 sample_list) \<and>
   (\<exists>l all. listed sample_am l = Some all \<and>
      List.find (\<lambda>s. not_expired s \<and> Comment s = ''silence-operator-ns-a'') all = Some active_silence)"
proof -
  have ok: "env_ok (fixed_env 200 sample_list)" by (simp add: env_ok_def fixed_env_def)
  obtain w' tr' where run: "GetSilenceByComment sample_errors (traced_env (fixed_env 200 sample_list)) sample_am
      ''silence-operator-ns-a'' ''t'' ((), []) = ((Some active_silence, None), (w', tr'))"
  proof -
    have "fst (GetSilenceByComment sample_errors (traced_env (fixed_env 200 sample_list)) sample_am
      ''silence-operator-ns-a'' ''t'' ((), [])) = (Some active_silence, None)"
      by code_simp
    then show ?thesis using that by (metis prod.exhaust fst_conv)
  qed
  from GetSilenceByComment_spec [OF sample_errors_ok ok run] ok show ?thesis by auto
qed

text \<open>C23: \<open>DeleteSilenceByComment\<close> deletes no silence but its own: the only changing request is the
  DELETE of the first silence the listing shows under the comment that is active and was made
  by the operator.\<close>

theorem DeleteSilenceByComment_owned:
  assumes "errors_pkg_ok P"
    and "DeleteSilenceByComment P (traced_env E) am c tenant (w, []) = (err, (w', tr))"
    and "Request q a \<in> set tr" "Method q \<noteq> ''GET''"
  shows "\<exists>l all s. tr = [l, Request q a] \<and> listed am l = Some all \<and>
    List.find (owned c) all = Some s \<and> Method q = ''DELETE'' \<and>
    URL q = address am @ apiV2SilencePath @ ''/'' @ PathEscape (ID s)"
proof -
  obtain ss e w1 tr1 where ls: "ListSilences P (traced_env E) am tenant (w, []) = ((ss, e), (w1, tr1))"
    by (metis prod.exhaust)
  have quiet1: "Request q a \<notin> set tr1"
    using ListSilences_trace [OF ls] assms(4)
    by (auto simp: appends_def quiet_def mutations_def filter_empty_conv)
  show ?thesis
  proof (cases e)
    case (Some x)
    then show ?thesis using assms(2,3) ls quiet1 by (simp add: DeleteSilenceByComment_def)
  next
    case None
    obtain l all where l: "tr1 = [l]" "listed am l = Some all" "slice_elems ss = filter not_expired all"
      using ListSilences_ok_log [OF assms(1) ls [unfolded None]] by auto
    show ?thesis
    proof (cases "List.find (owned c) all")
      case None
      then show ?thesis
        using assms(2,3) ls quiet1 \<open>e = None\<close> l by (simp add: DeleteSilenceByComment_def find_owned)
    next
      case (Some s)
      then have "DeleteSilenceByID P (traced_env E) am (ID s) tenant (w1, tr1) = (err, (w', tr))"
        using assms(2) ls \<open>e = None\<close> l by (simp add: DeleteSilenceByComment_def find_owned)
      then show ?thesis
        using assms(3) quiet1 l Some NewRequest_fields(1,2) [of E am "''DELETE''"]
        by (auto simp: DeleteSilenceByID_def Let_def split: sum.splits prod.splits if_splits)
    qed
  qed
qed

text \<open>C39: \<open>DeleteSilenceByID\<close> reports success for every answer, whatever its status: the error it
  builds for another status than 200 wraps a nil error.\<close>

theorem DeleteSilenceByID_ignores_status:
  assumes "errors_pkg_ok P"
    and "url_Parse_error E (address am @ apiV2SilencePath @ ''/'' @ PathEscape i) = None"
    and "\<And>req. \<exists>resp. fst (http_Do E req w) = Inr resp \<and> StatusCode resp = code"
  shows "fst (DeleteSilenceByID P E am i tenant w) = None"
  using assms(1,2) assms(3)
  by (auto simp: DeleteSilenceByID_def NewRequest_def http_NewRequest_def Let_def
      split: sum.splits prod.splits option.splits) (metis fst_conv sum.simps(4))+

theorem DeleteSilenceByID_ignores_status_witness:
  "fst (DeleteSilenceByID sample_errors (fixed_env 500 '''') sample_am ''7'' ''t'' ()) = None"
  by (rule DeleteSilenceByID_ignores_status [where code = 500]) (simp_all add: fixed_env_def)

theorem DeleteSilenceByComment_owned_witness:
  "\<exists>l q a all. snd (snd (DeleteSilenceByComment sample_errors (traced_env (fixed_env 200 sample_list))
      sample_am ''silence-operator-ns-a'' ''t'' ((), []))) = [l, Request q a] \<and>
    listed sample_am l = Some all \<and> URL q = ''http://am/api/v2/silence/7''"
proof -
  let ?run = "DeleteSilenceByComment sample_errors (traced_env (fixed_env 200 sample_list)) sample_am
    ''silence-operator-ns-a'' ''t'' ((), [])"
  let ?show = "\<lambda>e. case e of Request q a \<Rightarrow> (Method q, URL q) | _ \<Rightarrow> ('''', '''')"
  have "map ?show (snd (snd ?run))
      = [(''GET'', ''http://am/api/v2/silences''), (''DELETE'', ''http://am/api/v2/silence/7'')]"
    by code_simp
  then obtain l d where ld: "snd (snd ?run) = [l, d]" and d: "?show d = (''DELETE'', ''http://am/api/v2/silence/7'')"
    by (auto simp: map_eq_Cons_conv)
  obtain q a where "d = Request q a" using d by (cases d) auto
  with ld d have tr: "snd (snd ?run) = [l, Request q a]" "Method q \<noteq> ''GET''"
      "URL q = ''http://am/api/v2/silence/7''"
    by simp_all
  have "?run = (fst ?run, (fst (snd ?run), [l, Request q a]))" using tr(1) by (metis prod.collapse)
  from DeleteSilenceByComment_owned [OF sample_errors_ok this, of q a] tr show ?thesis by auto
qed

text \<open>The tenant header of a request for a resource: the first of the resource's label, the
  default tenant (both only with tenancy enabled) and the client's own tenant that is not
  empty; no header when all are empty.  The value is sent once.\<close>

theorem request_tenant:
  assumes "NewRequest E am method url body (ExtractTenant h m) = Inr req"
  shows "Header_Values req ''X-Scope-OrgID'' =
    (case List.find (\<lambda>t. t \<noteq> '''')
       ((if TenancyEnabled (config h) then
           [if TenancyLabelKey (config h) = '''' then ''''
            else (case map_lookup (Labels m) (TenancyLabelKey (config h)) of Some t \<Rightarrow> t | None \<Rightarrow> ''''),
            TenancyDefaultTenant (config h)]
         else []) @ [tenantId am]) of
       Some t \<Rightarrow> [t] | None \<Rightarrow> [])"
  using NewRequest_fields(4) [OF assms]
  by (cases "Labels m") (auto simp: effective_tenant_def ExtractTenant_def Let_def split: option.splits)

definition sample_config :: "unit Config" where
  "sample_config = \<lparr>Address = ''http://am'', Authentication = False, BearerToken = '''',
     TenantId = ''anonymous'', SilenceSelector = None, NamespaceSelector = None,
     TenancyEnabled = True, TenancyLabelKey = ''tenant'', TenancyDefaultTenant = ''shared''\<rparr>"

theorem request_tenant_witness:
  "\<exists>req. NewRequest (fixed_env 200 '''') sample_am ''GET'' ''u'' None
       (ExtractTenant (NewHelper sample_config)
          ((sample_meta ''ns'' ''a'' None)\<lparr>Labels := Some [''tenant'' \<mapsto> ''blue'']\<rparr>)) = Inr req \<and>
     Header_Values req ''X-Scope-OrgID'' = [''blue'']"
proof -
  let ?m = "(sample_meta ''ns'' ''a'' None)\<lparr>Labels := Some [''tenant'' \<mapsto> ''blue'']\<rparr>"
  obtain req where req: "NewRequest (fixed_env 200 '''') sample_am ''GET'' ''u'' None
      (ExtractTenant (NewHelper sample_config) ?m) = Inr req"
    by (simp add: NewRequest_def http_NewRequest_def fixed_env_def Let_def)
  from request_tenant [OF req] req show ?thesis
    by (auto simp: NewHelper_def sample_config_def)
qed

end
