(* ===== verification/Conversions.thy ===== *)
theory Conversions
  imports Controller_V2
begin

section \<open>From custom resources to silences\<close>

text \<open>
  The conversions of both controllers: the matchers, the times, and the silence itself.  The
  first part characterises each conversion; the last theorem compares a v1alpha1 resource with its
  v1alpha2 counterpart.
\<close>

subsection \<open>Matchers\<close>

text \<open>What a v1alpha2 matcher stands for; \<open>None\<close> for an unsupported match type.\<close>

definition matcher_of :: "SilenceMatcher_v2 \<Rightarrow> Matcher option" where
  "matcher_of m = map_option
     (\<lambda>(r, e). \<lparr>IsRegex = r, IsEqual = e, Name = Name_v2 m, Value = Value_v2 m\<rparr>)
     (match_flags (if MatchType m = '''' then MatchEqual else MatchType m))"

lemma match_flags_simps [conv_simps]:
  "match_flags MatchEqual = Some (False, True)" "match_flags MatchNotEqual = Some (False, False)"
  "match_flags MatchRegexMatch = Some (True, True)" "match_flags MatchRegexNotMatch = Some (True, False)"
  by (simp_all add: match_flags_def match_types)

lemma match_flags_None:
  "match_flags t = None \<longleftrightarrow> t \<notin> {MatchEqual, MatchNotEqual, MatchRegexMatch, MatchRegexNotMatch}"
  by (auto simp: match_flags_def)

lemma convertMatchers_loop_Some:
  "\<lbrakk>those (map matcher_of ms) = Some out\<rbrakk>
     \<Longrightarrow> convertMatchers_loop P (slice_of_list acc) ms = (slice_of_list (acc @ out), None)"
proof (induction ms arbitrary: acc out)
  case (Cons m ms)
  from Cons.prems obtain x xs where "matcher_of m = Some x" "those (map matcher_of ms) = Some xs"
    "out = x # xs" by (auto split: option.splits)
  moreover from this(1) obtain r e where
    "match_flags (if MatchType m = '''' then MatchEqual else MatchType m) = Some (r, e)"
    "x = \<lparr>IsRegex = r, IsEqual = e, Name = Name_v2 m, Value = Value_v2 m\<rparr>"
    by (auto simp: matcher_of_def)
  ultimately show ?case using Cons.IH [of xs "acc @ [x]"] by (simp add: Let_def)
qed simp

lemma convertMatchers_loop_None:
  "those (map matcher_of ms) = None \<Longrightarrow> fst (convertMatchers_loop P acc ms) = None \<and>
     (\<exists>m \<in> set ms. matcher_of m = None \<and> snd (convertMatchers_loop P acc ms) =
        Some (Errorf P ''unsupported match type: %s'' [FStr (MatchType m)]))"
proof (induction ms arbitrary: acc)
  case (Cons m ms)
  show ?case
  proof (cases "matcher_of m")
    case None
    then have "match_flags (if MatchType m = '''' then MatchEqual else MatchType m) = None"
      by (simp add: matcher_of_def)
    moreover from this have "MatchType m \<noteq> ''''" by (auto simp: conv_simps)
    ultimately show ?thesis using None by (simp add: Let_def)
  next
    case (Some x)
    then obtain r e where
      "match_flags (if MatchType m = '''' then MatchEqual else MatchType m) = Some (r, e)"
      by (auto simp: matcher_of_def)
    with Cons Some show ?thesis by (auto simp: Let_def)
  qed
qed simp

lemma convertMatchers_ok:
  "those (map matcher_of (slice_elems ms)) = Some out \<Longrightarrow> convertMatchers P ms = (slice_of_list out, None)"
  using convertMatchers_loop_Some [of "slice_elems ms" out P "[]"]
  by (simp add: convertMatchers_def slice_of_list_def)

text \<open>The matchers convert one by one, in order, with an unset match type read as equality;
  one unsupported match type fails the whole conversion, and the error names it.\<close>

theorem convertMatchers_spec:
  "case those (map matcher_of (slice_elems ms)) of
     Some out \<Rightarrow> convertMatchers P ms = (slice_of_list out, None)
   | None \<Rightarrow> fst (convertMatchers P ms) = None \<and>
       (\<exists>m. m \<in> set (slice_elems ms) \<and>
          MatchType m \<notin> {'''', MatchEqual, MatchNotEqual, MatchRegexMatch, MatchRegexNotMatch} \<and>
          snd (convertMatchers P ms) =
            Some (Errorf P ''unsupported match type: %s'' [FStr (MatchType m)]))"
proof (cases "those (map matcher_of (slice_elems ms))")
  case None
  from convertMatchers_loop_None [OF this, of P None] obtain m where m: "m \<in> set (slice_elems ms)"
    "matcher_of m = None" "fst (convertMatchers P ms) = None"
    "snd (convertMatchers P ms) = Some (Errorf P ''unsupported match type: %s'' [FStr (MatchType m)])"
    by (auto simp: convertMatchers_def)
  from m(2) have "MatchType m \<notin> {'''', MatchEqual, MatchNotEqual, MatchRegexMatch, MatchRegexNotMatch}"
    by (auto simp: matcher_of_def match_flags_None split: if_splits)
  with None m show ?thesis by auto
qed (simp add: convertMatchers_ok)

text \<open>What a matcher of either version stands for, said with the operators of its text: an unset match type is
  equality, an unset \<open>isEqual\<close> is true.\<close>

definition stands_for_v2 :: "SilenceMatcher_v2 \<Rightarrow> Matcher \<Rightarrow> bool" where
  "stands_for_v2 m x \<longleftrightarrow> Name x = Name_v2 m \<and> Value x = Value_v2 m \<and>
     MatchType m \<in> {'''', ''='', ''!='', ''=~'', ''!~''} \<and>
     (IsRegex x \<longleftrightarrow> MatchType m \<in> {''=~'', ''!~''}) \<and> (IsEqual x \<longleftrightarrow> MatchType m \<in> {'''', ''='', ''=~''})"

definition stands_for_v1 :: "Matcher_v1 \<Rightarrow> Matcher \<Rightarrow> bool" where
  "stands_for_v1 m x \<longleftrightarrow> Name x = Name_v1 m \<and> Value x = Value_v1 m \<and> (IsRegex x \<longleftrightarrow> IsRegex_v1 m) \<and>
     (IsEqual x \<longleftrightarrow> IsEqual_v1 m \<noteq> Some False)"

lemma matcher_of_stands: "matcher_of m = Some x \<Longrightarrow> stands_for_v2 m x"
  by (auto simp: matcher_of_def stands_for_v2_def match_flags_def match_types split: if_splits)

lemma convertMatcher_v1_stands: "stands_for_v1 m (convertMatcher_v1 m)"
  by (cases "IsEqual_v1 m") (auto simp: stands_for_v1_def convertMatcher_v1_def)

lemma those_list_all2: "those (map f xs) = Some ys \<Longrightarrow> list_all2 (\<lambda>x y. f x = Some y) xs ys"
  by (induction xs arbitrary: ys) (auto split: option.splits)

lemma convertMatchers_stands:
  assumes "convertMatchers P ms = (out, None)"
  shows "list_all2 stands_for_v2 (slice_elems ms) (slice_elems out)"
proof (cases "those (map matcher_of (slice_elems ms))")
  case None
  then show ?thesis
    using convertMatchers_loop_None [OF None, of P None] assms by (auto simp: convertMatchers_def)
next
  case (Some xs)
  then have "out = slice_of_list xs" using convertMatchers_ok [OF Some, of P] assms by simp
  then show ?thesis using those_list_all2 [OF Some] matcher_of_stands by (auto elim: list_all2_mono)
qed

text \<open>A resource of each version, for witnesses: two matchers, no times.\<close>

definition sample_v1 :: Silence_v1 where
  "sample_v1 = \<lparr>Meta_v1 = (sample_meta ''ns'' ''a'' None)\<lparr>CreationTimestamp := time_Date 2024 2 29 0 0 0 0 0\<rparr>,
     Spec_v1 = \<lparr>TargetTags_v1 = None,
       Matchers_v1 = Some
         [\<lparr>IsRegex_v1 = False, IsEqual_v1 = None, Name_v1 = ''alertname'', Value_v1 = ''Down''\<rparr>,
          \<lparr>IsRegex_v1 = True, IsEqual_v1 = Some False, Name_v1 = ''cluster'', Value_v1 = ''a.*''\<rparr>],
       Owner_v1 = '''', PostmortemURL_v1 = None, IssueURL_v1 = ''''\<rparr>\<rparr>"

definition sample_v2 :: Silence_v2 where
  "sample_v2 = \<lparr>Meta_v2 = Meta_v1 sample_v1,
     Spec_v2 = \<lparr>Matchers_v2 = Some
         [\<lparr>Name_v2 = ''alertname'', Value_v2 = ''Down'', MatchType = MatchEqual\<rparr>,
          \<lparr>Name_v2 = ''cluster'', Value_v2 = ''a.*'', MatchType = MatchRegexNotMatch\<rparr>],
       StartsAt_v2 = None, EndsAt_v2 = None, DurationField_v2 = None\<rparr>\<rparr>"

subsection \<open>Times\<close>

text \<open>C34: the start is the one asked for, else the creation; the end is the one asked for, else the
  start plus the duration, in the location of the start, else the one of the annotation.  It is an error
  exactly when there is no start and the creation time is zero, or there is no end and the duration
  cannot be read or, without a duration, the annotation cannot.\<close>

theorem calculateSilenceTimes_spec:
  assumes "errors_pkg_ok P"
    and "start = (case StartsAt_v2 (Spec_v2 obj) of Some t \<Rightarrow> t | None \<Rightarrow> CreationTimestamp (Meta_v2 obj))"
  shows "(snd (calculateSilenceTimes P PD obj) \<noteq> None \<longleftrightarrow>
      (StartsAt_v2 (Spec_v2 obj) = None \<and> IsZero (CreationTimestamp (Meta_v2 obj))) \<or>
      (EndsAt_v2 (Spec_v2 obj) = None \<and>
         (case DurationField_v2 (Spec_v2 obj) of
            Some d \<Rightarrow> isl (PD d)
          | None \<Rightarrow> snd (SilenceEndsAt P (Meta_v2 obj)) \<noteq> None))) \<and>
    (\<forall>s e. calculateSilenceTimes P PD obj = ((s, e), None) \<longrightarrow> s = start \<and>
      (case EndsAt_v2 (Spec_v2 obj) of
         Some t \<Rightarrow> e = t
       | None \<Rightarrow> (case DurationField_v2 (Spec_v2 obj) of
           Some d \<Rightarrow> (\<exists>ns. PD d = Inr ns \<and> unix_ns e = unix_ns start + sint ns \<and> zone_off e = zone_off start)
         | None \<Rightarrow> SilenceEndsAt P (Meta_v2 obj) = (e, None))))"
proof -
  note [simp] = Let_def Duration_v2_def time_Add_def
  show ?thesis
    unfolding assms(2)
    by (cases "StartsAt_v2 (Spec_v2 obj)"; cases "EndsAt_v2 (Spec_v2 obj)"; cases "DurationField_v2 (Spec_v2 obj)")
      (simp_all add: calculateSilenceTimes_def errors_pkg_nil(1) [OF assms(1)] errors_pkg_Some(1) [OF assms(1)] split: sum.split option.split prod.split)
qed

theorem calculateSilenceTimes_spec_witness:
  "calculateSilenceTimes sample_errors (\<lambda>_. Inr 0) sample_v2 =
     ((time_Date 2024 2 29 0 0 0 0 0, time_Date 2124 2 29 0 0 0 0 0), None) \<and>
   snd (calculateSilenceTimes sample_errors (\<lambda>_. Inr 0)
     (sample_v2\<lparr>Meta_v2 := (Meta_v2 sample_v2)\<lparr>CreationTimestamp := time_zero\<rparr>\<rparr>)) \<noteq> None"
proof -
  have "SilenceEndsAt sample_errors (Meta_v2 sample_v2) = (time_Date 2124 2 29 0 0 0 0 0, None)"
    "StartsAt_v2 (Spec_v2 sample_v2) = None" "EndsAt_v2 (Spec_v2 sample_v2) = None"
    "DurationField_v2 (Spec_v2 sample_v2) = None" "\<not> IsZero (CreationTimestamp (Meta_v2 sample_v2))"
    "CreationTimestamp (Meta_v2 sample_v2) = time_Date 2024 2 29 0 0 0 0 0" "IsZero time_zero"
    by code_simp+
  then show ?thesis
    using calculateSilenceTimes_spec [OF sample_errors_ok refl, where obj = sample_v2 and PD = "\<lambda>_. Inr 0"]
      calculateSilenceTimes_spec [OF sample_errors_ok refl, where PD = "\<lambda>_. Inr 0" and
        obj = "sample_v2\<lparr>Meta_v2 := (Meta_v2 sample_v2)\<lparr>CreationTimestamp := time_zero\<rparr>\<rparr>"]
    by (cases "calculateSilenceTimes sample_errors (\<lambda>_. Inr 0) sample_v2") auto
qed

subsection \<open>The silence of a resource, in both versions\<close>

definition same_matcher :: "Matcher_v1 \<Rightarrow> SilenceMatcher_v2 \<Rightarrow> bool" where
  "same_matcher a b \<longleftrightarrow> Name_v2 b = Name_v1 a \<and> Value_v2 b = Value_v1 a \<and>
     MatchType b =
       (case (IsRegex_v1 a, IsEqual_v1 a \<noteq> Some False) of
          (False, True) \<Rightarrow> MatchEqual | (False, False) \<Rightarrow> MatchNotEqual
        | (True, True) \<Rightarrow> MatchRegexMatch | (True, False) \<Rightarrow> MatchRegexNotMatch)"

lemma same_matcher_of: "same_matcher a b \<Longrightarrow> matcher_of b = Some (convertMatcher_v1 a)"
proof -
  assume s: "same_matcher a b"
  have "MatchEqual \<noteq> ''''" "MatchNotEqual \<noteq> ''''" "MatchRegexMatch \<noteq> ''''" "MatchRegexNotMatch \<noteq> ''''"
    by (simp_all add: match_types)
  with s show ?thesis
    by (cases "IsRegex_v1 a"; cases "IsEqual_v1 a")
      (auto simp: same_matcher_def matcher_of_def convertMatcher_v1_def conv_simps
        split: bool.splits)
qed

lemma those_same:
  "list_all2 same_matcher as bs \<Longrightarrow> those (map matcher_of bs) = Some (map convertMatcher_v1 as)"
  by (induction rule: list_all2_induct) (simp_all add: same_matcher_of)

lemma fold_append_slice:
  "fold (\<lambda>x ms. slice_append ms (f x)) xs (slice_of_list acc) = slice_of_list (acc @ map f xs)"
  by (induction xs arbitrary: acc) simp_all

lemma comment_of_scope:
  assumes "Namespace m = ''''" "Namespace n \<noteq> ''''" "ObjName n = ObjName m"
  shows "SilenceComment n \<noteq> SilenceComment m"
proof -
  have "length (SilenceComment n) > length (SilenceComment m)" using assms by (simp add: SilenceComment_def)
  then show ?thesis by auto
qed

lemma convert_v1_slices:
  "fold (\<lambda>x ms. slice_append ms (convertMatcher_v1 x)) xs None = slice_of_list (map convertMatcher_v1 xs)"
  using fold_append_slice [of convertMatcher_v1 xs "[]"] by (simp add: slice_of_list_def)

text \<open>C14: a v1alpha1 resource, which has no namespace, and its counterpart of v1alpha2, which has one, with the same
  name, annotation \<open>valid-until\<close> and matchers, a creation time and no other times of its own, fail together or become silences with the
  same matchers and creator, each starting at its own resource's creation, and with the same end if the
  annotation gives it and else each a hundred years after its creation.  But their comments always differ: the silence
  of the one is never taken for that of the other.\<close>

theorem versions_agree:
  assumes "errors_pkg_ok P" "Namespace (Meta_v1 a) = ''''" "Namespace (Meta_v2 b) \<noteq> ''''"
    and "ObjName (Meta_v2 b) = ObjName (Meta_v1 a)"
    and "map_lookup (Annotations (Meta_v2 b)) ValidUntilAnnotationName = map_lookup (Annotations (Meta_v1 a)) ValidUntilAnnotationName"
    and "list_all2 same_matcher (slice_elems (Matchers_v1 (Spec_v1 a))) (slice_elems (Matchers_v2 (Spec_v2 b)))"
    and "StartsAt_v2 (Spec_v2 b) = None" "EndsAt_v2 (Spec_v2 b) = None"
    and "DurationField_v2 (Spec_v2 b) = None" "\<not> IsZero (CreationTimestamp (Meta_v2 b))"
  shows "case (getSilenceFromCR_v1 P a, getSilenceFromCR_v2 P PD b) of
      ((Some s1, None), (Some s2, None)) \<Rightarrow>
        Matchers s2 = Matchers s1 \<and> CreatedBy s2 = CreatedBy s1 \<and>
        StartsAt s1 = CreationTimestamp (Meta_v1 a) \<and> StartsAt s2 = CreationTimestamp (Meta_v2 b) \<and>
        (case map_lookup (Annotations (Meta_v1 a)) ValidUntilAnnotationName of
           Some _ \<Rightarrow> EndsAt s2 = EndsAt s1
         | None \<Rightarrow> EndsAt s1 = time_AddDate (CreationTimestamp (Meta_v1 a)) 100 0 0 \<and>
             EndsAt s2 = time_AddDate (CreationTimestamp (Meta_v2 b)) 100 0 0) \<and>
        Comment s2 \<noteq> Comment s1
    | ((None, Some _), (None, Some _)) \<Rightarrow> True
    | _ \<Rightarrow> False"
proof -
  let ?ms = "slice_of_list (map convertMatcher_v1 (slice_elems (Matchers_v1 (Spec_v1 a))))"
  have m2: "convertMatchers P (Matchers_v2 (Spec_v2 b)) = (?ms, None)"
    by (rule convertMatchers_ok) (rule those_same [OF assms(6)])
  note scope = comment_of_scope [OF assms(2-4)]
  obtain e1 err where ends: "SilenceEndsAt P (Meta_v1 a) = (e1, err)" by (metis prod.exhaust)
  obtain e2 where ends2: "SilenceEndsAt P (Meta_v2 b) = (e2, err)"
    "map_lookup (Annotations (Meta_v1 a)) ValidUntilAnnotationName \<noteq> None \<Longrightarrow> e2 = e1"
    using ends assms(5) by (cases "map_lookup (Annotations (Meta_v1 a)) ValidUntilAnnotationName") (auto simp: SilenceEndsAt_def)
  show ?thesis
  proof (cases err)
    case None
    then show ?thesis
      using assms ends ends2 m2 scope
      by (auto simp: getSilenceFromCR_v1_def getSilenceFromCR_v2_def calculateSilenceTimes_def convert_v1_slices
          SilenceEndsAt_def split: option.split)
  next
    case (Some x)
    obtain y where y: "WithStack P (Some x) = Some y" using errors_pkg_Some(1) [OF assms(1)] by blast
    obtain z where "WithStack P (Some y) = Some z" using errors_pkg_Some(1) [OF assms(1)] by blast
    with Some y show ?thesis
      using assms ends ends2 m2
      by (simp add: getSilenceFromCR_v1_def getSilenceFromCR_v2_def calculateSilenceTimes_def)
  qed
qed

text \<open>A cluster-wide object, and its counterpart in a namespace that was made a year later.\<close>

definition global_v1 :: Silence_v1 where
  "global_v1 = sample_v1\<lparr>Meta_v1 := (Meta_v1 sample_v1)\<lparr>Namespace := '''',
     Annotations := Some [ValidUntilAnnotationName \<mapsto> ''2026-01-02'']\<rparr>\<rparr>"

definition local_v2 :: Silence_v2 where
  "local_v2 = sample_v2\<lparr>Meta_v2 := (Meta_v2 sample_v2)\<lparr>Annotations := Some [ValidUntilAnnotationName \<mapsto> ''2026-01-02''],
     CreationTimestamp := time_Date 2025 3 1 0 0 0 0 0\<rparr>\<rparr>"

theorem versions_agree_witness:
  "\<exists>s1 s2. getSilenceFromCR_v1 sample_errors global_v1 = (Some s1, None) \<and>
     getSilenceFromCR_v2 sample_errors (\<lambda>_. Inr 0) local_v2 = (Some s2, None) \<and>
     Matchers s2 = Matchers s1 \<and> EndsAt s2 = EndsAt s1 \<and> StartsAt s2 = time_Date 2025 3 1 0 0 0 0 0 \<and> Comment s2 \<noteq> Comment s1"
proof -
  have h: "Namespace (Meta_v1 global_v1) = ''''" "Namespace (Meta_v2 local_v2) \<noteq> ''''"
    "ObjName (Meta_v2 local_v2) = ObjName (Meta_v1 global_v1)"
    "map_lookup (Annotations (Meta_v2 local_v2)) ValidUntilAnnotationName =
       map_lookup (Annotations (Meta_v1 global_v1)) ValidUntilAnnotationName"
    "list_all2 same_matcher (slice_elems (Matchers_v1 (Spec_v1 global_v1))) (slice_elems (Matchers_v2 (Spec_v2 local_v2)))"
    "StartsAt_v2 (Spec_v2 local_v2) = None" "EndsAt_v2 (Spec_v2 local_v2) = None"
    "DurationField_v2 (Spec_v2 local_v2) = None" "CreationTimestamp (Meta_v2 local_v2) = time_Date 2025 3 1 0 0 0 0 0"
    "map_lookup (Annotations (Meta_v1 global_v1)) ValidUntilAnnotationName = Some ''2026-01-02''"
    by (simp_all add: global_v1_def local_v2_def sample_v1_def sample_v2_def sample_meta_def same_matcher_def)
  have z: "\<not> IsZero (CreationTimestamp (Meta_v2 local_v2))" "snd (getSilenceFromCR_v1 sample_errors global_v1) = None"
    by code_simp+
  note v = versions_agree [OF sample_errors_ok h(1-8) z(1), of "\<lambda>_. Inr 0"]
  obtain s1 where 1: "getSilenceFromCR_v1 sample_errors global_v1 = (Some s1, None)"
    using v z(2) by (cases "getSilenceFromCR_v1 sample_errors global_v1") (auto split: prod.splits option.splits)
  obtain s2 where 2: "getSilenceFromCR_v2 sample_errors (\<lambda>_. Inr 0) local_v2 = (Some s2, None)"
    using v 1 by (auto split: prod.splits option.splits)
  show ?thesis using v 1 2 h(9,10) by simp
qed

end
