(* ===== verification/Samples.thy ===== *)
theory Samples
  imports Contracts Client_Spec Conversions
begin

section \<open>Samples\<close>

text \<open>
  Concrete resources, clients and clocks that the witnesses of several theories share.
\<close>

text \<open>An API server that answers one object and accepts every update.\<close>

definition fixed_kube :: "'obj \<Rightarrow> ('w, 'obj) KubeClient" where
  "fixed_kube obj = \<lparr>Kube_Get = (\<lambda>_ w. (Inr obj, w)), Kube_Update = (\<lambda>o' w. (Inr o', w))\<rparr>"

definition sample_key :: NamespacedName where
  "sample_key = \<lparr>KeyNamespace = ''ns'', KeyName = ''a''\<rparr>"

text \<open>The metadata of an object that is being deleted, with the given finalizers.\<close>

definition going_meta :: "string list \<Rightarrow> ObjectMeta" where
  "going_meta fs = (sample_meta ''ns'' ''a'' None)
     \<lparr>Finalizers := fs, DeletionTimestamp := Some (time_Date 2024 3 1 0 0 0 0 0)\<rparr>"

abbreviation sample_helper :: "unit Helper" where
  "sample_helper \<equiv> NewHelper sample_config"

lemma sample_libs [simp]: "libs_ok sample_errors sample_kube (fixed_env code body)"
  by (simp add: libs_ok_def env_ok_def fixed_env_def)

lemma read_meta_fixed [simp]: "read_meta meta (fixed_kube obj) k w = Some (meta obj)"
  by (simp add: read_meta_def fixed_kube_def)

definition going_v2 :: Silence_v2 where
  "going_v2 = sample_v2\<lparr>Meta_v2 := going_meta [FinalizerName]\<rparr>"

definition kept_v2 :: Silence_v2 where
  "kept_v2 = sample_v2\<lparr>Meta_v2 := (Meta_v2 sample_v2)\<lparr>Finalizers := [FinalizerName]\<rparr>\<rparr>"

end
