(* ===== verification/Json_Fuel.thy ===== *)
theory Json_Fuel
  imports Go_Json
begin

section \<open>The JSON scanner never runs out of fuel\<close>

text \<open>
  Every scanner consumes what it returns a value for, and with two units of fuel per byte and two
  more the result of \<open>scan_value\<close> is the result with any larger amount, for every text, well formed
  or not.  So the fuel of \<open>json_parse\<close> is no limit.
\<close>

lemma skip_ws_length: "length (skip_ws s) \<le> length s"
  by (simp add: skip_ws_def length_dropWhile_le)

lemma skip_ws_rest: "skip_ws s = c # r \<Longrightarrow> length r < length s"
  using skip_ws_length [of s] by simp

lemma scan_str_length: "scan_str s = Some (x, t) \<Longrightarrow> length t < length s"
proof (induction s arbitrary: x t rule: scan_str.induct)
  case (2 c r)
  show ?case
  proof (cases "c = CHR 0x5C")
    case True
    then show ?thesis
      using 2 by (auto split: list.splits if_splits) fastforce+
  next
    case False
    then show ?thesis using 2 by (auto split: if_splits)
  qed
qed simp

lemma scan_digits_length: "scan_digits s = Some (x, t) \<Longrightarrow> length t < length s"
proof -
  assume a: "scan_digits s = Some (x, t)"
  then obtain c r where s: "s = c # r" "ascii_digit c" by (cases s) (auto simp: scan_digits_def split: if_splits)
  have "length (dropWhile ascii_digit r) \<le> length r" by (rule length_dropWhile_le)
  then show ?thesis using a s by (auto simp: scan_digits_def)
qed

lemma scan_opt_length: "scan_opt p s = (x, t) \<Longrightarrow> length t \<le> length s"
  by (auto simp: scan_opt_def split: list.splits if_splits)

lemma scan_int_length: "scan_int s = Some (x, t) \<Longrightarrow> length t < length s"
  by (auto simp: scan_int_def split: list.splits if_splits dest: scan_digits_length)

lemma scan_frac_length: "scan_frac s = Some (x, t) \<Longrightarrow> length t \<le> length s"
  by (auto simp: scan_frac_def split: list.splits if_splits dest: scan_digits_length)

lemma scan_exp_length: "scan_exp s = Some (x, t) \<Longrightarrow> length t \<le> length s"
  by (fastforce simp: scan_exp_def split: list.splits if_splits prod.splits
      dest: scan_digits_length scan_opt_length)

lemma scan_num_length: "scan_num s = Some (x, t) \<Longrightarrow> length t < length s"
  by (fastforce simp: scan_num_def bind_eq_Some_conv split: prod.splits
      dest: scan_opt_length scan_int_length scan_frac_length scan_exp_length)

lemma scan_lit_length: "scan_lit l v s = Some (x, t) \<Longrightarrow> l \<noteq> [] \<Longrightarrow> length t < length s"
  by (cases s; cases l) (auto simp: scan_lit_def split: if_splits)

lemma scan_length_all:
  "(\<forall>v t. scan_value n s = Some (v, t) \<longrightarrow> length t < length s) \<and>
   (\<forall>vs t. scan_elems n s = Some (vs, t) \<longrightarrow> length t < length s) \<and>
   (\<forall>ms t. scan_members n s = Some (ms, t) \<longrightarrow> length t < length s)"
proof (induction n arbitrary: s)
  case (Suc n)
  have "length t < length s" if v: "scan_value (Suc n) s = Some (v, t)" for v t
  proof -
    obtain c r where s: "skip_ws s = c # r" using v by (cases "skip_ws s") auto
    have "length t < length (c # r)"
      using v s Suc skip_ws_length [of r]
      by (fastforce split: if_splits list.splits
          dest: scan_str_length scan_num_length scan_lit_length)
    then show ?thesis using skip_ws_length [of s] s by simp
  qed
  moreover have "length t < length s" if v: "scan_elems (Suc n) s = Some (vs, t)" for vs t
  proof -
    obtain x u where x: "scan_value n s = Some (x, u)" using v by (auto simp: bind_eq_Some_conv)
    obtain c r where u: "skip_ws u = c # r" using v x by (cases "skip_ws u") auto
    have "length t \<le> length r" using v x u Suc by (auto split: if_splits) (meson less_imp_le)
    then show ?thesis using skip_ws_rest [OF u] Suc x by fastforce
  qed
  moreover have "length t < length s" if v: "scan_members (Suc n) s = Some (ms, t)" for ms t
  proof -
    obtain q r where s: "skip_ws s = q # r" using v by (cases "skip_ws s") auto
    obtain k u where k: "scan_str r = Some (k, u)" using v s by (auto simp: bind_eq_Some_conv split: if_splits)
    obtain c u' where c: "skip_ws u = c # u'" using v s k by (cases "skip_ws u") (auto split: if_splits)
    obtain x y where x: "scan_value n u' = Some (x, y)"
      using v s k c by (auto simp: bind_eq_Some_conv split: if_splits)
    obtain d z where d: "skip_ws y = d # z" using v s k c x by (cases "skip_ws y") (auto split: if_splits)
    have "length t \<le> length z" using v s k c x d Suc by (auto split: if_splits) (meson less_imp_le)
    moreover have "length y < length u'" using Suc x by blast
    ultimately show ?thesis
      using skip_ws_rest [OF s] skip_ws_rest [OF c] skip_ws_rest [OF d] scan_str_length [OF k] by simp
  qed
  ultimately show ?case by blast
qed simp

lemmas scan_length = scan_length_all [THEN conjunct1, rule_format]

text \<open>With two units per byte and some to spare the result no longer depends on the fuel.  Each step
  is shown for itself, given the claim for the fuel that is left: \<open>settled\<close> says that a scanner's
  result with \<open>n\<close> units is its result with more.\<close>

abbreviation settled :: "(nat \<Rightarrow> string \<Rightarrow> 'a) \<Rightarrow> nat \<Rightarrow> nat \<Rightarrow> bool" where
  "settled f k n \<equiv> \<forall>s m. 2 * length s + k < n \<longrightarrow> n \<le> m \<longrightarrow> f m s = f n s"

lemma scan_value_settled:
  assumes "settled scan_elems 1 n" "settled scan_members 1 n" "2 * length s < Suc n" "n \<le> m"
  shows "scan_value (Suc m) s = scan_value (Suc n) s"
proof (cases "skip_ws s")
  case s: (Cons c r)
  have r: "length r < length s" using skip_ws_rest [OF s] .
  show ?thesis
  proof (cases "skip_ws r")
    case (Cons d r')
    have "length (d # r') \<le> length r" using skip_ws_length [of r] Cons by simp
    then have "2 * length (d # r') + 1 < n" using r assms(3) by linarith
    then show ?thesis
      using assms(1) [rule_format, OF _ assms(4)] assms(2) [rule_format, OF _ assms(4)] s Cons by simp
  qed (simp add: s)
qed simp

lemma scan_elems_settled:
  assumes "settled scan_value 0 n" "settled scan_elems 1 n" "2 * length s + 1 < Suc n" "n \<le> m"
  shows "scan_elems (Suc m) s = scan_elems (Suc n) s"
proof -
  have "2 * length s + 0 < n" using assms(3) by linarith
  then have V: "scan_value m s = scan_value n s" using assms(1,4) by blast
  show ?thesis
  proof (cases "scan_value n s")
    case (Some vt)
    obtain v t where vt: "vt = (v, t)" by (cases vt)
    have t: "length t < length s" using Some vt scan_length by blast
    show ?thesis
    proof (cases "skip_ws t")
      case (Cons c r)
      have "2 * length r + 1 < n" using skip_ws_rest [OF Cons] t assms(3) by linarith
      then have "scan_elems m r = scan_elems n r" using assms(2,4) by blast
      then show ?thesis using V Some vt Cons by simp
    qed (simp add: V Some vt)
  qed (simp add: V)
qed

lemma scan_members_settled:
  assumes "settled scan_value 0 n" "settled scan_members 1 n" "2 * length s + 1 < Suc n" "n \<le> m"
  shows "scan_members (Suc m) s = scan_members (Suc n) s"
proof (cases "skip_ws s")
  case s: (Cons q r)
  show ?thesis
  proof (cases "scan_str r")
    case (Some ku)
    obtain k u where k: "scan_str r = Some (k, u)" using Some by (cases ku) simp
    show ?thesis
    proof (cases "skip_ws u")
      case c: (Cons c u')
      have u': "length u' < length s"
        using skip_ws_rest [OF s] scan_str_length [OF k] skip_ws_rest [OF c] by linarith
      then have "2 * length u' + 0 < n" using assms(3) by linarith
      then have V: "scan_value m u' = scan_value n u'" using assms(1,4) by blast
      show ?thesis
      proof (cases "scan_value n u'")
        case (Some xy)
        obtain x y where x: "scan_value n u' = Some (x, y)" using Some by (cases xy) simp
        have y: "length y < length u'" using x scan_length by blast
        show ?thesis
        proof (cases "skip_ws y")
          case d: (Cons d z)
          have "2 * length z + 1 < n" using skip_ws_rest [OF d] y u' assms(3) by linarith
          then have "scan_members m z = scan_members n z" using assms(2,4) by blast
          then show ?thesis using V by (simp add: s k c x d)
        qed (use V in \<open>simp add: s k c x\<close>)
      qed (use V in \<open>simp add: s k c\<close>)
    qed (simp add: s k)
  qed (simp add: s)
qed simp

lemma scan_fuel_all: "settled scan_value 0 n \<and> settled scan_elems 1 n \<and> settled scan_members 1 n"
proof (induction n)
  case (Suc n)
  note [simp del] = scan_value.simps scan_elems.simps scan_members.simps
  have IH: "settled scan_value 0 n" "settled scan_elems 1 n" "settled scan_members 1 n" using Suc by blast+
  have V: "scan_value (Suc m) s = scan_value (Suc n) s" if "2 * length s + 0 < Suc n" "n \<le> m" for s m
    using scan_value_settled [OF IH(2,3) _ that(2)] that(1) by simp
  have E: "scan_elems (Suc m) s = scan_elems (Suc n) s" if "2 * length s + 1 < Suc n" "n \<le> m" for s m
    by (rule scan_elems_settled [OF IH(1,2) that])
  have M: "scan_members (Suc m) s = scan_members (Suc n) s" if "2 * length s + 1 < Suc n" "n \<le> m" for s m
    by (rule scan_members_settled [OF IH(1,3) that])
  show ?case
  proof (intro conjI allI impI)
    show "scan_value m s = scan_value (Suc n) s" if "2 * length s + 0 < Suc n" "Suc n \<le> m" for s m
      using V [OF that(1), of "m - 1"] that(2) by (cases m) simp_all
    show "scan_elems m s = scan_elems (Suc n) s" if "2 * length s + 1 < Suc n" "Suc n \<le> m" for s m
      using E [OF that(1), of "m - 1"] that(2) by (cases m) simp_all
    show "scan_members m s = scan_members (Suc n) s" if "2 * length s + 1 < Suc n" "Suc n \<le> m" for s m
      using M [OF that(1), of "m - 1"] that(2) by (cases m) simp_all
  qed
qed simp

lemma json_parse_fuel:
  assumes "2 * length s + 2 \<le> n"
  shows "json_parse s = (case scan_value n s of
      Some (v, r) \<Rightarrow> if skip_ws r = [] then Some v else None | None \<Rightarrow> None)"
proof -
  have "scan_value n s = scan_value (2 * length s + 2) s" using scan_fuel_all [of "2 * length s + 2"] assms by auto
  then show ?thesis by (simp add: json_parse_def del: scan_value.simps)
qed

end
