(* ===== verification/Json_Round_Trip.thy ===== *)
theory Json_Round_Trip
  imports Go_Json
begin

section \<open>The JSON printer and scanner agree\<close>

text \<open>
  A quoted string is scanned to its closing quote and unquoted to the string it came from; a
  printed tree is parsed to itself, with fuel of the length of its text.
\<close>

subsection \<open>UTF-8 sequences\<close>

lemma in_ranges_length: "in_ranges rs r \<Longrightarrow> length rs \<le> length r"
  by (induction rs r rule: in_ranges.induct) auto

lemma in_ranges_take: "in_ranges rs r \<Longrightarrow> in_ranges rs (take (length rs) r @ x)"
  by (induction rs r rule: in_ranges.induct) auto

lemma rune_tail_SomeD:
  assumes "rune_tail c r = Some j"
  shows "j \<le> length r" "rune_tail c (take j r @ x) = Some j"
  using assms
  by (auto simp: rune_tail_def in_ranges_length in_ranges_take split: option.splits if_splits)

lemma in_ranges_high:
  "in_ranges rs r \<Longrightarrow> list_all (\<lambda>(lo, hi). 128 \<le> lo) rs
     \<Longrightarrow> list_all (\<lambda>c. 128 \<le> (of_char c :: nat)) (take (length rs) r)"
  by (induction rs r rule: in_ranges.induct) auto

lemma rune_tail_high:
  assumes "rune_tail c r = Some j"
  shows "list_all (\<lambda>c. 128 \<le> (of_char c :: nat)) (take j r)"
proof -
  from assms obtain rs where rs: "rune_ranges (of_char c) = Some rs" "in_ranges rs r" "j = length rs"
    by (auto simp: rune_tail_def split: option.splits if_splits)
  have "list_all (\<lambda>(lo, hi). 128 \<le> lo) rs"
    using rs(1) by (auto simp: rune_ranges_def split: if_splits)
  with in_ranges_high [OF rs(2)] rs(3) show ?thesis by simp
qed

subsection \<open>Unquoting\<close>

lemma hex_value_lower [simp]: "n < 16 \<Longrightarrow> hex_value (hex_lower n) = Some n"
  by (auto simp: hex_value_def hex_lower_def of_char_of Let_def)

lemma unquote_Nil [simp]: "unquote [] = []"
  by (subst unquote.simps) simp

lemma unquote_plain:
  "\<lbrakk>c \<noteq> CHR 0x5C; (of_char c :: nat) < 128\<rbrakk> \<Longrightarrow> unquote (c # r) = c # unquote r"
  by (subst unquote.simps) simp

lemma unquote_rune:
  assumes "128 \<le> (of_char c :: nat)" "rune_tail c r = Some j"
  shows "unquote (c # r) = c # take j r @ unquote (drop j r)"
proof -
  have "c \<noteq> CHR 0x5C" using assms(1) by auto
  then show ?thesis using assms by (subst unquote.simps) simp
qed

lemma unquote_simple:
  assumes "e \<noteq> CHR ''u''"
  shows "unquote (CHR 0x5C # e # r) = simple_escape e # unquote r"
proof -
  have "getu4 (CHR 0x5C # e # r) = None" using assms by (simp add: getu4_def)
  then show ?thesis by (subst unquote.simps) (simp add: unquote_u4_def)
qed

lemma unquote_hex:
  assumes "hex4 [a, b, c, d] = Some n" "\<not> surrogate n"
  shows "unquote (CHR 0x5C # CHR ''u'' # a # b # c # d # r) = utf8_encode n @ unquote r"
proof -
  have "getu4 (CHR 0x5C # CHR ''u'' # a # b # c # d # r) = Some (n, r)"
    using assms(1) by (simp add: getu4_def numeral_eq_Suc)
  then show ?thesis using assms(2) by (subst unquote.simps) (simp add: unquote_u4_def)
qed

lemma hex4_u00 [simp]:
  assumes "n < 256"
  shows "hex4 [CHR ''0'', CHR ''0'', hex_lower (n div 16), hex_lower (n mod 16)] = Some n"
proof -
  have "n div 16 < 16" using assms by (simp add: less_mult_imp_div_less)
  moreover have "hex_value (CHR ''0'') = Some 0" by code_simp
  ultimately show ?thesis by (simp add: hex4_def)
qed

lemma byte_eqs:
  "of_char c = (34 :: nat) \<longleftrightarrow> c = CHR 0x22"
  "of_char c = (92 :: nat) \<longleftrightarrow> c = CHR 0x5C"
  "of_char c = (8 :: nat) \<longleftrightarrow> c = CHR 8"
  "of_char c = (12 :: nat) \<longleftrightarrow> c = CHR 12"
  "of_char c = (10 :: nat) \<longleftrightarrow> c = CHR 10"
  "of_char c = (13 :: nat) \<longleftrightarrow> c = CHR 13"
  "of_char c = (9 :: nat) \<longleftrightarrow> c = CHR 9"
  using of_char_eq_iff [of c "CHR 0x22", where 'a = nat] of_char_eq_iff [of c "CHR 0x5C", where 'a = nat] of_char_eq_iff [of c "CHR 8", where 'a = nat] of_char_eq_iff [of c "CHR 12", where 'a = nat] of_char_eq_iff [of c "CHR 10", where 'a = nat] of_char_eq_iff [of c "CHR 13", where 'a = nat] of_char_eq_iff [of c "CHR 9", where 'a = nat]
  by simp_all

lemma escape_ascii_plain:
  assumes "c \<notin> set [CHR 0x22, CHR 0x5C, CHR 8, CHR 12, CHR 10, CHR 13, CHR 9]"
  shows "escape_ascii c =
    (let n = of_char c :: nat
     in if n < 32 \<or> n = 0x3C \<or> n = 0x3E \<or> n = 0x26
        then CHR 0x5C # ''u00'' @ [hex_lower (n div 16), hex_lower (n mod 16)] else [c])"
  using assms by (simp add: escape_ascii_def Let_def byte_eqs)

lemma unquote_escape_ascii:
  assumes "(of_char c :: nat) < 128"
  shows "unquote (escape_ascii c @ r) = c # unquote r"
proof (cases "c \<in> set [CHR 0x22, CHR 0x5C, CHR 8, CHR 12, CHR 10, CHR 13, CHR 9]")
  case True
  then show ?thesis by (auto simp: escape_ascii_def unquote_simple simple_escape_def)
next
  case False
  let ?n = "of_char c :: nat"
  note e = escape_ascii_plain [OF False]
  show ?thesis
  proof (cases "?n < 32 \<or> ?n = 0x3C \<or> ?n = 0x3E \<or> ?n = 0x26")
    case True
    then have "escape_ascii c = CHR 0x5C # ''u00'' @ [hex_lower (?n div 16), hex_lower (?n mod 16)]"
      using e by (simp add: Let_def)
    moreover have "utf8_encode ?n = [c]" "\<not> surrogate ?n"
      using True by (auto simp: utf8_encode_def surrogate_def)
    moreover have "?n < 256" using assms by simp
    ultimately show ?thesis using unquote_hex [OF hex4_u00 [of ?n]] by simp
  next
    case False
    then have "escape_ascii c = [c]" using e by (simp add: Let_def)
    moreover have "c \<noteq> CHR 0x5C" using \<open>c \<notin> set _\<close> by simp
    ultimately show ?thesis using assms by (simp add: unquote_plain)
  qed
qed

lemma unquote_json_escape:
  assumes "utf8_valid s"
  shows "unquote (json_escape s) = s"
  using assms
proof (induction s rule: json_escape.induct)
  case (2 c r)
  show ?case
  proof (cases "(of_char c :: nat) < 128")
    case True
    with 2 show ?thesis by (simp add: unquote_escape_ascii)
  next
    case False
    with 2(4) obtain j where j: "rune_tail c r = Some j" "utf8_valid (drop j r)"
      by (auto split: option.splits)
    have IH: "unquote (json_escape (drop j r)) = drop j r" using 2(3) [OF False j] by simp
    let ?t = "c # take j r"
    have plain: "unquote (?t @ json_escape (drop j r)) = ?t @ drop j r"
      using unquote_rune [of c "take j r @ json_escape (drop j r)" j] False
        rune_tail_SomeD [OF j(1)] IH by simp
    have h: "hex4 [CHR ''2'', CHR ''0'', CHR ''2'', CHR ''8''] = Some 0x2028"
      "hex4 [CHR ''2'', CHR ''0'', CHR ''2'', CHR ''9''] = Some 0x2029"
      "utf8_encode 0x2028 = [CHR 0xE2, CHR 0x80, CHR 0xA8]"
      "utf8_encode 0x2029 = [CHR 0xE2, CHR 0x80, CHR 0xA9]"
      "\<not> surrogate 0x2028" "\<not> surrogate 0x2029"
      by (simp_all add: hex4_def hex_value_def utf8_encode_def surrogate_def char_of_def bit_0)
    have split: "?t @ drop j r = c # r" by simp
    consider "?t = [CHR 0xE2, CHR 0x80, CHR 0xA8]" | "?t = [CHR 0xE2, CHR 0x80, CHR 0xA9]"
      | "?t \<noteq> [CHR 0xE2, CHR 0x80, CHR 0xA8]" "?t \<noteq> [CHR 0xE2, CHR 0x80, CHR 0xA9]" by blast
    then show ?thesis
    proof cases
      case 1
      then have "json_escape (c # r) = CHR 0x5C # ''u2028'' @ json_escape (drop j r)"
        using False j by (simp add: Let_def)
      then show ?thesis using unquote_hex [OF h(1,5)] h(3) IH 1 split by (metis append_Cons append_Nil)
    next
      case 2
      then have "json_escape (c # r) = CHR 0x5C # ''u2029'' @ json_escape (drop j r)"
        using False j by (simp add: Let_def)
      then show ?thesis using unquote_hex [OF h(2,6)] h(4) IH 2 split by (metis append_Cons append_Nil)
    next
      case 3
      then have "json_escape (c # r) = ?t @ json_escape (drop j r)"
        using False j by (simp add: Let_def)
      then show ?thesis using plain split by simp
    qed
  qed
qed simp

subsection \<open>Scanning a string\<close>

lemma scan_str_plain:
  "\<lbrakk>c \<noteq> CHR 0x22; c \<noteq> CHR 0x5C; 32 \<le> (of_char c :: nat)\<rbrakk>
     \<Longrightarrow> scan_str (c # r) = map_option (\<lambda>(x, t). (c # x, t)) (scan_str r)"
  by simp

text \<open>The strings that stand between quotes as they are.\<close>

definition str_ok :: "string \<Rightarrow> bool" where
  "str_ok x \<longleftrightarrow> (\<forall>r. scan_str (x @ CHR 0x22 # r) = Some (x, r))"

definition scans :: "string \<Rightarrow> bool" where
  "scans x \<longleftrightarrow> (\<forall>r. scan_str (x @ r) = map_option (\<lambda>(y, t). (x @ y, t)) (scan_str r))"

lemma scans_append:
  assumes "scans x" "scans y"
  shows "scans (x @ y)"
  unfolding scans_def
proof
  fix r
  show "scan_str ((x @ y) @ r) = map_option (\<lambda>(z, t). ((x @ y) @ z, t)) (scan_str r)"
    using assms by (cases "scan_str r") (auto simp: scans_def)
qed

lemma scans_Nil [simp]: "scans []"
  by (simp add: scans_def id_def option.map_ident)

lemma scans_Cons: "\<lbrakk>c \<noteq> CHR 0x22; c \<noteq> CHR 0x5C; 32 \<le> (of_char c :: nat)\<rbrakk> \<Longrightarrow> scans [c]"
  by (simp add: scans_def)

lemma scans_str_ok: "scans x \<Longrightarrow> str_ok x"
  by (simp add: scans_def str_ok_def)

definition plain_byte :: "char \<Rightarrow> bool" where
  "plain_byte c \<longleftrightarrow> c \<noteq> CHR 0x22 \<and> c \<noteq> CHR 0x5C \<and> 32 \<le> (of_char c :: nat)"

lemma scans_plain: "list_all plain_byte x \<Longrightarrow> scans x"
proof (induction x)
  case (Cons c x)
  then show ?case using scans_append [of "[c]" x] scans_Cons [of c] by (simp add: plain_byte_def)
qed simp

lemma scans_u:
  assumes "hex4 [a, b, c, d] = Some n" "scans [a, b, c, d]"
  shows "scans (CHR 0x5C # CHR ''u'' # [a, b, c, d])"
  unfolding scans_def
proof
  fix r
  have "scan_str (CHR 0x5C # CHR ''u'' # a # b # c # d # r)
      = map_option (\<lambda>(x, t). (CHR 0x5C # CHR ''u'' # x, t)) (scan_str ([a, b, c, d] @ r))"
    using assms(1) by (subst scan_str.simps) (simp add: numeral_eq_Suc del: scan_str.simps)
  also have "scan_str ([a, b, c, d] @ r) = map_option (\<lambda>(x, t). ([a, b, c, d] @ x, t)) (scan_str r)"
    using assms(2) unfolding scans_def by blast
  finally show "scan_str ((CHR 0x5C # CHR ''u'' # [a, b, c, d]) @ r) =
      map_option (\<lambda>(y, t). ((CHR 0x5C # CHR ''u'' # [a, b, c, d]) @ y, t)) (scan_str r)"
    by (cases "scan_str r") auto
qed

lemma hex_lower_plain: "n < 16 \<Longrightarrow> plain_byte (hex_lower n)"
  using byte_eqs(1,2) [of "hex_lower n"]
  by (simp add: plain_byte_def hex_lower_def of_char_of split: if_splits)

lemma scans_escape_ascii:
  assumes "(of_char c :: nat) < 128"
  shows "scans (escape_ascii c)"
proof (cases "c \<in> set [CHR 0x22, CHR 0x5C, CHR 8, CHR 12, CHR 10, CHR 13, CHR 9]")
  case True
  then show ?thesis by (auto simp: escape_ascii_def scans_def split: option.splits)
next
  case False
  let ?n = "of_char c :: nat"
  note e = escape_ascii_plain [OF False]
  show ?thesis
  proof (cases "?n < 32 \<or> ?n = 0x3C \<or> ?n = 0x3E \<or> ?n = 0x26")
    case True
    have n: "?n < 256" "?n div 16 < 16" using assms by simp_all
    have "escape_ascii c = CHR 0x5C # CHR ''u'' #
        [CHR ''0'', CHR ''0'', hex_lower (?n div 16), hex_lower (?n mod 16)]"
      using True e by (simp add: Let_def)
    moreover have "list_all plain_byte [CHR ''0'', CHR ''0'', hex_lower (?n div 16), hex_lower (?n mod 16)]"
      using n by (simp add: hex_lower_plain) (simp add: plain_byte_def)
    ultimately show ?thesis
      using scans_u [OF hex4_u00 [OF n(1)]] by (simp only: scans_plain)
  next
    case False
    then have "escape_ascii c = [c]" using e by (simp add: Let_def)
    with False \<open>c \<notin> set _\<close> show ?thesis by (simp add: scans_Cons)
  qed
qed

lemma high_plain: "list_all (\<lambda>c. 128 \<le> (of_char c :: nat)) t \<Longrightarrow> list_all plain_byte t"
  by (auto simp: plain_byte_def list_all_iff)

lemma scans_json_escape: "scans (json_escape s)"
proof (induction s rule: json_escape.induct)
  case (2 c r)
  show ?case
  proof (cases "(of_char c :: nat) < 128")
    case True
    with 2(1) show ?thesis by (simp add: scans_append scans_escape_ascii)
  next
    case False
    have h: "hex4 (''fffd'') = Some 0xFFFD" "hex4 (''2028'') = Some 0x2028" "hex4 (''2029'') = Some 0x2029"
      by (simp_all add: hex4_def hex_value_def)
    have p: "list_all plain_byte ''fffd''" "list_all plain_byte ''2028''" "list_all plain_byte ''2029''"
      by (simp_all add: plain_byte_def)
    have u: "scans (CHR 0x5C # ''ufffd'')" "scans (CHR 0x5C # ''u2028'')" "scans (CHR 0x5C # ''u2029'')"
      using scans_u [OF h(1) scans_plain [OF p(1)]] scans_u [OF h(2) scans_plain [OF p(2)]]
        scans_u [OF h(3) scans_plain [OF p(3)]] by simp_all
    show ?thesis
    proof (cases "rune_tail c r")
      case None
      then have "json_escape (c # r) = (CHR 0x5C # ''ufffd'') @ json_escape r" using False by simp
      then show ?thesis using scans_append [OF u(1) 2(2) [OF False None]] by simp
    next
      case (Some j)
      have "list_all plain_byte (c # take j r)"
        using high_plain [of "c # take j r"] rune_tail_high [OF Some] False by simp
      then have "scans (c # take j r)" by (rule scans_plain)
      then have "scans ((if c # take j r = [CHR 0xE2, CHR 0x80, CHR 0xA8] then CHR 0x5C # ''u2028''
          else if c # take j r = [CHR 0xE2, CHR 0x80, CHR 0xA9] then CHR 0x5C # ''u2029''
          else c # take j r) @ json_escape (drop j r))"
        using u 2(3) [OF False Some] by (intro scans_append) simp_all
      then show ?thesis using False Some by (simp add: Let_def)
    qed
  qed
qed simp

lemma str_ok_json_escape [simp]: "str_ok (json_escape s)"
  by (rule scans_str_ok) (rule scans_json_escape)

lemma str_ok_plain: "list_all plain_byte x \<Longrightarrow> str_ok x"
  by (rule scans_str_ok) (rule scans_plain)

subsection \<open>Scanning a tree\<close>

text \<open>The trees the operator prints: no numbers, quotable strings.\<close>

fun json_ok :: "json \<Rightarrow> bool" where
  "json_ok JNull = True"
| "json_ok (JBool b) = True"
| "json_ok (JNum n) = False"
| "json_ok (JStr x) = str_ok x"
| "json_ok (JArr vs) = list_all json_ok vs"
| "json_ok (JObj ms) = list_all (\<lambda>(k, v). str_ok k \<and> json_ok v) ms"

text \<open>The text of the elements after an opening bracket, up to the rest \<open>r\<close>.\<close>

fun elems_text :: "json list \<Rightarrow> string \<Rightarrow> string" where
  "elems_text [] r = CHR '']'' # r"
| "elems_text [v] r = json_text v @ CHR '']'' # r"
| "elems_text (v # vs) r = json_text v @ CHR '','' # elems_text vs r"

fun members_text :: "(string \<times> json) list \<Rightarrow> string \<Rightarrow> string" where
  "members_text [] r = CHR ''}'' # r"
| "members_text [(k, v)] r = CHR 0x22 # k @ CHR 0x22 # CHR '':'' # json_text v @ CHR ''}'' # r"
| "members_text ((k, v) # ms) r =
     CHR 0x22 # k @ CHR 0x22 # CHR '':'' # json_text v @ CHR '','' # members_text ms r"

lemma elems_text_Cons:
  "elems_text (v # vs) r = json_text v @ concat (map ((#) (CHR '','')) (map json_text vs)) @ CHR '']'' # r"
  by (induction vs arbitrary: v) simp_all

lemma json_text_arr: "json_text (JArr vs) @ r = CHR ''['' # elems_text vs r"
  by (cases vs) (simp_all add: elems_text_Cons del: elems_text.simps(2,3))

lemma members_text_Cons:
  "members_text ((k, v) # ms) r = CHR 0x22 # k @ CHR 0x22 # CHR '':'' # json_text v @
     concat (map ((#) (CHR '','')) (map (\<lambda>(k, v). CHR 0x22 # k @ CHR 0x22 # CHR '':'' # json_text v) ms))
     @ CHR ''}'' # r"
  by (induction ms arbitrary: k v) auto

lemma json_text_obj: "json_text (JObj ms) @ r = CHR ''{'' # members_text ms r"
  by (cases ms) (auto simp: members_text_Cons simp del: members_text.simps(2,3))

text \<open>No value starts with white space, a comma or a closing bracket.\<close>

lemma json_text_hd:
  assumes "json_ok v"
  shows "\<exists>c t. json_text v = c # t \<and> c \<in> set ''ntf{['' \<union> {CHR 0x22}"
  using assms by (cases v) auto

lemma skip_ws_Cons [simp]: "\<not> json_space c \<Longrightarrow> skip_ws (c # r) = c # r"
  by (simp add: skip_ws_def)

lemma no_space [simp]:
  "\<not> json_space (CHR ''['')" "\<not> json_space (CHR '']'')" "\<not> json_space (CHR ''{'')"
  "\<not> json_space (CHR ''}'')" "\<not> json_space (CHR '','')" "\<not> json_space (CHR '':'')"
  "\<not> json_space (CHR 0x22)" "\<not> json_space (CHR ''n'')" "\<not> json_space (CHR ''t'')"
  "\<not> json_space (CHR ''f'')"
  by (simp_all add: json_space_def)

text \<open>Reading one value back, from any continuation, with fuel of the length of its text.\<close>

definition reads :: "json \<Rightarrow> bool" where
  "reads v \<longleftrightarrow> (\<forall>n r. length (json_text v) \<le> n \<longrightarrow> scan_value n (json_text v @ r) = Some (v, r))"

lemma scan_elems_reads:
  assumes "list_all reads vs" "vs \<noteq> []" "length (elems_text vs []) \<le> n"
  shows "scan_elems n (elems_text vs r) = Some (vs, r)"
  using assms
proof (induction vs arbitrary: n)
  case (Cons v vs)
  then obtain n' where n: "n = Suc n'" by (cases n; cases vs) auto
  show ?case
  proof (cases vs)
    case Nil
    with Cons.prems n show ?thesis by (simp add: reads_def)
  next
    case (Cons v2 vs2)
    then have "scan_value n' (json_text v @ CHR '','' # elems_text vs r) = Some (v, CHR '','' # elems_text vs r)"
      "length (elems_text vs []) \<le> n'"
      using Cons.prems n by (simp_all add: reads_def)
    with Cons.IH [of n'] Cons.prems Cons n show ?thesis by simp
  qed
qed simp

lemma scan_members_reads:
  assumes "list_all (\<lambda>(k, v). str_ok k \<and> reads v) ms" "ms \<noteq> []" "length (members_text ms []) \<le> n"
  shows "scan_members n (members_text ms r) = Some (ms, r)"
  using assms
proof (induction ms arbitrary: n)
  case (Cons m ms)
  obtain k v where m: "m = (k, v)" by (cases m)
  from Cons.prems m obtain n' where n: "n = Suc n'" by (cases n; cases ms) auto
  have k: "scan_str (k @ CHR 0x22 # y) = Some (k, y)" for y
    using Cons.prems(1) m by (simp add: str_ok_def)
  show ?case
  proof (cases ms)
    case Nil
    with Cons.prems n m k show ?thesis by (simp add: reads_def del: scan_str.simps)
  next
    case (Cons m2 ms2)
    then have "scan_value n' (json_text v @ CHR '','' # members_text ms r) = Some (v, CHR '','' # members_text ms r)"
      "length (members_text ms []) \<le> n'"
      using Cons.prems n m by (simp_all add: reads_def)
    with Cons.IH [of n'] Cons.prems Cons n m k show ?thesis by (simp del: scan_str.simps)
  qed
qed simp

lemma elems_text_hd:
  assumes "list_all json_ok vs" "vs \<noteq> []"
  shows "\<exists>c t. elems_text vs r = c # t \<and> c \<in> set ''ntf{['' \<union> {CHR 0x22}"
  using assms json_text_hd by (cases vs) (fastforce simp: elems_text_Cons simp del: elems_text.simps(2,3))+

lemma reads_arr:
  assumes vs: "list_all reads vs" "list_all json_ok vs"
  shows "reads (JArr vs)"
  unfolding reads_def
proof (intro allI impI)
  fix n r assume "length (json_text (JArr vs)) \<le> n"
  moreover have len: "length (json_text (JArr vs)) = Suc (length (elems_text vs []))"
    using json_text_arr [of vs "[]"] by (simp del: json_text.simps)
  ultimately obtain n' where n: "n = Suc n'" "length (elems_text vs []) \<le> n'" by (cases n) auto
  show "scan_value n (json_text (JArr vs) @ r) = Some (JArr vs, r)"
  proof (cases "vs = []")
    case False
    obtain c t where c: "elems_text vs r = c # t" "c \<in> set ''ntf{['' \<union> {CHR 0x22}"
      using elems_text_hd [OF vs(2) False] by blast
    then have "skip_ws (elems_text vs r) = elems_text vs r" "c \<noteq> CHR '']''" by auto
    with c scan_elems_reads [OF vs(1) False n(2), of r] n(1) show ?thesis
      by (simp add: json_text_arr del: json_text.simps)
  qed (simp add: n(1))
qed

lemma reads_obj:
  assumes ms: "list_all (\<lambda>(k, v). str_ok k \<and> reads v) ms"
  shows "reads (JObj ms)"
  unfolding reads_def
proof (intro allI impI)
  fix n r assume "length (json_text (JObj ms)) \<le> n"
  moreover have len: "length (json_text (JObj ms)) = Suc (length (members_text ms []))"
    using json_text_obj [of ms "[]"] by (simp del: json_text.simps)
  ultimately obtain n' where n: "n = Suc n'" "length (members_text ms []) \<le> n'" by (cases n) auto
  show "scan_value n (json_text (JObj ms) @ r) = Some (JObj ms, r)"
  proof (cases "ms = []")
    case False
    then obtain t where c: "members_text ms r = CHR 0x22 # t"
      by (cases ms) (auto simp: members_text_Cons simp del: members_text.simps(2,3))
    with scan_members_reads [OF ms False n(2), of r] n(1) show ?thesis
      by (simp add: json_text_obj del: json_text.simps)
  qed (simp add: n(1))
qed

text \<open>A scalar is read with one unit of fuel.\<close>

lemma reads_scalar:
  assumes "json_text v \<noteq> []" "\<And>n r. scan_value (Suc n) (json_text v @ r) = Some (v, r)"
  shows "reads v"
  unfolding reads_def
proof (intro allI impI)
  fix n r assume "length (json_text v) \<le> n"
  then obtain n' where "n = Suc n'" using assms(1) by (cases n) auto
  then show "scan_value n (json_text v @ r) = Some (v, r)" using assms(2) by simp
qed

lemma reads_json: "json_ok v \<Longrightarrow> reads v"
proof (induction v)
  case (JArr vs)
  then show ?case by (intro reads_arr) (auto simp: list_all_iff)
next
  case (JObj ms)
  then show ?case by (intro reads_obj) (auto simp: list_all_iff snds.simps)
next
  case (JStr x)
  then have "scan_str (x @ CHR 0x22 # r) = Some (x, r)" for r by (simp add: str_ok_def)
  then show ?case by (intro reads_scalar) (simp_all del: scan_str.simps)
next
  case (JBool b)
  show ?case by (cases b; rule reads_scalar) (simp_all add: scan_lit_def)
qed (simp_all add: reads_scalar scan_lit_def)

text \<open>Parsing undoes printing, also with the newline an encoder adds.\<close>

lemma json_parse_text:
  assumes "json_ok v" "list_all json_space ws"
  shows "json_parse (json_text v @ ws) = Some v"
proof -
  have "skip_ws ws = []" using assms(2) by (simp add: skip_ws_def dropWhile_eq_Nil_conv list_all_iff)
  moreover have "scan_value (2 * length (json_text v @ ws) + 2) (json_text v @ ws) = Some (v, ws)"
    using reads_json [OF assms(1), unfolded reads_def, rule_format, of "2 * length (json_text v @ ws) + 2" ws]
    by (simp del: scan_value.simps)
  ultimately show ?thesis by (simp add: json_parse_def del: scan_value.simps)
qed

interpretation json: round_trip json_text json_parse json_ok
  by unfold_locales (use json_parse_text [of _ "[]"] in simp)

end
