(* ===== verification/Types_Round_Trip.thy ===== *)
theory Types_Round_Trip
  imports Alertmanager_Types Json_Round_Trip
begin

section \<open>Silences survive their JSON form\<close>

text \<open>
  What the encoder writes for a silence, a status, a matcher or an instant is what the decoder
  reads back: instants to the nanosecond, strings that are valid UTF-8 unchanged.
\<close>

subsection \<open>Fractions of a second\<close>

lemma foldl_digits:
  "foldl (\<lambda>n c. n * 10 + digit_val c) acc cs = acc * 10 ^ length cs + digits_val cs"
proof (induction cs arbitrary: acc)
  case (Cons c cs)
  show ?case
    using Cons [of "acc * 10 + digit_val c"] Cons [of "digit_val c"]
    by (simp add: digits_val_def algebra_simps)
qed (simp add: digits_val_def)

lemma digits_val_Nil [simp]: "digits_val [] = 0"
  by (simp add: digits_val_def)

lemma digits_val_Cons: "digits_val (c # cs) = digit_val c * 10 ^ length cs + digits_val cs"
  using foldl_digits [of "digit_val c" cs] by (simp add: digits_val_def)

lemma digits_val_append: "digits_val (xs @ ys) = digits_val xs * 10 ^ length ys + digits_val ys"
  using foldl_digits [of "digits_val xs" ys] by (simp add: digits_val_def)

lemma digit_val_zero [simp]: "digit_val (CHR ''0'') = 0"
  by (simp add: digit_val_def)

lemma digits_val_zeros [simp]: "digits_val (replicate k (CHR ''0'')) = 0"
  by (induction k) (simp_all add: digits_val_Cons)

lemma digits_val_positions:
  "digits_val (map (\<lambda>k. digit_char (n div 10 ^ k mod 10)) (rev [0..<m])) = n mod 10 ^ m"
proof (induction m)
  case (Suc m)
  have "n mod 10 ^ Suc m = 10 ^ m * (n div 10 ^ m mod 10) + n mod 10 ^ m"
    using zmod_zmult2_eq [of 10 n "10 ^ m"] by (simp add: mult.commute)
  moreover have "digit_val (digit_char (n div 10 ^ m mod 10)) = n div 10 ^ m mod 10"
    by (rule digit_char(2)) simp_all
  ultimately show ?case using Suc by (simp add: digits_val_Cons mult.commute)
qed simp

lemma print9_positions: "print9 n = map (\<lambda>k. digit_char (n div 10 ^ k mod 10)) (rev [0..<9])"
  by (simp add: print9_def upt_rec)

lemma print9_digits:
  assumes "0 \<le> n" "n < second"
  shows "digits_val (print9 n) = n" "length (print9 n) = 9" "list_all is_digit (print9 n)"
  using assms digits_val_positions [of n 9]
  by (simp_all add: print9_positions list_all_iff digit_char(1))

lemma trim_zeros_pad: "\<exists>k. s = trim_zeros s @ replicate k (CHR ''0'')"
proof -
  have "rev s = takeWhile (\<lambda>c. c = CHR ''0'') (rev s) @ dropWhile (\<lambda>c. c = CHR ''0'') (rev s)" by simp
  then have "s = trim_zeros s @ rev (takeWhile (\<lambda>c. c = CHR ''0'') (rev s))"
    unfolding trim_zeros_def by (metis rev_append rev_rev_ident)
  moreover have "takeWhile (\<lambda>c. c = CHR ''0'') (rev s)
      = replicate (length (takeWhile (\<lambda>c. c = CHR ''0'') (rev s))) (CHR ''0'')"
    by (rule replicate_eqI) (auto dest: set_takeWhileD)
  ultimately show ?thesis by (metis rev_replicate)
qed

lemma frac_ns_trim:
  assumes "0 \<le> n" "n < second"
  shows "frac_ns (trim_zeros (print9 n)) = n" "n \<noteq> 0 \<Longrightarrow> trim_zeros (print9 n) \<noteq> []"
    "list_all is_digit (trim_zeros (print9 n))"
proof -
  obtain k where k: "print9 n = trim_zeros (print9 n) @ replicate k (CHR ''0'')"
    using trim_zeros_pad by blast
  note p = print9_digits [OF assms]
  have len: "length (trim_zeros (print9 n)) + k = 9"
    using p(2) k by (metis length_append length_replicate)
  have val: "n = digits_val (trim_zeros (print9 n)) * 10 ^ k"
    using p(1) k digits_val_append [of "trim_zeros (print9 n)" "replicate k (CHR ''0'')"] by simp
  from len have "take 9 (trim_zeros (print9 n)) = trim_zeros (print9 n)" "9 - length (trim_zeros (print9 n)) = k"
    by simp_all
  with val show "frac_ns (trim_zeros (print9 n)) = n" by (simp add: frac_ns_def)
  show "n \<noteq> 0 \<Longrightarrow> trim_zeros (print9 n) \<noteq> []" using val by auto
  show "list_all is_digit (trim_zeros (print9 n))"
    using p(3) k by (metis list_all_append)
qed

lemma print_zone_hd: "\<exists>z r. print_zone off = z # r \<and> \<not> is_digit z"
  by (auto simp: print_zone_def is_digit_def)

lemma get_frac_print:
  assumes "0 \<le> n" "n < second"
  shows "get_frac (print_frac n @ print_zone off) = (n, print_zone off)"
proof (cases "n = 0")
  case True
  then show ?thesis by (simp add: print_frac_def)
next
  case False
  note f = frac_ns_trim [OF assms]
  obtain c cs where ds: "trim_zeros (print9 n) = c # cs" using f(2) False by (cases "trim_zeros (print9 n)") auto
  obtain z r where z: "print_zone off = z # r" "\<not> is_digit z" using print_zone_hd by blast
  have "takeWhile is_digit (trim_zeros (print9 n) @ z # r) = trim_zeros (print9 n)"
    "dropWhile is_digit (trim_zeros (print9 n) @ z # r) = z # r"
    using f(3) z(2) by (auto simp: takeWhile_append dropWhile_append list_all_iff)
  moreover have "is_digit c" using f(3) ds by simp
  ultimately show ?thesis
    using False f(1) ds z by (simp add: get_frac_def print_frac_def)
qed

subsection \<open>Instants\<close>

text \<open>The instants whose JSON text is exact: a year of four digits, an offset of whole minutes.\<close>

definition time_exact :: "Time \<Rightarrow> bool" where
  "time_exact t \<longleftrightarrow> year4 (fst (date_of t)) \<and> zone_off t mod 60 = 0 \<and> \<bar>zone_off t\<bar> < 86400"

lemma time_exact_encodable [simp]: "time_exact t \<Longrightarrow> time_encodable t"
  by (simp add: time_exact_def time_encodable_def)

lemma parse_time_text:
  assumes "time_exact t"
  shows "parse_rfc3339 (time_text t) = Some t"
proof -
  obtain y m d h mi s where parts: "date_of t = (y, m, d)" "clock_of t = (h, mi, s)"
    by (cases "date_of t", cases "clock_of t")
  have v: "valid_civil y m d" by (rule date_of_valid [OF parts(1)])
  then have day: "1 \<le> d" "d \<le> days_in m y" by (simp_all add: valid_civil_def)
  note c = clock_of_bounds [OF parts(2)]
  have ymd: "get_ymd (print_ymd y m d @ r) = Some (y, m, d, r)" for r
    using assms parts v by (simp add: time_exact_def year4_def)
  have z: "get_zone (print_zone (zone_off t)) = Some (zone_off t, [])"
    using get_zone_print [of "zone_off t" "[]"] assms by (simp add: time_exact_def)
  have f: "get_frac (print_frac (nanosecond_of t) @ print_zone (zone_off t)) = (nanosecond_of t, print_zone (zone_off t))"
    by (rule get_frac_print) (simp_all add: nanosecond_of_def)
  have "parse_rfc3339 (time_text t) = Some (time_Date y m d h mi s (nanosecond_of t) (zone_off t))"
    using c day by (simp add: parse_rfc3339_def time_text_def parts ymd z f)
  also have "time_Date y m d h mi s (nanosecond_of t) (zone_off t) = t"
    using time_Date_of_parts [OF parts] assms by simp
  finally show ?thesis .
qed

interpretation json_time: round_trip time_text parse_rfc3339 time_exact
  by unfold_locales (rule parse_time_text)

text \<open>The text of an instant needs no escape.\<close>

lemma digit_plain [simp]: "0 \<le> n \<Longrightarrow> n \<le> 9 \<Longrightarrow> plain_byte (digit_char n)"
  using digit_char(1) [of n] by (auto simp: plain_byte_def is_digit_def)

lemma is_digit_plain: "is_digit c \<Longrightarrow> plain_byte c"
  by (auto simp: plain_byte_def is_digit_def)

lemma print2_plain [simp]: "0 \<le> n \<Longrightarrow> n \<le> 99 \<Longrightarrow> list_all plain_byte (print2 n)"
  by (simp add: print2_def)

lemma literal_plain [simp]:
  "plain_byte (CHR ''-'')" "plain_byte (CHR ''T'')" "plain_byte (CHR '':'')" "plain_byte (CHR ''.'')"
  "plain_byte (CHR ''Z'')" "plain_byte (CHR ''+'')"
  by (simp_all add: plain_byte_def)

lemma str_ok_time_text:
  assumes "time_encodable t"
  shows "str_ok (time_text t)"
proof (rule str_ok_plain)
  obtain y m d h mi s where parts: "date_of t = (y, m, d)" "clock_of t = (h, mi, s)"
    by (cases "date_of t", cases "clock_of t")
  have v: "valid_civil y m d" by (rule date_of_valid [OF parts(1)])
  then have md: "1 \<le> m" "m \<le> 12" "1 \<le> d" "d \<le> 31"
    by (auto simp: valid_civil_def days_in_def split: if_splits)
  have y: "0 \<le> y div 100" "y div 100 \<le> 99"
    using assms parts by (auto simp: time_encodable_def year4_def)
  note c = clock_of_bounds [OF parts(2)]
  have frac: "list_all plain_byte (print_frac (nanosecond_of t))"
    using frac_ns_trim(3) [of "nanosecond_of t"] is_digit_plain
    by (auto simp: print_frac_def nanosecond_of_def list_all_iff)
  have zone: "list_all plain_byte (print_zone (zone_off t))"
    using assms by (auto simp: print_zone_def time_encodable_def)
  show "list_all plain_byte (time_text t)"
    using y md c frac zone by (simp add: time_text_def parts print_ymd_def print4_def)
qed

subsection \<open>Structs\<close>

definition valid_matcher :: "Matcher \<Rightarrow> bool" where
  "valid_matcher m \<longleftrightarrow> utf8_valid (Name m) \<and> utf8_valid (Value m)"

text \<open>The silences that JSON can hold exactly.\<close>

definition valid_silence :: "Silence \<Rightarrow> bool" where
  "valid_silence s \<longleftrightarrow>
     utf8_valid (Comment s) \<and> utf8_valid (CreatedBy s) \<and> utf8_valid (ID s) \<and>
     time_exact (EndsAt s) \<and> time_exact (StartsAt s) \<and>
     list_all valid_matcher (slice_elems (Matchers s)) \<and>
     (case Status s of None \<Rightarrow> True | Some st \<Rightarrow> utf8_valid (State st))"

lemma key_is_simps [simp]:
  "key_is ''isRegex'' ''isRegex''" "\<not> key_is ''isEqual'' ''isRegex''" "key_is ''isEqual'' ''isEqual''"
  "\<not> key_is ''name'' ''isRegex''" "\<not> key_is ''name'' ''isEqual''" "key_is ''name'' ''name''"
  "\<not> key_is ''value'' ''isRegex''" "\<not> key_is ''value'' ''isEqual''" "\<not> key_is ''value'' ''name''"
  "key_is ''value'' ''value''" "key_is ''state'' ''state''"
  "key_is ''comment'' ''comment''"
  "\<not> key_is ''createdBy'' ''comment''" "key_is ''createdBy'' ''createdBy''"
  "\<not> key_is ''endsAt'' ''comment''" "\<not> key_is ''endsAt'' ''createdBy''" "key_is ''endsAt'' ''endsAt''"
  "\<not> key_is ''id'' ''comment''" "\<not> key_is ''id'' ''createdBy''" "\<not> key_is ''id'' ''endsAt''"
  "key_is ''id'' ''id''"
  "\<not> key_is ''matchers'' ''comment''" "\<not> key_is ''matchers'' ''createdBy''"
  "\<not> key_is ''matchers'' ''endsAt''" "\<not> key_is ''matchers'' ''id''" "key_is ''matchers'' ''matchers''"
  "\<not> key_is ''startsAt'' ''comment''" "\<not> key_is ''startsAt'' ''createdBy''"
  "\<not> key_is ''startsAt'' ''endsAt''" "\<not> key_is ''startsAt'' ''id''"
  "\<not> key_is ''startsAt'' ''matchers''" "key_is ''startsAt'' ''startsAt''"
  "\<not> key_is ''status'' ''comment''" "\<not> key_is ''status'' ''createdBy''"
  "\<not> key_is ''status'' ''endsAt''" "\<not> key_is ''status'' ''id''" "\<not> key_is ''status'' ''matchers''"
  "\<not> key_is ''status'' ''startsAt''" "key_is ''status'' ''status''"
  by code_simp+

lemma decode_matcher:
  assumes "valid_matcher m"
  shows "decode_struct matcher_member zero_Matcher (encode_matcher m) = Some m"
  using assms
  by (simp add: encode_matcher_def matcher_member_def valid_matcher_def unquote_json_escape)

lemma decode_matchers:
  "list_all valid_matcher ms \<Longrightarrow>
     those (map (decode_struct matcher_member zero_Matcher) (map encode_matcher ms)) = Some ms"
  by (induction ms) (simp_all add: decode_matcher)

lemma decode_encode_status:
  "utf8_valid (State st) \<Longrightarrow> decode_status (encode_status st) = Some (Some st)"
  by (simp add: decode_status_def encode_status_def status_member_def unquote_json_escape)

lemma decode_encode_silence:
  assumes "valid_silence s"
  shows "decode_silence (encode_silence s) = Some s"
proof -
  have t: "decode_time old (JStr (time_text (EndsAt s))) = Some (EndsAt s)"
    "decode_time old (JStr (time_text (StartsAt s))) = Some (StartsAt s)" for old
    using assms by (simp_all add: valid_silence_def parse_time_text)
  have u: "unquote (json_escape (Comment s)) = Comment s" "unquote (json_escape (CreatedBy s)) = CreatedBy s"
    "unquote (json_escape (ID s)) = ID s"
    using assms by (simp_all add: valid_silence_def unquote_json_escape)
  have m: "decode_slice (decode_struct matcher_member zero_Matcher)
      (case Matchers s of None \<Rightarrow> JNull | Some ms \<Rightarrow> JArr (map encode_matcher ms)) = Some (Matchers s)"
    using assms decode_matchers
    by (cases "Matchers s") (auto simp: valid_silence_def simp del: map_map)
  have st: "decode_status (case Status s of None \<Rightarrow> JNull | Some st \<Rightarrow> encode_status st) = Some (Status s)"
    using assms by (cases "Status s") (auto simp: valid_silence_def decode_encode_status, simp add: decode_status_def)
  show ?thesis
    by (simp add: decode_silence_def encode_silence_def silence_member_def t u m st del: decode_time.simps)
qed

lemma str_ok_keys [simp]:
  "str_ok ''isRegex''" "str_ok ''isEqual''" "str_ok ''name''" "str_ok ''value''" "str_ok ''state''"
  "str_ok ''comment''" "str_ok ''createdBy''" "str_ok ''endsAt''" "str_ok ''id''" "str_ok ''matchers''"
  "str_ok ''startsAt''" "str_ok ''status''"
  by (auto simp: plain_byte_def intro!: str_ok_plain)

lemma json_ok_silence:
  assumes "silence_encodable s"
  shows "json_ok (encode_silence s)"
  using assms
  by (auto simp: encode_silence_def silence_encodable_def str_ok_time_text encode_matcher_def
      encode_status_def list_all_iff split: option.splits)

lemma valid_encodable: "valid_silence s \<Longrightarrow> silence_encodable s"
  by (simp add: valid_silence_def silence_encodable_def)

lemma decode_encode_silences:
  "list_all valid_silence ss \<Longrightarrow> those (map decode_silence (map encode_silence ss)) = Some ss"
  by (induction ss) (simp_all add: decode_encode_silence)

text \<open>A JSON array with the given members.\<close>

definition json_array :: "string list \<Rightarrow> string" where
  "json_array bs = ''['' @ concat (case bs of [] \<Rightarrow> [] | b # bs \<Rightarrow> b # map ((#) (CHR '','')) bs) @ '']''"

text \<open>C31: silences survive their JSON form: each of them marshals, and the array of the results is
  read back as exactly these silences, whatever quotes, controls or non-ASCII text their strings
  hold, with times to the nanosecond in their zone.\<close>

theorem silences_json_round_trip:
  assumes "list_all valid_silence ss"
  shows "\<exists>bodies. map json_Marshal ss = map Inr bodies \<and> json_Unmarshal (json_array bodies) = Inr (Some ss)"
proof (intro exI conjI)
  let ?bodies = "map (json_text \<circ> encode_silence) ss"
  have enc: "list_all silence_encodable ss" using assms by (auto simp: list_all_iff valid_encodable)
  then show "map json_Marshal ss = map Inr ?bodies" by (auto simp: json_Marshal_def list_all_iff)
  let ?v = "JArr (map encode_silence ss)"
  have "json_parse (json_text ?v @ []) = Some ?v"
    by (rule json_parse_text) (use enc json_ok_silence in \<open>simp_all add: list_all_iff\<close>)
  moreover have "json_text ?v = json_array ?bodies" by (simp add: json_array_def comp_def)
  ultimately show "json_Unmarshal (json_array ?bodies) = Inr (Some ss)"
    using decode_encode_silences [OF assms] by (simp add: json_Unmarshal_def del: map_map)
qed

definition quoted_silence :: Silence where
  "quoted_silence = \<lparr>Comment = [CHR 0x22, CHR 0x0A, CHR 0xC3, CHR 0xA9, CHR ''<''], CreatedBy = ''me'',
     EndsAt = \<lparr>unix_ns = 1735689600123456789, zone_off = 7200\<rparr>, ID = ''7'',
     Matchers = Some [\<lparr>IsRegex = True, IsEqual = False, Name = ''a'', Value = ''b|c''\<rparr>],
     StartsAt = time_zero, Status = Some \<lparr>State = ''active''\<rparr>\<rparr>"

theorem silences_json_round_trip_witness:
  "\<exists>b1 b2. json_Unmarshal (json_array [b1, b2])
     = Inr (Some [quoted_silence, quoted_silence\<lparr>Status := None\<rparr>])"
proof -
  have "list_all valid_silence [quoted_silence, quoted_silence\<lparr>Status := None\<rparr>]" by code_simp
  from silences_json_round_trip [OF this] obtain bodies where
    "map json_Marshal [quoted_silence, quoted_silence\<lparr>Status := None\<rparr>] = map Inr bodies"
    "json_Unmarshal (json_array bodies) = Inr (Some [quoted_silence, quoted_silence\<lparr>Status := None\<rparr>])"
    by blast
  then show ?thesis by (auto simp: Cons_eq_map_conv)
qed

end
