(* ===== verification/Time_Bounds.thy ===== *)
theory Time_Bounds
  imports Types_Round_Trip Silence_Meta
begin

section \<open>Which times a resource may give\<close>

text \<open>
  JSON holds a time exactly when its year has four digits and its offset is of whole minutes and below a day
  (\<open>time_exact\<close>).  Here: which times of a resource lead to such times of its silence.  A duration moves a time
  by less than 293 years, a missing annotation by a hundred; what \<open>time.Parse\<close> reads has a year of four
  digits, but its offset may be a day (\<open>+24:00\<close>), which the JSON encoder refuses.
\<close>

text \<open>A time with room for a duration on both sides.\<close>

definition roomy :: "Time \<Rightarrow> bool" where
  "roomy t \<longleftrightarrow> 1000 \<le> fst (date_of t) \<and> fst (date_of t) \<le> 9000 \<and> zone_off t mod 60 = 0 \<and> \<bar>zone_off t\<bar> < 86400"

lemma roomy_exact: "roomy t \<Longrightarrow> time_exact t"
  by (simp add: roomy_def time_exact_def year4_def)

subsection \<open>Moving a time\<close>

lemma days_before_year_cycle: "days_before_year (y + 400) = days_before_year y + 146097"
proof -
  have "(y + 400 + 3) div 4 = (y + 3) div 4 + 100" "(y + 400 + 99) div 100 = (y + 99) div 100 + 4"
    "(y + 400 + 399) div 400 = (y + 399) div 400 + 1"
    by simp_all
  then show ?thesis unfolding days_before_year_def by simp
qed

lemma year_of_day_mono: "n \<le> k \<Longrightarrow> year_of_day n \<le> year_of_day k"
  using year_of_day_bounds [of n] year_of_day_bounds [of k]
    days_before_year_mono [of "year_of_day k + 1" "year_of_day n"] by linarith

lemma year_of_day_cycle: "year_of_day (n + 146097) = year_of_day n + 400"
proof (rule year_of_day_unique)
  show "days_before_year (year_of_day n + 400) \<le> n + 146097"
    using year_of_day_bounds(1) [of n] days_before_year_cycle [of "year_of_day n"] by simp
  have "year_of_day n + 400 + 1 = (year_of_day n + 1) + 400" by simp
  then show "n + 146097 < days_before_year (year_of_day n + 400 + 1)"
    using year_of_day_bounds(2) [of n] days_before_year_cycle [of "year_of_day n + 1"] by simp
qed

lemma year_near:
  assumes "\<bar>k - n\<bar> \<le> 146097"
  shows "\<bar>year_of_day k - year_of_day n\<bar> \<le> 400"
proof -
  have "year_of_day k \<le> year_of_day n + 400"
    using year_of_day_mono [of k "n + 146097"] year_of_day_cycle [of n] assms by linarith
  moreover have "year_of_day n \<le> year_of_day k + 400"
    using year_of_day_mono [of n "k + 146097"] year_of_day_cycle [of k] assms by linarith
  ultimately show ?thesis by linarith
qed

lemma date_of_year: "fst (date_of t) = year_of_day (wall_secs t div 86400 + 719528)"
  by (simp add: date_of_def civil_of_days_def Let_def)

lemma div_near:
  fixes a b c d :: int
  assumes "0 < c" "\<bar>a - b\<bar> \<le> c * d"
  shows "\<bar>a div c - b div c\<bar> \<le> d + 1"
proof -
  note div_bounds [OF assms(1), of a] div_bounds [OF assms(1), of b]
  then have "c * (a div c - b div c) < c * (d + 2)" "c * (b div c - a div c) < c * (d + 2)"
    using assms(2) by (simp_all add: algebra_simps)
  then have "a div c - b div c < d + 2" "b div c - a div c < d + 2"
    using assms(1) by (simp_all only: mult_less_cancel_left_pos)
  then show ?thesis by linarith
qed

lemma time_Add_exact:
  assumes "roomy t"
  shows "time_exact (time_Add t d)"
proof -
  let ?u = "time_Add t d"
  have d: "- (2 ^ 63) \<le> sint d" "sint d < 2 ^ 63" using sint_ge [of d] sint_lt [of d] by simp_all
  have "\<bar>unix_ns ?u - unix_ns t\<bar> \<le> second * 9223372037"
    using d by (simp add: time_Add_def)
  then have "\<bar>unix_ns ?u div second - unix_ns t div second\<bar> \<le> 9223372037 + 1"
    by (intro div_near) simp_all
  then have "\<bar>wall_secs ?u - wall_secs t\<bar> \<le> 86400 * 106752"
    by (simp add: wall_secs_def time_Add_def)
  then have "\<bar>wall_secs ?u div 86400 - wall_secs t div 86400\<bar> \<le> 106752 + 1"
    by (intro div_near) simp_all
  then have "\<bar>fst (date_of ?u) - fst (date_of t)\<bar> \<le> 400"
    unfolding date_of_year by (intro year_near) simp
  moreover have t: "1000 \<le> fst (date_of t)" "fst (date_of t) \<le> 9000" "zone_off t mod 60 = 0" "\<bar>zone_off t\<bar> < 86400"
    using assms by (simp_all add: roomy_def)
  ultimately have "0 \<le> fst (date_of ?u)" "fst (date_of ?u) \<le> 9999" by linarith+
  moreover have "zone_off ?u = zone_off t" by (simp add: time_Add_def)
  ultimately show ?thesis using t(3,4) by (simp add: time_exact_def year4_def)
qed

lemma time_AddDate_exact: "roomy t \<Longrightarrow> time_exact (time_AddDate t 100 0 0)"
  using AddDate_years [of t _ _ _ 100]
  by (cases "date_of t") (auto simp: roomy_def time_exact_def year4_def)

subsection \<open>Times that are read\<close>

lemma getnum_bounds: "getnum f s = Some (n, r) \<Longrightarrow> 0 \<le> n \<and> n \<le> 99"
  by (cases "(f, s)" rule: getnum.cases) (auto simp: is_digit_def digit_val_def split: if_splits)

lemma get_year_bounds: "get_year s = Some (y, r) \<Longrightarrow> year4 y"
  by (cases s rule: get_year.cases) (auto simp: is_digit_def digit_val_def digits_val_def year4_def split: if_splits)

lemma get_ranged_bounds: "get_ranged f lo hi s = Some (n, r) \<Longrightarrow> lo \<le> n \<and> n \<le> hi"
  by (auto simp: get_ranged_def guard_def bind_eq_Some_conv split: if_splits)

lemma get_ymd_bounds: "get_ymd s = Some (y, m, d, r) \<Longrightarrow> year4 y \<and> 1 \<le> m \<and> m \<le> 12"
  by (auto simp: get_ymd_def bind_eq_Some_conv dest: get_year_bounds get_ranged_bounds)

lemma parse_date_only_SomeD:
  assumes "parse_date_only v = Some t"
  obtains y m d where "t = time_Date y m d 0 0 0 0 0" "year4 y" "valid_civil y m d"
  using assms
  by (auto simp: parse_date_only_def valid_civil_def guard_def bind_eq_Some_conv split: if_splits dest!: get_ymd_bounds)

lemma digit_val_bounds:
  assumes "is_digit c"
  shows "0 \<le> digit_val c" "digit_val c \<le> 9"
proof -
  define n where "n = (of_char c :: nat)"
  have "48 \<le> n" "n \<le> 57" using assms by (simp_all add: is_digit_def n_def)
  then show "0 \<le> digit_val c" "digit_val c \<le> 9" by (simp_all add: digit_val_def n_def [symmetric])
qed

lemma digits_val_bounds: "list_all is_digit ds \<Longrightarrow> 0 \<le> digits_val ds \<and> digits_val ds < 10 ^ length ds"
proof (induction ds rule: rev_induct)
  case Nil
  then show ?case by (simp add: digits_val_def)
next
  case (snoc c ds)
  have "is_digit c" "list_all is_digit ds" using snoc.prems by simp_all
  then have c: "0 \<le> digit_val c" "digit_val c \<le> 9" and ds: "0 \<le> digits_val ds" "digits_val ds < 10 ^ length ds"
    using digit_val_bounds snoc.IH by blast+
  have "digits_val (ds @ [c]) = digits_val ds * 10 + digit_val c" by (simp add: digits_val_def)
  moreover have "(10::int) ^ length (ds @ [c]) = 10 ^ length ds * 10" by simp
  ultimately show ?case using c ds by linarith
qed

lemma frac_ns_bounds:
  assumes "list_all is_digit ds"
  shows "0 \<le> frac_ns ds \<and> frac_ns ds < second"
proof -
  let ?t = "take 9 ds"
  have "list_all is_digit ?t" using assms by (auto simp: list_all_iff dest: in_set_takeD)
  then have b: "0 \<le> digits_val ?t" "digits_val ?t < 10 ^ length ?t" using digits_val_bounds by blast+
  have "digits_val ?t * 10 ^ (9 - length ?t) < 10 ^ length ?t * 10 ^ (9 - length ?t)"
    using b(2) by (intro mult_strict_right_mono) simp_all
  also have "(10 :: int) ^ length ?t * 10 ^ (9 - length ?t) = 10 ^ 9" by (simp add: power_add [symmetric])
  finally show ?thesis using b(1) by (simp add: frac_ns_def)
qed

lemma get_frac_bounds:
  assumes "get_frac s = (ns, r)"
  shows "0 \<le> ns \<and> ns < second"
proof -
  have "list_all is_digit (takeWhile is_digit x)" for x by (auto simp: list_all_iff dest: set_takeWhileD)
  then show ?thesis
    using assms frac_ns_bounds by (fastforce simp: get_frac_def split: list.splits if_splits)
qed

lemma get_zone_minutes: "get_zone s = Some (off, r) \<Longrightarrow> off mod 60 = 0"
  by (cases s) (auto simp: bind_eq_Some_conv split: if_splits)

lemma parse_rfc3339_SomeD:
  assumes "parse_rfc3339 v = Some t"
  shows "year4 (fst (date_of t)) \<and> zone_off t mod 60 = 0"
proof -
  obtain y m d s1 where ymd: "get_ymd v = Some (y, m, d, s1)"
    using assms by (auto simp: parse_rfc3339_def bind_eq_Some_conv)
  obtain s2 hh s3 where hh: "lit (CHR ''T'') s1 = Some s2" "get_ranged False 0 23 s2 = Some (hh, s3)"
    using assms ymd by (auto simp: parse_rfc3339_def bind_eq_Some_conv)
  obtain s4 mi s5 where mi: "lit (CHR '':'') s3 = Some s4" "get_ranged True 0 59 s4 = Some (mi, s5)"
    using assms ymd hh by (auto simp: parse_rfc3339_def bind_eq_Some_conv)
  obtain s6 ss s7 where ss: "lit (CHR '':'') s5 = Some s6" "get_ranged True 0 59 s6 = Some (ss, s7)"
    using assms ymd hh mi by (auto simp: parse_rfc3339_def bind_eq_Some_conv)
  obtain ns s8 where ns: "get_frac s7 = (ns, s8)" by (rule prod.exhaust)
  obtain off s9 where off: "get_zone s8 = Some (off, s9)" "1 \<le> d" "d \<le> days_in m y"
    "t = time_Date y m d hh mi ss ns off"
    using assms ymd hh mi ss ns by (auto simp: parse_rfc3339_def bind_eq_Some_conv guard_def split: if_splits)
  have "valid_civil y m d" "year4 y" using get_ymd_bounds [OF ymd] off(2,3) by (simp_all add: valid_civil_def)
  then show ?thesis
    using parts_of_time_Date(1,4) [of y m d hh mi ss ns off] off(4) get_zone_minutes [OF off(1)] get_frac_bounds [OF ns]
      get_ranged_bounds [OF hh(2)] get_ranged_bounds [OF mi(2)] get_ranged_bounds [OF ss(2)] by simp
qed

subsection \<open>The end of a silence\<close>

text \<open>A \<open>valid-until\<close> annotation whose offset, if it has one, is below a day.\<close>

definition annotation_ok :: "ObjectMeta \<Rightarrow> bool" where
  "annotation_ok m \<longleftrightarrow>
     (case map_lookup (Annotations m) ValidUntilAnnotationName of
        None \<Rightarrow> True
      | Some v \<Rightarrow> (case parse_rfc3339 v of None \<Rightarrow> True | Some t \<Rightarrow> \<bar>zone_off t\<bar> < 86400))"

lemma SilenceEndsAt_exact:
  assumes "SilenceEndsAt P m = (t, None)" "annotation_ok m" "roomy (CreationTimestamp m)" "errors_pkg_ok P"
  shows "time_exact t"
proof (cases "map_lookup (Annotations m) ValidUntilAnnotationName")
  case None
  then have "t = time_AddDate (CreationTimestamp m) 100 0 0" using assms(1) by (simp add: SilenceEndsAt_def)
  then show ?thesis using time_AddDate_exact [OF assms(3)] by (simp only:)
next
  case (Some v)
  show ?thesis
  proof (cases "parse_rfc3339 v")
    case (Some u)
    then show ?thesis
      using assms(1,2) \<open>map_lookup _ _ = Some v\<close> parse_rfc3339_SomeD [OF Some]
      by (simp add: SilenceEndsAt_annotated annotation_ok_def time_exact_def)
  next
    case none: None
    then obtain u where u: "parse_date_only v = Some u"
      using assms(1,4) Some none errors_pkg_nil(3) [OF assms(4)] by (cases "parse_date_only v") (auto simp: SilenceEndsAt_annotated)
    obtain y m' d where d: "u = time_Date y m' d 0 0 0 0 0" "year4 y" "valid_civil y m' d"
      using parse_date_only_SomeD [OF u] .
    then have "t = time_Date y m' d 8 0 0 0 0"
      using assms(1) Some none u parts_of_time_Date(1) [OF d(3), of 0 0 0 0 0] by (simp add: SilenceEndsAt_annotated)
    then show ?thesis
      using d(2) parts_of_time_Date(1,4) [OF d(3), of 8 0 0 0 0] by (simp add: time_exact_def)
  qed
qed

end
