(* ===== verification/Store.thy ===== *)
theory Store
  imports Service_Contract
begin

section \<open>Alertmanager as a map from comments to silences\<close>

text \<open>
  The abstract specification of what the service works on: a partial map \<open>view\<close> from comments to
  active silences.  The locale \<open>comment_store\<close> says how a client's operations read and change the
  map; from it follow the effects of the service on the map: a live silence is stored as
  wanted, an ended or deleted one is gone, other comments are untouched, and doing it again
  changes nothing.
\<close>

definition same_content :: "Silence \<Rightarrow> Silence \<Rightarrow> bool" where
  "same_content x s \<longleftrightarrow> Comment x = Comment s \<and> CreatedBy x = CreatedBy s \<and> EndsAt x = EndsAt s \<and>
     Matchers x = Matchers s \<and> StartsAt x = StartsAt s"

text \<open>What the service compares.\<close>

definition as_wanted :: "Silence \<Rightarrow> Silence \<Rightarrow> bool" where
  "as_wanted x s \<longleftrightarrow> Matchers x = Matchers s \<and> Equal (EndsAt x) (EndsAt s)"

lemma same_content_as_wanted: "same_content x s \<Longrightarrow> as_wanted x s"
  by (simp add: same_content_def as_wanted_def Equal_def)

locale comment_store =
  fixes P :: errors_pkg and E :: "('w, Time) Env" and C :: "'w Client"
    and wf :: "'w \<Rightarrow> bool" and view :: "'w \<Rightarrow> string \<rightharpoonup> Silence"
    and storable :: "Silence \<Rightarrow> bool" and ok :: bool
  assumes ok_errors: "ok \<Longrightarrow> errors_pkg_ok P"
    and clock: "\<lbrakk>wf w; time_Now E w = (now, w1)\<rbrakk> \<Longrightarrow> wf w1 \<and> view w1 = view w"
    and storable_id: "\<lbrakk>wf w; view w c = Some s; storable x\<rbrakk> \<Longrightarrow> storable (x\<lparr>ID := ID s\<rparr>)"
    and get_found: "\<lbrakk>ok; wf w; view w c = Some s\<rbrakk>
      \<Longrightarrow> \<exists>w'. Client_GetSilenceByComment C c t w = ((Some s, None), w') \<and> wf w' \<and> view w' = view w"
    and get_missing: "\<lbrakk>ok; wf w; view w c = None\<rbrakk>
      \<Longrightarrow> \<exists>e w'. Client_GetSilenceByComment C c t w = ((None, Some e), w') \<and>
            errors_Is e ErrSilenceNotFound \<and> wf w' \<and> view w' = view w"
    and create: "\<lbrakk>ok; wf w; storable s; ID s = ''''; view w (Comment s) = None\<rbrakk>
      \<Longrightarrow> \<exists>w' x. Client_CreateSilence C s t w = (None, w') \<and> wf w' \<and> same_content x s \<and>
            view w' = (view w)(Comment s \<mapsto> x)"
    and update: "\<lbrakk>ok; wf w; storable s; view w (Comment s) = Some old; ID s = ID old\<rbrakk>
      \<Longrightarrow> \<exists>w' x. Client_UpdateSilence C s t w = (None, w') \<and> wf w' \<and> same_content x s \<and>
            view w' = (view w)(Comment s \<mapsto> x)"
    and delete_id: "\<lbrakk>ok; wf w; view w c = Some s\<rbrakk>
      \<Longrightarrow> \<exists>w'. Client_DeleteSilenceByID C (ID s) t w = (None, w') \<and> wf w' \<and>
            view w' = (view w)(c := None)"
    and delete_found: "\<lbrakk>ok; wf w; view w c = Some s; CreatedBy s = CreatedBy_operator\<rbrakk>
      \<Longrightarrow> \<exists>w'. Client_DeleteSilenceByComment C c t w = (None, w') \<and> wf w' \<and>
            view w' = (view w)(c := None)"
    and delete_missing: "\<lbrakk>ok; wf w; view w c = None\<rbrakk>
      \<Longrightarrow> \<exists>e w'. Client_DeleteSilenceByComment C c t w = (Some e, w') \<and>
            errors_Is e ErrSilenceNotFound \<and> wf w' \<and> view w' = view w"
begin

lemma sync_missing:
  assumes ok: ok and wf: "wf w" and now: "time_Now E w = (now, w1)" and ended: "\<not> After (EndsAt wanted) now"
    and none: "view w (Comment wanted) = None"
  shows "\<exists>w'. SyncSilence P E (NewSilenceService C) (Some wanted) t w = (Returns None, w') \<and> wf w' \<and> view w' = view w"
proof -
  obtain e w2 where "Client_GetSilenceByComment C (Comment wanted) t w1 = ((None, Some e), w2)"
    "errors_Is e ErrSilenceNotFound" "wf w2" "view w2 = view w"
    using get_missing [OF ok, of w1 "Comment wanted" t] clock [OF wf now] none by auto
  then show ?thesis using now ended by (auto simp: SyncSilence_def NewSilenceService_def)
qed

lemma sync_created:
  assumes ok: ok and wf: "wf w" and s: "storable wanted" "ID wanted = ''''"
    and now: "time_Now E w = (now, w1)" and live: "After (EndsAt wanted) now" and none: "view w (Comment wanted) = None"
  shows "\<exists>w' x. SyncSilence P E (NewSilenceService C) (Some wanted) t w = (Returns None, w') \<and> wf w' \<and>
    as_wanted x wanted \<and> view w' = (view w)(Comment wanted \<mapsto> x) \<and> CreatedBy x = CreatedBy wanted"
proof -
  obtain e w2 where g: "Client_GetSilenceByComment C (Comment wanted) t w1 = ((None, Some e), w2)"
    "errors_Is e ErrSilenceNotFound" "wf w2" "view w2 = view w"
    using get_missing [OF ok, of w1 "Comment wanted" t] clock [OF wf now] none by auto
  obtain w3 x where "Client_CreateSilence C wanted t w2 = (None, w3)" "wf w3" "same_content x wanted"
    "view w3 = (view w)(Comment wanted \<mapsto> x)"
    using create [OF ok g(3) s, of t] g(4) none by auto
  moreover have "CreatedBy x = CreatedBy wanted" if "same_content x wanted" for x
    using that by (simp add: same_content_def)
  ultimately show ?thesis
    using now g(1,2) live same_content_as_wanted by (auto simp: SyncSilence_def NewSilenceService_def)
qed

lemma sync_found:
  assumes ok: ok and wf: "wf w" and s: "storable wanted" and now: "time_Now E w = (now, w1)"
    and live: "\<not> Before (EndsAt wanted) now" and old: "view w (Comment wanted) = Some old"
  shows "\<exists>w' x. SyncSilence P E (NewSilenceService C) (Some wanted) t w = (Returns None, w') \<and> wf w' \<and>
    as_wanted x wanted \<and> view w' = (view w)(Comment wanted \<mapsto> x) \<and>
    (CreatedBy x = CreatedBy wanted \<or> old = x) \<and> (as_wanted old wanted \<longrightarrow> x = old)"
proof -
  obtain w2 where g: "Client_GetSilenceByComment C (Comment wanted) t w1 = ((Some old, None), w2)"
    "wf w2" "view w2 = view w"
    using get_found [OF ok, of w1 "Comment wanted" old t] clock [OF wf now] old by auto
  show ?thesis
  proof (cases "updateNeeded old wanted")
    case False
    then have "as_wanted old wanted" by (simp add: updateNeeded_def as_wanted_def)
    moreover have "view w2 = (view w)(Comment wanted \<mapsto> old)" using g(3) old by (simp add: fun_upd_idem)
    ultimately show ?thesis
      using now g live False by (auto simp: SyncSilence_def NewSilenceService_def)
  next
    case True
    have "storable (wanted\<lparr>ID := ID old\<rparr>)" by (rule storable_id [OF wf old s])
    then obtain w3 x where u: "Client_UpdateSilence C (wanted\<lparr>ID := ID old\<rparr>) t w2 = (None, w3)" "wf w3"
      "same_content x (wanted\<lparr>ID := ID old\<rparr>)" "view w3 = (view w)(Comment wanted \<mapsto> x)"
      using update [OF ok g(2), of "wanted\<lparr>ID := ID old\<rparr>" old t] g(3) old by auto
    have "as_wanted x wanted" using same_content_as_wanted [OF u(3)] by (simp add: as_wanted_def)
    moreover have "CreatedBy x = CreatedBy wanted" using u(3) by (simp add: same_content_def)
    moreover have "\<not> as_wanted old wanted" using True by (simp add: updateNeeded_def as_wanted_def)
    ultimately show ?thesis
      using now g live True u by (auto simp: SyncSilence_def NewSilenceService_def)
  qed
qed

lemma sync_live:
  assumes ok: ok and wf: "wf w" and s: "storable wanted" "ID wanted = ''''"
    and now: "time_Now E w = (now, w1)" and live: "After (EndsAt wanted) now"
  shows "\<exists>w' x. SyncSilence P E (NewSilenceService C) (Some wanted) t w = (Returns None, w') \<and> wf w' \<and>
    as_wanted x wanted \<and> view w' = (view w)(Comment wanted \<mapsto> x) \<and>
    (CreatedBy x = CreatedBy wanted \<or> view w (Comment wanted) = Some x) \<and>
    (\<forall>y. view w (Comment wanted) = Some y \<and> as_wanted y wanted \<longrightarrow> x = y)"
proof (cases "view w (Comment wanted)")
  case None
  then show ?thesis using sync_created [OF assms None, of t] by auto
next
  case (Some old)
  have "\<not> Before (EndsAt wanted) now" using live by (simp add: time_order)
  then show ?thesis using sync_found [OF ok wf s(1) now _ Some, of t] Some by auto
qed

lemma sync_ended:
  assumes ok: ok and wf: "wf w" and now: "time_Now E w = (now, w1)" and ended: "Before (EndsAt wanted) now"
  shows "\<exists>w'. SyncSilence P E (NewSilenceService C) (Some wanted) t w = (Returns None, w') \<and> wf w' \<and>
    view w' = (view w)(Comment wanted := None)"
proof (cases "view w (Comment wanted)")
  case None
  have "\<not> After (EndsAt wanted) now" using ended by (simp add: time_order)
  then show ?thesis using sync_missing [OF ok wf now _ None, of t] None by (simp add: fun_upd_idem)
next
  case (Some old)
  obtain w2 where g: "Client_GetSilenceByComment C (Comment wanted) t w1 = ((Some old, None), w2)"
    "wf w2" "view w2 = view w"
    using get_found [OF ok, of w1 "Comment wanted" old t] clock [OF wf now] Some by auto
  obtain w3 where "Client_DeleteSilenceByID C (ID old) t w2 = (None, w3)" "wf w3"
    "view w3 = (view w)(Comment wanted := None)"
    using delete_id [OF ok g(2), of "Comment wanted" old t] g(3) Some by auto
  then show ?thesis
    using now g ended by (auto simp: SyncSilence_def NewSilenceService_def)
qed

text \<open>Whatever the clock says, the silence is gone or there as wanted.\<close>

lemma sync_any:
  assumes ok: ok and wf: "wf w" and s: "storable wanted" "ID wanted = ''''"
  shows "\<exists>w' u. SyncSilence P E (NewSilenceService C) (Some wanted) t w = (Returns None, w') \<and> wf w' \<and>
    view w' = (view w)(Comment wanted := u) \<and> pred_option (\<lambda>x. as_wanted x wanted) u \<and>
    (\<forall>x. u = Some x \<longrightarrow> CreatedBy x = CreatedBy wanted \<or> view w (Comment wanted) = Some x)"
proof -
  obtain now w1 where now: "time_Now E w = (now, w1)" by (rule prod.exhaust)
  consider "After (EndsAt wanted) now" | "Before (EndsAt wanted) now"
    | "\<not> After (EndsAt wanted) now" "\<not> Before (EndsAt wanted) now" by blast
  then show ?thesis
  proof cases
    case 1
    obtain w' x where "SyncSilence P E (NewSilenceService C) (Some wanted) t w = (Returns None, w')" "wf w'"
      "as_wanted x wanted" "view w' = (view w)(Comment wanted \<mapsto> x)"
      "CreatedBy x = CreatedBy wanted \<or> view w (Comment wanted) = Some x"
      using sync_live [OF ok wf s now 1] by blast
    then show ?thesis by (intro exI [of _ w'] exI [of _ "Some x"]) simp
  next
    case 2
    then show ?thesis using sync_ended [OF ok wf now 2, of t] by (metis option.pred_inject(1) option.distinct(1))
  next
    case 3
    show ?thesis
    proof (cases "view w (Comment wanted)")
      case None
      obtain w' where "SyncSilence P E (NewSilenceService C) (Some wanted) t w = (Returns None, w')" "wf w'" "view w' = view w"
        using sync_missing [OF ok wf now 3(1) None] by blast
      then show ?thesis using None by (intro exI [of _ w'] exI [of _ None]) (simp add: fun_upd_idem)
    next
      case (Some old)
      obtain w' x where "SyncSilence P E (NewSilenceService C) (Some wanted) t w = (Returns None, w')" "wf w'"
        "as_wanted x wanted" "view w' = (view w)(Comment wanted \<mapsto> x)" "CreatedBy x = CreatedBy wanted \<or> old = x"
        using sync_found [OF ok wf s(1) now 3(2) Some] by blast
      then show ?thesis using Some by (intro exI [of _ w'] exI [of _ "Some x"]) auto
    qed
  qed
qed

lemma sync_stored:
  assumes ok: ok and wf: "wf w" and x: "view w (Comment wanted) = Some x" "as_wanted x wanted"
    and now: "time_Now E w = (now, w1)" and live: "\<not> Before (EndsAt wanted) now"
  shows "\<exists>w'. SyncSilence P E (NewSilenceService C) (Some wanted) t w = (Returns None, w') \<and> wf w' \<and>
    view w' = view w"
proof -
  obtain w2 where "Client_GetSilenceByComment C (Comment wanted) t w1 = ((Some x, None), w2)"
    "wf w2" "view w2 = view w"
    using get_found [OF ok, of w1 "Comment wanted" x t] clock [OF wf now] x(1) by auto
  then show ?thesis
    using now x(2) live
    by (auto simp: SyncSilence_def NewSilenceService_def updateNeeded_def as_wanted_def)
qed

lemma delete_gone:
  assumes ok: ok and wf: "wf w"
    and own: "\<And>s. view w c = Some s \<Longrightarrow> CreatedBy s = CreatedBy_operator"
  shows "\<exists>w'. DeleteSilence P (NewSilenceService C) c t w = (None, w') \<and> wf w' \<and>
    view w' = (view w)(c := None)"
proof (cases "view w c")
  case None
  then obtain e w' where "Client_DeleteSilenceByComment C c t w = (Some e, w')" "errors_Is e ErrSilenceNotFound"
    "wf w'" "view w' = view w"
    using delete_missing [OF ok wf] by blast
  then show ?thesis
    using None by (auto simp: DeleteSilence_def NewSilenceService_def fun_upd_idem)
next
  case (Some s)
  then obtain w' where "Client_DeleteSilenceByComment C c t w = (None, w')" "wf w'"
    "view w' = (view w)(c := None)"
    using delete_found [OF ok wf Some own [OF Some]] by blast
  then show ?thesis by (auto simp: DeleteSilence_def NewSilenceService_def)
qed

end

end
