(* ===== verification/Sweep.thy ===== *)
theory Sweep
  imports Store
begin

section \<open>Sweeps of a level-triggered controller\<close>

text \<open>
  A controller is level triggered when one call for a key brings what the key stands for to the
  state the object under the key asks for, wherever it started.  The locale
  \<open>level_triggered\<close> states this for calls that work on two stores, the objects and a map from
  comments to silences.  From it follows what a sweep over many keys leaves, in any order and with
  repetitions.
\<close>

text \<open>The calls for the keys of a list, in a row.\<close>

fun reconcile_all :: "('k \<Rightarrow> 'w \<Rightarrow> 'r \<times> 'w) \<Rightarrow> 'k list \<Rightarrow> 'w \<Rightarrow> 'r list \<times> 'w" where
  "reconcile_all f [] w = ([], w)"
| "reconcile_all f (k # ks) w =
     (case f k w of (r, w) \<Rightarrow> (case reconcile_all f ks w of (rs, w) \<Rightarrow> (r # rs, w)))"

text \<open>What an object asks for: nothing, that no silence is there, or that this one is.  A silence that is
  there as wanted is left as it is.  \<open>Ending s\<close> stands for a silence that ends while the controller is at
  work: it is there as wanted, or gone.\<close>

datatype aim = Leave | Absent | Present Silence | Ending Silence

fun reaches :: "aim \<Rightarrow> string \<Rightarrow> (string \<rightharpoonup> Silence) \<Rightarrow> (string \<rightharpoonup> Silence) \<Rightarrow> bool" where
  "reaches Leave c v v' \<longleftrightarrow> v' = v"
| "reaches Absent c v v' \<longleftrightarrow> v' = v(c := None)"
| "reaches (Present s) c v v' \<longleftrightarrow>
     (\<exists>x. as_wanted x s \<and> v' = v(c \<mapsto> x) \<and> (\<forall>y. v c = Some y \<and> as_wanted y s \<longrightarrow> x = y))"
| "reaches (Ending s) c v v' \<longleftrightarrow> (\<exists>u. pred_option (\<lambda>x. as_wanted x s) u \<and> v' = v(c := u))"

fun achieved :: "aim \<Rightarrow> string \<Rightarrow> (string \<rightharpoonup> Silence) \<Rightarrow> bool" where
  "achieved Leave c v \<longleftrightarrow> True"
| "achieved Absent c v \<longleftrightarrow> v c = None"
| "achieved (Present s) c v \<longleftrightarrow> (\<exists>x. v c = Some x \<and> as_wanted x s)"
| "achieved (Ending s) c v \<longleftrightarrow> pred_option (\<lambda>x. as_wanted x s) (v c)"

fun steady :: "aim \<Rightarrow> bool" where
  "steady (Ending s) \<longleftrightarrow> False"
| "steady _ \<longleftrightarrow> True"

lemma reaches_frame: "reaches a c v v' \<Longrightarrow> a = Leave \<or> d \<noteq> c \<Longrightarrow> v' d = v d"
  by (cases a) auto

lemma reaches_achieved: "reaches a c v v' \<Longrightarrow> v'' c = v' c \<Longrightarrow> achieved a c v''"
  by (cases a) auto

lemma reaches_stable: "reaches a c v v' \<Longrightarrow> achieved a c v \<Longrightarrow> steady a \<Longrightarrow> v' = v"
  by (cases a) (auto simp: fun_upd_idem)

locale level_triggered =
  fixes step :: "'k \<Rightarrow> 'w \<Rightarrow> 'r \<times> 'w" and wf :: "'w \<Rightarrow> bool" and view :: "'w \<Rightarrow> string \<rightharpoonup> Silence"
    and objs :: "'w \<Rightarrow> 'k \<rightharpoonup> 'o" and after :: "'o \<Rightarrow> 'o option" and aim :: "'o \<Rightarrow> aim"
    and fails :: "'o \<Rightarrow> bool" and name :: "'k \<Rightarrow> string" and fine :: 'r and ok :: bool
  assumes step: "\<lbrakk>ok; wf w\<rbrakk> \<Longrightarrow> \<exists>r w'. step k w = (r, w') \<and> wf w' \<and>
      objs w' = (objs w)(k := Option.bind (objs w k) after) \<and>
      reaches (case_option Leave aim (objs w k)) (name k) (view w) (view w') \<and>
      (pred_option (\<lambda>x. \<not> fails x) (objs w k) \<longrightarrow> r = fine)"
    and after_again: "\<lbrakk>ok; after x = Some y\<rbrakk> \<Longrightarrow> after y = Some y"
    and aim_after: "\<lbrakk>ok; after x = Some y\<rbrakk> \<Longrightarrow> aim y = aim x \<or> aim x = Absent \<and> aim y = Leave"
    and aim_gone: "\<lbrakk>ok; after x = None\<rbrakk> \<Longrightarrow> aim x = Leave \<or> aim x = Absent"
    and fails_after: "\<lbrakk>ok; after x = Some y\<rbrakk> \<Longrightarrow> fails y = fails x"
begin

abbreviation target :: "'w \<Rightarrow> 'k \<Rightarrow> aim" where
  "target w k \<equiv> case_option Leave aim (objs w k)"

lemma after_twice:
  assumes ok
  shows "Option.bind (Option.bind u after) after = Option.bind u after"
proof (cases "Option.bind u after")
  case (Some y)
  then obtain x where "after x = Some y" by (auto simp: bind_eq_Some_conv)
  then show ?thesis using after_again [OF assms] Some by simp
qed simp

lemma target_after:
  assumes ok: ok and w1: "objs w1 = (objs w)(k := Option.bind (objs w k) after)"
  shows "target w1 j = target w j \<or> j = k \<and> target w j = Absent \<and> target w1 j = Leave"
proof (cases "j = k")
  case j: True
  show ?thesis
  proof (cases "objs w k")
    case (Some x)
    show ?thesis
    proof (cases "after x")
      case None
      then show ?thesis using aim_gone [OF ok None] Some j w1 by auto
    next
      case y: (Some y)
      then show ?thesis using aim_after [OF ok y] Some j w1 by auto
    qed
  qed (simp add: j w1)
qed (simp add: w1)

lemma fine_after:
  assumes ok: ok and w1: "objs w1 = (objs w)(k := Option.bind (objs w k) after)"
    and "pred_option (\<lambda>x. \<not> fails x) (objs w j)"
  shows "pred_option (\<lambda>x. \<not> fails x) (objs w1 j)"
  using fails_after [OF ok] w1 assms(3)
  by (cases "objs w k"; cases "Option.bind (objs w k) after") auto

lemma sweep:
  assumes ok: ok and wf: "wf w" and inj: "inj_on name (set ks)"
  shows "\<exists>rs w'. reconcile_all step ks w = (rs, w') \<and> wf w' \<and>
    list_all2 (\<lambda>k r. pred_option (\<lambda>x. \<not> fails x) (objs w k) \<longrightarrow> r = fine) ks rs \<and>
    objs w' = (\<lambda>k. if k \<in> set ks then Option.bind (objs w k) after else objs w k) \<and>
    (\<forall>k\<in>set ks. achieved (target w k) (name k) (view w')) \<and>
    (\<forall>c. c \<notin> name ` {k\<in>set ks. target w k \<noteq> Leave} \<longrightarrow> view w' c = view w c)"
  using wf inj
proof (induction ks arbitrary: w)
  case (Cons k ks)
  obtain r w1 where one: "step k w = (r, w1)" "wf w1" "objs w1 = (objs w)(k := Option.bind (objs w k) after)"
    "reaches (target w k) (name k) (view w) (view w1)"
    "pred_option (\<lambda>x. \<not> fails x) (objs w k) \<Longrightarrow> r = fine"
    using step [OF ok Cons.prems(1), of k] by blast
  note t = target_after [OF ok one(3)]
  have "inj_on name (set ks)" using Cons.prems(2) by simp
  then obtain rs w' where rest: "reconcile_all step ks w1 = (rs, w')" "wf w'"
    "list_all2 (\<lambda>k r. pred_option (\<lambda>x. \<not> fails x) (objs w1 k) \<longrightarrow> r = fine) ks rs"
    "objs w' = (\<lambda>k. if k \<in> set ks then Option.bind (objs w1 k) after else objs w1 k)"
    "\<And>j. j \<in> set ks \<Longrightarrow> achieved (target w1 j) (name j) (view w')"
    "\<And>c. c \<notin> name ` {k\<in>set ks. target w1 k \<noteq> Leave} \<Longrightarrow> view w' c = view w1 c"
    using Cons.IH [OF one(2)] by blast
  have "list_all2 (\<lambda>k r. pred_option (\<lambda>x. \<not> fails x) (objs w k) \<longrightarrow> r = fine) ks rs"
    using rest(3) fine_after [OF ok one(3)] by (auto elim!: list_all2_mono)
  moreover have "objs w' = (\<lambda>j. if j \<in> set (k # ks) then Option.bind (objs w j) after else objs w j)"
    unfolding rest(4) one(3) using after_twice [OF ok] by (auto simp: fun_eq_iff)
  moreover have "achieved (target w j) (name j) (view w')" if "j \<in> set (k # ks)" for j
  proof (cases "j \<in> set ks \<and> target w1 j = target w j")
    case True
    then show ?thesis using rest(5) [of j] by simp
  next
    case False
    then have j: "j = k" using that t [of j] by auto
    have "name k \<notin> name ` {i\<in>set ks. target w1 i \<noteq> Leave}"
      using Cons.prems(2) False t [of k] unfolding j by (auto simp: inj_on_def)
    then show ?thesis unfolding j using rest(6) by (intro reaches_achieved [OF one(4)])
  qed
  moreover have "view w' c = view w c" if "c \<notin> name ` {j\<in>set (k # ks). target w j \<noteq> Leave}" for c
  proof -
    have "c \<notin> name ` {j\<in>set ks. target w1 j \<noteq> Leave}" using that t by force
    moreover have "target w k = Leave \<or> c \<noteq> name k" using that by auto
    ultimately show ?thesis using rest(6) reaches_frame [OF one(4)] by simp
  qed
  ultimately show ?case using one(1,5) rest(1,2) by (intro exI [of _ "r # rs"] exI [of _ w']) simp
qed simp

text \<open>The reconciliation comes to rest: where every object is settled, every silence as asked for and none about
  to end, further calls change nothing; and a sweep leaves such a state.\<close>

definition settled :: "'w \<Rightarrow> 'k \<Rightarrow> bool" where
  "settled w k \<longleftrightarrow> Option.bind (objs w k) after = objs w k \<and> achieved (target w k) (name k) (view w)"

lemma rest:
  assumes ok: ok and wf: "wf w" and s: "\<And>k. k \<in> set ks \<Longrightarrow> settled w k \<and> steady (target w k)"
    and run: "reconcile_all step ks w = (rs, w')"
  shows "wf w' \<and> objs w' = objs w \<and> view w' = view w"
  using wf s run
proof (induction ks arbitrary: w rs)
  case (Cons k ks)
  obtain r w1 where one: "step k w = (r, w1)" "wf w1" "objs w1 = (objs w)(k := Option.bind (objs w k) after)"
    "reaches (target w k) (name k) (view w) (view w1)"
    using step [OF ok Cons.prems(1), of k] by blast
  have k: "Option.bind (objs w k) after = objs w k" "achieved (target w k) (name k) (view w)" "steady (target w k)"
    using Cons.prems(2) [of k] by (simp_all add: settled_def)
  have same: "objs w1 = objs w" "view w1 = view w"
    using one(3) k(1) reaches_stable [OF one(4) k(2,3)] by (simp_all add: fun_upd_idem)
  then have "settled w1 j = settled w j" for j by (simp add: settled_def)
  moreover obtain rs' where "reconcile_all step ks w1 = (rs', w')"
    using Cons.prems(3) one(1) by (auto split: prod.splits)
  ultimately show ?case using Cons.IH [OF one(2)] Cons.prems(2) same by simp
qed simp

lemma sweep_settles:
  assumes ok: ok and wf: "wf w" and inj: "inj_on name (set ks)" and run: "reconcile_all step ks w = (rs, w')"
    and k: "k \<in> set ks"
  shows "wf w' \<and> settled w' k \<and> (target w' k = target w k \<or> target w' k = Leave)"
proof -
  have s: "wf w'" "objs w' k = Option.bind (objs w k) after" "achieved (target w k) (name k) (view w')"
    using sweep [OF ok wf inj] run k by auto
  have "objs w' k = ((objs w)(k := Option.bind (objs w k) after)) k" using s(2) by simp
  then have t: "target w' k = target w k \<or> target w' k = Leave"
    using aim_after [OF ok] aim_gone [OF ok] by (cases "objs w k"; cases "Option.bind (objs w k) after") fastforce+
  then have "achieved (target w' k) (name k) (view w')" using s(3) by auto
  then show ?thesis using s(1,2) t after_twice [OF ok] by (simp add: settled_def)
qed

lemma quiescent:
  assumes ok: ok and wf: "wf w" and inj: "inj_on name (set ks)" and run: "reconcile_all step ks w = (rs, w')"
    and again: "set js \<subseteq> set ks" "reconcile_all step js w' = (rs', w'')"
    and steady: "\<And>k. k \<in> set js \<Longrightarrow> steady (target w k)"
  shows "objs w'' = objs w' \<and> view w'' = view w'"
proof (cases "ks = []")
  case True
  then show ?thesis using again by simp
next
  case False
  then have "wf w'" using sweep_settles [OF ok wf inj run, of "hd ks"] by simp
  moreover have "settled w' k \<and> steady (target w' k)" if "k \<in> set js" for k
    using sweep_settles [OF ok wf inj run subsetD [OF again(1) that]] steady [OF that] by (metis steady.simps(2))
  ultimately show ?thesis using rest [OF ok _ _ again(2)] by blast
qed

end

end
