(* ===== verification/Mock_Server.thy ===== *)
theory Mock_Server
  imports Types_Round_Trip Alertmanager "HOL-Library.AList" "HOL-Library.Multiset"
begin

section \<open>The mock Alertmanager server\<close>

text \<open>
  \<open>internal/controller/testutils/mock_alertmanager.go\<close>: an HTTP server over a map from ids to
  silences, which the operator's tests run against.  The Go map is an association list with
  distinct keys; the order in which \<open>range\<close> visits it is a parameter that may change from call
  to call.  A handler holds the mutex while it works, so requests are served one at a time.
  Parameters, in \<open>mock_lib\<close>: the text of an error, the order of \<open>range\<close>, how the rest of the world
  goes on after a request (\<open>tick\<close>), the clock, and what the HTTP client gets for a request that the
  multiplexer redirects or that goes to another address.
\<close>

record MockAlertmanagerServer =
  server_URL :: string
  server_open :: bool
  silences :: "(string \<times> Silence) list"

text \<open>The server and the rest of the world.\<close>

type_synonym 'x mock_world = "MockAlertmanagerServer \<times> 'x"

record 'x mock_lib =
  Error_text :: "go_error \<Rightarrow> string"
  map_range :: "'x \<Rightarrow> (string \<times> Silence) list \<Rightarrow> (string \<times> Silence) list"
  tick :: "'x \<Rightarrow> 'x"
  wall_clock :: "'x mock_world \<Rightarrow> Time"
  elsewhere :: "http_request \<Rightarrow> 'x mock_world \<Rightarrow> (go_error + http_response) \<times> 'x mock_world"

definition mock_lib_ok :: "'x mock_lib \<Rightarrow> bool" where
  "mock_lib_ok M \<longleftrightarrow> (\<forall>n al. mset (map_range M n al) = mset al)"

definition NewMockAlertmanagerServer :: "string \<Rightarrow> MockAlertmanagerServer" where
  "NewMockAlertmanagerServer url = \<lparr>server_URL = url, server_open = True, silences = []\<rparr>"

definition GetAlertmanager ::
  "errors_pkg \<Rightarrow> MockAlertmanagerServer \<Rightarrow> Alertmanager option \<times> go_error option" where
  "GetAlertmanager P m = New P
     (\<lparr>Address = server_URL m, Authentication = False, BearerToken = '''', TenantId = '''',
       SilenceSelector = None, NamespaceSelector = None, TenancyEnabled = False,
       TenancyLabelKey = '''', TenancyDefaultTenant = ''''\<rparr> :: unit Config)"

text \<open>Nobody serves the address of a closed server any more.\<close>

definition Close :: "MockAlertmanagerServer \<Rightarrow> MockAlertmanagerServer" where
  "Close m = m\<lparr>server_open := False\<rparr>"

definition AddSilence :: "Silence \<Rightarrow> MockAlertmanagerServer \<Rightarrow> MockAlertmanagerServer" where
  "AddSilence silence m =
     (let silence = (if ID silence = '''' then silence\<lparr>ID := ''mock-id-'' @ Comment silence\<rparr> else silence)
      in m\<lparr>silences := AList.update (ID silence) silence (silences m)\<rparr>)"

definition GetSilences :: "'x mock_lib \<Rightarrow> 'x \<Rightarrow> MockAlertmanagerServer \<Rightarrow> Silence slice" where
  "GetSilences M n m =
     fold (\<lambda>(_, silence) out. slice_append out silence) (map_range M n (silences m)) None"

subsection \<open>Handlers\<close>

definition newline :: string where
  "newline = [CHR 10]"

text \<open>\<open>http.Error\<close> and \<open>http.NotFound\<close>.\<close>

definition http_Error :: "string \<Rightarrow> int \<Rightarrow> http_response" where
  "http_Error msg code = \<lparr>StatusCode = code, RespBody = Inr (msg @ newline)\<rparr>"

text \<open>Encoding a list of silences with a \<open>json.Encoder\<close>; nil is \<open>null\<close>.\<close>

definition json_Encode_list :: "Silence slice \<Rightarrow> go_error + string" where
  "json_Encode_list ss =
     (if list_all silence_encodable (slice_elems ss) then
        Inr (json_text (case ss of None \<Rightarrow> JNull | Some xs \<Rightarrow> JArr (map encode_silence xs)) @ newline)
      else Inl MarshalError)"

text \<open>Decoding one silence with a \<open>json.Decoder\<close>, which reads one value and leaves the rest.\<close>

definition json_Decode_silence :: "string \<Rightarrow> go_error + Silence" where
  "json_Decode_silence body =
     (case scan_value (2 * length body + 2) body of
        None \<Rightarrow> Inl UnmarshalError
      | Some (v, _) \<Rightarrow>
          (case decode_silence v of None \<Rightarrow> Inl UnmarshalError | Some s \<Rightarrow> Inr s))"

definition listed_by_mock :: "Silence \<Rightarrow> bool" where
  "listed_by_mock s \<longleftrightarrow> (case Status s of None \<Rightarrow> True | Some st \<Rightarrow> State st \<noteq> SilenceStateExpired)"

definition handleListSilences :: "'x mock_lib \<Rightarrow> 'x \<Rightarrow> MockAlertmanagerServer \<Rightarrow> http_response" where
  "handleListSilences M n m =
     (let out = fold (\<lambda>(_, silence) out.
            if listed_by_mock silence then slice_append out silence else out)
          (map_range M n (silences m)) None
      in case json_Encode_list out of
           Inl err \<Rightarrow> http_Error (Error_text M err) 500
         | Inr body \<Rightarrow> \<lparr>StatusCode = 200, RespBody = Inr body\<rparr>)"

definition handleCreateSilence ::
  "'x mock_lib \<Rightarrow> string \<Rightarrow> MockAlertmanagerServer \<Rightarrow> http_response \<times> MockAlertmanagerServer" where
  "handleCreateSilence M body m =
     (case json_Decode_silence body of
        Inl err \<Rightarrow> (http_Error (Error_text M err) 400, m)
      | Inr silence \<Rightarrow>
          (let silence = (if ID silence = '''' then silence\<lparr>ID := ''mock-id-'' @ Comment silence\<rparr> else silence);
               silence = (if Status silence = None then silence\<lparr>Status := Some \<lparr>State = ''active''\<rparr>\<rparr> else silence)
           in (\<lparr>StatusCode = 200,
                RespBody = Inr (json_text (JObj [(''silenceID'', JStr (json_escape (ID silence)))]) @ newline)\<rparr>,
               m\<lparr>silences := AList.update (ID silence) silence (silences m)\<rparr>)))"

text \<open>\<open>r.URL.Path\<close> behind the prefix \<open>/api/v2/silence/\<close> is the decoded \<open>path\<close>.\<close>

definition handleDeleteSilence ::
  "string \<Rightarrow> MockAlertmanagerServer \<Rightarrow> http_response \<times> MockAlertmanagerServer" where
  "handleDeleteSilence path m =
     (let silenceID = hd (split_slash path)
      in if map_of (silences m) silenceID = None then (http_Error ''Silence not found'' 404, m)
         else (\<lparr>StatusCode = 200, RespBody = Inr ''''\<rparr>,
               m\<lparr>silences := AList.delete silenceID (silences m)\<rparr>))"

subsection \<open>The multiplexer\<close>

text \<open>The escaped path of a request to the server, up to a query or fragment.\<close>

definition raw_path :: "MockAlertmanagerServer \<Rightarrow> http_request \<Rightarrow> string option" where
  "raw_path m req =
     (let base = server_URL m
      in if take (length base) (URL req) = base
         then Some (takeWhile (\<lambda>c. c \<noteq> CHR ''?'' \<and> c \<noteq> CHR ''#'') (drop (length base) (URL req)))
         else None)"

text \<open>A path is redirected when it holds an empty segment before its end, \<open>.\<close> or \<open>..\<close>.\<close>

definition clean_segments :: "string list \<Rightarrow> bool" where
  "clean_segments segs \<longleftrightarrow>
     segs \<noteq> [] \<and> '''' \<notin> set (butlast segs) \<and> ''.'' \<notin> set segs \<and> ''..'' \<notin> set segs"

definition MethodNotAllowed :: http_response where
  "MethodNotAllowed = http_Error ''Method not allowed'' 405"

text \<open>What the two registered functions answer, by the decoded segments of the path; \<open>None\<close> for
  a redirect.\<close>

definition serve ::
  "'x mock_lib \<Rightarrow> 'x \<Rightarrow> http_request \<Rightarrow> string list \<Rightarrow> MockAlertmanagerServer
     \<Rightarrow> (http_response \<times> MockAlertmanagerServer) option" where
  "serve M n req segs m =
     (if segs = [''api'', ''v2'', ''silences''] then
        Some (if Method req = ''GET'' then (handleListSilences M n m, m)
              else if Method req = ''POST'' then
                handleCreateSilence M (case Body req of None \<Rightarrow> '''' | Some b \<Rightarrow> b) m
              else (MethodNotAllowed, m))
      else if take 3 segs = [''api'', ''v2'', ''silence''] then
        (if length segs = 3 then None
         else Some (if Method req = ''DELETE'' then handleDeleteSilence (join_slash (drop 3 segs)) m
                    else (MethodNotAllowed, m)))
      else Some (http_Error ''404 page not found'' 404, m))"

definition mock_Do ::
  "'x mock_lib \<Rightarrow> http_request \<Rightarrow> 'x mock_world \<Rightarrow> (go_error + http_response) \<times> 'x mock_world" where
  "mock_Do M req w =
     (case w of (m, n) \<Rightarrow>
        case (if server_open m then raw_path m req else None) of
          Some (c # path) \<Rightarrow>
            (case (if c = CHR ''/'' \<and> clean_segments (split_slash path)
                   then Option.bind (those (map PathUnescape (split_slash path)))
                          (\<lambda>segs. serve M n req segs m)
                   else None) of
               Some (resp, m) \<Rightarrow> (Inr resp, (m, tick M n))
             | None \<Rightarrow> elsewhere M req w)
        | _ \<Rightarrow> elsewhere M req w)"

text \<open>The mock server as the environment of the client.  \<open>url.Parse\<close> rejects a bad escape.\<close>

definition url_escape_error :: "string \<Rightarrow> go_error option" where
  "url_escape_error u =
     (if PathUnescape u = None then Some (Failure ''invalid URL escape'' [FStr u]) else None)"

definition mock_env :: "'x mock_lib \<Rightarrow> ('x mock_world, Time) Env" where
  "mock_env M = \<lparr>
     url_Parse_error = url_escape_error,
     http_Do = mock_Do M,
     time_Now = (\<lambda>w. (wall_clock M w, w))\<rparr>"

end
