(* ===== verification/Mock_Store.thy ===== *)
theory Mock_Store
  imports Mock_Server Store
begin

section \<open>The client against the mock server is a map from comments to silences\<close>

text \<open>
  The real client, talking HTTP and JSON to the mock server, keeps the contract
  \<open>comment_store\<close>: requests are routed and decoded, silences survive their JSON form, and the
  order in which the server's map is visited does not matter.
\<close>

subsection \<open>The state\<close>

definition mock_id :: "string \<Rightarrow> string" where
  "mock_id c = ''mock-id-'' @ c"

lemma mock_id_inject [simp]: "mock_id a = mock_id b \<longleftrightarrow> a = b"
  by (simp add: mock_id_def)

lemma mock_id_not_empty [simp]: "mock_id c \<noteq> ''''"
  by (simp add: mock_id_def)

definition stored_ok :: "string \<times> Silence \<Rightarrow> bool" where
  "stored_ok ks \<longleftrightarrow> fst ks = mock_id (Comment (snd ks)) \<and> ID (snd ks) = fst ks \<and> valid_silence (snd ks) \<and>
     Status (snd ks) \<noteq> None \<and> CHR ''/'' \<notin> set (Comment (snd ks))"

definition store_ok :: "(string \<times> Silence) list \<Rightarrow> bool" where
  "store_ok al \<longleftrightarrow> distinct (map fst al) \<and> list_all stored_ok al"

definition mock_wf :: "Alertmanager \<Rightarrow> 'x mock_world \<Rightarrow> bool" where
  "mock_wf am w \<longleftrightarrow> server_URL (fst w) = address am \<and> server_open (fst w) \<and> CHR ''%'' \<notin> set (address am) \<and>
     store_ok (silences (fst w))"

definition mock_view :: "'x mock_world \<Rightarrow> string \<Rightarrow> Silence option" where
  "mock_view w c =
     (case map_of (silences (fst w)) (mock_id c) of
        None \<Rightarrow> None
      | Some s \<Rightarrow> if not_expired s then Some s else None)"

definition storable :: "Silence \<Rightarrow> bool" where
  "storable s \<longleftrightarrow> valid_silence s \<and> Status s = None \<and> CHR ''/'' \<notin> set (Comment s)"

definition mock_ok :: "errors_pkg \<Rightarrow> 'x mock_lib \<Rightarrow> bool" where
  "mock_ok P M \<longleftrightarrow> errors_pkg_ok P \<and> mock_lib_ok M"

lemma store_ok_lookup:
  assumes "store_ok al" "map_of al k = Some s"
  shows "stored_ok (k, s)"
  using assms map_of_SomeD [OF assms(2)] by (auto simp: store_ok_def list_all_iff)

lemma store_ok_mem: "store_ok al \<Longrightarrow> (k, s) \<in> set al \<longleftrightarrow> map_of al k = Some s"
  by (simp add: store_ok_def map_of_eq_Some_iff)

lemma store_ok_update:
  assumes "store_ok al" "stored_ok (k, s)"
  shows "store_ok (AList.update k s al)"
proof -
  have "set (AList.update k s al) \<subseteq> insert (k, s) (set al)"
    by (induction al) auto
  then show ?thesis
    using assms by (auto simp: store_ok_def list_all_iff distinct_update)
qed

lemma store_ok_delete: "store_ok al \<Longrightarrow> store_ok (AList.delete k al)"
  using subsetD [of "set (AList.delete k al)" "set al"]
  by (auto simp: store_ok_def list_all_iff distinct_delete) (simp add: AList.delete_eq)

subsection \<open>Routing\<close>

lemma PathUnescape_append:
  "CHR ''%'' \<notin> set x \<Longrightarrow> PathUnescape (x @ y) = map_option ((@) x) (PathUnescape y)"
  by (induction x; cases "PathUnescape y") auto

lemma silences_route:
  "split_slash ''api/v2/silences'' = [''api'', ''v2'', ''silences'']"
  "clean_segments [''api'', ''v2'', ''silences'']"
  "those (map PathUnescape [''api'', ''v2'', ''silences'']) = Some [''api'', ''v2'', ''silences'']"
  "takeWhile (\<lambda>c. c \<noteq> CHR ''?'' \<and> c \<noteq> CHR ''#'') apiV2SilencesPath = CHR ''/'' # ''api/v2/silences''"
  by code_simp+

lemma mock_Do_silences:
  assumes "URL req = server_URL m @ apiV2SilencesPath" "server_open m"
  shows "mock_Do M req (m, n) =
    (if Method req = ''GET'' then (Inr (handleListSilences M n m), (m, tick M n))
     else if Method req = ''POST'' then
       (case handleCreateSilence M (case Body req of None \<Rightarrow> '''' | Some b \<Rightarrow> b) m of
          (resp, m) \<Rightarrow> (Inr resp, (m, tick M n)))
     else (Inr MethodNotAllowed, (m, tick M n)))"
proof -
  have raw: "(if server_open m then raw_path m req else None) = Some (CHR ''/'' # ''api/v2/silences'')"
    using assms silences_route(4) by (simp add: raw_path_def)
  have "mock_Do M req (m, n) =
    (case serve M n req [''api'', ''v2'', ''silences''] m of
       Some (resp, m) \<Rightarrow> (Inr resp, (m, tick M n)) | None \<Rightarrow> elsewhere M req (m, n))"
    unfolding mock_Do_def prod.case raw option.case list.case silences_route(1)
    using silences_route(2,3) by simp
  then show ?thesis by (simp add: serve_def split: prod.splits)
qed

lemma escape_not_slash:
  "CHR ''/'' \<notin> set (PathEscape s)" "CHR ''?'' \<notin> set (PathEscape s)" "CHR ''#'' \<notin> set (PathEscape s)"
  using PathEscape_segment [of s] by auto

lemma PathEscape_mock_id: "\<exists>t. PathEscape (mock_id c) = CHR ''m'' # t"
  by (simp add: PathEscape_def mock_id_def escape_byte_def path_unreserved_def is_alnum_def is_lower_def)

lemma split_slash_prefix:
  "split_slash (''api/v2/silence/'' @ x) = [''api'', ''v2'', ''silence''] @ split_slash x"
  by (cases "split_slash x") simp_all

lemma plain_parts: "PathUnescape ''api'' = Some ''api''" "PathUnescape ''v2'' = Some ''v2''"
  "PathUnescape ''silence'' = Some ''silence''"
  by code_simp+

lemma mock_Do_silence:
  assumes "URL req = server_URL m @ apiV2SilencePath @ ''/'' @ PathEscape (mock_id c)"
    and "Method req = ''DELETE''" "CHR ''/'' \<notin> set c" "server_open m"
  shows "mock_Do M req (m, n) =
    (case handleDeleteSilence (mock_id c) m of (resp, m) \<Rightarrow> (Inr resp, (m, tick M n)))"
proof -
  let ?x = "PathEscape (mock_id c)"
  obtain t where t: "?x = CHR ''m'' # t" using PathEscape_mock_id by blast
  have "takeWhile (\<lambda>c. c \<noteq> CHR ''?'' \<and> c \<noteq> CHR ''#'') ?x = ?x"
    using escape_not_slash [of "mock_id c"] by (intro takeWhile_eq_all_conv [THEN iffD2]) auto
  then have raw: "(if server_open m then raw_path m req else None) = Some (CHR ''/'' # (''api/v2/silence/'' @ ?x))"
    using assms(1,4) by (simp add: raw_path_def apiV2SilencePath_def)
  have segs: "split_slash (''api/v2/silence/'' @ ?x) = [''api'', ''v2'', ''silence'', ?x]"
    using split_slash_prefix [of ?x] split_slash_none [OF escape_not_slash(1)] by simp
  have clean: "clean_segments [''api'', ''v2'', ''silence'', ?x]"
    using t by (simp add: clean_segments_def)
  have dec: "those (map PathUnescape [''api'', ''v2'', ''silence'', ?x]) = Some [''api'', ''v2'', ''silence'', mock_id c]"
    using plain_parts by (simp add: PathUnescape_PathEscape)
  have "mock_Do M req (m, n) =
    (case serve M n req [''api'', ''v2'', ''silence'', mock_id c] m of
       Some (resp, m) \<Rightarrow> (Inr resp, (m, tick M n)) | None \<Rightarrow> elsewhere M req (m, n))"
    unfolding mock_Do_def prod.case raw option.case list.case segs
    using clean dec by simp
  then show ?thesis using assms(2) by (simp add: serve_def join_slash_def split: prod.splits)
qed

subsection \<open>Requests of the client\<close>

lemma mock_env_sel [simp]:
  "url_Parse_error (mock_env M) = url_escape_error" "http_Do (mock_env M) = mock_Do M"
  "time_Now (mock_env M) w = (wall_clock M w, w)"
  by (simp_all add: mock_env_def)

lemma mock_urls:
  assumes "CHR ''%'' \<notin> set (address am)"
  shows "url_escape_error (address am @ apiV2SilencesPath) = None"
    and "url_escape_error (address am @ apiV2SilencePath @ ''/'' @ PathEscape i) = None"
proof -
  have p: "CHR ''%'' \<notin> set apiV2SilencesPath" "CHR ''%'' \<notin> set (apiV2SilencePath @ ''/'')"
    by (simp_all add: apiV2SilencesPath_def apiV2SilencePath_def)
  show "url_escape_error (address am @ apiV2SilencesPath) = None"
    using PathUnescape_append [of "address am @ apiV2SilencesPath" "[]"] assms p
    by (simp add: url_escape_error_def)
  show "url_escape_error (address am @ apiV2SilencePath @ ''/'' @ PathEscape i) = None"
    using PathUnescape_append [of "address am @ apiV2SilencePath @ ''/''" "PathEscape i"] assms p
    by (simp add: url_escape_error_def PathUnescape_PathEscape)
qed

text \<open>A request whose URL parses is built.\<close>

lemma NewRequest_built:
  assumes "url_Parse_error E url = None"
  shows "\<exists>req. NewRequest E am method url body tenant = Inr req \<and> Method req = method \<and>
    URL req = url \<and> Body req = body"
  using assms by (simp add: NewRequest_def http_NewRequest_def Let_def)

subsection \<open>Listing\<close>

lemma fold_listed:
  "fold (\<lambda>(_, s) out. if q s then slice_append out s else out) al (slice_of_list acc)
     = slice_of_list (acc @ filter q (map snd al))"
  by (induction al arbitrary: acc) (auto split: prod.splits)

definition mock_listed :: "'x mock_lib \<Rightarrow> 'x \<Rightarrow> MockAlertmanagerServer \<Rightarrow> Silence list" where
  "mock_listed M n m = filter listed_by_mock (map snd (map_range M n (silences m)))"

lemma mock_listed_set:
  assumes "mock_lib_ok M"
  shows "set (mock_listed M n m) = {s. listed_by_mock s \<and> (\<exists>k. (k, s) \<in> set (silences m))}"
proof -
  have "set (map_range M n (silences m)) = set (silences m)"
    using assms unfolding mock_lib_ok_def by (metis set_mset_mset)
  then show ?thesis by (force simp: mock_listed_def)
qed

lemma handleList_decodes:
  assumes "mock_lib_ok M" "store_ok (silences m)"
  shows "\<exists>body ss. handleListSilences M n m = \<lparr>StatusCode = 200, RespBody = Inr body\<rparr> \<and>
    json_Unmarshal body = Inr ss \<and> slice_elems ss = mock_listed M n m"
proof -
  let ?out = "slice_of_list (mock_listed M n m)"
  have out: "fold (\<lambda>(_, s) out. if listed_by_mock s then slice_append out s else out)
      (map_range M n (silences m)) None = ?out"
    using fold_listed [of listed_by_mock "map_range M n (silences m)" "[]"]
    by (simp add: mock_listed_def slice_of_list_def)
  have valid: "list_all valid_silence (mock_listed M n m)"
    using mock_listed_set [OF assms(1)] assms(2)
    by (auto simp: list_all_iff store_ok_def stored_ok_def)
  then have enc: "list_all silence_encodable (mock_listed M n m)"
    by (auto simp: list_all_iff valid_encodable)
  let ?v = "case ?out of None \<Rightarrow> JNull | Some xs \<Rightarrow> JArr (map encode_silence xs)"
  have "json_ok ?v"
    using enc json_ok_silence by (auto simp: list_all_iff split: option.splits)
  then have parse: "json_parse (json_text ?v @ newline) = Some ?v"
    by (intro json_parse_text) (simp_all add: newline_def json_space_def)
  have "decode_slice decode_silence ?v = Some ?out"
    using decode_encode_silences [OF valid] by (auto simp: slice_of_list_def simp del: map_map)
  then have "json_Unmarshal (json_text ?v @ newline) = Inr ?out"
    using parse by (simp add: json_Unmarshal_def)
  moreover have "handleListSilences M n m = \<lparr>StatusCode = 200, RespBody = Inr (json_text ?v @ newline)\<rparr>"
    using enc by (simp add: handleListSilences_def out json_Encode_list_def)
  ultimately show ?thesis by auto
qed

lemma not_expired_listed: "not_expired s \<Longrightarrow> listed_by_mock s"
  by (auto simp: not_expired_def listed_by_mock_def split: option.splits)

lemma ListSilences_mock:
  assumes "mock_lib_ok M" "mock_wf am (m, n)"
  shows "\<exists>ss. ListSilences P (mock_env M) am tenant (m, n) = ((ss, None), (m, tick M n)) \<and>
    slice_elems ss = filter not_expired (mock_listed M n m)"
proof -
  have wf: "server_URL m = address am" "CHR ''%'' \<notin> set (address am)" "store_ok (silences m)" "server_open m"
    using assms(2) by (simp_all add: mock_wf_def)
  obtain req where req: "NewRequest (mock_env M) am ''GET'' (address am @ apiV2SilencesPath) None tenant = Inr req"
    "Method req = ''GET''" "URL req = address am @ apiV2SilencesPath"
    using NewRequest_built [of "mock_env M" "address am @ apiV2SilencesPath" am "''GET''" None tenant]
      mock_urls(1) [OF wf(2)] by auto
  obtain body ss where h: "handleListSilences M n m = \<lparr>StatusCode = 200, RespBody = Inr body\<rparr>"
    "json_Unmarshal body = Inr ss" "slice_elems ss = mock_listed M n m"
    using handleList_decodes [OF assms(1) wf(3)] by blast
  have "mock_Do M (authorize am req) (m, n) = (Inr (handleListSilences M n m), (m, tick M n))"
    using mock_Do_silences [of "authorize am req" m M n] req wf(1,4) by simp
  then show ?thesis using req(1) h by (simp add: ListSilences_def)
qed

text \<open>Among the active silences at most one has a given comment, in whatever order they come.\<close>

lemma listed_view:
  assumes "mock_lib_ok M" "store_ok (silences m)"
  shows "s \<in> set (filter not_expired (mock_listed M n m)) \<and> Comment s = c \<longleftrightarrow> mock_view (m, n) c = Some s"
  using mock_listed_set [OF assms(1), of n m] store_ok_mem [OF assms(2)] store_ok_lookup [OF assms(2)]
    not_expired_listed [of s]
  by (fastforce simp: mock_view_def stored_ok_def split: option.splits if_splits)

lemma find_view:
  assumes "mock_lib_ok M" "store_ok (silences m)"
  shows "List.find (\<lambda>s. Comment s = c) (filter not_expired (mock_listed M n m)) = mock_view (m, n) c"
  by (rule find_unique) (rule listed_view [OF assms])

subsection \<open>Creating and updating\<close>

definition made :: "Silence \<Rightarrow> Silence" where
  "made s = s\<lparr>ID := mock_id (Comment s), Status := Some \<lparr>State = ''active''\<rparr>\<rparr>"

lemma made_sel [simp]:
  "Comment (made s) = Comment s" "ID (made s) = mock_id (Comment s)" "not_expired (made s)"
  "same_content (made s) s"
  by (simp_all add: made_def not_expired_def SilenceStateExpired_def same_content_def)

lemma stored_ok_made:
  assumes "valid_silence s" "CHR ''/'' \<notin> set (Comment s)"
  shows "stored_ok (mock_id (Comment s), made s)"
  using assms by (simp add: stored_ok_def valid_silence_def made_def mock_id_def)

lemma decode_marshalled:
  assumes "valid_silence s"
  shows "\<exists>body. json_Marshal s = Inr body \<and> json_Decode_silence body = Inr s"
proof -
  let ?v = "encode_silence s"
  have "json_ok ?v" by (intro json_ok_silence valid_encodable assms)
  then have "scan_value (2 * length (json_text ?v) + 2) (json_text ?v) = Some (?v, [])"
    using reads_json [of ?v, unfolded reads_def, rule_format, of "2 * length (json_text ?v) + 2" "[]"]
    by (simp del: scan_value.simps)
  then have "json_Decode_silence (json_text ?v) = Inr s"
    using decode_encode_silence [OF assms] by (simp add: json_Decode_silence_def del: scan_value.simps)
  then show ?thesis using valid_encodable [OF assms] by (auto simp: json_Marshal_def)
qed

lemma CreateSilence_mock:
  assumes wf: "mock_wf am (m, n)" and s: "valid_silence s" "Status s = None"
    and i: "ID s = '''' \<or> ID s = mock_id (Comment s)"
  shows "CreateSilence P (mock_env M) am s tenant (m, n) =
    (None, (m\<lparr>silences := AList.update (mock_id (Comment s)) (made s) (silences m)\<rparr>, tick M n))"
proof -
  have wf': "server_URL m = address am" "CHR ''%'' \<notin> set (address am)" "server_open m"
    using wf by (simp_all add: mock_wf_def)
  obtain body where body: "json_Marshal s = Inr body" "json_Decode_silence body = Inr s"
    using decode_marshalled [OF s(1)] by blast
  obtain req where req: "NewRequest (mock_env M) am ''POST'' (address am @ apiV2SilencesPath) (Some body) tenant = Inr req"
    "Method req = ''POST''" "URL req = address am @ apiV2SilencesPath" "Body req = Some body"
    using NewRequest_built [of "mock_env M" "address am @ apiV2SilencesPath" am "''POST''" "Some body" tenant]
      mock_urls(1) [OF wf'(2)] by auto
  have x: "(let s = (if ID s = '''' then s\<lparr>ID := ''mock-id-'' @ Comment s\<rparr> else s)
      in if Status s = None then s\<lparr>Status := Some \<lparr>State = ''active''\<rparr>\<rparr> else s) = made s"
    using i s(2) by (auto simp: made_def mock_id_def Let_def)
  have h: "handleCreateSilence M body m =
    (\<lparr>StatusCode = 200, RespBody = Inr (json_text (JObj [(''silenceID'', JStr (json_escape (mock_id (Comment s))))]) @ newline)\<rparr>,
     m\<lparr>silences := AList.update (mock_id (Comment s)) (made s) (silences m)\<rparr>)"
    using body(2) x by (simp add: handleCreateSilence_def Let_def del: json_text.simps)
  have "mock_Do M (authorize am (Header_Add ''Content-Type'' ''application/json'' req)) (m, n)
      = (case handleCreateSilence M body m of (resp, m) \<Rightarrow> (Inr resp, (m, tick M n)))"
    using mock_Do_silences [of "authorize am (Header_Add ''Content-Type'' ''application/json'' req)" m M n] req wf'(1,3)
    by simp
  then show ?thesis using req(1) body(1) h by (simp add: CreateSilence_def)
qed

lemma mock_wf_update:
  assumes "mock_wf am (m, n)" "stored_ok (k, s)"
  shows "mock_wf am (m\<lparr>silences := AList.update k s (silences m)\<rparr>, n')"
  using assms store_ok_update by (simp add: mock_wf_def)

lemma mock_view_update:
  "not_expired x \<Longrightarrow> mock_view (m\<lparr>silences := AList.update (mock_id c) x (silences m)\<rparr>, n')
     = (mock_view (m, n))(c \<mapsto> x)"
  by (auto simp: mock_view_def update_conv' fun_eq_iff)

lemma mock_wf_delete:
  "mock_wf am (m, n) \<Longrightarrow> mock_wf am (m\<lparr>silences := AList.delete k (silences m)\<rparr>, n')"
  using store_ok_delete by (simp add: mock_wf_def)

lemma mock_view_delete:
  "mock_view (m\<lparr>silences := AList.delete (mock_id c) (silences m)\<rparr>, n') = (mock_view (m, n))(c := None)"
  by (auto simp: mock_view_def delete_conv' fun_eq_iff)

lemma mock_wf_tick [simp]: "mock_wf am (m, tick M n) = mock_wf am (m, n)"
  by (simp add: mock_wf_def)

lemma mock_view_tick [simp]: "mock_view (m, tick M n) = mock_view (m, n)"
  by (rule ext) (simp add: mock_view_def)

subsection \<open>Deleting\<close>

lemma mock_view_SomeD:
  assumes "mock_wf am w" "mock_view w c = Some s"
  shows "stored_ok (mock_id c, s)" "map_of (silences (fst w)) (mock_id c) = Some s" "Comment s = c"
    "ID s = mock_id c" "CHR ''/'' \<notin> set c" "not_expired s"
proof -
  show l: "map_of (silences (fst w)) (mock_id c) = Some s" and "not_expired s"
    using assms(2) by (auto simp: mock_view_def split: option.splits if_splits)
  show st: "stored_ok (mock_id c, s)"
    using store_ok_lookup [OF _ l] assms(1) by (simp add: mock_wf_def)
  then show "Comment s = c" "ID s = mock_id c" "CHR ''/'' \<notin> set c" by (auto simp: stored_ok_def)
qed

lemma DeleteSilenceByID_mock:
  assumes wf: "mock_wf am (m, n)" and v: "mock_view (m, n) c = Some s"
  shows "DeleteSilenceByID P (mock_env M) am (mock_id c) tenant (m, n) =
    (None, (m\<lparr>silences := AList.delete (mock_id c) (silences m)\<rparr>, tick M n))"
proof -
  have wf': "server_URL m = address am" "CHR ''%'' \<notin> set (address am)" "server_open m"
    using wf by (simp_all add: mock_wf_def)
  note d = mock_view_SomeD [OF wf v]
  let ?url = "address am @ apiV2SilencePath @ ''/'' @ PathEscape (mock_id c)"
  obtain req where req: "NewRequest (mock_env M) am ''DELETE'' ?url None tenant = Inr req"
    "Method req = ''DELETE''" "URL req = ?url"
    using NewRequest_built [of "mock_env M" ?url am "''DELETE''" None tenant] mock_urls(2) [OF wf'(2)] by auto
  have "CHR ''/'' \<notin> set (mock_id c)" using d(5) by (simp add: mock_id_def)
  then have h: "handleDeleteSilence (mock_id c) m =
      (\<lparr>StatusCode = 200, RespBody = Inr ''''\<rparr>, m\<lparr>silences := AList.delete (mock_id c) (silences m)\<rparr>)"
    using d(2) by (simp add: handleDeleteSilence_def split_slash_none)
  have "mock_Do M (authorize am (Header_Add ''Content-Type'' ''application/json'' req)) (m, n)
      = (case handleDeleteSilence (mock_id c) m of (resp, m) \<Rightarrow> (Inr resp, (m, tick M n)))"
    by (rule mock_Do_silence) (use req wf'(1,3) d(5) in simp_all)
  then show ?thesis using req(1) h by (simp add: DeleteSilenceByID_def Let_def)
qed

text \<open>Every active silence was made by the operator when its creator says so.\<close>

lemma DeleteSilenceByComment_mock:
  assumes ok: "mock_ok P M" and wf: "mock_wf am (m, n)"
  shows "mock_view (m, n) c = Some s \<Longrightarrow> CreatedBy s = CreatedBy_operator \<Longrightarrow>
      DeleteSilenceByComment P (mock_env M) am c tenant (m, n) =
        (None, (m\<lparr>silences := AList.delete (mock_id c) (silences m)\<rparr>, tick M (tick M n)))"
    and "mock_view (m, n) c = None \<Longrightarrow> \<exists>e.
      DeleteSilenceByComment P (mock_env M) am c tenant (m, n) = (Some e, (m, tick M n)) \<and>
      errors_Is e ErrSilenceNotFound"
proof -
  have M: "mock_lib_ok M" and P: "errors_pkg_ok P" using ok by (simp_all add: mock_ok_def)
  have st: "store_ok (silences m)" using wf by (simp add: mock_wf_def)
  obtain ss where ls: "ListSilences P (mock_env M) am tenant (m, n) = ((ss, None), (m, tick M n))"
    "slice_elems ss = filter not_expired (mock_listed M n m)"
    using ListSilences_mock [OF M wf] by blast
  note mem = listed_view [OF M st, of _ n c]
  show "DeleteSilenceByComment P (mock_env M) am c tenant (m, n) =
      (None, (m\<lparr>silences := AList.delete (mock_id c) (silences m)\<rparr>, tick M (tick M n)))"
    if v: "mock_view (m, n) c = Some s" and own: "CreatedBy s = CreatedBy_operator"
  proof -
    have "List.find (\<lambda>s. Comment s = c \<and> CreatedBy s = CreatedBy_operator) (slice_elems ss) = Some s"
      by (rule find_unique) (use mem v own ls(2) in auto)
    moreover have "ID s = mock_id c" by (rule mock_view_SomeD [OF wf v])
    moreover have "DeleteSilenceByID P (mock_env M) am (mock_id c) tenant (m, tick M n) =
        (None, (m\<lparr>silences := AList.delete (mock_id c) (silences m)\<rparr>, tick M (tick M n)))"
      by (rule DeleteSilenceByID_mock) (use wf v in simp_all)
    ultimately show ?thesis using ls(1) by (simp add: DeleteSilenceByComment_def)
  qed
  show "\<exists>e. DeleteSilenceByComment P (mock_env M) am c tenant (m, n) = (Some e, (m, tick M n)) \<and>
      errors_Is e ErrSilenceNotFound"
    if v: "mock_view (m, n) c = None"
  proof -
    have "List.find (\<lambda>s. Comment s = c \<and> CreatedBy s = CreatedBy_operator) (slice_elems ss) = None"
      using mem v ls(2) by (auto simp: find_None_conv)
    then show ?thesis
      using ls(1) not_found_message [OF P] by (simp add: DeleteSilenceByComment_def)
  qed
qed

subsection \<open>The contract\<close>

lemma GetSilenceByComment_mock:
  assumes ok: "mock_ok P M" and wf: "mock_wf am (m, n)"
  shows "mock_view (m, n) c = Some s \<Longrightarrow>
      GetSilenceByComment P (mock_env M) am c tenant (m, n) = ((Some s, None), (m, tick M n))"
    and "mock_view (m, n) c = None \<Longrightarrow> \<exists>e.
      GetSilenceByComment P (mock_env M) am c tenant (m, n) = ((None, Some e), (m, tick M n)) \<and>
      errors_Is e ErrSilenceNotFound"
proof -
  have M: "mock_lib_ok M" and P: "errors_pkg_ok P" using ok by (simp_all add: mock_ok_def)
  have st: "store_ok (silences m)" using wf by (simp add: mock_wf_def)
  obtain ss where ls: "ListSilences P (mock_env M) am tenant (m, n) = ((ss, None), (m, tick M n))"
    "slice_elems ss = filter not_expired (mock_listed M n m)"
    using ListSilences_mock [OF M wf] by blast
  have find: "List.find (\<lambda>s. Comment s = c) (slice_elems ss) = mock_view (m, n) c"
    using find_view [OF M st] ls(2) by simp
  show "mock_view (m, n) c = Some s \<Longrightarrow>
      GetSilenceByComment P (mock_env M) am c tenant (m, n) = ((Some s, None), (m, tick M n))"
    using ls(1) find by (simp add: GetSilenceByComment_def)
  show "mock_view (m, n) c = None \<Longrightarrow> \<exists>e.
      GetSilenceByComment P (mock_env M) am c tenant (m, n) = ((None, Some e), (m, tick M n)) \<and>
      errors_Is e ErrSilenceNotFound"
    using ls(1) find not_found_message [OF P] by (simp add: GetSilenceByComment_def)
qed

text \<open>
  The rest of the world matters to the server only as the order of its map: what holds of it and is
  kept by \<open>tick\<close> (the predicate \<open>F\<close>) still holds after the operations.
\<close>

interpretation framed: comment_store P "mock_env M" "Alertmanager_Client P (mock_env M) am"
    "\<lambda>w. mock_wf am w \<and> F (snd w)" mock_view storable "mock_ok P M \<and> (\<forall>n. F n \<longrightarrow> F (tick M n))"
  for P :: errors_pkg and M :: "'x mock_lib" and am :: Alertmanager and F :: "'x \<Rightarrow> bool"
proof
  show "mock_ok P M \<and> (\<forall>n. F n \<longrightarrow> F (tick M n)) \<Longrightarrow> errors_pkg_ok P" by (simp add: mock_ok_def)
  show "(mock_wf am w1 \<and> F (snd w1)) \<and> mock_view w1 = mock_view w"
    if "mock_wf am w \<and> F (snd w)" "time_Now (mock_env M) w = (now, w1)" for w now w1
    using that by simp
  show "storable (x\<lparr>ID := ID s\<rparr>)" if "mock_wf am w \<and> F (snd w)" "mock_view w c = Some s" "storable x"
    for w c s x
    using mock_view_SomeD(1) [OF conjunct1 [OF that(1)] that(2)] that(3)
    by (auto simp: storable_def valid_silence_def stored_ok_def)
next
  fix w :: "'x mock_world" and c t :: string
  obtain m n where w: "w = (m, n)" by (cases w)
  assume "mock_ok P M \<and> (\<forall>n. F n \<longrightarrow> F (tick M n))" "mock_wf am w \<and> F (snd w)"
  then have ok: "mock_ok P M" and wf: "mock_wf am w" and F: "F n" "\<And>n. F n \<Longrightarrow> F (tick M n)" by (simp_all add: w)
  show "\<exists>w'. Client_GetSilenceByComment (Alertmanager_Client P (mock_env M) am) c t w = ((Some s, None), w') \<and>
      (mock_wf am w' \<and> F (snd w')) \<and> mock_view w' = mock_view w" if "mock_view w c = Some s" for s
    using GetSilenceByComment_mock(1) [OF ok, of am m n c s t] wf that F by (simp add: w)
  show "\<exists>e w'. Client_GetSilenceByComment (Alertmanager_Client P (mock_env M) am) c t w = ((None, Some e), w') \<and>
      errors_Is e ErrSilenceNotFound \<and> (mock_wf am w' \<and> F (snd w')) \<and> mock_view w' = mock_view w" if "mock_view w c = None"
    using GetSilenceByComment_mock(2) [OF ok, of am m n c t] wf that F by (auto simp: w)
  show "\<exists>w'. Client_DeleteSilenceByID (Alertmanager_Client P (mock_env M) am) (ID s) t w = (None, w') \<and>
      (mock_wf am w' \<and> F (snd w')) \<and> mock_view w' = (mock_view w)(c := None)" if "mock_view w c = Some s" for s
    using DeleteSilenceByID_mock [of am m n c s P M t] mock_view_SomeD(4) [OF wf that] wf that F
    by (simp add: w mock_wf_delete mock_view_delete)
  show "\<exists>w'. Client_DeleteSilenceByComment (Alertmanager_Client P (mock_env M) am) c t w = (None, w') \<and>
      (mock_wf am w' \<and> F (snd w')) \<and> mock_view w' = (mock_view w)(c := None)"
    if "mock_view w c = Some s" "CreatedBy s = CreatedBy_operator" for s
    using DeleteSilenceByComment_mock(1) [OF ok, of am m n c s t] wf that F
    by (simp add: w mock_wf_delete mock_view_delete)
  show "\<exists>e w'. Client_DeleteSilenceByComment (Alertmanager_Client P (mock_env M) am) c t w = (Some e, w') \<and>
      errors_Is e ErrSilenceNotFound \<and> (mock_wf am w' \<and> F (snd w')) \<and> mock_view w' = mock_view w"
    if "mock_view w c = None"
    using DeleteSilenceByComment_mock(2) [OF ok, of am m n c t] wf that F by (auto simp: w)
next
  fix w :: "'x mock_world" and s :: Silence and t :: string
  obtain m n where w: "w = (m, n)" by (cases w)
  assume "mock_ok P M \<and> (\<forall>n. F n \<longrightarrow> F (tick M n))" "mock_wf am w \<and> F (snd w)"
  then have ok: "mock_ok P M" and wf: "mock_wf am w" and F: "F n" "\<And>n. F n \<Longrightarrow> F (tick M n)" by (simp_all add: w)
  assume s: "storable s"
  let ?x = "made s" and ?m = "m\<lparr>silences := AList.update (mock_id (Comment s)) (made s) (silences m)\<rparr>"
  have after: "mock_wf am (?m, tick M n)" "mock_view (?m, tick M n) = (mock_view w)(Comment s \<mapsto> made s)"
    using wf s mock_wf_update [OF _ stored_ok_made, of am m n s "tick M n"]
      mock_view_update [of "made s" "Comment s" m "tick M n" n]
    by (simp_all add: w storable_def)
  have create: "CreateSilence P (mock_env M) am s t w = (None, (?m, tick M n))"
    if "ID s = '''' \<or> ID s = mock_id (Comment s)"
    using CreateSilence_mock [of am m n s P M t] wf s that by (simp add: w storable_def)
  show "\<exists>w' x. Client_CreateSilence (Alertmanager_Client P (mock_env M) am) s t w = (None, w') \<and>
      (mock_wf am w' \<and> F (snd w')) \<and> same_content x s \<and> mock_view w' = (mock_view w)(Comment s \<mapsto> x)"
    if "ID s = ''''" "mock_view w (Comment s) = None"
    using create that after F by (intro exI [of _ "(?m, tick M n)"] exI [of _ ?x]) simp
  show "\<exists>w' x. Client_UpdateSilence (Alertmanager_Client P (mock_env M) am) s t w = (None, w') \<and>
      (mock_wf am w' \<and> F (snd w')) \<and> same_content x s \<and> mock_view w' = (mock_view w)(Comment s \<mapsto> x)"
    if "mock_view w (Comment s) = Some old" "ID s = ID old" for old
  proof -
    have "ID s = mock_id (Comment s)" using mock_view_SomeD(4) [OF wf that(1)] that(2) by simp
    then have "UpdateSilence P (mock_env M) am s t w = (None, (?m, tick M n))"
      using create by (simp add: UpdateSilence_def)
    then show ?thesis using after F by (intro exI [of _ "(?m, tick M n)"] exI [of _ ?x]) simp
  qed
qed

interpretation mock: comment_store P "mock_env M" "Alertmanager_Client P (mock_env M) am"
    "mock_wf am" mock_view storable "mock_ok P M"
  for P :: errors_pkg and M :: "'x mock_lib" and am :: Alertmanager
  using framed.comment_store_axioms [of P M am "\<lambda>_. True"] by simp

end
