(* ===== verification/Well_Formed.thy ===== *)
theory Well_Formed
  imports Mock_Store Time_Bounds Samples
begin

section \<open>The silences of well-formed resources\<close>

text \<open>
  Which resources become silences that JSON can hold (\<open>storable\<close>): a condition on the resource alone, its names,
  matchers, times and annotation, for each version.  With it go all the fields of the silence.
\<close>

subsection \<open>Text\<close>

lemma utf8_valid_append: "utf8_valid x \<Longrightarrow> utf8_valid y \<Longrightarrow> utf8_valid (x @ y)"
proof (induction x rule: utf8_valid.induct)
  case (2 c r)
  show ?case
  proof (cases "(of_char c :: nat) < 128")
    case False
    then obtain j where j: "rune_tail c r = Some j" "utf8_valid (drop j r)"
      using 2(3) by (auto split: option.splits)
    have "take j r @ drop j r @ y = r @ y" by (simp only: append_assoc [symmetric] append_take_drop_id)
    then have "rune_tail c (r @ y) = Some j"
      using rune_tail_SomeD(2) [OF j(1), of "drop j r @ y"] by (simp only:)
    moreover have "j \<le> length r" by (rule rune_tail_SomeD(1) [OF j(1)])
    ultimately show ?thesis using 2(2) [OF False j] 2(4) False by simp
  qed (use 2 in simp)
qed simp

lemma utf8_valid_operator: "utf8_valid CreatedBy_operator" "utf8_valid ''-''"
  by code_simp+

lemma SilenceComment_text:
  assumes "utf8_valid (Namespace m)" "utf8_valid (ObjName m)"
    and "CHR ''/'' \<notin> set (Namespace m)" "CHR ''/'' \<notin> set (ObjName m)"
  shows "utf8_valid (SilenceComment m)" "CHR ''/'' \<notin> set (SilenceComment m)"
proof -
  have c: "SilenceComment m = (CreatedBy_operator @ ''-'') @
      (if Namespace m \<noteq> '''' then Namespace m @ ''-'' @ ObjName m else ObjName m)"
    by (simp add: SilenceComment_def)
  show "utf8_valid (SilenceComment m)"
    unfolding c using assms(1,2) utf8_valid_operator by (auto intro!: utf8_valid_append)
  show "CHR ''/'' \<notin> set (SilenceComment m)"
    unfolding c using assms(3,4) by (auto simp: CreatedBy_operator_def)
qed

lemma those_set: "those (map f xs) = Some ys \<Longrightarrow> y \<in> set ys \<Longrightarrow> \<exists>x\<in>set xs. f x = Some y"
  by (induction xs arbitrary: ys) (auto split: option.splits)

lemma convertMatchers_valid:
  assumes "convertMatchers P ms = (out, None)"
    and "list_all (\<lambda>x. utf8_valid (Name_v2 x) \<and> utf8_valid (Value_v2 x)) (slice_elems ms)"
  shows "list_all valid_matcher (slice_elems out)"
proof (cases "those (map matcher_of (slice_elems ms))")
  case None
  then show ?thesis
    using convertMatchers_loop_None [OF None, of P None] assms(1) by (auto simp: convertMatchers_def)
next
  case (Some xs)
  then have "out = slice_of_list xs" using convertMatchers_ok [OF Some, of P] assms(1) by simp
  moreover have "valid_matcher x" if "x \<in> set xs" for x
    using those_set [OF Some that] assms(2) by (auto simp: matcher_of_def valid_matcher_def list_all_iff)
  ultimately show ?thesis by (simp add: list_all_iff)
qed

definition names_ok :: "ObjectMeta \<Rightarrow> bool" where
  "names_ok m \<longleftrightarrow> utf8_valid (Namespace m) \<and> utf8_valid (ObjName m) \<and>
     CHR ''/'' \<notin> set (Namespace m) \<and> CHR ''/'' \<notin> set (ObjName m)"

subsection \<open>Resources\<close>

text \<open>The times of a resource are within the years 1000 to 9000, so that a duration or a hundred years keep
  them within four digits; an end that is given is used as it stands.\<close>

definition resource_ok_v2 :: "Silence_v2 \<Rightarrow> bool" where
  "resource_ok_v2 obj \<longleftrightarrow>
     names_ok (Meta_v2 obj) \<and> annotation_ok (Meta_v2 obj) \<and> roomy (CreationTimestamp (Meta_v2 obj)) \<and>
     list_all (\<lambda>x. utf8_valid (Name_v2 x) \<and> utf8_valid (Value_v2 x)) (slice_elems (Matchers_v2 (Spec_v2 obj))) \<and>
     (case StartsAt_v2 (Spec_v2 obj) of None \<Rightarrow> True | Some t \<Rightarrow> roomy t) \<and>
     (case EndsAt_v2 (Spec_v2 obj) of None \<Rightarrow> True | Some t \<Rightarrow> time_exact t)"

definition resource_ok_v1 :: "Silence_v1 \<Rightarrow> bool" where
  "resource_ok_v1 obj \<longleftrightarrow>
     names_ok (Meta_v1 obj) \<and> annotation_ok (Meta_v1 obj) \<and> roomy (CreationTimestamp (Meta_v1 obj)) \<and>
     list_all (\<lambda>x. utf8_valid (Name_v1 x) \<and> utf8_valid (Value_v1 x)) (slice_elems (Matchers_v1 (Spec_v1 obj)))"

text \<open>The start and the end that a resource of v1alpha2 asks for.\<close>

definition start_of_v2 :: "Silence_v2 \<Rightarrow> Time" where
  "start_of_v2 obj = (case StartsAt_v2 (Spec_v2 obj) of Some t \<Rightarrow> t | None \<Rightarrow> CreationTimestamp (Meta_v2 obj))"

definition end_of_v2 :: "errors_pkg \<Rightarrow> (string \<Rightarrow> go_error + Duration) \<Rightarrow> Silence_v2 \<Rightarrow> Time \<Rightarrow> bool" where
  "end_of_v2 P PD obj e \<longleftrightarrow>
     (case EndsAt_v2 (Spec_v2 obj) of
        Some t \<Rightarrow> e = t
      | None \<Rightarrow> (case DurationField_v2 (Spec_v2 obj) of
          Some d \<Rightarrow> (case PD d of Inl _ \<Rightarrow> False | Inr ns \<Rightarrow> e = time_Add (start_of_v2 obj) ns)
        | None \<Rightarrow> SilenceEndsAt P (Meta_v2 obj) = (e, None)))"

lemma calculateSilenceTimes_fields:
  assumes "errors_pkg_ok P" "calculateSilenceTimes P PD obj = ((a, b), None)"
  shows "a = start_of_v2 obj \<and> end_of_v2 P PD obj b"
proof -
  note [simp] = Let_def Duration_v2_def start_of_v2_def end_of_v2_def
  show ?thesis
    using assms(2) errors_pkg_nil(1) [OF assms(1)]
    by (cases "StartsAt_v2 (Spec_v2 obj)"; cases "EndsAt_v2 (Spec_v2 obj)"; cases "DurationField_v2 (Spec_v2 obj)")
      (auto simp: calculateSilenceTimes_def split: sum.splits option.splits prod.splits if_splits)
qed

lemma getSilenceFromCR_v2_times:
  assumes "errors_pkg_ok P" "getSilenceFromCR_v2 P PD obj = (Some s, None)"
  shows "StartsAt s = start_of_v2 obj" "end_of_v2 P PD obj (EndsAt s)"
proof -
  obtain a b where t: "calculateSilenceTimes P PD obj = ((a, b), None)" "StartsAt s = a" "EndsAt s = b"
    using assms by (auto simp: getSilenceFromCR_v2_def split: prod.splits option.splits)
  show "StartsAt s = start_of_v2 obj" "end_of_v2 P PD obj (EndsAt s)"
    using calculateSilenceTimes_fields [OF assms(1) t(1)] t(2,3) by simp_all
qed

lemma resource_times_v2:
  assumes "errors_pkg_ok P" "resource_ok_v2 obj" "end_of_v2 P PD obj e"
  shows "time_exact (start_of_v2 obj)" "time_exact e"
proof -
  have "roomy (start_of_v2 obj)"
    using assms(2) by (auto simp: resource_ok_v2_def start_of_v2_def split: option.splits)
  then show "time_exact (start_of_v2 obj)" "time_exact e"
    using roomy_exact time_Add_exact SilenceEndsAt_exact [OF _ _ _ assms(1)] assms(2,3)
    by (auto simp: end_of_v2_def resource_ok_v2_def split: option.splits sum.splits)
qed

lemma storable_v2:
  assumes "errors_pkg_ok P" "resource_ok_v2 obj" "getSilenceFromCR_v2 P PD obj = (Some s, None)"
  shows "storable s \<and> Comment s = SilenceComment (Meta_v2 obj) \<and> CreatedBy s = CreatedBy_operator \<and>
    list_all2 stands_for_v2 (slice_elems (Matchers_v2 (Spec_v2 obj))) (slice_elems (Matchers s)) \<and>
    StartsAt s = start_of_v2 obj \<and> end_of_v2 P PD obj (EndsAt s)"
proof -
  have ms: "convertMatchers P (Matchers_v2 (Spec_v2 obj)) = (Matchers s, None)"
    and f: "Comment s = SilenceComment (Meta_v2 obj)" "ID s = ''''" "Status s = None" "CreatedBy s = CreatedBy_operator"
    using assms(1,3) by (auto simp: getSilenceFromCR_v2_def split: prod.splits option.splits)
  note t = getSilenceFromCR_v2_times [OF assms(1,3)]
  have "storable s"
    using convertMatchers_valid [OF ms] SilenceComment_text [of "Meta_v2 obj"] f t(1)
      resource_times_v2 [OF assms(1,2) t(2)] assms(2) utf8_valid_operator(1)
    by (simp add: storable_def valid_silence_def names_ok_def resource_ok_v2_def)
  then show ?thesis using f t convertMatchers_stands [OF ms] by simp
qed

lemma storable_v1:
  assumes "errors_pkg_ok P" "resource_ok_v1 obj" "getSilenceFromCR_v1 P obj = (Some s, None)"
  shows "storable s \<and> Comment s = SilenceComment (Meta_v1 obj) \<and> CreatedBy s = CreatedBy_operator \<and>
    list_all2 stands_for_v1 (slice_elems (Matchers_v1 (Spec_v1 obj))) (slice_elems (Matchers s)) \<and>
    StartsAt s = CreationTimestamp (Meta_v1 obj) \<and> SilenceEndsAt P (Meta_v1 obj) = (EndsAt s, None)"
proof -
  let ?xs = "slice_elems (Matchers_v1 (Spec_v1 obj))"
  have f: "Comment s = SilenceComment (Meta_v1 obj)" "ID s = ''''" "Status s = None" "CreatedBy s = CreatedBy_operator"
    "slice_elems (Matchers s) = map convertMatcher_v1 ?xs" "StartsAt s = CreationTimestamp (Meta_v1 obj)"
    "SilenceEndsAt P (Meta_v1 obj) = (EndsAt s, None)"
    using assms(1,3)
    by (auto simp: getSilenceFromCR_v1_def convert_v1_slices Let_def split: prod.splits option.splits)
  have "list_all valid_matcher (slice_elems (Matchers s))"
    using assms(2) f(5) by (auto simp: list_all_iff valid_matcher_def convertMatcher_v1_def resource_ok_v1_def)
  then have "storable s"
    using f SilenceComment_text [of "Meta_v1 obj"] assms(2) utf8_valid_operator(1) roomy_exact
      SilenceEndsAt_exact [OF f(7) _ _ assms(1)]
    by (simp add: storable_def valid_silence_def names_ok_def resource_ok_v1_def)
  moreover have "list_all2 stands_for_v1 ?xs (map convertMatcher_v1 ?xs)"
    by (simp add: list_all2_map2 convertMatcher_v1_stands list_all2_same)
  ultimately show ?thesis using f by simp
qed

text \<open>C16: the silence made of a resource of either version whose names and matchers are text, the names without
  a slash, whose times lie in the years 1000 to 9000 (a given end: in any four-digit year) and whose offsets, that of the
  annotation included, are of whole minutes and below a day, is one
  that JSON can hold and a URL path can name: it can be sent and read back exactly.  And it is the silence asked for:
  the comment of the resource, the operator as creator, every matcher in order with the name, value and operator
  given, the start of the resource and its end.\<close>

theorem getSilenceFromCR_storable:
  assumes "errors_pkg_ok P"
  shows "(resource_ok_v2 o2 \<and> getSilenceFromCR_v2 P PD o2 = (Some s, None) \<longrightarrow>
      storable s \<and> Comment s = SilenceComment (Meta_v2 o2) \<and> CreatedBy s = CreatedBy_operator \<and>
      list_all2 stands_for_v2 (slice_elems (Matchers_v2 (Spec_v2 o2))) (slice_elems (Matchers s)) \<and>
      StartsAt s = start_of_v2 o2 \<and> end_of_v2 P PD o2 (EndsAt s)) \<and>
    (resource_ok_v1 o1 \<and> getSilenceFromCR_v1 P o1 = (Some s, None) \<longrightarrow>
      storable s \<and> Comment s = SilenceComment (Meta_v1 o1) \<and> CreatedBy s = CreatedBy_operator \<and>
      list_all2 stands_for_v1 (slice_elems (Matchers_v1 (Spec_v1 o1))) (slice_elems (Matchers s)) \<and>
      StartsAt s = CreationTimestamp (Meta_v1 o1) \<and> SilenceEndsAt P (Meta_v1 o1) = (EndsAt s, None))"
  using storable_v2 [OF assms] storable_v1 [OF assms] by blast

text \<open>A resource of v1alpha2 with a start and a duration of a week, and a cluster-wide one of v1alpha1 with an end
  in its annotation.\<close>

definition week_v2 :: Silence_v2 where
  "week_v2 = sample_v2\<lparr>Spec_v2 := (Spec_v2 sample_v2)
     \<lparr>StartsAt_v2 := Some (time_Date 2026 5 4 8 0 0 0 7200), DurationField_v2 := Some ''7d''\<rparr>\<rparr>"

theorem getSilenceFromCR_storable_witness:
  "(\<exists>s. getSilenceFromCR_v2 sample_errors (\<lambda>_. Inr (word_of_int (7 * 86400 * second))) week_v2 = (Some s, None) \<and>
     storable s \<and> map IsRegex (slice_elems (Matchers s)) = [False, True] \<and>
     StartsAt s = time_Date 2026 5 4 8 0 0 0 7200 \<and> EndsAt s = time_Date 2026 5 11 8 0 0 0 7200) \<and>
   (\<exists>s. getSilenceFromCR_v1 sample_errors global_v1 = (Some s, None) \<and> storable s \<and>
     map IsEqual (slice_elems (Matchers s)) = [True, False] \<and> EndsAt s = time_Date 2026 1 2 8 0 0 0 0)"
proof -
  let ?PD = "\<lambda>_. Inr (word_of_int (7 * 86400 * second)) :: go_error + Duration"
  let ?s2 = "the (fst (getSilenceFromCR_v2 sample_errors ?PD week_v2))"
  let ?s1 = "the (fst (getSilenceFromCR_v1 sample_errors global_v1))"
  have r: "resource_ok_v2 week_v2" "resource_ok_v1 global_v1" by code_simp+
  have s2: "getSilenceFromCR_v2 sample_errors ?PD week_v2 = (Some ?s2, None)" by code_simp
  have s1: "getSilenceFromCR_v1 sample_errors global_v1 = (Some ?s1, None)" by code_simp
  have v: "map IsRegex (slice_elems (Matchers ?s2)) = [False, True]" "start_of_v2 week_v2 = time_Date 2026 5 4 8 0 0 0 7200"
    "EndsAt ?s2 = time_Date 2026 5 11 8 0 0 0 7200"
    "map IsEqual (slice_elems (Matchers ?s1)) = [True, False]" "EndsAt ?s1 = time_Date 2026 1 2 8 0 0 0 0"
    by code_simp+
  note * = getSilenceFromCR_storable [OF sample_errors_ok, of week_v2 ?PD _ global_v1]
  show ?thesis using * [of ?s2] * [of ?s1] r s2 s1 v by metis
qed

end
