(* ===== verification/Convergence.thy ===== *)
theory Convergence
  imports Mock_Store Sweep Samples
begin

section \<open>End to end: the controllers against the mock server\<close>

text \<open>
  What a call of \<open>Reconcile\<close> leaves in the store of the mock server, through the service, the
  client, HTTP and JSON.  A world is the server and the rest of the world, which the Kubernetes
  client works on.  The silence a resource stands for must be one JSON can hold
  (\<open>storable\<close>), as the strings of Kubernetes resources are.
\<close>

subsection \<open>The silence of a resource\<close>

lemma getSilenceFromCR_v2_fields:
  assumes "errors_pkg_ok P" "getSilenceFromCR_v2 P PD obj = (Some s, None)"
  shows "Comment s = SilenceComment (Meta_v2 obj)" "ID s = ''''" "Status s = None"
    "CreatedBy s = CreatedBy_operator"
  using assms by (auto simp: getSilenceFromCR_v2_def split: prod.splits option.splits)

text \<open>The controller as \<open>cmd/main.go\<close> wires it.\<close>

definition mock_v2 ::
  "errors_pkg \<Rightarrow> 'x mock_lib \<Rightarrow> ('x mock_world, Silence_v2) KubeClient \<Rightarrow> Alertmanager \<Rightarrow> 'sel Helper
     \<Rightarrow> ('x mock_world, 'sel) SilenceV2Reconciler" where
  "mock_v2 P M C am h =
     NewSilenceV2Reconciler C (NewSilenceService (Alertmanager_Client P (mock_env M) am)) h"

lemma mock_v2_sel [simp]:
  "client_v2 (mock_v2 P M C am h) = C"
  "silenceService_v2 (mock_v2 P M C am h) = NewSilenceService (Alertmanager_Client P (mock_env M) am)"
  "tenancyHelper_v2 (mock_v2 P M C am h) = h"
  by (simp_all add: mock_v2_def NewSilenceV2Reconciler_def)

lemma Reconcile_v2_kept:
  assumes "errors_pkg_ok P" "kube_lib_ok K" "Kube_Get C k w = (Inr obj, w1)"
    and "\<not> deleting K (Meta_v2 obj)" "FinalizerName \<in> set (Finalizers (Meta_v2 obj))"
    and "getSilenceFromCR_v2 P PD obj = (Some s, None)"
    and "SyncSilence P E (NewSilenceService (Alertmanager_Client P E am)) (Some s)
           (ExtractTenant h (Meta_v2 obj)) w1 = (Returns None, w2)"
  shows "Reconcile_v2 P K PD E (NewSilenceV2Reconciler C (NewSilenceService (Alertmanager_Client P E am)) h) k w
    = (Returns None, w2)"
  using assms
  by (simp add: Reconcile_v2_def NewSilenceV2Reconciler_def reconcileCreate_v2_def deleting_def kube_finalizers)

subsection \<open>A concrete server\<close>

text \<open>A server that lists its silences in reverse, at a fixed time, and is alone in the world.\<close>

definition sample_mock :: "Time \<Rightarrow> 'x mock_lib" where
  "sample_mock now = \<lparr>Error_text = (\<lambda>_. ''bad request''), map_range = (\<lambda>_. rev), tick = (\<lambda>n. n),
     wall_clock = (\<lambda>_. now), elsewhere = (\<lambda>_ w. (Inl (Failure ''no route'' []), w))\<rparr>"

definition sample_store :: "(string \<times> Silence) list \<Rightarrow> unit mock_world" where
  "sample_store al = (\<lparr>server_URL = address sample_am, server_open = True, silences = al\<rparr>, ())"

lemma sample_mock_ok [simp]: "mock_ok sample_errors (sample_mock now)"
  by (simp add: mock_ok_def mock_lib_ok_def sample_mock_def)

definition wanted_v2 :: Silence where
  "wanted_v2 = the (fst (getSilenceFromCR_v2 sample_errors (\<lambda>_. Inr 0) kept_v2))"

lemma wanted_v2: "getSilenceFromCR_v2 sample_errors (\<lambda>_. Inr 0) kept_v2 = (Some wanted_v2, None)"
proof -
  have "fst (getSilenceFromCR_v2 sample_errors (\<lambda>_. Inr 0) kept_v2) \<noteq> None"
    "snd (getSilenceFromCR_v2 sample_errors (\<lambda>_. Inr 0) kept_v2) = None" by code_simp+
  then show ?thesis by (cases "getSilenceFromCR_v2 sample_errors (\<lambda>_. Inr 0) kept_v2") (auto simp: wanted_v2_def)
qed

lemma kept_v2_live:
  "\<not> deleting sample_kube (Meta_v2 kept_v2)" "FinalizerName \<in> set (Finalizers (Meta_v2 kept_v2))"
  by code_simp+

lemma fixed_kube_sel [simp]:
  "Kube_Get (fixed_kube obj) k w = (Inr obj, w)" "Kube_Update (fixed_kube obj) o' w = (Inr o', w)"
  by (simp_all add: fixed_kube_def)

lemma wanted_v2_storable: "storable wanted_v2"
  by code_simp

lemma sample_store_empty: "mock_wf sample_am (sample_store [])"
  by code_simp

lemma sample_store_made: "mock_wf sample_am (sample_store [(mock_id (Comment wanted_v2), made wanted_v2)])"
  by code_simp

lemma sample_store_view:
  "mock_view (sample_store [(mock_id (Comment wanted_v2), made wanted_v2)]) (SilenceComment (Meta_v2 kept_v2))
     = Some (made wanted_v2)"
  "as_wanted (made wanted_v2) wanted_v2"
  by code_simp+

abbreviation reconcile_mock ::
  "Time \<Rightarrow> Silence_v2 \<Rightarrow> NamespacedName \<Rightarrow> unit mock_world \<Rightarrow> go_error option outcome \<times> unit mock_world" where
  "reconcile_mock now obj \<equiv> Reconcile_v2 sample_errors sample_kube (\<lambda>_. Inr 0) (mock_env (sample_mock now))
     (mock_v2 sample_errors (sample_mock now) (fixed_kube obj) sample_am sample_helper)"

definition day_2025 :: Time where "day_2025 = time_Date 2025 1 1 0 0 0 0 0"

definition day_2150 :: Time where "day_2150 = time_Date 2150 1 1 0 0 0 0 0"

subsection \<open>Live objects\<close>

text \<open>One call for a live object.\<close>

lemma Reconcile_v2_live:
  assumes "mock_ok P M" "kube_lib_ok K" "mock_wf am w" "Kube_Get C k w = (Inr obj, w)"
    and "\<not> deleting K (Meta_v2 obj)" "FinalizerName \<in> set (Finalizers (Meta_v2 obj))"
    and "getSilenceFromCR_v2 P PD obj = (Some s, None)" "storable s"
    and "After (EndsAt s) (wall_clock M w)"
  shows "\<exists>w' x. Reconcile_v2 P K PD (mock_env M) (mock_v2 P M C am h) k w = (Returns None, w') \<and>
    mock_wf am w' \<and> as_wanted x s \<and> mock_view w' = (mock_view w)(SilenceComment (Meta_v2 obj) \<mapsto> x)"
proof -
  have P: "errors_pkg_ok P" using assms(1) by (simp add: mock_ok_def)
  note f = getSilenceFromCR_v2_fields [OF P assms(7)]
  obtain w' x where sync: "SyncSilence P (mock_env M) (NewSilenceService (Alertmanager_Client P (mock_env M) am)) (Some s)
      (ExtractTenant h (Meta_v2 obj)) w = (Returns None, w')"
    and after: "mock_wf am w'" "as_wanted x s"
    "mock_view w' = (mock_view w)(Comment s \<mapsto> x)"
    using mock.sync_live [OF assms(1,3,8) f(2) mock_env_sel(3) assms(9)] by blast
  then show ?thesis
    unfolding mock_v2_def f(1) [symmetric] using Reconcile_v2_kept [OF P assms(2,4-7) sync] after by blast
qed

definition wanted_by ::
  "errors_pkg \<Rightarrow> 'x mock_lib \<Rightarrow> kube_lib \<Rightarrow> (string \<Rightarrow> go_error + Duration) \<Rightarrow> Silence_v2 \<Rightarrow> Silence \<Rightarrow> bool" where
  "wanted_by P M K PD obj s \<longleftrightarrow>
     \<not> deleting K (Meta_v2 obj) \<and> FinalizerName \<in> set (Finalizers (Meta_v2 obj)) \<and>
     getSilenceFromCR_v2 P PD obj = (Some s, None) \<and> storable s \<and>
     (\<forall>w. After (EndsAt s) (wall_clock M w))"

lemma wanted_byD:
  assumes "wanted_by P M K PD obj s"
  shows "\<not> deleting K (Meta_v2 obj)" "FinalizerName \<in> set (Finalizers (Meta_v2 obj))"
    "getSilenceFromCR_v2 P PD obj = (Some s, None)" "storable s" "After (EndsAt s) (wall_clock M w)"
  using assms unfolding wanted_by_def by blast+

text \<open>A sweep over live objects, in any order and with repetitions, brings the store to the
  wanted state: every call returns nil, under every object's comment there is one active
  silence with the wanted matchers and end, and silences under other comments are untouched.
  Different objects must have different comments.  The order in which the server lists its
  silences does not matter.\<close>

theorem Reconcile_v2_converges:
  assumes "mock_ok P M" "kube_lib_ok K" "mock_wf am w"
    and "\<And>k w. k \<in> set ks \<Longrightarrow> Kube_Get C k w = (Inr (obj k), w)"
    and "\<And>k. k \<in> set ks \<Longrightarrow> wanted_by P M K PD (obj k) (s k)"
    and "inj_on (\<lambda>k. SilenceComment (Meta_v2 (obj k))) (set ks)"
  shows "\<exists>w'. reconcile_all (Reconcile_v2 P K PD (mock_env M) (mock_v2 P M C am h)) ks w
      = (map (\<lambda>_. Returns None) ks, w') \<and> mock_wf am w' \<and>
    (\<forall>k\<in>set ks. \<exists>x. mock_view w' (SilenceComment (Meta_v2 (obj k))) = Some x \<and> as_wanted x (s k)) \<and>
    (\<forall>c. c \<notin> (\<lambda>k. SilenceComment (Meta_v2 (obj k))) ` set ks \<longrightarrow> mock_view w' c = mock_view w c)"
  using assms(3-6)
proof (induction ks arbitrary: w)
  case (Cons k ks)
  let ?c = "\<lambda>k. SilenceComment (Meta_v2 (obj k))"
  have want: "wanted_by P M K PD (obj k) (s k)" using Cons.prems(3) by simp
  have get: "Kube_Get C k w = (Inr (obj k), w)" using Cons.prems(2) by simp
  obtain w1 x where one: "Reconcile_v2 P K PD (mock_env M) (mock_v2 P M C am h) k w = (Returns None, w1)"
    "mock_wf am w1" "as_wanted x (s k)" "mock_view w1 = (mock_view w)(?c k \<mapsto> x)"
    using Reconcile_v2_live [OF assms(1,2) Cons.prems(1) get wanted_byD [OF want], of h] by blast
  have "inj_on ?c (set ks)" using Cons.prems(4) by (simp add: inj_on_def)
  then obtain w' where rest:
    "reconcile_all (Reconcile_v2 P K PD (mock_env M) (mock_v2 P M C am h)) ks w1 = (map (\<lambda>_. Returns None) ks, w')"
    "mock_wf am w'" "\<And>k. k \<in> set ks \<Longrightarrow> \<exists>x. mock_view w' (?c k) = Some x \<and> as_wanted x (s k)"
    "\<And>c. c \<notin> ?c ` set ks \<Longrightarrow> mock_view w' c = mock_view w1 c"
    using Cons.IH [OF one(2)] Cons.prems(2,3) by auto
  have here: "\<exists>x. mock_view w' (?c k) = Some x \<and> as_wanted x (s k)"
  proof (cases "k \<in> set ks")
    case False
    then have "?c k \<notin> ?c ` set ks" using Cons.prems(4) by (auto simp: inj_on_def)
    then show ?thesis using rest(4) one(3,4) by auto
  qed (rule rest(3))
  then show ?case using one(1) rest by (intro exI [of _ w']) (auto simp: one(4))
qed simp

theorem Reconcile_v2_converges_witness:
  "\<exists>w' x. reconcile_all (reconcile_mock day_2025 kept_v2) [sample_key, sample_key] (sample_store [])
       = ([Returns None, Returns None], w') \<and>
     mock_view w' ''silence-operator-ns-a'' = Some x \<and> as_wanted x wanted_v2"
proof -
  have "After (EndsAt wanted_v2) day_2025" and c: "SilenceComment (Meta_v2 kept_v2) = ''silence-operator-ns-a''"
    by code_simp+
  then have want: "wanted_by sample_errors (sample_mock day_2025) sample_kube (\<lambda>_. Inr 0) kept_v2 wanted_v2"
    using kept_v2_live wanted_v2 wanted_v2_storable by (simp add: wanted_by_def sample_mock_def)
  show ?thesis
    using Reconcile_v2_converges [where M = "sample_mock day_2025" and C = "fixed_kube kept_v2"
        and w = "sample_store []" and h = sample_helper and ks = "[sample_key, sample_key]"
        and obj = "\<lambda>_. kept_v2" and s = "\<lambda>_. wanted_v2",
        OF sample_mock_ok sample_kube_ok sample_store_empty fixed_kube_sel(1) want] c
    by fastforce
qed

text \<open>And the state is stable: a further call, while the silence has not ended, returns nil and
  changes nothing in the store.\<close>

theorem Reconcile_v2_stable:
  assumes "mock_ok P M" "kube_lib_ok K" "mock_wf am w" "Kube_Get C k w = (Inr obj, w)"
    and "\<not> deleting K (Meta_v2 obj)" "FinalizerName \<in> set (Finalizers (Meta_v2 obj))"
    and "getSilenceFromCR_v2 P PD obj = (Some s, None)"
    and "mock_view w (SilenceComment (Meta_v2 obj)) = Some x" "as_wanted x s"
    and "\<not> Before (EndsAt s) (wall_clock M w)"
  shows "\<exists>w'. Reconcile_v2 P K PD (mock_env M) (mock_v2 P M C am h) k w = (Returns None, w') \<and>
    mock_wf am w' \<and> mock_view w' = mock_view w"
proof -
  have P: "errors_pkg_ok P" using assms(1) by (simp add: mock_ok_def)
  note f = getSilenceFromCR_v2_fields [OF P assms(7)]
  have "mock_view w (Comment s) = Some x" using assms(8) f(1) by simp
  then obtain w' where sync: "SyncSilence P (mock_env M) (NewSilenceService (Alertmanager_Client P (mock_env M) am)) (Some s)
      (ExtractTenant h (Meta_v2 obj)) w = (Returns None, w')"
    and after: "mock_wf am w'" "mock_view w' = mock_view w"
    using mock.sync_stored [OF assms(1,3) _ assms(9) mock_env_sel(3) assms(10)] by blast
  then show ?thesis
    unfolding mock_v2_def using Reconcile_v2_kept [OF P assms(2,4-7) sync] after by blast
qed

theorem Reconcile_v2_stable_witness:
  "\<exists>w'. reconcile_mock day_2025 kept_v2 sample_key (sample_store [(mock_id (Comment wanted_v2), made wanted_v2)])
       = (Returns None, w') \<and> mock_view w' ''silence-operator-ns-a'' = Some (made wanted_v2)"
proof -
  let ?w = "sample_store [(mock_id (Comment wanted_v2), made wanted_v2)]"
  have live: "\<not> Before (EndsAt wanted_v2) (wall_clock (sample_mock day_2025) ?w)"
    "SilenceComment (Meta_v2 kept_v2) = ''silence-operator-ns-a''" by code_simp+
  show ?thesis
    using Reconcile_v2_stable [where M = "sample_mock day_2025" and C = "fixed_kube kept_v2"
        and w = ?w and h = sample_helper and k = sample_key,
        OF sample_mock_ok sample_kube_ok sample_store_made fixed_kube_sel(1) kept_v2_live wanted_v2
          sample_store_view live(1)] live(2) sample_store_view(1)
    by metis
qed

text \<open>A silence whose wanted end has passed is gone from the store after the call.\<close>

theorem Reconcile_v2_expires:
  assumes "mock_ok P M" "kube_lib_ok K" "mock_wf am w" "Kube_Get C k w = (Inr obj, w)"
    and "\<not> deleting K (Meta_v2 obj)" "FinalizerName \<in> set (Finalizers (Meta_v2 obj))"
    and "getSilenceFromCR_v2 P PD obj = (Some s, None)"
    and "Before (EndsAt s) (wall_clock M w)"
  shows "\<exists>w'. Reconcile_v2 P K PD (mock_env M) (mock_v2 P M C am h) k w = (Returns None, w') \<and>
    mock_wf am w' \<and> mock_view w' = (mock_view w)(SilenceComment (Meta_v2 obj) := None)"
proof -
  have P: "errors_pkg_ok P" using assms(1) by (simp add: mock_ok_def)
  note f = getSilenceFromCR_v2_fields [OF P assms(7)]
  obtain w' where sync: "SyncSilence P (mock_env M) (NewSilenceService (Alertmanager_Client P (mock_env M) am)) (Some s)
      (ExtractTenant h (Meta_v2 obj)) w = (Returns None, w')"
    and after: "mock_wf am w'"
    "mock_view w' = (mock_view w)(Comment s := None)"
    using mock.sync_ended [OF assms(1,3) mock_env_sel(3) assms(8)] by blast
  then show ?thesis
    unfolding mock_v2_def f(1) [symmetric] using Reconcile_v2_kept [OF P assms(2,4-7) sync] after by blast
qed

theorem Reconcile_v2_expires_witness:
  "\<exists>w'. reconcile_mock day_2150 kept_v2 sample_key (sample_store [(mock_id (Comment wanted_v2), made wanted_v2)])
       = (Returns None, w') \<and> mock_view w' ''silence-operator-ns-a'' = None"
proof -
  let ?w = "sample_store [(mock_id (Comment wanted_v2), made wanted_v2)]"
  have "Before (EndsAt wanted_v2) (wall_clock (sample_mock day_2150) ?w)"
    "SilenceComment (Meta_v2 kept_v2) = ''silence-operator-ns-a''" by code_simp+
  then show ?thesis
    using Reconcile_v2_expires [where M = "sample_mock day_2150" and C = "fixed_kube kept_v2"
        and w = ?w and h = sample_helper and k = sample_key,
        OF sample_mock_ok sample_kube_ok sample_store_made fixed_kube_sel(1) kept_v2_live wanted_v2]
    by fastforce
qed

subsection \<open>Objects that are being deleted\<close>

text \<open>A call for an object that is being deleted clears its silence from the store, whatever
  tenant and order, and then stores the object without the finalizer.  Silences under other
  comments are untouched.\<close>

theorem Reconcile_v2_cleans_up:
  assumes "mock_ok P M" "kube_lib_ok K" "mock_wf am w" "Kube_Get C k w = (Inr obj, w)"
    and "deleting K (Meta_v2 obj)" "FinalizerName \<in> set (Finalizers (Meta_v2 obj))"
    and "\<And>x. mock_view w (SilenceComment (Meta_v2 obj)) = Some x \<Longrightarrow> CreatedBy x = CreatedBy_operator"
    and "\<And>o' v. \<exists>y. fst (Kube_Update C o' v) = Inr y" "\<And>o' v. fst (snd (Kube_Update C o' v)) = fst v"
  shows "\<exists>w1 w' y. Kube_Update C (obj\<lparr>Meta_v2 := RemoveFinalizer K (Meta_v2 obj) FinalizerName\<rparr>) w1 = (Inr y, w') \<and>
    Reconcile_v2 P K PD (mock_env M) (mock_v2 P M C am h) k w = (Returns None, w') \<and>
    mock_wf am w' \<and> mock_view w' = (mock_view w)(SilenceComment (Meta_v2 obj) := None)"
proof -
  let ?o = "obj\<lparr>Meta_v2 := RemoveFinalizer K (Meta_v2 obj) FinalizerName\<rparr>"
  let ?c = "SilenceComment (Meta_v2 obj)" and ?t = "ExtractTenant h (Meta_v2 obj)"
  obtain w1 where d: "DeleteSilence P (NewSilenceService (Alertmanager_Client P (mock_env M) am)) ?c ?t w = (None, w1)"
    "mock_wf am w1" "mock_view w1 = (mock_view w)(?c := None)"
    using mock.delete_gone [OF assms(1,3,7)] by blast
  obtain y w' where u: "Kube_Update C ?o w1 = (Inr y, w')"
    using assms(8) [of ?o w1] by (metis prod.collapse)
  have "fst w' = fst w1" using assms(9) [of ?o w1] u by simp
  then have "mock_wf am w'" "mock_view w' = mock_view w1"
    using d(2) by (simp_all add: mock_wf_def mock_view_def fun_eq_iff)
  moreover have "Reconcile_v2 P K PD (mock_env M) (mock_v2 P M C am h) k w = (Returns None, w')"
    using assms(2,4-6) d(1) u
    by (simp add: Reconcile_v2_def deleting_def kube_finalizers reconcileDelete_v2_def)
  ultimately show ?thesis
    using u d(3) by (intro exI [of _ w1] exI [of _ w'] exI [of _ y]) simp
qed

theorem Reconcile_v2_cleans_up_witness:
  "\<exists>w'. reconcile_mock day_2025 going_v2 sample_key (sample_store [(mock_id (Comment wanted_v2), made wanted_v2)])
       = (Returns None, w') \<and> mock_view w' ''silence-operator-ns-a'' = None"
proof -
  let ?w = "sample_store [(mock_id (Comment wanted_v2), made wanted_v2)]"
  have going: "deleting sample_kube (Meta_v2 going_v2)" "FinalizerName \<in> set (Finalizers (Meta_v2 going_v2))"
    by code_simp+
  have c: "SilenceComment (Meta_v2 going_v2) = ''silence-operator-ns-a''" by code_simp
  have own: "CreatedBy x = CreatedBy_operator"
    if "mock_view ?w (SilenceComment (Meta_v2 going_v2)) = Some x" for x
  proof -
    have "map_option CreatedBy (mock_view ?w (SilenceComment (Meta_v2 going_v2))) = Some CreatedBy_operator"
      by code_simp
    then show ?thesis using that by simp
  qed
  show ?thesis
    using Reconcile_v2_cleans_up [where M = "sample_mock day_2025" and C = "fixed_kube going_v2"
        and w = ?w and h = sample_helper and k = sample_key and PD = "\<lambda>_. Inr 0",
        OF sample_mock_ok sample_kube_ok sample_store_made fixed_kube_sel(1) going own] c
    by fastforce
qed

end
