(* ===== verification/Level_Flow.thy ===== *)
theory Level_Flow
  imports Sweep Contracts
begin

section \<open>The flow of both controllers is level triggered\<close>

text \<open>
  The locale \<open>level_flow\<close> has the flow of a controller, an API server and a store of silences: what
  reading and updating objects does (\<open>get_law\<close>, \<open>update_law\<close>), and what the controller's deletion and
  creation do to the silences.  It follows that the flow is \<open>level_triggered\<close>.
\<close>

definition key_of :: "ObjectMeta \<Rightarrow> NamespacedName" where
  "key_of m = \<lparr>KeyNamespace = Namespace m, KeyName = ObjName m\<rparr>"

text \<open>The comment of the resource under a key.\<close>

definition key_comment :: "NamespacedName \<Rightarrow> string" where
  "key_comment k = SilenceComment \<lparr>ObjName = KeyName k, Namespace = KeyNamespace k, Labels = None,
     Annotations = None, Finalizers = [], CreationTimestamp = time_zero, DeletionTimestamp = None\<rparr>"

lemma key_comment [simp]: "key_comment (key_of m) = SilenceComment m"
  by (simp add: key_comment_def key_of_def SilenceComment_def)

text \<open>What an API server keeps of an object that is written: an object that is being deleted goes
  with its last finalizer.\<close>

definition stored_as :: "kube_lib \<Rightarrow> ('obj \<Rightarrow> ObjectMeta) \<Rightarrow> 'obj \<Rightarrow> 'obj option" where
  "stored_as K meta x = (if deleting K (meta x) \<and> Finalizers (meta x) = [] then None else Some x)"

text \<open>The object a call of the flow leaves, and what it asks for.\<close>

definition strip_legacy ::
  "kube_lib \<Rightarrow> string option \<Rightarrow> ('obj \<Rightarrow> ObjectMeta) \<Rightarrow> ((ObjectMeta \<Rightarrow> ObjectMeta) \<Rightarrow> 'obj \<Rightarrow> 'obj)
     \<Rightarrow> 'obj \<Rightarrow> 'obj" where
  "strip_legacy K L meta upd x =
     (case L of None \<Rightarrow> x
      | Some l \<Rightarrow> if ContainsFinalizer K (meta x) l then upd (\<lambda>m. RemoveFinalizer K m l) x else x)"

definition own_finalizer ::
  "kube_lib \<Rightarrow> string \<Rightarrow> ('obj \<Rightarrow> ObjectMeta) \<Rightarrow> ((ObjectMeta \<Rightarrow> ObjectMeta) \<Rightarrow> 'obj \<Rightarrow> 'obj)
     \<Rightarrow> 'obj \<Rightarrow> 'obj" where
  "own_finalizer K fin meta upd x =
     (if deleting K (meta x) then
        (if ContainsFinalizer K (meta x) fin then upd (\<lambda>m. RemoveFinalizer K m fin) x else x)
      else if ContainsFinalizer K (meta x) fin then x else upd (\<lambda>m. AddFinalizer K m fin) x)"

definition settled_object ::
  "kube_lib \<Rightarrow> string \<Rightarrow> string option \<Rightarrow> ('obj \<Rightarrow> ObjectMeta)
     \<Rightarrow> ((ObjectMeta \<Rightarrow> ObjectMeta) \<Rightarrow> 'obj \<Rightarrow> 'obj) \<Rightarrow> 'obj \<Rightarrow> 'obj option" where
  "settled_object K fin L meta upd x =
     stored_as K meta (strip_legacy K L meta upd (own_finalizer K fin meta upd x))"

definition object_aim ::
  "kube_lib \<Rightarrow> string \<Rightarrow> ('obj \<Rightarrow> ObjectMeta) \<Rightarrow> ('obj \<Rightarrow> aim) \<Rightarrow> 'obj \<Rightarrow> aim" where
  "object_aim K fin meta wants x =
     (if deleting K (meta x) then (if ContainsFinalizer K (meta x) fin then Absent else Leave)
      else wants x)"

definition object_fails :: "kube_lib \<Rightarrow> ('obj \<Rightarrow> ObjectMeta) \<Rightarrow> ('obj \<Rightarrow> aim) \<Rightarrow> 'obj \<Rightarrow> bool" where
  "object_fails K meta wants x \<longleftrightarrow> \<not> deleting K (meta x) \<and> wants x = Leave"

lemma edit_frame:
  assumes "kube_lib_ok K" "g = AddFinalizer K \<or> g = RemoveFinalizer K"
  shows "deleting K (g m f) = deleting K m" "key_of (g m f) = key_of m"
    "SilenceComment (g m f) = SilenceComment m"
  using assms(2) by (auto simp: deleting_def key_of_def SilenceComment_def kube_frame [OF assms(1)])

locale level_flow =
  fixes K :: kube_lib and fin :: string and L :: "string option" and meta :: "'obj \<Rightarrow> ObjectMeta"
    and upd :: "(ObjectMeta \<Rightarrow> ObjectMeta) \<Rightarrow> 'obj \<Rightarrow> 'obj" and C :: "('w, 'obj) KubeClient"
    and fail :: "go_error option \<Rightarrow> go_error option"
    and del :: "'obj \<Rightarrow> 'w \<Rightarrow> go_error option \<times> 'w"
    and cleanup :: "'obj \<Rightarrow> 'w \<Rightarrow> ('obj \<times> go_error option) \<times> 'w"
    and create :: "'obj \<Rightarrow> 'w \<Rightarrow> go_error option outcome \<times> 'w"
    and wf :: "'w \<Rightarrow> bool" and view :: "'w \<Rightarrow> string \<rightharpoonup> Silence" and objs :: "'w \<Rightarrow> NamespacedName \<rightharpoonup> 'obj"
    and wants :: "'obj \<Rightarrow> aim" and ok :: bool
  assumes other_finalizer: "L \<noteq> Some fin"
    and ok_lib: "ok \<Longrightarrow> kube_lib_ok K"
    and ok_fail: "ok \<Longrightarrow> fail None = None"
    and meta_upd: "meta (upd f x) = f (meta x)"
    and get_law: "\<lbrakk>ok; wf w\<rbrakk> \<Longrightarrow>
      (case objs w k of
         Some x \<Rightarrow> Kube_Get C k w = (Inr x, w)
       | None \<Rightarrow> \<exists>e. Kube_Get C k w = (Inl e, w) \<and> IgnoreNotFound K (Some e) = None)"
    and objs_law: "\<lbrakk>ok; wf w; objs w k = Some x\<rbrakk> \<Longrightarrow> key_of (meta x) = k \<and> stored_as K meta x = Some x"
    and update_law: "\<lbrakk>ok; wf w; objs w k = Some x; g = AddFinalizer K \<or> g = RemoveFinalizer K\<rbrakk> \<Longrightarrow>
      \<exists>w'. Kube_Update C (upd (\<lambda>m. g m i) x) w = (Inr (upd (\<lambda>m. g m i) x), w') \<and> wf w' \<and>
        view w' = view w \<and> objs w' = (objs w)(k := stored_as K meta (upd (\<lambda>m. g m i) x))"
    and del_law: "\<lbrakk>ok; wf w; objs w k = Some x\<rbrakk> \<Longrightarrow>
      \<exists>w'. del x w = (None, w') \<and> wf w' \<and> objs w' = objs w \<and> view w' = (view w)(key_comment k := None)"
    and create_law: "\<lbrakk>ok; wf w; objs w k = Some x\<rbrakk> \<Longrightarrow>
      \<exists>r w'. create x w = (r, w') \<and> wf w' \<and> objs w' = objs w \<and>
        reaches (wants x) (key_comment k) (view w) (view w') \<and> (wants x \<noteq> Leave \<longrightarrow> r = Returns None)"
    and cleanup_none: "(\<And>l. L = Some l \<Longrightarrow> \<not> ContainsFinalizer K (meta x) l) \<Longrightarrow> cleanup x w = ((x, None), w)"
    and cleanup_some: "\<lbrakk>L = Some l; ContainsFinalizer K (meta x) l;
      Kube_Update C (upd (\<lambda>m. RemoveFinalizer K m l) x) w = (Inr y, w')\<rbrakk> \<Longrightarrow> cleanup x w = ((y, None), w')"
    and wants_edit: "\<lbrakk>ok; g = AddFinalizer K \<or> g = RemoveFinalizer K\<rbrakk>
      \<Longrightarrow> wants (upd (\<lambda>m. g m i) x) = wants x"
begin

abbreviation strip :: "'obj \<Rightarrow> 'obj" where
  "strip \<equiv> strip_legacy K L meta upd"

abbreviation own :: "'obj \<Rightarrow> 'obj" where
  "own \<equiv> own_finalizer K fin meta upd"

abbreviation stored :: "'obj \<Rightarrow> 'obj option" where
  "stored \<equiv> stored_as K meta"

lemma edits:
  assumes ok: ok and g: "g = AddFinalizer K \<or> g = RemoveFinalizer K"
  shows "deleting K (meta (upd (\<lambda>m. g m f) x)) = deleting K (meta x)"
    "key_of (meta (upd (\<lambda>m. g m f) x)) = key_of (meta x)"
    "wants (upd (\<lambda>m. g m f) x) = wants x"
  using edit_frame [OF ok_lib [OF ok] g] wants_edit [OF ok g] by (simp_all add: meta_upd)

lemma own_frame:
  assumes ok
  shows "deleting K (meta (own x)) = deleting K (meta x)" "key_of (meta (own x)) = key_of (meta x)"
    "wants (own x) = wants x"
  using edits [OF assms disjI1 [OF refl]] edits [OF assms disjI2 [OF refl]]
  by (simp_all add: own_finalizer_def)

lemma strip_frame:
  assumes ok
  shows "deleting K (meta (strip x)) = deleting K (meta x)" "key_of (meta (strip x)) = key_of (meta x)"
    "wants (strip x) = wants x"
  using edits [OF assms disjI2 [OF refl]] by (simp_all add: strip_legacy_def split: option.split)

lemma own_contains: "ok \<Longrightarrow> ContainsFinalizer K (meta (own x)) fin \<longleftrightarrow> \<not> deleting K (meta x)"
  using kube_finalizers [OF ok_lib] by (auto simp: own_finalizer_def meta_upd)

lemma strip_contains:
  assumes ok
  shows "ContainsFinalizer K (meta (strip x)) fin \<longleftrightarrow> ContainsFinalizer K (meta x) fin"
    "L = Some l \<Longrightarrow> \<not> ContainsFinalizer K (meta (strip x)) l"
  using kube_finalizers [OF ok_lib [OF assms]] other_finalizer
  by (auto simp: strip_legacy_def meta_upd split: option.split)

lemma settled_again:
  assumes ok: ok and s: "settled_object K fin L meta upd x = Some y"
  shows "settled_object K fin L meta upd y = Some y"
proof -
  have y: "y = strip (own x)" "stored y = Some y"
    using s by (auto simp: settled_object_def stored_as_def split: if_splits)
  have "ContainsFinalizer K (meta y) fin \<longleftrightarrow> \<not> deleting K (meta y)"
    unfolding y(1) by (simp add: strip_frame [OF ok] strip_contains(1) [OF ok] own_contains [OF ok] own_frame [OF ok])
  then have "own y = y" by (simp add: own_finalizer_def)
  moreover have "strip y = y"
    using strip_contains(2) [OF ok, of _ "own x"] unfolding y(1) [symmetric]
    by (auto simp: strip_legacy_def split: option.split)
  ultimately show ?thesis using y(2) by (simp add: settled_object_def)
qed

lemma settled_live:
  assumes ok: ok and live: "\<not> deleting K (meta x)"
  shows "\<exists>y. settled_object K fin L meta upd x = Some y \<and> ContainsFinalizer K (meta y) fin"
  using live
  by (simp add: settled_object_def stored_as_def strip_frame [OF ok] own_frame [OF ok]
      strip_contains(1) [OF ok] own_contains [OF ok])

lemma settled_deleted:
  assumes ok: ok and "deleting K (meta x)" "settled_object K fin L meta upd x = Some y"
  shows "\<not> ContainsFinalizer K (meta y) fin"
proof -
  have "y = strip (own x)" using assms(3) by (auto simp: settled_object_def stored_as_def split: if_splits)
  then show ?thesis using assms(2) by (simp add: strip_contains(1) [OF ok] own_contains [OF ok])
qed

lemma settled_no_legacy:
  assumes ok: ok and "L = Some l" "settled_object K fin L meta upd x = Some y"
  shows "\<not> ContainsFinalizer K (meta y) l"
  using assms strip_contains(2) [OF ok, of l "own x"]
  by (auto simp: settled_object_def stored_as_def split: if_splits)

text \<open>The cleanup of the legacy finalizer.\<close>

lemma cleanup_run:
  assumes ok: ok and wf: "wf w" and k: "objs w k = stored x" "key_of (meta x) = k"
  shows "\<exists>w'. cleanup x w = ((strip x, None), w') \<and> wf w' \<and> view w' = view w \<and>
    objs w' = (objs w)(k := stored (strip x))"
proof (cases "\<exists>l. L = Some l \<and> ContainsFinalizer K (meta x) l")
  case True
  then obtain l where l: "L = Some l" "ContainsFinalizer K (meta x) l" by blast
  then have "objs w k = Some x"
    using k(1) kube_finalizers(1) [OF ok_lib [OF ok]] by (auto simp: stored_as_def)
  then obtain w' where "Kube_Update C (strip x) w = (Inr (strip x), w')" "wf w'" "view w' = view w"
    "objs w' = (objs w)(k := stored (strip x))"
    using update_law [OF ok wf, of k x "RemoveFinalizer K" l] l by (auto simp: strip_legacy_def)
  then show ?thesis using cleanup_some [OF l, of w "strip x" w'] l by (simp add: strip_legacy_def)
next
  case False
  then have "strip x = x" by (auto simp: strip_legacy_def split: option.split)
  then show ?thesis
    using cleanup_none [of x w] False wf k(1) by (intro exI [of _ w]) (auto simp: fun_upd_idem)
qed

lemma finish_run:
  assumes ok and wf: "wf w" and "objs w k = stored x" "key_of (meta x) = k"
  shows "\<exists>w'. finish fail cleanup cont x w = cont (strip x) w' \<and> wf w' \<and> view w' = view w \<and>
    objs w' = (objs w)(k := stored (strip x))"
  using cleanup_run [OF assms] by (auto simp: finish_def)

text \<open>What the flow does first, up to its continuation.\<close>

abbreviation run :: "NamespacedName \<Rightarrow> 'w \<Rightarrow> go_error option outcome \<times> 'w" where
  "run \<equiv> flow K fin meta upd C fail del cleanup create"

lemma run_live:
  assumes ok: ok and wf: "wf w" and x: "objs w k = Some x" "\<not> deleting K (meta x)"
  shows "\<exists>w'. run k w = create (strip (own x)) w' \<and> wf w' \<and> view w' = view w \<and>
    objs w' = (objs w)(k \<mapsto> strip (own x))"
proof -
  have get: "Kube_Get C k w = (Inr x, w)" using get_law [OF ok wf, of k] x(1) by simp
  note o = objs_law [OF ok wf x(1)]
  obtain w1 where w1: "run k w = finish fail cleanup create (own x) w1" "wf w1" "view w1 = view w"
    "objs w1 = (objs w)(k := stored (own x))"
  proof (cases "ContainsFinalizer K (meta x) fin")
    case True
    then show ?thesis
      using that [of w] get x wf o by (simp add: flow_def own_finalizer_def fun_upd_idem)
  next
    case False
    then have own: "own x = upd (\<lambda>m. AddFinalizer K m fin) x" using x(2) by (simp add: own_finalizer_def)
    from update_law [OF ok wf x(1), of "AddFinalizer K" fin] obtain w' where
      "Kube_Update C (own x) w = (Inr (own x), w')" "wf w'" "view w' = view w"
      "objs w' = (objs w)(k := stored (own x))" unfolding own by auto
    then show ?thesis using that [of w'] get x(2) False by (simp add: flow_def own)
  qed
  have "key_of (meta (own x)) = k" using o own_frame(2) [OF ok] by simp
  moreover have "stored (strip (own x)) = Some (strip (own x))"
    using x(2) by (simp add: stored_as_def strip_frame [OF ok] own_frame [OF ok])
  ultimately show ?thesis
    using finish_run [OF ok w1(2), of k "own x" create] w1 by auto
qed

lemma run_deleted:
  assumes ok: ok and wf: "wf w" and x: "objs w k = Some x" "deleting K (meta x)"
  shows "\<exists>w'. run k w = (Returns None, w') \<and> wf w' \<and> objs w' = (objs w)(k := stored (strip (own x))) \<and>
    reaches (object_aim K fin meta wants x) (key_comment k) (view w) (view w')"
proof -
  have get: "Kube_Get C k w = (Inr x, w)" using get_law [OF ok wf, of k] x(1) by simp
  note o = objs_law [OF ok wf x(1)]
  obtain w1 where w1: "run k w = finish fail cleanup stop (own x) w1" "wf w1"
    "reaches (object_aim K fin meta wants x) (key_comment k) (view w) (view w1)"
    "objs w1 = (objs w)(k := stored (own x))"
  proof (cases "ContainsFinalizer K (meta x) fin")
    case False
    then show ?thesis
      using that [of w] get x wf o by (simp add: flow_def own_finalizer_def object_aim_def fun_upd_idem)
  next
    case True
    then have own: "own x = upd (\<lambda>m. RemoveFinalizer K m fin) x" using x(2) by (simp add: own_finalizer_def)
    obtain w2 where d: "del x w = (None, w2)" "wf w2" "objs w2 = objs w"
      "view w2 = (view w)(key_comment k := None)"
      using del_law [OF ok wf x(1)] by blast
    from update_law [OF ok d(2), of k x "RemoveFinalizer K" fin] d(3) x(1) obtain w' where
      "Kube_Update C (own x) w2 = (Inr (own x), w')" "wf w'" "view w' = view w2"
      "objs w' = (objs w)(k := stored (own x))" unfolding own by auto
    then show ?thesis
      using that [of w'] get x(2) True d by (simp add: flow_def own object_aim_def)
  qed
  have "key_of (meta (own x)) = k" using o own_frame(2) [OF ok] by simp
  then show ?thesis using finish_run [OF ok w1(2), of k "own x" stop] w1 by (auto simp: stop_def)
qed

lemma run_law:
  assumes ok: ok and wf: "wf w"
  shows "\<exists>r w'. run k w = (r, w') \<and> wf w' \<and>
    objs w' = (objs w)(k := Option.bind (objs w k) (settled_object K fin L meta upd)) \<and>
    reaches (case_option Leave (object_aim K fin meta wants) (objs w k)) (key_comment k) (view w) (view w') \<and>
    (pred_option (\<lambda>x. \<not> object_fails K meta wants x) (objs w k) \<longrightarrow> r = Returns None)"
proof (cases "objs w k")
  case None
  then obtain e where "Kube_Get C k w = (Inl e, w)" "IgnoreNotFound K (Some e) = None"
    using get_law [OF ok wf, of k] by auto
  then show ?thesis
    using None wf ok_fail [OF ok] by (intro exI [of _ "Returns None"] exI [of _ w]) (simp add: flow_def fun_upd_idem)
next
  case (Some x)
  show ?thesis
  proof (cases "deleting K (meta x)")
    case True
    then show ?thesis
      using run_deleted [OF ok wf Some True] Some by (auto simp: settled_object_def)
  next
    case False
    let ?y = "strip (own x)"
    obtain w1 where w1: "run k w = create ?y w1" "wf w1" "view w1 = view w" "objs w1 = (objs w)(k \<mapsto> ?y)"
      using run_live [OF ok wf Some False] by blast
    have "wants ?y = wants x" by (simp add: strip_frame [OF ok] own_frame [OF ok])
    then obtain r w' where "create ?y w1 = (r, w')" "wf w'" "objs w' = objs w1"
      "reaches (wants x) (key_comment k) (view w) (view w')" "wants x \<noteq> Leave \<longrightarrow> r = Returns None"
      using create_law [OF ok w1(2), of k ?y] w1(3,4) by auto
    moreover have "stored ?y = Some ?y"
      using False by (simp add: stored_as_def strip_frame [OF ok] own_frame [OF ok])
    ultimately show ?thesis
      using w1 Some False
      by (intro exI [of _ r] exI [of _ w'])
        (simp add: settled_object_def object_aim_def object_fails_def)
  qed
qed

end

sublocale level_flow \<subseteq> level_triggered run wf view objs "settled_object K fin L meta upd"
    "object_aim K fin meta wants" "object_fails K meta wants" key_comment "Returns None" ok
proof (standard, rule run_law, assumption, assumption)
  fix x y :: 'obj
  assume ok: ok and s: "settled_object K fin L meta upd x = Some y"
  then have y: "y = strip (own x)" by (auto simp: settled_object_def stored_as_def split: if_splits)
  show "settled_object K fin L meta upd y = Some y" by (rule settled_again [OF ok s])
  have f: "deleting K (meta y) = deleting K (meta x)" "wants y = wants x"
    "ContainsFinalizer K (meta y) fin \<longleftrightarrow> \<not> deleting K (meta x)"
    unfolding y by (simp_all add: strip_frame [OF ok] own_frame [OF ok] strip_contains(1) [OF ok] own_contains [OF ok])
  show "object_aim K fin meta wants y = object_aim K fin meta wants x \<or>
      object_aim K fin meta wants x = Absent \<and> object_aim K fin meta wants y = Leave"
    by (auto simp: object_aim_def f)
  show "object_fails K meta wants y = object_fails K meta wants x" by (simp add: object_fails_def f)
next
  fix x :: 'obj
  assume ok: ok and "settled_object K fin L meta upd x = None"
  then have "deleting K (meta x)"
    by (auto simp: settled_object_def stored_as_def strip_frame own_frame split: if_splits)
  then show "object_aim K fin meta wants x = Leave \<or> object_aim K fin meta wants x = Absent"
    by (simp add: object_aim_def)
qed

end
