(* ===== verification/Cluster.thy ===== *)
theory Cluster
  imports Convergence Level_Flow
begin

section \<open>Sweeps over a cluster\<close>

text \<open>
  Both controllers, a Kubernetes API server that keeps what is written to it, and the mock
  Alertmanager: whatever objects the cluster holds (new, kept, ended, being deleted, with errors),
  one call for each of them brings the cluster and the silences to the state the objects ask for.
  The rest of the world, of type \<open>'x\<close>, holds the objects (\<open>obs\<close>); the clock reads times
  between \<open>lo\<close> and \<open>hi\<close>; a silence that ends in between may be there or gone.
\<close>

text \<open>An API server that answers what was written and, with no other writer, rejects no update of an
  object it holds.\<close>

definition api_ok ::
  "kube_lib \<Rightarrow> ('obj \<Rightarrow> ObjectMeta) \<Rightarrow> ('x \<Rightarrow> NamespacedName \<rightharpoonup> 'obj) \<Rightarrow> ('x mock_world, 'obj) KubeClient \<Rightarrow> bool"
where
  "api_ok K meta obs C \<longleftrightarrow>
     (\<forall>m n k. case obs n k of
        Some x \<Rightarrow> Kube_Get C k (m, n) = (Inr x, (m, n))
      | None \<Rightarrow> \<exists>e. Kube_Get C k (m, n) = (Inl e, (m, n)) \<and> IgnoreNotFound K (Some e) = None) \<and>
     (\<forall>m n x. obs n (key_of (meta x)) \<noteq> None \<longrightarrow>
        (\<exists>n'. Kube_Update C x (m, n) = (Inr x, (m, n')) \<and>
          obs n' = (obs n)(key_of (meta x) := stored_as K meta x)))"

definition clock_within :: "'x mock_lib \<Rightarrow> Time \<Rightarrow> Time \<Rightarrow> bool" where
  "clock_within M lo hi \<longleftrightarrow> (\<forall>w. \<not> Before (wall_clock M w) lo \<and> \<not> After (wall_clock M w) hi)"

definition cluster_ok ::
  "errors_pkg \<Rightarrow> kube_lib \<Rightarrow> 'x mock_lib \<Rightarrow> ('obj \<Rightarrow> ObjectMeta) \<Rightarrow> ('x \<Rightarrow> NamespacedName \<rightharpoonup> 'obj)
     \<Rightarrow> ('x mock_world, 'obj) KubeClient \<Rightarrow> Time \<Rightarrow> Time \<Rightarrow> bool" where
  "cluster_ok P K M meta obs C lo hi \<longleftrightarrow> mock_ok P M \<and> kube_lib_ok K \<and> (\<forall>n. obs (tick M n) = obs n) \<and>
     clock_within M lo hi \<and> api_ok K meta obs C"

text \<open>A fact about the rest of the world that neither the server nor the API client disturbs.\<close>

definition frame_ok :: "'x mock_lib \<Rightarrow> ('x mock_world, 'obj) KubeClient \<Rightarrow> ('x \<Rightarrow> bool) \<Rightarrow> bool" where
  "frame_ok M C G \<longleftrightarrow> (\<forall>n. G n \<longrightarrow> G (tick M n)) \<and>
     (\<forall>x m n. G n \<longrightarrow> G (snd (snd (Kube_Update C x (m, n)))))"

lemma frame_ok_True [simp]: "frame_ok M C (\<lambda>_. True)"
  by (simp add: frame_ok_def)

text \<open>What an object asks for, given the silence it is converted to.\<close>

definition wants_of ::
  "('obj \<Rightarrow> Silence option \<times> go_error option) \<Rightarrow> Time \<Rightarrow> Time \<Rightarrow> 'obj \<Rightarrow> aim" where
  "wants_of conv lo hi x =
     (case conv x of
        (Some s, None) \<Rightarrow>
          if After (EndsAt s) hi then Present s else if Before (EndsAt s) lo then Absent else Ending s
      | _ \<Rightarrow> Leave)"

text \<open>The active silence under a comment is as an object asks for that is converted to \<open>s\<close>.\<close>

definition as_asked :: "Time \<Rightarrow> Time \<Rightarrow> Silence \<Rightarrow> Silence option \<Rightarrow> bool" where
  "as_asked lo hi s u \<longleftrightarrow>
     (if After (EndsAt s) hi then \<exists>z. u = Some z \<and> as_wanted z s
      else if Before (EndsAt s) lo then u = None
      else pred_option (\<lambda>z. as_wanted z s) u)"

definition well_converted :: "('obj \<Rightarrow> Silence option \<times> go_error option) \<Rightarrow> 'obj \<Rightarrow> bool" where
  "well_converted conv x \<longleftrightarrow> (case conv x of (Some s, None) \<Rightarrow> storable s | _ \<Rightarrow> True)"

text \<open>The state of the world: objects stand under their keys, and the silences under their comments are
  the operator's.\<close>

definition cluster_wf ::
  "Alertmanager \<Rightarrow> kube_lib \<Rightarrow> ('obj \<Rightarrow> ObjectMeta) \<Rightarrow> ('obj \<Rightarrow> Silence option \<times> go_error option)
     \<Rightarrow> ('x \<Rightarrow> NamespacedName \<rightharpoonup> 'obj) \<Rightarrow> 'x mock_world \<Rightarrow> bool" where
  "cluster_wf am K meta conv obs w \<longleftrightarrow> mock_wf am w \<and>
     (\<forall>k x. obs (snd w) k = Some x \<longrightarrow>
        key_of (meta x) = k \<and> stored_as K meta x = Some x \<and> well_converted conv x) \<and>
     (\<forall>k s. mock_view w (key_comment k) = Some s \<longrightarrow> CreatedBy s = CreatedBy_operator)"

lemma cluster_wf_step:
  assumes "cluster_wf am K meta conv obs w" "mock_wf am w'" "obs (snd w') = obs (snd w)"
    and "mock_view w' = (mock_view w)(c := u)" "\<And>s. u = Some s \<Longrightarrow> CreatedBy s = CreatedBy_operator"
  shows "cluster_wf am K meta conv obs w'"
  using assms by (auto simp: cluster_wf_def)

locale mock_flow =
  fixes P :: errors_pkg and K :: kube_lib and M :: "'x mock_lib" and am :: Alertmanager
    and tenant :: "ObjectMeta \<Rightarrow> string" and fin :: string and L :: "string option"
    and meta :: "'obj \<Rightarrow> ObjectMeta" and upd :: "(ObjectMeta \<Rightarrow> ObjectMeta) \<Rightarrow> 'obj \<Rightarrow> 'obj"
    and C :: "('x mock_world, 'obj) KubeClient" and conv :: "'obj \<Rightarrow> Silence option \<times> go_error option"
    and del :: "'obj \<Rightarrow> 'x mock_world \<Rightarrow> go_error option \<times> 'x mock_world"
    and cleanup :: "'obj \<Rightarrow> 'x mock_world \<Rightarrow> ('obj \<times> go_error option) \<times> 'x mock_world"
    and create :: "'obj \<Rightarrow> 'x mock_world \<Rightarrow> go_error option outcome \<times> 'x mock_world"
    and obs :: "'x \<Rightarrow> NamespacedName \<rightharpoonup> 'obj" and lo hi :: Time
    and G :: "'x \<Rightarrow> bool"
  assumes no_legacy: "L \<noteq> Some fin"
    and meta_of_upd: "meta (upd f x) = f (meta x)"
    and conv_total: "\<lbrakk>errors_pkg_ok P; conv x = (u, None)\<rbrakk> \<Longrightarrow> u \<noteq> None"
    and conv_fields: "\<lbrakk>errors_pkg_ok P; conv x = (Some s, None)\<rbrakk> \<Longrightarrow>
      Comment s = SilenceComment (meta x) \<and> ID s = '''' \<and> CreatedBy s = CreatedBy_operator"
    and conv_edit: "\<lbrakk>kube_lib_ok K; g = AddFinalizer K \<or> g = RemoveFinalizer K\<rbrakk>
      \<Longrightarrow> conv (upd (\<lambda>m. g m i) x) = conv x"
    and del_run: "DeleteSilence P (NewSilenceService (Alertmanager_Client P (mock_env M) am))
        (SilenceComment (meta x)) (tenant (meta x)) w = (None, w') \<Longrightarrow> del x w = (None, w')"
    and create_fails: "conv x = (u, Some e) \<Longrightarrow> \<exists>r. create x w = (r, w)"
    and create_run: "\<lbrakk>conv x = (Some s, None);
      SyncSilence P (mock_env M) (NewSilenceService (Alertmanager_Client P (mock_env M) am)) (Some s)
        (tenant (meta x)) w = (Returns None, w')\<rbrakk> \<Longrightarrow> create x w = (Returns None, w')"
    and cleans_none: "(\<And>l. L = Some l \<Longrightarrow> \<not> ContainsFinalizer K (meta x) l) \<Longrightarrow> cleanup x w = ((x, None), w)"
    and cleans_some: "\<lbrakk>L = Some l; ContainsFinalizer K (meta x) l;
      Kube_Update C (upd (\<lambda>m. RemoveFinalizer K m l) x) w = (Inr y, w')\<rbrakk> \<Longrightarrow> cleanup x w = ((y, None), w')"
begin

abbreviation ok :: bool where
  "ok \<equiv> cluster_ok P K M meta obs C lo hi \<and> frame_ok M C G"

abbreviation wf :: "'x mock_world \<Rightarrow> bool" where
  "wf w \<equiv> cluster_wf am K meta conv obs w \<and> G (snd w)"

lemma framed_ok:
  "ok \<Longrightarrow> mock_ok P M \<and> (\<forall>n. (obs n = B \<and> G n) \<longrightarrow> (obs (tick M n) = B \<and> G (tick M n)))"
  by (simp add: cluster_ok_def frame_ok_def)

lemma delete_effect:
  assumes ok: ok and wf: "wf w" and x: "obs (snd w) k = Some x"
  shows "\<exists>w'. del x w = (None, w') \<and> wf w' \<and> obs (snd w') = obs (snd w) \<and>
    mock_view w' = (mock_view w)(key_comment k := None)"
proof -
  have k: "key_of (meta x) = k" and m: "mock_wf am w \<and> obs (snd w) = obs (snd w) \<and> G (snd w)"
    using wf x by (simp_all add: cluster_wf_def)
  have own: "CreatedBy s = CreatedBy_operator" if "mock_view w (SilenceComment (meta x)) = Some s" for s
    using wf that key_comment [of "meta x"] unfolding cluster_wf_def by metis
  obtain w' where d: "DeleteSilence P (NewSilenceService (Alertmanager_Client P (mock_env M) am))
      (SilenceComment (meta x)) (tenant (meta x)) w = (None, w')"
    "mock_wf am w'" "obs (snd w') = obs (snd w)" "mock_view w' = (mock_view w)(SilenceComment (meta x) := None)" "G (snd w')"
    using framed.delete_gone [where F = "\<lambda>n. obs n = obs (snd w) \<and> G n", OF framed_ok [OF ok] m own] by blast
  have "key_comment k = SilenceComment (meta x)" using k key_comment by metis
  moreover have "wf w'" using cluster_wf_step [OF conjunct1 [OF wf] d(2-4)] d(5) by simp
  ultimately show ?thesis using del_run [OF d(1)] d(3,4) by auto
qed

text \<open>The synchronisation of the silence that an object is converted to, for every reading of the clock.\<close>

lemma sync_effect:
  assumes ok: ok and wf: "wf w" and x: "obs (snd w) k = Some x" and s: "conv x = (Some s, None)"
  shows "\<exists>w'. create x w = (Returns None, w') \<and> wf w' \<and> obs (snd w') = obs (snd w) \<and>
    reaches (wants_of conv lo hi x) (key_comment k) (mock_view w) (mock_view w')"
proof -
  let ?t = "wall_clock M w" and ?S = "NewSilenceService (Alertmanager_Client P (mock_env M) am)"
  let ?run = "SyncSilence P (mock_env M) ?S (Some s) (tenant (meta x)) w"
  have m: "mock_wf am w \<and> obs (snd w) = obs (snd w) \<and> G (snd w)" and k: "key_of (meta x) = k" and c: "well_converted conv x"
    using wf x by (simp_all add: cluster_wf_def)
  have P: "errors_pkg_ok P" using ok by (simp add: cluster_ok_def mock_ok_def)
  have clock: "\<not> Before ?t lo" "\<not> After ?t hi" using ok unfolding cluster_ok_def clock_within_def by blast+
  have ck: "key_comment k = SilenceComment (meta x)" using k key_comment by metis
  note f = conv_fields [OF P s] and F = framed_ok [OF ok, of "obs (snd w)"]
  have st: "storable s" "ID s = ''''" using c s f by (simp_all add: well_converted_def)
  have wf': "wf w'" if "mock_wf am w'" "obs (snd w') = obs (snd w)" "G (snd w')" "mock_view w' = (mock_view w)(Comment s := u)"
      "\<And>y. u = Some y \<Longrightarrow> CreatedBy y = CreatedBy s \<or> mock_view w (Comment s) = Some y" for w' u
  proof -
    have "CreatedBy y = CreatedBy_operator" if "u = Some y" for y
      using \<open>\<And>y. u = Some y \<Longrightarrow> _\<close> [OF that] f wf ck unfolding cluster_wf_def by metis
    then show ?thesis using cluster_wf_step [OF conjunct1 [OF wf] that(1,2,4)] that(3) by simp
  qed
  consider "After (EndsAt s) hi" | "\<not> After (EndsAt s) hi" "Before (EndsAt s) lo"
    | "\<not> After (EndsAt s) hi" "\<not> Before (EndsAt s) lo" by blast
  then show ?thesis
  proof cases
    case 1
    then have "After (EndsAt s) ?t" using clock by (simp add: time_order)
    then obtain w' y where w': "?run = (Returns None, w')" "mock_wf am w'" "obs (snd w') = obs (snd w)" "as_wanted y s"
      "mock_view w' = (mock_view w)(Comment s \<mapsto> y)" "CreatedBy y = CreatedBy s \<or> mock_view w (Comment s) = Some y" "G (snd w')"
      "\<forall>z. mock_view w (Comment s) = Some z \<and> as_wanted z s \<longrightarrow> y = z"
      using framed.sync_live [where F = "\<lambda>n. obs n = obs (snd w) \<and> G n", OF F m st mock_env_sel(3)] by blast
    then show ?thesis using create_run [OF s w'(1)] wf' [OF w'(2,3,7,5)] s f 1 ck by (auto simp: wants_of_def)
  next
    case 2
    then have "Before (EndsAt s) ?t" using clock by (simp add: time_order)
    then obtain w' where w': "?run = (Returns None, w')" "mock_wf am w'" "obs (snd w') = obs (snd w)"
      "mock_view w' = (mock_view w)(Comment s := None)" "G (snd w')"
      using framed.sync_ended [where F = "\<lambda>n. obs n = obs (snd w) \<and> G n", OF F m mock_env_sel(3), of s] by blast
    then show ?thesis using create_run [OF s w'(1)] wf' [OF w'(2,3,5,4)] s f 2 ck by (auto simp: wants_of_def)
  next
    case 3
    obtain w' u where w': "?run = (Returns None, w')" "mock_wf am w'" "obs (snd w') = obs (snd w)"
      "mock_view w' = (mock_view w)(Comment s := u)" "pred_option (\<lambda>y. as_wanted y s) u"
      "\<forall>y. u = Some y \<longrightarrow> CreatedBy y = CreatedBy s \<or> mock_view w (Comment s) = Some y" "G (snd w')"
      using framed.sync_any [where F = "\<lambda>n. obs n = obs (snd w) \<and> G n", OF F m st] by blast
    then show ?thesis using create_run [OF s w'(1)] wf' [OF w'(2,3,7,4)] s f 3 ck by (auto simp: wants_of_def)
  qed
qed

lemma create_effect:
  assumes ok: ok and wf: "wf w" and x: "obs (snd w) k = Some x"
  shows "\<exists>r w'. create x w = (r, w') \<and> wf w' \<and> obs (snd w') = obs (snd w) \<and>
    reaches (wants_of conv lo hi x) (key_comment k) (mock_view w) (mock_view w') \<and>
    (wants_of conv lo hi x \<noteq> Leave \<longrightarrow> r = Returns None)"
proof (cases "snd (conv x)")
  case (Some e)
  then obtain r where "create x w = (r, w)" using create_fails [of x _ e w] by (cases "conv x") auto
  moreover have "wants_of conv lo hi x = Leave" using Some by (cases "conv x") (simp add: wants_of_def split: option.split)
  ultimately show ?thesis using wf by auto
next
  case None
  have "errors_pkg_ok P" using ok by (simp add: cluster_ok_def mock_ok_def)
  then obtain s where "conv x = (Some s, None)" using None conv_total [of x] by (cases "conv x") auto
  then show ?thesis using sync_effect [OF ok wf x] by blast
qed

end

sublocale mock_flow \<subseteq> level_flow K fin L meta upd C "WithStack P" del cleanup create wf mock_view
    "\<lambda>w. obs (snd w)" "wants_of conv lo hi" ok
proof
  fix w :: "'x mock_world" and k :: NamespacedName and x :: 'obj
  obtain m n where w: "w = (m, n)" by (cases w)
  assume ok: ok and wf: "wf w"
  then have api: "api_ok K meta obs C" and K: "kube_lib_ok K" by (simp_all add: cluster_ok_def)
  show "case obs (snd w) k of Some x \<Rightarrow> Kube_Get C k w = (Inr x, w)
      | None \<Rightarrow> \<exists>e. Kube_Get C k w = (Inl e, w) \<and> IgnoreNotFound K (Some e) = None"
    using api [unfolded api_ok_def] unfolding w snd_conv by blast
  assume x: "obs (snd w) k = Some x"
  show "key_of (meta x) = k \<and> stored_as K meta x = Some x" using wf x by (simp add: cluster_wf_def)
  show "\<exists>w'. Kube_Update C (upd (\<lambda>m. g m f) x) w = (Inr (upd (\<lambda>m. g m f) x), w') \<and> wf w' \<and>
      mock_view w' = mock_view w \<and>
      obs (snd w') = (obs (snd w))(k := stored_as K meta (upd (\<lambda>m. g m f) x))"
    if g: "g = AddFinalizer K \<or> g = RemoveFinalizer K" for g f
  proof -
    let ?y = "upd (\<lambda>m. g m f) x"
    have y: "key_of (meta ?y) = k" "well_converted conv ?y"
      using wf x edit_frame(2) [OF K g] conv_edit [OF K g]
      by (simp_all add: cluster_wf_def meta_of_upd well_converted_def)
    then obtain n' where n': "Kube_Update C ?y w = (Inr ?y, (m, n'))" "obs n' = (obs n)(k := stored_as K meta ?y)"
      using api x by (fastforce simp: api_ok_def w)
    have v: "mock_view (m, n') = mock_view w" by (simp add: mock_view_def w fun_eq_iff)
    have "cluster_wf am K meta conv obs (m, n')"
      using wf y n'(2) unfolding cluster_wf_def v
      by (auto simp: w mock_wf_def stored_as_def split: if_splits)
    moreover have "G n'" using ok wf n'(1) unfolding frame_ok_def w by (metis snd_conv)
    ultimately show ?thesis using n' v by (intro exI [of _ "(m, n')"]) (simp add: w)
  qed
next
  show "L \<noteq> Some fin" by (rule no_legacy)
  show "kube_lib_ok K" if ok using that by (simp add: cluster_ok_def)
  show "WithStack P None = None" if ok using that by (simp add: cluster_ok_def mock_ok_def errors_pkg_nil)
  show "wants_of conv lo hi (upd (\<lambda>m. g m f) x) = wants_of conv lo hi x"
    if ok "g = AddFinalizer K \<or> g = RemoveFinalizer K" for g f x
    using conv_edit [OF _ that(2)] that(1) by (simp add: cluster_ok_def wants_of_def)
qed (fact meta_of_upd delete_effect create_effect cleans_none cleans_some)+

text \<open>The converging sweep, written out for the objects and the silences.\<close>

context mock_flow
begin

lemma achieved_live:
  assumes "\<not> deleting K (meta x)" "conv x = (Some s, None)"
  shows "achieved (object_aim K fin meta (wants_of conv lo hi) x) c v \<longleftrightarrow> as_asked lo hi s (v c)"
  using assms by (simp add: object_aim_def wants_of_def as_asked_def)

lemma steady_aim:
  assumes "\<And>s. conv x = (Some s, None) \<Longrightarrow> After (EndsAt s) hi \<or> Before (EndsAt s) lo"
  shows "steady (object_aim K fin meta (wants_of conv lo hi) x)"
  using assms by (auto simp: object_aim_def wants_of_def split: prod.splits option.splits)

lemma achieved_gone:
  assumes "kube_lib_ok K" "deleting K (meta x)" "fin \<in> set (Finalizers (meta x))"
  shows "achieved (object_aim K fin meta (wants_of conv lo hi) x) c v \<longleftrightarrow> v c = None"
  using assms kube_finalizers(1) [OF assms(1)] by (simp add: object_aim_def)

lemma converges:
  assumes ok: ok and wf: "wf w" and inj: "inj_on key_comment (set ks)"
  shows "\<exists>rs w'. reconcile_all run ks w = (rs, w') \<and> wf w' \<and>
    list_all2 (\<lambda>k r. (\<forall>x. obs (snd w) k = Some x \<and> \<not> deleting K (meta x) \<longrightarrow> snd (conv x) = None) \<longrightarrow>
      r = Returns None) ks rs \<and>
    (\<forall>k\<in>set ks. \<forall>x. obs (snd w) k = Some x \<and> \<not> deleting K (meta x) \<longrightarrow>
      (\<exists>y. obs (snd w') k = Some y \<and> fin \<in> set (Finalizers (meta y))) \<and>
      (\<forall>s. conv x = (Some s, None) \<longrightarrow>
        as_asked lo hi s (mock_view w' (key_comment k)))) \<and>
    (\<forall>k\<in>set ks. \<forall>x. obs (snd w) k = Some x \<and> deleting K (meta x) \<and> fin \<in> set (Finalizers (meta x)) \<longrightarrow>
      mock_view w' (key_comment k) = None \<and>
      (case obs (snd w') k of None \<Rightarrow> True | Some y \<Rightarrow> fin \<notin> set (Finalizers (meta y)))) \<and>
    (\<forall>l. L = Some l \<longrightarrow>
      (\<forall>k\<in>set ks. \<forall>y. obs (snd w') k = Some y \<longrightarrow> l \<notin> set (Finalizers (meta y)))) \<and>
    (\<forall>k. k \<notin> set ks \<longrightarrow> obs (snd w') k = obs (snd w) k) \<and>
    (\<forall>c. c \<notin> key_comment ` set ks \<longrightarrow> mock_view w' c = mock_view w c)"
proof -
  note K = kube_finalizers(1) [OF ok_lib [OF ok]]
  obtain rs w' where s: "reconcile_all run ks w = (rs, w')" "wf w'"
    "list_all2 (\<lambda>k r. pred_option (\<lambda>x. \<not> object_fails K meta (wants_of conv lo hi) x) (obs (snd w) k) \<longrightarrow>
      r = Returns None) ks rs"
    "obs (snd w') = (\<lambda>k. if k \<in> set ks then Option.bind (obs (snd w) k) (settled_object K fin L meta upd)
      else obs (snd w) k)"
    "\<And>k. k \<in> set ks \<Longrightarrow> achieved (target w k) (key_comment k) (mock_view w')"
    "\<And>c. c \<notin> key_comment ` {k\<in>set ks. target w k \<noteq> Leave} \<Longrightarrow> mock_view w' c = mock_view w c"
    using sweep [OF ok wf inj] by blast
  have "pred_option (\<lambda>x. \<not> object_fails K meta (wants_of conv lo hi) x) (obs (snd w) k)"
    if "\<forall>x. obs (snd w) k = Some x \<and> \<not> deleting K (meta x) \<longrightarrow> snd (conv x) = None" for k
  proof (cases "obs (snd w) k")
    case (Some x)
    show ?thesis
    proof (cases "deleting K (meta x)")
      case False
      have "snd (conv x) = None" using that Some False by blast
      moreover have "errors_pkg_ok P" using ok by (simp add: cluster_ok_def mock_ok_def)
      ultimately obtain s where "conv x = (Some s, None)" using conv_total [of x] by (cases "conv x") auto
      then show ?thesis using False Some by (simp add: wants_of_def object_fails_def)
    qed (simp add: Some object_fails_def)
  qed simp
  then have "list_all2 (\<lambda>k r. (\<forall>x. obs (snd w) k = Some x \<and> \<not> deleting K (meta x) \<longrightarrow> snd (conv x) = None) \<longrightarrow>
      r = Returns None) ks rs"
    using s(3) by (auto elim!: list_all2_mono)
  moreover have "(\<exists>y. obs (snd w') k = Some y \<and> fin \<in> set (Finalizers (meta y))) \<and>
      (\<forall>s. conv x = (Some s, None) \<longrightarrow>
        as_asked lo hi s (mock_view w' (key_comment k)))"
    if "k \<in> set ks" "obs (snd w) k = Some x" "\<not> deleting K (meta x)" for k x
    using s(4) s(5) [OF that(1)] achieved_live [OF that(3)] settled_live [OF ok that(3)] that by (auto simp: K)
  moreover have "mock_view w' (key_comment k) = None \<and>
      (case obs (snd w') k of None \<Rightarrow> True | Some y \<Rightarrow> fin \<notin> set (Finalizers (meta y)))"
    if "k \<in> set ks" "obs (snd w) k = Some x" "deleting K (meta x)" "fin \<in> set (Finalizers (meta x))" for k x
    using s(4) s(5) [OF that(1)] achieved_gone [OF ok_lib [OF ok] that(3,4)] settled_deleted [OF ok that(3)] that
    by (auto simp: K split: option.split)
  moreover have "l \<notin> set (Finalizers (meta y))"
    if "L = Some l" "k \<in> set ks" "obs (snd w') k = Some y" for l k y
    using s(4) settled_no_legacy [OF ok that(1)] that(2,3) by (auto simp: bind_eq_Some_conv K)
  moreover have "mock_view w' c = mock_view w c" if "c \<notin> key_comment ` set ks" for c
    by (rule s(6)) (use that in auto)
  ultimately show ?thesis using s(1,2,4) by (intro exI [of _ rs] exI [of _ w']) simp
qed

end

end
