(* ===== verification/Cluster_Sweeps.thy ===== *)
theory Cluster_Sweeps
  imports Cluster
begin

section \<open>Both controllers converge on every cluster\<close>

text \<open>
  The controllers of both versions, as \<open>cmd/main.go\<close> wires them and against the mock server, are
  instances of \<open>mock_flow\<close>; the two properties are its \<open>converges\<close>, and a cluster with a new object
  and one that is being deleted is their witness.
\<close>

definition mock_v1 ::
  "errors_pkg \<Rightarrow> 'x mock_lib \<Rightarrow> ('x mock_world, Silence_v1) KubeClient \<Rightarrow> Alertmanager \<Rightarrow> 'sel Helper
     \<Rightarrow> ('x mock_world, 'sel) SilenceReconciler" where
  "mock_v1 P M C am h =
     NewSilenceReconciler C (NewSilenceService (Alertmanager_Client P (mock_env M) am)) h"

lemma mock_v1_sel [simp]:
  "client (mock_v1 P M C am h) = C"
  "silenceService (mock_v1 P M C am h) = NewSilenceService (Alertmanager_Client P (mock_env M) am)"
  "tenancyHelper (mock_v1 P M C am h) = h"
  by (simp_all add: mock_v1_def NewSilenceReconciler_def)

lemma getSilenceFromCR_v1_fields:
  assumes "getSilenceFromCR_v1 P x = (Some s, None)"
  shows "Comment s = SilenceComment (Meta_v1 x)" "ID s = ''''" "CreatedBy s = CreatedBy_operator"
  using assms by (auto simp: getSilenceFromCR_v1_def Let_def split: prod.splits option.splits)

lemma getSilenceFromCR_total:
  assumes "errors_pkg_ok P"
  shows "getSilenceFromCR_v1 P x \<noteq> (None, None)" "getSilenceFromCR_v2 P PD y \<noteq> (None, None)"
  using errors_pkg_nil [OF assms]
  by (auto simp: getSilenceFromCR_v1_def getSilenceFromCR_v2_def Let_def split: prod.splits option.splits)

text \<open>Finalizers play no part in the silence of a resource.\<close>

lemma finalizers_irrelevant:
  assumes "kube_lib_ok K" "g = AddFinalizer K \<or> g = RemoveFinalizer K"
  shows "SilenceComment (g m i) = SilenceComment m" "SilenceEndsAt P (g m i) = SilenceEndsAt P m"
    "CreationTimestamp (g m i) = CreationTimestamp m"
  using assms(2)
  by (auto simp: SilenceComment_def SilenceEndsAt_def kube_frame [OF assms(1)] cong: option.case_cong)

lemma conversion_edit:
  assumes "kube_lib_ok K" "g = AddFinalizer K \<or> g = RemoveFinalizer K"
  shows "getSilenceFromCR_v1 P (upd_v1 (\<lambda>m. g m i) x) = getSilenceFromCR_v1 P x"
    "getSilenceFromCR_v2 P PD (upd_v2 (\<lambda>m. g m i) y) = getSilenceFromCR_v2 P PD y"
  using finalizers_irrelevant [OF assms]
  by (simp_all add: getSilenceFromCR_v1_def getSilenceFromCR_v2_def calculateSilenceTimes_def
      cong: option.case_cong prod.case_cong)

interpretation cluster_v2: mock_flow P K M am "ExtractTenant h" FinalizerName None Meta_v2 upd_v2 C
    "getSilenceFromCR_v2 P PD" "reconcileDelete_v2 P (mock_v2 P M C am h)" no_cleanup
    "reconcileCreate_v2 P PD (mock_env M) (mock_v2 P M C am h)" obs lo hi G
  for P :: errors_pkg and K :: kube_lib and M :: "'x mock_lib" and am :: Alertmanager and h :: "'sel Helper"
    and C :: "('x mock_world, Silence_v2) KubeClient" and PD :: "string \<Rightarrow> go_error + Duration"
    and obs :: "'x \<Rightarrow> NamespacedName \<rightharpoonup> Silence_v2" and lo hi :: Time and G :: "'x \<Rightarrow> bool"
proof (unfold_locales, goal_cases)
  case (3 x u)
  then show ?case using getSilenceFromCR_total(2) [of P PD x] by auto
next
  case (4 x s)
  then show ?case using getSilenceFromCR_v2_fields by blast
next
  case (5 g i x)
  then show ?case by (rule conversion_edit(2))
next
  case (7 x u e w)
  then show ?case by (simp add: reconcileCreate_v2_def)
qed (simp_all add: reconcileDelete_v2_def reconcileCreate_v2_def no_cleanup_def)

interpretation cluster_v1: mock_flow P K M am "ExtractTenant h" silenceFinalizer
    "Some legacySilenceFinalizer" Meta_v1 upd_v1 C
    "getSilenceFromCR_v1 P" "reconcileDelete_v1 P (mock_v1 P M C am h)"
    "cleanUpLegacyFinalizer P K (mock_v1 P M C am h)"
    "reconcileCreate_v1 P (mock_env M) (mock_v1 P M C am h)" obs lo hi G
  for P :: errors_pkg and K :: kube_lib and M :: "'x mock_lib" and am :: Alertmanager and h :: "'sel Helper"
    and C :: "('x mock_world, Silence_v1) KubeClient" and obs :: "'x \<Rightarrow> NamespacedName \<rightharpoonup> Silence_v1"
    and lo hi :: Time and G :: "'x \<Rightarrow> bool"
proof (unfold_locales, goal_cases)
  case 1
  then show ?case using finalizers_differ by simp
next
  case (3 x u)
  then show ?case using getSilenceFromCR_total(1) [of P x] by auto
next
  case (4 x s)
  then show ?case using getSilenceFromCR_v1_fields by blast
next
  case (5 g i x)
  then show ?case by (rule conversion_edit(1))
next
  case (7 x u e w)
  then show ?case by (simp add: reconcileCreate_v1_def)
qed (simp_all add: reconcileDelete_v1_def reconcileCreate_v1_def cleanUpLegacyFinalizer_def Let_def)

lemma Reconcile_v2_run:
  "Reconcile_v2 P K PD (mock_env M) (mock_v2 P M C am h) =
     flow K FinalizerName Meta_v2 upd_v2 C (WithStack P) (reconcileDelete_v2 P (mock_v2 P M C am h))
       no_cleanup (reconcileCreate_v2 P PD (mock_env M) (mock_v2 P M C am h))"
  by (intro ext) (simp add: Reconcile_v2_flow)

lemma Reconcile_v1_run:
  "Reconcile_v1 P K (mock_env M) (mock_v1 P M C am h) =
     flow K silenceFinalizer Meta_v1 upd_v1 C (WithStack P) (reconcileDelete_v1 P (mock_v1 P M C am h))
       (cleanUpLegacyFinalizer P K (mock_v1 P M C am h)) (reconcileCreate_v1 P (mock_env M) (mock_v1 P M C am h))"
  by (intro ext) (simp add: Reconcile_v1_flow)

subsection \<open>A concrete cluster\<close>

text \<open>An API server that is a map.\<close>

definition map_kube ::
  "('obj \<Rightarrow> ObjectMeta) \<Rightarrow> ('m \<times> (NamespacedName \<Rightarrow> 'obj option), 'obj) KubeClient" where
  "map_kube meta = \<lparr>
     Kube_Get = (\<lambda>k (m, n). (case n k of Some x \<Rightarrow> Inr x | None \<Rightarrow> Inl (Sentinel ''not found''), (m, n))),
     Kube_Update = (\<lambda>x (m, n). (Inr x, (m, n(key_of (meta x) := stored_as sample_kube meta x))))\<rparr>"

lemma map_kube_cluster:
  "cluster_ok sample_errors sample_kube (sample_mock t) meta (\<lambda>n. n) (map_kube meta) t t"
  by (auto simp: cluster_ok_def api_ok_def clock_within_def map_kube_def sample_mock_def time_order
      sample_kube_def sample_mock_ok [unfolded sample_mock_def] sample_kube_ok [unfolded sample_kube_def]
      split: option.split)

definition other_key :: NamespacedName where
  "other_key = \<lparr>KeyNamespace = ''ns'', KeyName = ''b''\<rparr>"

definition other_going :: "string list \<Rightarrow> ObjectMeta" where
  "other_going fs = (going_meta fs)\<lparr>ObjName := ''b''\<rparr>"

definition other_wanted :: Silence where
  "other_wanted = wanted_v2\<lparr>Comment := ''silence-operator-ns-b''\<rparr>"

text \<open>Two objects, and the silence of the second.\<close>

definition two_objects :: "'obj \<Rightarrow> 'obj \<Rightarrow> MockAlertmanagerServer \<times> (NamespacedName \<Rightarrow> 'obj option)" where
  "two_objects x y = (\<lparr>server_URL = address sample_am, server_open = True,
     silences = [(mock_id (Comment other_wanted), made other_wanted)]\<rparr>,
     [sample_key \<mapsto> x, other_key \<mapsto> y])"

lemma two_objects_wf:
  assumes "key_of (meta x) = sample_key" "deleting sample_kube (meta x) \<longrightarrow> Finalizers (meta x) \<noteq> []" "well_converted conv x"
    and "key_of (meta y) = other_key" "deleting sample_kube (meta y) \<longrightarrow> Finalizers (meta y) \<noteq> []" "well_converted conv y"
  shows "cluster_wf sample_am sample_kube meta conv (\<lambda>n. n) (two_objects x y)"
proof -
  have "mock_wf sample_am (two_objects x y)"
    by (simp add: two_objects_def mock_wf_def) code_simp
  moreover have "CreatedBy s = CreatedBy_operator" if "mock_view (two_objects x y) c = Some s" for c s
  proof -
    have "s = made other_wanted"
      using that by (auto simp: mock_view_def two_objects_def split: if_splits)
    moreover have "CreatedBy (made other_wanted) = CreatedBy_operator" by code_simp
    ultimately show ?thesis by simp
  qed
  ultimately show ?thesis using assms
    by (auto simp: cluster_wf_def two_objects_def stored_as_def split: if_splits)
qed

lemma two_keys:
  "inj_on key_comment (set [sample_key, other_key, sample_key])"
  "key_comment sample_key = ''silence-operator-ns-a''" "key_comment other_key = ''silence-operator-ns-b''"
  by (simp_all add: inj_on_def) code_simp+

definition other_v2 :: Silence_v2 where
  "other_v2 = sample_v2\<lparr>Meta_v2 := other_going [FinalizerName]\<rparr>"

lemma kept_v2_edit: "kept_v2 = upd_v2 (\<lambda>m. AddFinalizer sample_kube m FinalizerName) sample_v2"
  by (simp add: kept_v2_def sample_v2_def sample_v1_def sample_meta_def sample_kube_def)

lemma two_v2_wf:
  "cluster_wf sample_am sample_kube Meta_v2 (getSilenceFromCR_v2 sample_errors (\<lambda>_. Inr 0))
     (\<lambda>n. n) (two_objects sample_v2 other_v2)"
  by (rule two_objects_wf) code_simp+

definition legacy_v1 :: Silence_v1 where
  "legacy_v1 = sample_v1\<lparr>Meta_v1 := (Meta_v1 sample_v1)\<lparr>Finalizers := [legacySilenceFinalizer]\<rparr>\<rparr>"

definition other_v1 :: Silence_v1 where
  "other_v1 = sample_v1\<lparr>Meta_v1 := other_going [silenceFinalizer, legacySilenceFinalizer]\<rparr>"

definition wanted_v1 :: Silence where
  "wanted_v1 = the (fst (getSilenceFromCR_v1 sample_errors legacy_v1))"

lemma wanted_v1: "getSilenceFromCR_v1 sample_errors legacy_v1 = (Some wanted_v1, None)"
proof -
  have "fst (getSilenceFromCR_v1 sample_errors legacy_v1) \<noteq> None"
    "snd (getSilenceFromCR_v1 sample_errors legacy_v1) = None" by code_simp+
  then show ?thesis by (cases "getSilenceFromCR_v1 sample_errors legacy_v1") (auto simp: wanted_v1_def)
qed

lemma two_v1_wf:
  "cluster_wf sample_am sample_kube Meta_v1 (getSilenceFromCR_v1 sample_errors)
     (\<lambda>n. n) (two_objects legacy_v1 other_v1)"
  by (rule two_objects_wf) code_simp+

subsection \<open>The sweeps\<close>



text \<open>C10: under the same conditions, pairwise different comments of the keys among them, the same for the v1alpha1
  controller, which also removes the legacy finalizer on the way.\<close>

theorem Reconcile_v1_sweep:
  assumes "cluster_ok P K M Meta_v1 obs C lo hi" "cluster_wf am K Meta_v1 (getSilenceFromCR_v1 P) obs w"
    and "inj_on key_comment (set ks)"
  shows "\<exists>rs w'. reconcile_all (Reconcile_v1 P K (mock_env M) (mock_v1 P M C am h)) ks w = (rs, w') \<and>
    cluster_wf am K Meta_v1 (getSilenceFromCR_v1 P) obs w' \<and>
    list_all2 (\<lambda>k r. (\<forall>x. obs (snd w) k = Some x \<and> \<not> deleting K (Meta_v1 x) \<longrightarrow>
      snd (getSilenceFromCR_v1 P x) = None) \<longrightarrow> r = Returns None) ks rs \<and>
    (\<forall>k\<in>set ks. \<forall>x. obs (snd w) k = Some x \<and> \<not> deleting K (Meta_v1 x) \<longrightarrow>
      (\<exists>y. obs (snd w') k = Some y \<and> silenceFinalizer \<in> set (Finalizers (Meta_v1 y))) \<and>
      (\<forall>s. getSilenceFromCR_v1 P x = (Some s, None) \<longrightarrow>
        as_asked lo hi s (mock_view w' (key_comment k)))) \<and>
    (\<forall>k\<in>set ks. \<forall>x. obs (snd w) k = Some x \<and> deleting K (Meta_v1 x) \<and>
        silenceFinalizer \<in> set (Finalizers (Meta_v1 x)) \<longrightarrow>
      mock_view w' (key_comment k) = None \<and>
      (case obs (snd w') k of None \<Rightarrow> True | Some y \<Rightarrow> silenceFinalizer \<notin> set (Finalizers (Meta_v1 y)))) \<and>
    (\<forall>k\<in>set ks. \<forall>y. obs (snd w') k = Some y \<longrightarrow> legacySilenceFinalizer \<notin> set (Finalizers (Meta_v1 y))) \<and>
    (\<forall>k. k \<notin> set ks \<longrightarrow> obs (snd w') k = obs (snd w) k) \<and>
    (\<forall>c. c \<notin> key_comment ` set ks \<longrightarrow> mock_view w' c = mock_view w c)"
  using cluster_v1.converges [where G = "\<lambda>_. True", OF conjI [OF assms(1) frame_ok_True]
    conjI [OF assms(2) TrueI] assms(3)]
  unfolding Reconcile_v1_run by (simp only: option.inject option.distinct simp_thms)

theorem Reconcile_v1_sweep_witness:
  "\<exists>rs w' y z. reconcile_all (Reconcile_v1 sample_errors sample_kube (mock_env (sample_mock day_2025))
      (mock_v1 sample_errors (sample_mock day_2025) (map_kube Meta_v1) sample_am sample_helper))
      [sample_key, other_key, sample_key] (two_objects legacy_v1 other_v1) = (rs, w') \<and>
    mock_view w' ''silence-operator-ns-a'' = Some z \<and> as_wanted z wanted_v1 \<and>
    snd w' sample_key = Some y \<and> silenceFinalizer \<in> set (Finalizers (Meta_v1 y)) \<and>
    legacySilenceFinalizer \<notin> set (Finalizers (Meta_v1 y)) \<and>
    mock_view w' ''silence-operator-ns-b'' = None"
proof -
  have "snd (two_objects legacy_v1 other_v1) sample_key = Some legacy_v1"
    "snd (two_objects legacy_v1 other_v1) other_key = Some other_v1"
    by (simp_all add: two_objects_def sample_key_def other_key_def)
  moreover have "\<not> deleting sample_kube (Meta_v1 legacy_v1)" "After (EndsAt wanted_v1) day_2025"
    "deleting sample_kube (Meta_v1 other_v1)" "silenceFinalizer \<in> set (Finalizers (Meta_v1 other_v1))"
    by code_simp+
  ultimately show ?thesis
    using Reconcile_v1_sweep [OF map_kube_cluster two_v1_wf two_keys(1), where h = sample_helper] wanted_v1 two_keys(2,3)
    by (fastforce simp: as_asked_def)
qed

end
