(* ===== verification/Both_Controllers.thy ===== *)
theory Both_Controllers
  imports Cluster_Sweeps
begin

section \<open>Both controllers on one cluster\<close>

text \<open>
  The program runs both controllers against one Alertmanager.  Their calls, in any interleaving, are
  again \<open>level_triggered\<close>: \<open>Inl k\<close> is a call for a v1alpha1 object, \<open>Inr k\<close> one for a v1alpha2 object.  The
  two kinds of objects live side by side in the API server (\<open>obs1\<close> and \<open>obs2\<close>), and writing one kind
  leaves the other alone.
\<close>

definition apart ::
  "('x \<Rightarrow> 'o) \<Rightarrow> ('x mock_world, 'obj) KubeClient \<Rightarrow> bool" where
  "apart obs C \<longleftrightarrow> (\<forall>x m n. obs (snd (snd (Kube_Update C x (m, n)))) = obs n)"

definition both_ok ::
  "errors_pkg \<Rightarrow> kube_lib \<Rightarrow> 'x mock_lib \<Rightarrow> ('x \<Rightarrow> NamespacedName \<rightharpoonup> Silence_v1)
     \<Rightarrow> ('x \<Rightarrow> NamespacedName \<rightharpoonup> Silence_v2) \<Rightarrow> ('x mock_world, Silence_v1) KubeClient
     \<Rightarrow> ('x mock_world, Silence_v2) KubeClient \<Rightarrow> Time \<Rightarrow> Time \<Rightarrow> bool" where
  "both_ok P K M obs1 obs2 C1 C2 lo hi \<longleftrightarrow>
     cluster_ok P K M Meta_v1 obs1 C1 lo hi \<and> cluster_ok P K M Meta_v2 obs2 C2 lo hi \<and>
     apart obs2 C1 \<and> apart obs1 C2"

definition both_wf ::
  "Alertmanager \<Rightarrow> errors_pkg \<Rightarrow> kube_lib \<Rightarrow> (string \<Rightarrow> go_error + Duration)
     \<Rightarrow> ('x \<Rightarrow> NamespacedName \<rightharpoonup> Silence_v1) \<Rightarrow> ('x \<Rightarrow> NamespacedName \<rightharpoonup> Silence_v2)
     \<Rightarrow> 'x mock_world \<Rightarrow> bool" where
  "both_wf am P K PD obs1 obs2 w \<longleftrightarrow>
     cluster_wf am K Meta_v1 (getSilenceFromCR_v1 P) obs1 w \<and>
     cluster_wf am K Meta_v2 (getSilenceFromCR_v2 P PD) obs2 w"

text \<open>The call for a key of either kind, and what it does.\<close>

definition reconcile_either ::
  "errors_pkg \<Rightarrow> kube_lib \<Rightarrow> (string \<Rightarrow> go_error + Duration) \<Rightarrow> 'x mock_lib \<Rightarrow> Alertmanager \<Rightarrow> 'sel Helper
     \<Rightarrow> ('x mock_world, Silence_v1) KubeClient \<Rightarrow> ('x mock_world, Silence_v2) KubeClient
     \<Rightarrow> NamespacedName + NamespacedName \<Rightarrow> 'x mock_world \<Rightarrow> go_error option outcome \<times> 'x mock_world" where
  "reconcile_either P K PD M am h C1 C2 =
     case_sum (Reconcile_v1 P K (mock_env M) (mock_v1 P M C1 am h))
       (Reconcile_v2 P K PD (mock_env M) (mock_v2 P M C2 am h))"

abbreviation settled_v1 :: "kube_lib \<Rightarrow> Silence_v1 \<Rightarrow> Silence_v1 option" where
  "settled_v1 K \<equiv> settled_object K silenceFinalizer (Some legacySilenceFinalizer) Meta_v1 upd_v1"

abbreviation settled_v2 :: "kube_lib \<Rightarrow> Silence_v2 \<Rightarrow> Silence_v2 option" where
  "settled_v2 K \<equiv> settled_object K FinalizerName None Meta_v2 upd_v2"

abbreviation aim_v1 :: "errors_pkg \<Rightarrow> kube_lib \<Rightarrow> Time \<Rightarrow> Time \<Rightarrow> Silence_v1 \<Rightarrow> aim" where
  "aim_v1 P K lo hi \<equiv> object_aim K silenceFinalizer Meta_v1 (wants_of (getSilenceFromCR_v1 P) lo hi)"

abbreviation aim_v2 ::
  "errors_pkg \<Rightarrow> kube_lib \<Rightarrow> (string \<Rightarrow> go_error + Duration) \<Rightarrow> Time \<Rightarrow> Time \<Rightarrow> Silence_v2 \<Rightarrow> aim" where
  "aim_v2 P K PD lo hi \<equiv> object_aim K FinalizerName Meta_v2 (wants_of (getSilenceFromCR_v2 P PD) lo hi)"

abbreviation fails_v1 :: "errors_pkg \<Rightarrow> kube_lib \<Rightarrow> Time \<Rightarrow> Time \<Rightarrow> Silence_v1 \<Rightarrow> bool" where
  "fails_v1 P K lo hi \<equiv> object_fails K Meta_v1 (wants_of (getSilenceFromCR_v1 P) lo hi)"

abbreviation fails_v2 ::
  "errors_pkg \<Rightarrow> kube_lib \<Rightarrow> (string \<Rightarrow> go_error + Duration) \<Rightarrow> Time \<Rightarrow> Time \<Rightarrow> Silence_v2 \<Rightarrow> bool" where
  "fails_v2 P K PD lo hi \<equiv> object_fails K Meta_v2 (wants_of (getSilenceFromCR_v2 P PD) lo hi)"

text \<open>The objects of both kinds under one type of keys.\<close>

definition both_objs ::
  "('x \<Rightarrow> NamespacedName \<rightharpoonup> Silence_v1) \<Rightarrow> ('x \<Rightarrow> NamespacedName \<rightharpoonup> Silence_v2) \<Rightarrow> 'x mock_world
     \<Rightarrow> NamespacedName + NamespacedName \<rightharpoonup> Silence_v1 + Silence_v2" where
  "both_objs obs1 obs2 w =
     case_sum (\<lambda>k. map_option Inl (obs1 (snd w) k)) (\<lambda>k. map_option Inr (obs2 (snd w) k))"

definition both_after :: "kube_lib \<Rightarrow> Silence_v1 + Silence_v2 \<Rightarrow> (Silence_v1 + Silence_v2) option" where
  "both_after K = case_sum (\<lambda>x. map_option Inl (settled_v1 K x)) (\<lambda>y. map_option Inr (settled_v2 K y))"

lemma both_simps [simp]:
  "both_objs obs1 obs2 w (Inl k) = map_option Inl (obs1 (snd w) k)"
  "both_objs obs1 obs2 w (Inr k) = map_option Inr (obs2 (snd w) k)"
  "both_after K (Inl x) = map_option Inl (settled_v1 K x)"
  "both_after K (Inr y) = map_option Inr (settled_v2 K y)"
  by (simp_all add: both_objs_def both_after_def)

lemma apart_frame:
  assumes "apart obs C" "\<forall>n. obs (tick M n) = obs n"
  shows "frame_ok M C (\<lambda>n. obs n = B)"
  using assms by (simp add: frame_ok_def apart_def)

text \<open>The other kind's part of the invariant needs only the mock server and its own objects.\<close>

lemma cluster_wf_other:
  assumes "cluster_wf am K meta conv obs w" "cluster_wf am K meta' conv' obs' w'"
    and "obs (snd w') = obs (snd w)"
  shows "cluster_wf am K meta conv obs w'"
  using assms by (simp add: cluster_wf_def)

lemma either_step_v1:
  assumes ok: "both_ok P K M obs1 obs2 C1 C2 lo hi" and wf: "both_wf am P K PD obs1 obs2 w"
  shows "\<exists>r w'. reconcile_either P K PD M am h C1 C2 (Inl k) w = (r, w') \<and> both_wf am P K PD obs1 obs2 w' \<and>
    obs1 (snd w') = (obs1 (snd w))(k := Option.bind (obs1 (snd w) k) (settled_v1 K)) \<and>
    obs2 (snd w') = obs2 (snd w) \<and>
    reaches (case_option Leave (aim_v1 P K lo hi) (obs1 (snd w) k)) (key_comment k) (mock_view w) (mock_view w') \<and>
    (pred_option (\<lambda>x. \<not> fails_v1 P K lo hi x) (obs1 (snd w) k) \<longrightarrow> r = Returns None)"
proof -
  let ?G = "\<lambda>n. obs2 n = obs2 (snd w)"
  have ok1: "cluster_ok P K M Meta_v1 obs1 C1 lo hi \<and> frame_ok M C1 ?G"
    using ok apart_frame [of obs2 C1 M] by (simp add: both_ok_def cluster_ok_def)
  have "cluster_wf am K Meta_v1 (getSilenceFromCR_v1 P) obs1 w \<and> ?G (snd w)"
    using wf by (simp add: both_wf_def)
  from cluster_v1.step [where G = ?G, OF ok1 this, of h k] obtain r w' where
    "reconcile_either P K PD M am h C1 C2 (Inl k) w = (r, w')"
    "cluster_wf am K Meta_v1 (getSilenceFromCR_v1 P) obs1 w'" "obs2 (snd w') = obs2 (snd w)"
    "obs1 (snd w') = (obs1 (snd w))(k := Option.bind (obs1 (snd w) k) (settled_v1 K))"
    "reaches (case_option Leave (aim_v1 P K lo hi) (obs1 (snd w) k)) (key_comment k) (mock_view w) (mock_view w')"
    "pred_option (\<lambda>x. \<not> fails_v1 P K lo hi x) (obs1 (snd w) k) \<longrightarrow> r = Returns None"
    unfolding reconcile_either_def Reconcile_v1_run sum.case by blast
  then show ?thesis
    using wf cluster_wf_other [of am K Meta_v2 "getSilenceFromCR_v2 P PD" obs2 w]
    unfolding both_wf_def by blast
qed

lemma either_step_v2:
  assumes ok: "both_ok P K M obs1 obs2 C1 C2 lo hi" and wf: "both_wf am P K PD obs1 obs2 w"
  shows "\<exists>r w'. reconcile_either P K PD M am h C1 C2 (Inr k) w = (r, w') \<and> both_wf am P K PD obs1 obs2 w' \<and>
    obs2 (snd w') = (obs2 (snd w))(k := Option.bind (obs2 (snd w) k) (settled_v2 K)) \<and>
    obs1 (snd w') = obs1 (snd w) \<and>
    reaches (case_option Leave (aim_v2 P K PD lo hi) (obs2 (snd w) k)) (key_comment k) (mock_view w) (mock_view w') \<and>
    (pred_option (\<lambda>x. \<not> fails_v2 P K PD lo hi x) (obs2 (snd w) k) \<longrightarrow> r = Returns None)"
proof -
  let ?G = "\<lambda>n. obs1 n = obs1 (snd w)"
  have ok2: "cluster_ok P K M Meta_v2 obs2 C2 lo hi \<and> frame_ok M C2 ?G"
    using ok apart_frame [of obs1 C2 M] by (simp add: both_ok_def cluster_ok_def)
  have "cluster_wf am K Meta_v2 (getSilenceFromCR_v2 P PD) obs2 w \<and> ?G (snd w)"
    using wf by (simp add: both_wf_def)
  from cluster_v2.step [where G = ?G, OF ok2 this, of h k] obtain r w' where
    "reconcile_either P K PD M am h C1 C2 (Inr k) w = (r, w')"
    "cluster_wf am K Meta_v2 (getSilenceFromCR_v2 P PD) obs2 w'" "obs1 (snd w') = obs1 (snd w)"
    "obs2 (snd w') = (obs2 (snd w))(k := Option.bind (obs2 (snd w) k) (settled_v2 K))"
    "reaches (case_option Leave (aim_v2 P K PD lo hi) (obs2 (snd w) k)) (key_comment k) (mock_view w) (mock_view w')"
    "pred_option (\<lambda>x. \<not> fails_v2 P K PD lo hi x) (obs2 (snd w) k) \<longrightarrow> r = Returns None"
    unfolding reconcile_either_def Reconcile_v2_run sum.case by blast
  then show ?thesis
    using wf cluster_wf_other [of am K Meta_v1 "getSilenceFromCR_v1 P" obs1 w]
    unfolding both_wf_def by blast
qed

lemma either_step:
  assumes ok: "both_ok P K M obs1 obs2 C1 C2 lo hi" and wf: "both_wf am P K PD obs1 obs2 w"
  shows "\<exists>r w'. reconcile_either P K PD M am h C1 C2 k w = (r, w') \<and> both_wf am P K PD obs1 obs2 w' \<and>
    both_objs obs1 obs2 w' = (both_objs obs1 obs2 w)(k := Option.bind (both_objs obs1 obs2 w k) (both_after K)) \<and>
    reaches (case_option Leave (case_sum (aim_v1 P K lo hi) (aim_v2 P K PD lo hi)) (both_objs obs1 obs2 w k))
      (case_sum key_comment key_comment k) (mock_view w) (mock_view w') \<and>
    (pred_option (\<lambda>x. \<not> case_sum (fails_v1 P K lo hi) (fails_v2 P K PD lo hi) x) (both_objs obs1 obs2 w k) \<longrightarrow>
      r = Returns None)"
proof (cases k)
  case (Inl j)
  obtain r w' where s: "reconcile_either P K PD M am h C1 C2 (Inl j) w = (r, w')"
    "both_wf am P K PD obs1 obs2 w'"
    "obs1 (snd w') = (obs1 (snd w))(j := Option.bind (obs1 (snd w) j) (settled_v1 K))"
    "obs2 (snd w') = obs2 (snd w)"
    "reaches (case_option Leave (aim_v1 P K lo hi) (obs1 (snd w) j)) (key_comment j) (mock_view w) (mock_view w')"
    "pred_option (\<lambda>x. \<not> fails_v1 P K lo hi x) (obs1 (snd w) j) \<longrightarrow> r = Returns None"
    using either_step_v1 [OF ok wf, of h j] by blast
  have "both_objs obs1 obs2 w' i =
      ((both_objs obs1 obs2 w)(Inl j := Option.bind (both_objs obs1 obs2 w (Inl j)) (both_after K))) i" for i
    using s(3,4) by (cases i; cases "obs1 (snd w) j") auto
  then show ?thesis
    using s(1,2,5,6) unfolding Inl by (intro exI [of _ r] exI [of _ w']) (auto simp: option.case_eq_if split: option.splits)
next
  case (Inr j)
  obtain r w' where s: "reconcile_either P K PD M am h C1 C2 (Inr j) w = (r, w')"
    "both_wf am P K PD obs1 obs2 w'"
    "obs2 (snd w') = (obs2 (snd w))(j := Option.bind (obs2 (snd w) j) (settled_v2 K))"
    "obs1 (snd w') = obs1 (snd w)"
    "reaches (case_option Leave (aim_v2 P K PD lo hi) (obs2 (snd w) j)) (key_comment j) (mock_view w) (mock_view w')"
    "pred_option (\<lambda>x. \<not> fails_v2 P K PD lo hi x) (obs2 (snd w) j) \<longrightarrow> r = Returns None"
    using either_step_v2 [OF ok wf, of h j] by blast
  have "both_objs obs1 obs2 w' i =
      ((both_objs obs1 obs2 w)(Inr j := Option.bind (both_objs obs1 obs2 w (Inr j)) (both_after K))) i" for i
    using s(3,4) by (cases i; cases "obs2 (snd w) j") auto
  then show ?thesis
    using s(1,2,5,6) unfolding Inr by (intro exI [of _ r] exI [of _ w']) (auto simp: option.case_eq_if split: option.splits)
qed

interpretation both: level_triggered "reconcile_either P K PD M am h C1 C2" "both_wf am P K PD obs1 obs2"
    mock_view "both_objs obs1 obs2" "both_after K" "case_sum (aim_v1 P K lo hi) (aim_v2 P K PD lo hi)"
    "case_sum (fails_v1 P K lo hi) (fails_v2 P K PD lo hi)" "case_sum key_comment key_comment"
    "Returns None" "both_ok P K M obs1 obs2 C1 C2 lo hi"
  for P :: errors_pkg and K :: kube_lib and PD :: "string \<Rightarrow> go_error + Duration" and M :: "'x mock_lib"
    and am :: Alertmanager and h :: "'sel Helper" and C1 :: "('x mock_world, Silence_v1) KubeClient"
    and C2 :: "('x mock_world, Silence_v2) KubeClient" and lo hi :: Time
    and obs1 :: "'x \<Rightarrow> NamespacedName \<rightharpoonup> Silence_v1" and obs2 :: "'x \<Rightarrow> NamespacedName \<rightharpoonup> Silence_v2"
proof (standard, rule either_step, assumption, assumption)
  fix x y :: "Silence_v1 + Silence_v2"
  assume ok: "both_ok P K M obs1 obs2 C1 C2 lo hi"
  note ok1 = conjI [OF _ frame_ok_True, of _ M C1] and ok2 = conjI [OF _ frame_ok_True, of _ M C2]
  have c: "cluster_ok P K M Meta_v1 obs1 C1 lo hi" "cluster_ok P K M Meta_v2 obs2 C2 lo hi"
    using ok by (simp_all add: both_ok_def)
  show "both_after K y = Some y" if "both_after K x = Some y"
    using that cluster_v1.after_again [OF ok1 [OF c(1)]] cluster_v2.after_again [OF ok2 [OF c(2)]]
    by (cases x) auto
  show "case_sum (aim_v1 P K lo hi) (aim_v2 P K PD lo hi) y = case_sum (aim_v1 P K lo hi) (aim_v2 P K PD lo hi) x \<or>
      case_sum (aim_v1 P K lo hi) (aim_v2 P K PD lo hi) x = Absent \<and>
      case_sum (aim_v1 P K lo hi) (aim_v2 P K PD lo hi) y = Leave" if "both_after K x = Some y"
    using that cluster_v1.aim_after [OF ok1 [OF c(1)]] cluster_v2.aim_after [OF ok2 [OF c(2)]]
    by (cases x) fastforce+
  show "case_sum (aim_v1 P K lo hi) (aim_v2 P K PD lo hi) x = Leave \<or>
      case_sum (aim_v1 P K lo hi) (aim_v2 P K PD lo hi) x = Absent" if "both_after K x = None"
    using that cluster_v1.aim_gone [OF ok1 [OF c(1)]] cluster_v2.aim_gone [OF ok2 [OF c(2)]]
    by (cases x) auto
  show "case_sum (fails_v1 P K lo hi) (fails_v2 P K PD lo hi) y = case_sum (fails_v1 P K lo hi) (fails_v2 P K PD lo hi) x"
    if "both_after K x = Some y"
    using that cluster_v1.fails_after [OF ok1 [OF c(1)]] cluster_v2.fails_after [OF ok2 [OF c(2)]]
    by (cases x) auto
qed

text \<open>A sweep, for each kind by itself.\<close>

lemma both_bind:
  "Option.bind (map_option Inl u) (both_after K) = map_option Inl (Option.bind u (settled_v1 K))"
  "Option.bind (map_option Inr v) (both_after K) = map_option Inr (Option.bind v (settled_v2 K))"
  by (cases u; simp) (cases v; simp)

lemma both_objs_eq:
  assumes "both_objs obs1 obs2 w' =
     (\<lambda>k. if k \<in> A then Option.bind (both_objs obs1 obs2 w k) (both_after K) else both_objs obs1 obs2 w k)"
  shows "obs1 (snd w') k = (if Inl k \<in> A then Option.bind (obs1 (snd w) k) (settled_v1 K) else obs1 (snd w) k)"
    "obs2 (snd w') k = (if Inr k \<in> A then Option.bind (obs2 (snd w) k) (settled_v2 K) else obs2 (snd w) k)"
  using fun_cong [OF assms, of "Inl k"] fun_cong [OF assms, of "Inr k"]
  by (auto simp: both_bind dest!: injD [OF option.inj_map [OF inj_Inl]] injD [OF option.inj_map [OF inj_Inr]] split: if_splits)

subsection \<open>The two properties\<close>


text \<open>One API server with a map for each kind of object.\<close>

definition pair_kube_v1 ::
  "('m \<times> (NamespacedName \<Rightarrow> Silence_v1 option) \<times> 'b, Silence_v1) KubeClient" where
  "pair_kube_v1 = \<lparr>
     Kube_Get = (\<lambda>k (m, n). (case fst n k of Some x \<Rightarrow> Inr x | None \<Rightarrow> Inl (Sentinel ''not found''), (m, n))),
     Kube_Update = (\<lambda>x (m, n). (Inr x,
       (m, ((fst n)(key_of (Meta_v1 x) := stored_as sample_kube Meta_v1 x), snd n))))\<rparr>"

definition pair_kube_v2 ::
  "('m \<times> 'a \<times> (NamespacedName \<Rightarrow> Silence_v2 option), Silence_v2) KubeClient" where
  "pair_kube_v2 = \<lparr>
     Kube_Get = (\<lambda>k (m, n). (case snd n k of Some x \<Rightarrow> Inr x | None \<Rightarrow> Inl (Sentinel ''not found''), (m, n))),
     Kube_Update = (\<lambda>x (m, n). (Inr x,
       (m, (fst n, (snd n)(key_of (Meta_v2 x) := stored_as sample_kube Meta_v2 x)))))\<rparr>"

lemma pair_kube_both:
  "both_ok sample_errors sample_kube (sample_mock t) fst snd pair_kube_v1 pair_kube_v2 t t"
  by (auto simp: both_ok_def apart_def cluster_ok_def api_ok_def clock_within_def pair_kube_v1_def pair_kube_v2_def
      sample_mock_def time_order sample_kube_def sample_mock_ok [unfolded sample_mock_def]
      sample_kube_ok [unfolded sample_kube_def] split: option.split)

text \<open>A new v1alpha2 object under the first key, a v1alpha1 object that is being deleted under the second, whose
  silence is stored.\<close>

definition mixed ::
  "MockAlertmanagerServer \<times> (NamespacedName \<Rightarrow> Silence_v1 option) \<times> (NamespacedName \<Rightarrow> Silence_v2 option)" where
  "mixed = (fst (two_objects legacy_v1 other_v1), [other_key \<mapsto> other_v1], [sample_key \<mapsto> sample_v2])"

lemma cluster_wf_part:
  assumes "cluster_wf am K meta conv obs w" "mock_wf am w'" "mock_view w' = mock_view w"
    and "\<And>k x. obs' (snd w') k = Some x \<Longrightarrow> obs (snd w) k = Some x"
  shows "cluster_wf am K meta conv obs' w'"
  unfolding cluster_wf_def
proof (intro conjI allI impI)
  show "mock_wf am w'" by (rule assms(2))
qed (use assms(1,3,4) in \<open>unfold cluster_wf_def, metis\<close>)+

lemma mixed_wf:
  "both_wf sample_am sample_errors sample_kube (\<lambda>_. Inr 0) fst snd mixed"
proof -
  have "mock_view mixed = mock_view (two_objects legacy_v1 other_v1)"
    "mock_view mixed = mock_view (two_objects sample_v2 other_v2)"
    by (simp_all add: mixed_def mock_view_def two_objects_def fun_eq_iff)
  moreover have "mock_wf sample_am mixed"
    using two_v1_wf by (simp add: cluster_wf_def mixed_def mock_wf_def two_objects_def)
  ultimately show ?thesis
    unfolding both_wf_def
    by (intro conjI cluster_wf_part [OF two_v1_wf] cluster_wf_part [OF two_v2_wf])
      (simp_all add: mixed_def two_objects_def sample_key_def other_key_def split: if_splits)
qed

lemma mixed_keys: "inj_on (case_sum key_comment key_comment) (set [Inr sample_key, Inl other_key, Inr sample_key])"
  using two_keys(2,3) by (simp add: inj_on_def)

lemma mixed_facts:
  "snd (snd mixed) sample_key = Some sample_v2" "fst (snd mixed) other_key = Some other_v1"
  "\<not> deleting sample_kube (Meta_v2 sample_v2)" "After (EndsAt wanted_v2) day_2025"
  "deleting sample_kube (Meta_v1 other_v1)" "silenceFinalizer \<in> set (Finalizers (Meta_v1 other_v1))"
  "getSilenceFromCR_v2 sample_errors (\<lambda>_. Inr 0) sample_v2 = (Some wanted_v2, None)"
proof -
  show "snd (snd mixed) sample_key = Some sample_v2" "fst (snd mixed) other_key = Some other_v1"
    by (simp_all add: mixed_def)
  show "\<not> deleting sample_kube (Meta_v2 sample_v2)" "After (EndsAt wanted_v2) day_2025"
    "deleting sample_kube (Meta_v1 other_v1)" "silenceFinalizer \<in> set (Finalizers (Meta_v1 other_v1))"
    by code_simp+
  show "getSilenceFromCR_v2 sample_errors (\<lambda>_. Inr 0) sample_v2 = (Some wanted_v2, None)"
    using wanted_v2 unfolding kept_v2_edit by (simp add: conversion_edit(2) [OF sample_kube_ok disjI1 [OF refl]])
qed


text \<open>C12: the controllers come to rest: after a sweep over keys of both kinds with pairwise different comments, in any
  interleaving, against the mock server, any further calls for keys of that sweep change neither the objects nor the
  silences, provided that no silence asked for under these keys ends between the bounds of the clock.\<close>

theorem controllers_quiescent:
  assumes "both_ok P K M obs1 obs2 C1 C2 lo hi" "both_wf am P K PD obs1 obs2 w"
    and "inj_on (case_sum key_comment key_comment) (set ks)"
    and "reconcile_all (reconcile_either P K PD M am h C1 C2) ks w = (rs, w')"
    and "set js \<subseteq> set ks" "reconcile_all (reconcile_either P K PD M am h C1 C2) js w' = (rs', w'')"
    and "\<forall>k x s. Inl k \<in> set js \<and> obs1 (snd w) k = Some x \<and> getSilenceFromCR_v1 P x = (Some s, None) \<longrightarrow>
      After (EndsAt s) hi \<or> Before (EndsAt s) lo"
    and "\<forall>k y s. Inr k \<in> set js \<and> obs2 (snd w) k = Some y \<and> getSilenceFromCR_v2 P PD y = (Some s, None) \<longrightarrow>
      After (EndsAt s) hi \<or> Before (EndsAt s) lo"
  shows "obs1 (snd w'') = obs1 (snd w') \<and> obs2 (snd w'') = obs2 (snd w') \<and> mock_view w'' = mock_view w'"
proof -
  have "steady (case_option Leave (case_sum (aim_v1 P K lo hi) (aim_v2 P K PD lo hi)) (both_objs obs1 obs2 w k))"
    if k: "k \<in> set js" for k
  proof (cases k)
    case (Inl i)
    then show ?thesis using assms(7) k cluster_v1.steady_aim by (cases "obs1 (snd w) i") auto
  next
    case (Inr i)
    then show ?thesis using assms(8) k cluster_v2.steady_aim by (cases "obs2 (snd w) i") auto
  qed
  then have "both_objs obs1 obs2 w'' = both_objs obs1 obs2 w' \<and> mock_view w'' = mock_view w'"
    by (rule both.quiescent [OF assms(1-6)])
  then show ?thesis
    using both_objs_eq [of obs1 obs2 w'' "{}" w' K] by (auto simp: fun_eq_iff)
qed

lemma other_end:
  assumes "getSilenceFromCR_v1 sample_errors other_v1 = (Some s, None)"
  shows "Before (EndsAt s) day_2025"
proof -
  have "case fst (getSilenceFromCR_v1 sample_errors other_v1) of None \<Rightarrow> False | Some s \<Rightarrow> Before (EndsAt s) day_2025" by code_simp
  then show ?thesis using assms by simp
qed

theorem controllers_quiescent_witness:
  "\<exists>rs w' rs' w''. reconcile_all (reconcile_either sample_errors sample_kube (\<lambda>_. Inr 0) (sample_mock day_2025)
      sample_am sample_helper pair_kube_v1 pair_kube_v2) [Inr sample_key, Inl other_key, Inr sample_key] mixed = (rs, w') \<and>
    reconcile_all (reconcile_either sample_errors sample_kube (\<lambda>_. Inr 0) (sample_mock day_2025)
      sample_am sample_helper pair_kube_v1 pair_kube_v2) [Inl other_key, Inr sample_key] w' = (rs', w'') \<and>
    snd w'' = snd w' \<and> mock_view w'' = mock_view w'"
proof -
  let ?f = "reconcile_either sample_errors sample_kube (\<lambda>_. Inr 0) (sample_mock day_2025)
      sample_am sample_helper pair_kube_v1 pair_kube_v2"
  obtain rs w' where w': "reconcile_all ?f [Inr sample_key, Inl other_key, Inr sample_key] mixed = (rs, w')"
    by (rule prod.exhaust)
  obtain rs' w'' where w'': "reconcile_all ?f [Inl other_key, Inr sample_key] w' = (rs', w'')"
    by (rule prod.exhaust)
  have sub: "set [Inl other_key, Inr sample_key] \<subseteq> set [Inr sample_key, Inl other_key, Inr sample_key]" by auto
  have v2: "\<forall>k y s. Inr k \<in> set [Inl other_key, Inr sample_key] \<and> snd (snd mixed) k = Some y \<and>
      getSilenceFromCR_v2 sample_errors (\<lambda>_. Inr 0) y = (Some s, None) \<longrightarrow>
      After (EndsAt s) day_2025 \<or> Before (EndsAt s) day_2025"
    using mixed_facts(1,4,7) by auto
  have v1: "\<forall>k x s. Inl k \<in> set [Inl other_key, Inr sample_key] \<and> fst (snd mixed) k = Some x \<and>
      getSilenceFromCR_v1 sample_errors x = (Some s, None) \<longrightarrow>
      After (EndsAt s) day_2025 \<or> Before (EndsAt s) day_2025"
    using mixed_facts(2) other_end by auto
  from controllers_quiescent [OF pair_kube_both mixed_wf mixed_keys w' sub w'' v1 v2]
  have "snd w'' = snd w' \<and> mock_view w'' = mock_view w'" by (simp add: prod_eq_iff)
  then show ?thesis using w' w'' by blast
qed

end
