(* ===== verification/Disturbance.thy ===== *)
theory Disturbance
  imports Sweep
begin

section \<open>Recovery of a level-triggered controller\<close>

text \<open>
  Calls that are cut short by faults, each with a fault scenario \<open>'f\<close> of its own.  Such a call need not
  reach anything, but it may do only what \<open>disturbs\<close> allows: it touches its own object and its own silence,
  and the object keeps asking for the same, or asks for nothing any more because its silence is gone
  already.  From this it follows that a sweep after any number of disturbed calls brings
  everything to the state that the objects asked for before the first fault.
\<close>

definition disturbs ::
  "(string \<rightharpoonup> Silence) \<Rightarrow> (string \<rightharpoonup> Silence) \<Rightarrow> string \<Rightarrow> aim \<Rightarrow> aim \<Rightarrow> bool" where
  "disturbs v v' c a a' \<longleftrightarrow>
     (\<forall>d. d \<noteq> c \<longrightarrow> v' d = v d) \<and> (a = Leave \<longrightarrow> v' = v) \<and>
     (a' = a \<or> a = Absent \<and> a' = Leave \<and> v' c = None)"

lemma disturbs_refl [simp]: "disturbs v v c a a"
  by (simp add: disturbs_def)

lemma disturbs_trans:
  "\<lbrakk>disturbs v v1 c a a1; disturbs v1 v2 c a1 a2\<rbrakk> \<Longrightarrow> disturbs v v2 c a a2"
  unfolding disturbs_def by auto

text \<open>The silence under \<open>c\<close> and whether its object is held, before and after.\<close>

definition guards :: "(string \<rightharpoonup> Silence) \<Rightarrow> (string \<rightharpoonup> Silence) \<Rightarrow> string \<Rightarrow> bool \<Rightarrow> bool \<Rightarrow> bool" where
  "guards v v' c h h' \<longleftrightarrow> v' c = None \<or> h' \<or> v' c = v c \<and> \<not> h"

lemma guards_refl [simp]: "guards v v c h h"
  by (auto simp: guards_def)

lemma guards_trans: "\<lbrakk>guards v v1 c h h1; guards v1 v2 c h1 h2\<rbrakk> \<Longrightarrow> guards v v2 c h h2"
  unfolding guards_def by auto

locale disturbed = level_triggered step wf view objs after aim fails name fine ok
  for step :: "'k \<Rightarrow> 'w \<Rightarrow> 'r \<times> 'w" and wf :: "'w \<Rightarrow> bool" and view :: "'w \<Rightarrow> string \<rightharpoonup> Silence"
    and objs :: "'w \<Rightarrow> 'k \<rightharpoonup> 'o" and after :: "'o \<Rightarrow> 'o option" and aim :: "'o \<Rightarrow> aim"
    and fails :: "'o \<Rightarrow> bool" and name :: "'k \<Rightarrow> string" and fine :: 'r and ok :: bool +
  fixes faulty :: "'f \<Rightarrow> 'k \<Rightarrow> 'w \<Rightarrow> 'r \<times> 'w" and fault_ok :: "'f \<Rightarrow> bool" and held :: "'o \<Rightarrow> bool"
  assumes faulty: "\<lbrakk>ok; fault_ok f; wf w\<rbrakk> \<Longrightarrow> \<exists>r w'. faulty f k w = (r, w') \<and> wf w' \<and>
      (\<forall>j. j \<noteq> k \<longrightarrow> objs w' j = objs w j) \<and>
      disturbs (view w) (view w') (name k) (case_option Leave aim (objs w k)) (case_option Leave aim (objs w' k)) \<and>
      guards (view w) (view w') (name k) (\<exists>x. objs w k = Some x \<and> held x) (\<exists>x. objs w' k = Some x \<and> held x)"
begin

lemma faulty_calls:
  assumes ok: ok and wf: "wf w" and f: "\<forall>(f, k) \<in> set fs. fault_ok f"
    and inj: "inj_on name (set ks)" and ks: "snd ` set fs \<subseteq> set ks"
    and run: "reconcile_all (\<lambda>(f, k). faulty f k) fs w = (rs, w')"
  shows "wf w' \<and> (\<forall>c. c \<notin> name ` set ks \<longrightarrow> view w' c = view w c) \<and>
    (\<forall>k\<in>set ks. target w' k = target w k \<or> target w k = Absent \<and> target w' k = Leave \<and> view w' (name k) = None) \<and>
    (\<forall>k\<in>set ks. target w k = Leave \<longrightarrow> view w' (name k) = view w (name k))"
  using wf f ks run
proof (induction fs arbitrary: w rs)
  case (Cons fk fs)
  obtain f k where fk: "fk = (f, k)" by (cases fk)
  have k: "k \<in> set ks" and fok: "fault_ok f" using Cons.prems(2,3) fk by auto
  obtain r w1 where one: "faulty f k w = (r, w1)" "wf w1" "\<And>j. j \<noteq> k \<Longrightarrow> objs w1 j = objs w j"
    "disturbs (view w) (view w1) (name k) (target w k) (target w1 k)"
    using faulty [OF ok fok Cons.prems(1), of k] by blast
  obtain rs' where "reconcile_all (\<lambda>(f, k). faulty f k) fs w1 = (rs', w')"
    using Cons.prems(4) one(1) fk by (auto split: prod.splits)
  then have rest: "wf w'" "\<And>c. c \<notin> name ` set ks \<Longrightarrow> view w' c = view w1 c"
    "\<And>j. j \<in> set ks \<Longrightarrow> target w' j = target w1 j \<or> target w1 j = Absent \<and> target w' j = Leave \<and> view w' (name j) = None"
    "\<And>j. j \<in> set ks \<Longrightarrow> target w1 j = Leave \<Longrightarrow> view w' (name j) = view w1 (name j)"
    using Cons.IH [OF one(2)] Cons.prems(2,3) by auto
  have same: "target w1 j = target w j \<and> view w1 (name j) = view w (name j)" if "j \<in> set ks" "j \<noteq> k" for j
  proof -
    have "name j \<noteq> name k" using inj that k by (auto simp: inj_on_def)
    then show ?thesis using one(3) [OF that(2)] one(4) by (simp add: disturbs_def)
  qed
  have "view w' c = view w c" if "c \<notin> name ` set ks" for c
    using rest(2) [OF that] one(4) that k by (auto simp: disturbs_def)
  moreover have "target w' j = target w j \<or> target w j = Absent \<and> target w' j = Leave \<and> view w' (name j) = None"
    if "j \<in> set ks" for j
  proof (cases "j = k")
    case True
    then show ?thesis using rest(3,4) [OF that] one(4) unfolding disturbs_def by auto
  qed (use rest(3) [OF that] same [OF that] in auto)
  moreover have "view w' (name j) = view w (name j)" if "j \<in> set ks" "target w j = Leave" for j
  proof (cases "j = k")
    case True
    then show ?thesis using rest(4) [OF that(1)] one(4) that(2) unfolding disturbs_def by auto
  qed (use rest(4) [OF that(1)] same [OF that(1)] that(2) in auto)
  ultimately show ?case using rest(1) by blast
qed simp

lemma recovers:
  assumes ok: ok and wf: "wf w" and f: "\<forall>(f, k) \<in> set fs. fault_ok f"
    and inj: "inj_on name (set ks)" and ks: "snd ` set fs \<subseteq> set ks"
    and run: "reconcile_all (\<lambda>(f, k). faulty f k) fs w = (rs, w1)" "reconcile_all step ks w1 = (rs', w')"
  shows "wf w' \<and> (\<forall>k\<in>set ks. achieved (target w k) (name k) (view w') \<and> settled w' k) \<and>
    (\<forall>c. c \<notin> name ` set ks \<longrightarrow> view w' c = view w c)"
proof -
  note d = faulty_calls [OF ok wf f inj ks run(1)]
  then have wf1: "wf w1" by blast
  have s: "wf w'" "\<And>k. k \<in> set ks \<Longrightarrow> achieved (target w1 k) (name k) (view w')"
    "\<And>c. c \<notin> name ` {k\<in>set ks. target w1 k \<noteq> Leave} \<Longrightarrow> view w' c = view w1 c"
    using sweep [OF ok wf1 inj] run(2) by auto
  have "achieved (target w k) (name k) (view w')" if k: "k \<in> set ks" for k
  proof (cases "target w1 k = target w k")
    case True
    then show ?thesis using s(2) [OF k] by simp
  next
    case False
    then have t: "target w k = Absent" "target w1 k = Leave" "view w1 (name k) = None" using d k by auto
    have "name k \<notin> name ` {j\<in>set ks. target w1 j \<noteq> Leave}"
      using inj k t(2) by (auto simp: inj_on_def)
    then show ?thesis using s(3) t by simp
  qed
  moreover have "settled w' k" if "k \<in> set ks" for k
    using sweep_settles [OF ok wf1 inj run(2) that] by blast
  moreover have "view w' c = view w c" if "c \<notin> name ` set ks" for c
  proof -
    have "c \<notin> name ` {k\<in>set ks. target w1 k \<noteq> Leave}" using that by blast
    then show ?thesis using s(3) d that by simp
  qed
  ultimately show ?thesis using s(1) by blast
qed

text \<open>Every silence that is \<open>mine\<close> belongs to an object that is held.\<close>

definition covered :: "(Silence \<Rightarrow> bool) \<Rightarrow> 'w \<Rightarrow> bool" where
  "covered mine w \<longleftrightarrow>
     (\<forall>c s. view w c = Some s \<and> mine s \<longrightarrow> (\<exists>k x. name k = c \<and> objs w k = Some x \<and> held x))"

lemma faulty_covered:
  assumes ok: ok "fault_ok f" and wf: "wf w" and cov: "covered mine w" and run: "faulty f k w = (r, w')"
  shows "covered mine w'"
  unfolding covered_def
proof (intro allI impI, elim conjE)
  fix c s
  assume s: "view w' c = Some s" "mine s"
  have w': "\<And>j. j \<noteq> k \<Longrightarrow> objs w' j = objs w j"
    "disturbs (view w) (view w') (name k) (target w k) (target w' k)"
    "guards (view w) (view w') (name k) (\<exists>x. objs w k = Some x \<and> held x) (\<exists>x. objs w' k = Some x \<and> held x)"
    using faulty [OF ok wf, of k] run by auto
  show "\<exists>k x. name k = c \<and> objs w' k = Some x \<and> held x"
  proof (cases "c = name k \<and> (\<exists>x. objs w' k = Some x \<and> held x)")
    case False
    have v: "view w c = Some s \<and> (c = name k \<longrightarrow> \<not> (\<exists>x. objs w k = Some x \<and> held x))"
    proof (cases "c = name k")
      case True
      then show ?thesis using False w'(3) s(1) unfolding guards_def by (metis option.distinct(1))
    next
      case other: False
      then show ?thesis using w'(2) s(1) unfolding disturbs_def by metis
    qed
    then obtain j x where j: "name j = c" "objs w j = Some x" "held x"
      using cov s(2) unfolding covered_def by blast
    then have "j \<noteq> k" using v by blast
    then show ?thesis using w'(1) j by auto
  qed auto
qed

end

end
