(* ===== verification/Faults.thy ===== *)
theory Faults
  imports Mock_Store Kube_Types Controller_V1
begin

section \<open>Faults of the network and of the API server\<close>

text \<open>
  A request to Alertmanager or to Kubernetes may get lost, or its answer may (\<open>Unheard\<close>: it was carried out).  A
  process that dies in the middle of a call is one whose further requests all get lost.  An Alertmanager
  that refuses a deletion with a status other than 200 is not a fault of this kind: the client takes it for
  a success (\<open>DeleteSilenceByID_ignores_status\<close>).
\<close>

datatype fault = Works | Lost go_error | Unheard go_error

fun with_fault :: "fault \<Rightarrow> ('w \<Rightarrow> (go_error + 'a) \<times> 'w) \<Rightarrow> 'w \<Rightarrow> (go_error + 'a) \<times> 'w" where
  "with_fault Works f w = f w"
| "with_fault (Lost e) f w = (Inl e, w)"
| "with_fault (Unheard e) f w = (Inl e, snd (f w))"

fun fault_error :: "fault \<Rightarrow> go_error option" where
  "fault_error Works = None"
| "fault_error (Lost e) = Some e"
| "fault_error (Unheard e) = Some e"

text \<open>When faults strike, by what is asked for and the state of the world.\<close>

record 'w faults =
  request_fault :: "http_request \<Rightarrow> 'w \<Rightarrow> fault"
  read_fault :: "NamespacedName \<Rightarrow> 'w \<Rightarrow> fault"
  write_fault :: "ObjectMeta \<Rightarrow> 'w \<Rightarrow> fault"

definition faulty_env :: "'w faults \<Rightarrow> ('w, Time) Env \<Rightarrow> ('w, Time) Env" where
  "faulty_env F E = E\<lparr>http_Do := \<lambda>req w. with_fault (request_fault F req w) (http_Do E req) w\<rparr>"

definition faulty_kube :: "'w faults \<Rightarrow> ('obj \<Rightarrow> ObjectMeta) \<Rightarrow> ('w, 'obj) KubeClient \<Rightarrow> ('w, 'obj) KubeClient" where
  "faulty_kube F meta C = \<lparr>
     Kube_Get = (\<lambda>k w. with_fault (read_fault F k w) (Kube_Get C k) w),
     Kube_Update = (\<lambda>x w. with_fault (write_fault F (meta x) w) (Kube_Update C x) w)\<rparr>"

text \<open>The network's errors are not the client's own.\<close>

definition faults_ok :: "'w faults \<Rightarrow> bool" where
  "faults_ok F \<longleftrightarrow>
     (\<forall>req w. pred_option (\<lambda>e. \<not> errors_Is e ErrSilenceNotFound) (fault_error (request_fault F req w)))"

lemma faulty_env_sel [simp]:
  "url_Parse_error (faulty_env F E) = url_Parse_error E" "time_Now (faulty_env F E) = time_Now E"
  "http_Do (faulty_env F E) req w = with_fault (request_fault F req w) (http_Do E req) w"
  by (simp_all add: faulty_env_def)

lemma NewRequest_faulty [simp]: "NewRequest (faulty_env F E) = NewRequest E"
  by (intro ext) (simp add: NewRequest_def http_NewRequest_def)

text \<open>An operation of one request is carried out or fails, with or without its effect.\<close>

definition fails_or ::
  "'w \<Rightarrow> (go_error option \<times> 'w) \<Rightarrow> (go_error option \<times> 'w) \<Rightarrow> bool" where
  "fails_or w res res' \<longleftrightarrow> res' = res \<or>
     (\<exists>e w'. res' = (Some e, w') \<and> \<not> errors_Is e ErrSilenceNotFound \<and> (w' = w \<or> w' = snd res))"

lemma annotated_fault:
  assumes "errors_pkg_ok P" "\<not> errors_Is e ErrSilenceNotFound"
  shows "\<exists>e'. WithStack P (Some e) = Some e' \<and> \<not> errors_Is e' ErrSilenceNotFound"
  using errors_pkg_Some(1) [OF assms(1), of e] errors_pkg_is(1) [OF assms(1), of "Some e"] assms(2)
  unfolding ErrSilenceNotFound_def by (metis errors_Is_opt_simps(2))

lemma ListSilences_faulty:
  assumes P: "errors_pkg_ok P" and F: "faults_ok F"
  shows "ListSilences P (faulty_env F E) am t w = ListSilences P E am t w \<or>
    (\<exists>e w'. ListSilences P (faulty_env F E) am t w = ((None, Some e), w') \<and> \<not> errors_Is e ErrSilenceNotFound \<and>
      (w' = w \<or> w' = snd (ListSilences P E am t w)))"
proof (cases "NewRequest E am ''GET'' (address am @ apiV2SilencesPath) None t")
  case (Inr req)
  let ?q = "authorize am req"
  note f = F [unfolded faults_ok_def, rule_format, of ?q w]
  show ?thesis
  proof (cases "request_fault F ?q w")
    case (Lost e)
    then show ?thesis using annotated_fault [OF P, of e] f Inr by (auto simp: ListSilences_def)
  next
    case (Unheard e)
    then show ?thesis
      using annotated_fault [OF P, of e] f Inr by (auto simp: ListSilences_def split: prod.splits sum.splits)
  qed (simp add: ListSilences_def Inr)
qed (simp add: ListSilences_def)

lemma CreateSilence_faulty:
  assumes P: "errors_pkg_ok P" and F: "faults_ok F"
  shows "fails_or w (CreateSilence P E am s t w) (CreateSilence P (faulty_env F E) am s t w)"
proof (cases "json_Marshal s")
  case body: (Inr body)
  show ?thesis
  proof (cases "NewRequest E am ''POST'' (address am @ apiV2SilencesPath) (Some body) t")
    case (Inr req)
    let ?q = "authorize am (Header_Add ''Content-Type'' ''application/json'' req)"
    note f = F [unfolded faults_ok_def, rule_format, of ?q w]
    show ?thesis
    proof (cases "request_fault F ?q w")
      case (Lost e)
      then show ?thesis using annotated_fault [OF P, of e] f Inr body by (auto simp: CreateSilence_def fails_or_def)
    next
      case (Unheard e)
      then show ?thesis
        using annotated_fault [OF P, of e] f Inr body
        by (auto simp: CreateSilence_def fails_or_def split: prod.splits sum.splits)
    qed (simp add: CreateSilence_def fails_or_def Inr body)
  qed (simp add: CreateSilence_def fails_or_def body)
qed (simp add: CreateSilence_def fails_or_def)

lemma UpdateSilence_faulty:
  assumes "errors_pkg_ok P" "faults_ok F"
  shows "fails_or w (UpdateSilence P E am s t w) (UpdateSilence P (faulty_env F E) am s t w)"
  using CreateSilence_faulty [OF assms] by (simp add: UpdateSilence_def) (simp add: fails_or_def)

lemma DeleteSilenceByID_faulty:
  assumes P: "errors_pkg_ok P" and F: "faults_ok F"
  shows "fails_or w (DeleteSilenceByID P E am i t w) (DeleteSilenceByID P (faulty_env F E) am i t w)"
proof (cases "NewRequest E am ''DELETE'' (address am @ apiV2SilencePath @ ''/'' @ PathEscape i) None t")
  case (Inr req)
  let ?q = "authorize am (Header_Add ''Content-Type'' ''application/json'' req)"
  note f = F [unfolded faults_ok_def, rule_format, of ?q w]
  show ?thesis
  proof (cases "request_fault F ?q w")
    case (Lost e)
    then show ?thesis using annotated_fault [OF P, of e] f Inr by (auto simp: DeleteSilenceByID_def fails_or_def)
  next
    case (Unheard e)
    then show ?thesis
      using annotated_fault [OF P, of e] f Inr
      by (auto simp: DeleteSilenceByID_def fails_or_def Let_def split: prod.splits sum.splits)
  qed (use Inr in \<open>simp add: DeleteSilenceByID_def fails_or_def\<close>)
qed (simp add: DeleteSilenceByID_def fails_or_def)

subsection \<open>The service under faults\<close>

text \<open>A client \<open>C'\<close> whose operations are those of \<open>C\<close>, or fail, with or without their effect.\<close>

locale faulty_store = comment_store P E C wf view storable ok
  for P :: errors_pkg and E :: "('w, Time) Env" and C :: "'w Client"
    and wf :: "'w \<Rightarrow> bool" and view :: "'w \<Rightarrow> string \<rightharpoonup> Silence"
    and storable :: "Silence \<Rightarrow> bool" and ok :: bool +
  fixes E' :: "('w, Time) Env" and C' :: "'w Client" and fok :: bool
  assumes same_clock: "time_Now E' = time_Now E"
    and get_fails: "\<lbrakk>ok; fok; wf w\<rbrakk> \<Longrightarrow>
      Client_GetSilenceByComment C' c t w = Client_GetSilenceByComment C c t w \<or>
      (\<exists>e w'. Client_GetSilenceByComment C' c t w = ((None, Some e), w') \<and> \<not> errors_Is e ErrSilenceNotFound \<and>
        wf w' \<and> view w' = view w)"
    and create_fails: "\<lbrakk>ok; fok\<rbrakk> \<Longrightarrow> fails_or w (Client_CreateSilence C s t w) (Client_CreateSilence C' s t w)"
    and update_fails: "\<lbrakk>ok; fok\<rbrakk> \<Longrightarrow> fails_or w (Client_UpdateSilence C s t w) (Client_UpdateSilence C' s t w)"
    and delete_id_fails: "\<lbrakk>ok; fok\<rbrakk> \<Longrightarrow>
      fails_or w (Client_DeleteSilenceByID C i t w) (Client_DeleteSilenceByID C' i t w)"
    and delete_fails: "\<lbrakk>ok; fok; wf w; pred_option (\<lambda>s. CreatedBy s = CreatedBy_operator) (view w c)\<rbrakk> \<Longrightarrow>
      Client_DeleteSilenceByComment C' c t w = Client_DeleteSilenceByComment C c t w \<or>
      (\<exists>e w'. Client_DeleteSilenceByComment C' c t w = (Some e, w') \<and> \<not> errors_Is e ErrSilenceNotFound \<and>
        wf w' \<and> (view w' = view w \<or> view w' = (view w)(c := None)))"
begin

text \<open>What a synchronisation may do to the silence under its comment.\<close>

definition touched :: "Silence \<Rightarrow> 'w \<Rightarrow> 'w \<Rightarrow> bool" where
  "touched wanted w w' \<longleftrightarrow> wf w' \<and> (\<exists>u. view w' = (view w)(Comment wanted := u) \<and>
     (\<forall>x. u = Some x \<longrightarrow> view w (Comment wanted) = Some x \<or> CreatedBy x = CreatedBy wanted))"

lemma touched_refl: "\<lbrakk>wf w'; view w' = view w\<rbrakk> \<Longrightarrow> touched wanted w w'"
  unfolding touched_def by (intro conjI exI [of _ "view w (Comment wanted)"]) simp_all

lemma touched_put: "\<lbrakk>wf w'; view w' = (view w)(Comment wanted \<mapsto> x); CreatedBy x = CreatedBy wanted\<rbrakk>
    \<Longrightarrow> touched wanted w w'"
  unfolding touched_def by (intro conjI exI [of _ "Some x"]) simp_all

lemma touched_gone: "\<lbrakk>wf w'; view w' = (view w)(Comment wanted := None)\<rbrakk> \<Longrightarrow> touched wanted w w'"
  unfolding touched_def by (intro conjI exI [of _ None]) simp_all

lemma fails_or_touched:
  assumes "fails_or w1 res res'" "touched wanted w (snd res)" "touched wanted w w1"
  shows "touched wanted w (snd res')"
  using assms by (auto simp: fails_or_def)

text \<open>What the look-up under faults finds.\<close>

lemma get_cases:
  assumes ok: ok fok and wf: "wf w"
  obtains (err) e w' where "Client_GetSilenceByComment C' c t w = ((None, Some e), w')"
      "\<not> errors_Is e ErrSilenceNotFound" "wf w'" "view w' = view w"
    | (missing) e w' where "Client_GetSilenceByComment C' c t w = ((None, Some e), w')"
      "errors_Is e ErrSilenceNotFound" "wf w'" "view w' = view w" "view w c = None"
    | (found) old w' where "Client_GetSilenceByComment C' c t w = ((Some old, None), w')"
      "wf w'" "view w' = view w" "view w c = Some old"
  using get_fails [OF ok wf, of c t] get_found [OF ok(1) wf, of c _ t] get_missing [OF ok(1) wf, of c t]
  by (cases "view w c") (simp, metis, simp, metis)

text \<open>The changes that may follow it.\<close>

lemma create_touches:
  assumes ok: ok fok and w: "wf w" "view w (Comment s) = None" and s: "storable s" "ID s = ''''"
  shows "touched s w (snd (Client_CreateSilence C' s t w))"
proof -
  obtain w' x where "Client_CreateSilence C s t w = (None, w')" "wf w'" "same_content x s"
    "view w' = (view w)(Comment s \<mapsto> x)"
    using create [OF ok(1) w(1) s w(2), of t] by blast
  then have "touched s w (snd (Client_CreateSilence C s t w))"
    by (intro touched_put [of _ _ _ x]) (simp_all add: same_content_def)
  from fails_or_touched [OF create_fails [OF ok] this touched_refl [OF w(1) refl]] show ?thesis .
qed

lemma change_touches:
  assumes ok: ok fok and w: "wf w" "view w (Comment s) = Some old" and s: "storable s"
  shows "touched s w (snd (Client_DeleteSilenceByID C' (ID old) t w))"
    "touched s w (snd (Client_UpdateSilence C' (s\<lparr>ID := ID old\<rparr>) t w))"
proof -
  obtain w' where "Client_DeleteSilenceByID C (ID old) t w = (None, w')" "wf w'" "view w' = (view w)(Comment s := None)"
    using delete_id [OF ok(1) w, of t] by blast
  then have "touched s w (snd (Client_DeleteSilenceByID C (ID old) t w))" by (intro touched_gone) simp_all
  from fails_or_touched [OF delete_id_fails [OF ok] this touched_refl [OF w(1) refl]]
  show "touched s w (snd (Client_DeleteSilenceByID C' (ID old) t w))" .
  let ?s = "s\<lparr>ID := ID old\<rparr>"
  obtain w' x where "Client_UpdateSilence C ?s t w = (None, w')" "wf w'" "same_content x ?s"
    "view w' = (view w)(Comment s \<mapsto> x)"
    using update [OF ok(1) w(1) storable_id [OF w s], of old t] w(2) by auto
  then have "touched s w (snd (Client_UpdateSilence C ?s t w))"
    by (intro touched_put [of _ _ _ x]) (simp_all add: same_content_def)
  from fails_or_touched [OF update_fails [OF ok] this touched_refl [OF w(1) refl]]
  show "touched s w (snd (Client_UpdateSilence C' ?s t w))" .
qed

lemma touched_same: "view w1 = view w \<Longrightarrow> touched s w1 w' = touched s w w'"
  by (simp add: touched_def)

lemma sync_faulty:
  assumes ok: ok fok and wf: "wf w" and s: "storable wanted" "ID wanted = ''''"
  shows "\<exists>r w'. SyncSilence P E' (NewSilenceService C') (Some wanted) t w = (Returns r, w') \<and> touched wanted w w'"
proof -
  obtain now w1 where now: "time_Now E w = (now, w1)" by (metis prod.exhaust)
  note c = clock [OF wf now]
  have sync: "SyncSilence P E' (NewSilenceService C') (Some wanted) t w =
      SyncSilence P (E\<lparr>time_Now := \<lambda>w. (now, w)\<rparr>) (NewSilenceService C') (Some wanted) t w1"
    using now by (simp add: SyncSilence_def same_clock)
  from c have "wf w1" by blast
  from ok this show ?thesis
  proof (cases rule: get_cases [of w1 "Comment wanted" t])
    case (err e w2)
    then have "touched wanted w w2" using c by (intro touched_refl) simp_all
    then show ?thesis using err by (simp add: sync) (simp add: SyncSilence_def NewSilenceService_def)
  next
    case (missing e w2)
    have "touched wanted w w2" using missing c by (intro touched_refl) simp_all
    moreover have "touched wanted w (snd (Client_CreateSilence C' wanted t w2))"
      using create_touches [OF ok missing(3) _ s, of t] missing(4,5) c touched_same [of w2 w] by simp
    ultimately show ?thesis using missing
      by (auto simp: sync) (auto simp: SyncSilence_def NewSilenceService_def split: prod.splits)
  next
    case (found old w2)
    have "touched wanted w w2" using found c by (intro touched_refl) simp_all
    moreover have "touched wanted w (snd (Client_DeleteSilenceByID C' (ID old) t w2))"
        "touched wanted w (snd (Client_UpdateSilence C' (wanted\<lparr>ID := ID old\<rparr>) t w2))"
      using change_touches [OF ok found(2) _ s(1), of old t] found(3,4) c touched_same [of w2 w] by simp_all
    ultimately show ?thesis using found
      by (auto simp: sync) (auto simp: SyncSilence_def NewSilenceService_def split: prod.splits)
  qed
qed

lemma delete_faulty:
  assumes ok: ok fok and wf: "wf w" and own: "pred_option (\<lambda>s. CreatedBy s = CreatedBy_operator) (view w c)"
  shows "\<exists>r w'. DeleteSilence P (NewSilenceService C') c t w = (r, w') \<and> wf w' \<and>
    (view w' = view w \<or> view w' = (view w)(c := None)) \<and> (r = None \<longrightarrow> view w' c = None)"
proof (cases "Client_DeleteSilenceByComment C' c t w = Client_DeleteSilenceByComment C c t w")
  case True
  have "\<exists>w'. DeleteSilence P (NewSilenceService C) c t w = (None, w') \<and> wf w' \<and> view w' = (view w)(c := None)"
    by (rule delete_gone [OF ok(1) wf]) (use own in simp)
  then obtain w' where "DeleteSilence P (NewSilenceService C) c t w = (None, w')"
    "wf w'" "view w' = (view w)(c := None)" by blast
  moreover have "DeleteSilence P (NewSilenceService C') c t w = DeleteSilence P (NewSilenceService C) c t w"
    using True by (simp add: DeleteSilence_def NewSilenceService_def)
  ultimately show ?thesis by auto
next
  case False
  then obtain e w' where e: "Client_DeleteSilenceByComment C' c t w = (Some e, w')" "\<not> errors_Is e ErrSilenceNotFound"
    "wf w'" "view w' = view w \<or> view w' = (view w)(c := None)"
    using delete_fails [OF ok wf own, of t] by blast
  obtain y where "Wrapf P (Some e) ''failed to delete silence from Alertmanager'' [] = Some y"
    using errors_pkg_Some(3) [OF ok_errors [OF ok(1)]] by blast
  then show ?thesis using e by (simp add: DeleteSilence_def NewSilenceService_def)
qed

end

subsection \<open>The client against the mock server under faults\<close>

lemma ListSilences_mock_world:
  assumes "mock_lib_ok M" "mock_wf am (m, n)"
  shows "snd (ListSilences P (mock_env M) am t (m, n)) = (m, tick M n)"
  using ListSilences_mock [OF assms, of P t] by auto

lemma GetSilenceByComment_faulty:
  assumes ok: "mock_ok P M" and F: "faults_ok F" and wf: "mock_wf am (m, n)"
  shows "GetSilenceByComment P (faulty_env F (mock_env M)) am c t (m, n) = GetSilenceByComment P (mock_env M) am c t (m, n) \<or>
    (\<exists>e w'. GetSilenceByComment P (faulty_env F (mock_env M)) am c t (m, n) = ((None, Some e), w') \<and>
      \<not> errors_Is e ErrSilenceNotFound \<and> (w' = (m, n) \<or> w' = (m, tick M n)))"
proof -
  have P: "errors_pkg_ok P" and M: "mock_lib_ok M" using ok by (simp_all add: mock_ok_def)
  show ?thesis
  proof (cases "ListSilences P (faulty_env F (mock_env M)) am t (m, n) = ListSilences P (mock_env M) am t (m, n)")
    case False
    then obtain e w' where l: "ListSilences P (faulty_env F (mock_env M)) am t (m, n) = ((None, Some e), w')"
      "\<not> errors_Is e ErrSilenceNotFound" "w' = (m, n) \<or> w' = (m, tick M n)"
      using ListSilences_faulty [OF P F, of "mock_env M" am t "(m, n)"] ListSilences_mock_world [OF M wf] by metis
    obtain e' where "WithStack P (Some e) = Some e'" "\<not> errors_Is e' ErrSilenceNotFound"
      using annotated_fault [OF P l(2)] by blast
    then show ?thesis using l by (auto simp: GetSilenceByComment_def)
  qed (simp add: GetSilenceByComment_def)
qed

lemma DeleteSilenceByComment_faulty:
  assumes ok: "mock_ok P M" and F: "faults_ok F" and wf: "mock_wf am (m, n)"
  shows "DeleteSilenceByComment P (faulty_env F (mock_env M)) am c t (m, n) =
      DeleteSilenceByComment P (mock_env M) am c t (m, n) \<or>
    (\<exists>e w'. DeleteSilenceByComment P (faulty_env F (mock_env M)) am c t (m, n) = (Some e, w') \<and>
      \<not> errors_Is e ErrSilenceNotFound \<and>
      (w' = (m, n) \<or> w' = (m, tick M n) \<or> w' = snd (DeleteSilenceByComment P (mock_env M) am c t (m, n))))"
proof -
  have P: "errors_pkg_ok P" and M: "mock_lib_ok M" using ok by (simp_all add: mock_ok_def)
  show ?thesis
  proof (cases "ListSilences P (faulty_env F (mock_env M)) am t (m, n) = ListSilences P (mock_env M) am t (m, n)")
    case True
    obtain ss where ss: "ListSilences P (mock_env M) am t (m, n) = ((ss, None), (m, tick M n))"
      using ListSilences_mock [OF M wf] by blast
    have "fails_or (m, tick M n) (DeleteSilenceByID P (mock_env M) am i t (m, tick M n))
        (DeleteSilenceByID P (faulty_env F (mock_env M)) am i t (m, tick M n))" for i
      by (rule DeleteSilenceByID_faulty [OF P F])
    then show ?thesis
      using True ss by (auto simp: DeleteSilenceByComment_def fails_or_def split: option.split)
  next
    case False
    then obtain e w' where l: "ListSilences P (faulty_env F (mock_env M)) am t (m, n) = ((None, Some e), w')"
      "\<not> errors_Is e ErrSilenceNotFound" "w' = (m, n) \<or> w' = (m, tick M n)"
      using ListSilences_faulty [OF P F, of "mock_env M" am t "(m, n)"] ListSilences_mock_world [OF M wf] by metis
    obtain e' where "WithStack P (Some e) = Some e'" "\<not> errors_Is e' ErrSilenceNotFound"
      using annotated_fault [OF P l(2)] by blast
    then show ?thesis using l by (auto simp: DeleteSilenceByComment_def)
  qed
qed

interpretation framed_faulty: faulty_store P "mock_env M" "Alertmanager_Client P (mock_env M) am"
    "\<lambda>w. mock_wf am w \<and> G (snd w)" mock_view storable "mock_ok P M \<and> (\<forall>n. G n \<longrightarrow> G (tick M n))"
    "faulty_env F (mock_env M)" "Alertmanager_Client P (faulty_env F (mock_env M)) am" "faults_ok F"
  for P :: errors_pkg and M :: "'x mock_lib" and am :: Alertmanager and G :: "'x \<Rightarrow> bool"
    and F :: "'x mock_world faults"
proof
  show "time_Now (faulty_env F (mock_env M)) = time_Now (mock_env M)" by simp
next
  fix w :: "'x mock_world" and c t :: string
  obtain m n where w: "w = (m, n)" by (cases w)
  assume ok: "mock_ok P M \<and> (\<forall>n. G n \<longrightarrow> G (tick M n))" "faults_ok F" and wf: "mock_wf am w \<and> G (snd w)"
  have wf': "mock_wf am (m, n)" using wf by (simp add: w)
  have tick: "mock_wf am (m, tick M n)" "G (tick M n)" "mock_view (m, tick M n) = mock_view (m, n)"
    using ok wf by (simp_all add: w)
  show "Client_GetSilenceByComment (Alertmanager_Client P (faulty_env F (mock_env M)) am) c t w =
      Client_GetSilenceByComment (Alertmanager_Client P (mock_env M) am) c t w \<or>
    (\<exists>e w'. Client_GetSilenceByComment (Alertmanager_Client P (faulty_env F (mock_env M)) am) c t w = ((None, Some e), w') \<and>
      \<not> errors_Is e ErrSilenceNotFound \<and> (mock_wf am w' \<and> G (snd w')) \<and> mock_view w' = mock_view w)"
    using GetSilenceByComment_faulty [OF conjunct1 [OF ok(1)] ok(2) wf', of c t] tick wf unfolding w by auto
  assume own: "pred_option (\<lambda>s. CreatedBy s = CreatedBy_operator) (mock_view w c)"
  have "\<exists>r w'. DeleteSilenceByComment P (mock_env M) am c t (m, n) = (r, w') \<and> (mock_wf am w' \<and> G (snd w')) \<and>
      (mock_view w' = mock_view w \<or> mock_view w' = (mock_view w)(c := None))"
    using framed.delete_missing [OF ok(1) wf, of c t] framed.delete_found [OF ok(1) wf, of c _ t] own
    by (cases "mock_view w c") (auto simp: w)
  then show "Client_DeleteSilenceByComment (Alertmanager_Client P (faulty_env F (mock_env M)) am) c t w =
      Client_DeleteSilenceByComment (Alertmanager_Client P (mock_env M) am) c t w \<or>
    (\<exists>e w'. Client_DeleteSilenceByComment (Alertmanager_Client P (faulty_env F (mock_env M)) am) c t w = (Some e, w') \<and>
      \<not> errors_Is e ErrSilenceNotFound \<and> (mock_wf am w' \<and> G (snd w')) \<and>
      (mock_view w' = mock_view w \<or> mock_view w' = (mock_view w)(c := None)))"
    using DeleteSilenceByComment_faulty [OF conjunct1 [OF ok(1)] ok(2) wf', of c t] own tick wf unfolding w by fastforce
next
  fix w :: "'x mock_world" and s :: Silence and i t :: string
  assume "mock_ok P M \<and> (\<forall>n. G n \<longrightarrow> G (tick M n))" "faults_ok F"
  then have ok: "errors_pkg_ok P" "faults_ok F" by (simp_all add: mock_ok_def)
  show "fails_or w (Client_CreateSilence (Alertmanager_Client P (mock_env M) am) s t w)
      (Client_CreateSilence (Alertmanager_Client P (faulty_env F (mock_env M)) am) s t w)"
    "fails_or w (Client_UpdateSilence (Alertmanager_Client P (mock_env M) am) s t w)
      (Client_UpdateSilence (Alertmanager_Client P (faulty_env F (mock_env M)) am) s t w)"
    "fails_or w (Client_DeleteSilenceByID (Alertmanager_Client P (mock_env M) am) i t w)
      (Client_DeleteSilenceByID (Alertmanager_Client P (faulty_env F (mock_env M)) am) i t w)"
    using CreateSilence_faulty [OF ok] UpdateSilence_faulty [OF ok] DeleteSilenceByID_faulty [OF ok] by simp_all
qed

end
