(* ===== verification/Faulty_Flow.thy ===== *)
theory Faulty_Flow
  imports Level_Flow Disturbance
begin

section \<open>The flow of both controllers under faults\<close>

text \<open>
  The flow with operations that fail, before or after their effect: \<open>C'\<close>, \<open>del'\<close>, \<open>cleanup'\<close> and \<open>create'\<close>, for every
  fault scenario.  A call that is cut short anywhere only disturbs what it works on, so the controllers
  are \<open>disturbed\<close>: in particular a finalizer goes only when the silence is gone already.
\<close>

locale faulty_flow = level_flow K fin L meta upd C fail del cleanup create wf view objs wants ok
  for K :: kube_lib and fin :: string and L :: "string option" and meta :: "'obj \<Rightarrow> ObjectMeta"
    and upd :: "(ObjectMeta \<Rightarrow> ObjectMeta) \<Rightarrow> 'obj \<Rightarrow> 'obj" and C :: "('w, 'obj) KubeClient"
    and fail :: "go_error option \<Rightarrow> go_error option"
    and del :: "'obj \<Rightarrow> 'w \<Rightarrow> go_error option \<times> 'w"
    and cleanup :: "'obj \<Rightarrow> 'w \<Rightarrow> ('obj \<times> go_error option) \<times> 'w"
    and create :: "'obj \<Rightarrow> 'w \<Rightarrow> go_error option outcome \<times> 'w"
    and wf :: "'w \<Rightarrow> bool" and view :: "'w \<Rightarrow> string \<rightharpoonup> Silence" and objs :: "'w \<Rightarrow> NamespacedName \<rightharpoonup> 'obj"
    and wants :: "'obj \<Rightarrow> aim" and ok :: bool +
  fixes C' :: "'f \<Rightarrow> ('w, 'obj) KubeClient"
    and del' :: "'f \<Rightarrow> 'obj \<Rightarrow> 'w \<Rightarrow> go_error option \<times> 'w"
    and cleanup' :: "'f \<Rightarrow> 'obj \<Rightarrow> 'w \<Rightarrow> ('obj \<times> go_error option) \<times> 'w"
    and create' :: "'f \<Rightarrow> 'obj \<Rightarrow> 'w \<Rightarrow> go_error option outcome \<times> 'w"
    and fok :: "'f \<Rightarrow> bool"
  assumes get_faulty: "\<lbrakk>ok; wf w\<rbrakk> \<Longrightarrow>
      Kube_Get (C' f) k w = Kube_Get C k w \<or> (\<exists>e. Kube_Get (C' f) k w = (Inl e, w))"
    and update_faulty: "Kube_Update (C' f) x w = Kube_Update C x w \<or>
      (\<exists>e w'. Kube_Update (C' f) x w = (Inl e, w') \<and> (w' = w \<or> w' = snd (Kube_Update C x w)))"
    and del_faulty: "\<lbrakk>ok; fok f; wf w; objs w k = Some x\<rbrakk> \<Longrightarrow>
      \<exists>r w'. del' f x w = (r, w') \<and> wf w' \<and> objs w' = objs w \<and>
        (view w' = view w \<or> view w' = (view w)(key_comment k := None)) \<and> (r = None \<longrightarrow> view w' (key_comment k) = None)"
    and create_faulty: "\<lbrakk>ok; fok f; wf w; objs w k = Some x\<rbrakk> \<Longrightarrow>
      \<exists>r w'. create' f x w = (r, w') \<and> wf w' \<and> objs w' = objs w \<and>
        (\<forall>d. d \<noteq> key_comment k \<longrightarrow> view w' d = view w d) \<and> (wants x = Leave \<longrightarrow> view w' = view w)"
    and cleanup_none': "(\<And>l. L = Some l \<Longrightarrow> \<not> ContainsFinalizer K (meta x) l) \<Longrightarrow> cleanup' f x w = ((x, None), w)"
    and cleanup_some': "\<lbrakk>ok; L = Some l; ContainsFinalizer K (meta x) l;
      Kube_Update (C' f) (upd (\<lambda>m. RemoveFinalizer K m l) x) w = (r, w')\<rbrakk> \<Longrightarrow>
      (case r of Inr y \<Rightarrow> cleanup' f x w = ((y, None), w')
       | Inl e \<Rightarrow> \<exists>y e'. cleanup' f x w = ((y, Some e'), w'))"
begin

abbreviation faulty_run :: "'f \<Rightarrow> NamespacedName \<Rightarrow> 'w \<Rightarrow> go_error option outcome \<times> 'w" where
  "faulty_run f \<equiv> flow K fin meta upd (C' f) fail (del' f) (cleanup' f) (create' f)"

text \<open>What a part of a call does to the object and the silence of a key.\<close>

abbreviation held :: "'obj \<Rightarrow> bool" where
  "held x \<equiv> ContainsFinalizer K (meta x) fin"

abbreviation holds :: "'w \<Rightarrow> NamespacedName \<Rightarrow> bool" where
  "holds w k \<equiv> (\<exists>x. objs w k = Some x \<and> held x)"

definition keeps :: "NamespacedName \<Rightarrow> 'w \<Rightarrow> 'w \<Rightarrow> bool" where
  "keeps k w w' \<longleftrightarrow> wf w' \<and> (\<forall>j. j \<noteq> k \<longrightarrow> objs w' j = objs w j) \<and>
     disturbs (view w) (view w') (key_comment k) (target w k) (target w' k) \<and>
     guards (view w) (view w') (key_comment k) (holds w k) (holds w' k)"

lemma keeps_refl: "wf w \<Longrightarrow> keeps k w w"
  by (simp add: keeps_def)

lemma keeps_trans:
  assumes "keeps k w w1" "keeps k w1 w2"
  shows "keeps k w w2"
  unfolding keeps_def
proof (intro conjI)
  show "disturbs (view w) (view w2) (key_comment k) (target w k) (target w2 k)"
    by (rule disturbs_trans) (use assms in \<open>(unfold keeps_def, blast)+\<close>)
  show "guards (view w) (view w2) (key_comment k) (holds w k) (holds w2 k)"
    by (rule guards_trans) (use assms in \<open>(unfold keeps_def, blast)+\<close>)
qed (use assms in \<open>simp_all add: keeps_def\<close>)

text \<open>Steps that leave the silence alone, and do not take the finalizer.\<close>

lemma keeps_object:
  assumes "wf w'" "view w' = view w" "objs w' = objs w \<or> objs w' = (objs w)(k := u)"
    and "case_option Leave (object_aim K fin meta wants) u = target w k" "holds w k \<longrightarrow> (\<exists>x. u = Some x \<and> held x)"
  shows "keeps k w w'"
  using assms by (auto simp: keeps_def guards_def)

text \<open>A write of the object with its finalizers edited.\<close>

lemma write_faulty:
  assumes ok: ok and wf: "wf w" and x: "objs w k = Some x" and g: "g = AddFinalizer K \<or> g = RemoveFinalizer K"
  shows "\<exists>r w'. Kube_Update (C' f) (upd (\<lambda>m. g m i) x) w = (r, w') \<and> wf w' \<and> view w' = view w \<and>
    (objs w' = objs w \<or> objs w' = (objs w)(k := stored (upd (\<lambda>m. g m i) x))) \<and>
    (\<forall>y. r = Inr y \<longrightarrow> y = upd (\<lambda>m. g m i) x \<and> objs w' = (objs w)(k := stored y))"
proof -
  let ?y = "upd (\<lambda>m. g m i) x"
  obtain w1 where w1: "Kube_Update C ?y w = (Inr ?y, w1)" "wf w1" "view w1 = view w" "objs w1 = (objs w)(k := stored ?y)"
    using update_law [OF ok wf x g] by blast
  show ?thesis
    using update_faulty [of f ?y w] w1 wf by fastforce
qed

lemma target_stripped:
  assumes ok: ok and l: "L = Some l"
  shows "case_option Leave (object_aim K fin meta wants) (stored (upd (\<lambda>m. RemoveFinalizer K m l) x)) =
    case_option Leave (object_aim K fin meta wants) (stored x)"
proof -
  let ?y = "upd (\<lambda>m. RemoveFinalizer K m l) x"
  have y: "deleting K (meta ?y) = deleting K (meta x)" "wants ?y = wants x"
    using edits [OF ok disjI2 [OF refl]] by blast+
  have f: "ContainsFinalizer K (meta ?y) fin = ContainsFinalizer K (meta x) fin"
    using kube_finalizers [OF ok_lib [OF ok]] other_finalizer l by (auto simp: meta_upd)
  have "\<not> ContainsFinalizer K (meta z) fin" if "Finalizers (meta z) = []" for z
    using kube_finalizers(1) [OF ok_lib [OF ok]] that by simp
  then show ?thesis using f y by (auto simp: stored_as_def object_aim_def)
qed

lemma cleanup_faulty:
  assumes ok: ok and wf: "wf w" and k: "objs w k = stored x"
  shows "\<exists>r w'. cleanup' f x w = (r, w') \<and> keeps k w w' \<and>
    (\<forall>y. r = (y, None) \<longrightarrow> objs w' k = stored y \<and> deleting K (meta y) = deleting K (meta x) \<and> held y = held x)"
proof (cases "\<exists>l. L = Some l \<and> ContainsFinalizer K (meta x) l")
  case True
  then obtain l where l: "L = Some l" "ContainsFinalizer K (meta x) l" by blast
  then have x: "objs w k = Some x"
    using k kube_finalizers(1) [OF ok_lib [OF ok]] by (auto simp: stored_as_def)
  let ?y = "upd (\<lambda>m. RemoveFinalizer K m l) x"
  obtain r w' where u: "Kube_Update (C' f) ?y w = (r, w')" "wf w'" "view w' = view w"
    "objs w' = objs w \<or> objs w' = (objs w)(k := stored ?y)"
    "\<And>y. r = Inr y \<Longrightarrow> y = ?y \<and> objs w' = (objs w)(k := stored y)"
    using write_faulty [OF ok wf x disjI2 [OF refl], of f l] by blast
  have "stored x = Some x" using k x by simp
  moreover have hy: "held ?y = held x"
    using kube_finalizers [OF ok_lib [OF ok]] other_finalizer l(1) by (auto simp: meta_upd)
  moreover have "stored ?y = Some ?y" if "held ?y"
    unfolding stored_as_def using kube_finalizers(1) [OF ok_lib [OF ok], of "meta ?y" fin] that by fastforce
  then have "holds w k \<longrightarrow> (\<exists>z. stored ?y = Some z \<and> held z)" using x hy by auto
  ultimately have "keeps k w w'"
    using keeps_object [OF u(2-4)] target_stripped [OF ok l(1), of x] x by simp
  moreover have "deleting K (meta ?y) = deleting K (meta x)" using edits(1) [OF ok disjI2 [OF refl]] .
  ultimately have k: "keeps k w w'" "deleting K (meta ?y) = deleting K (meta x)" "held ?y = held x" using hy by blast+
  show ?thesis
  proof (cases r)
    case (Inl e)
    then show ?thesis using cleanup_some' [OF ok l u(1)] k(1) by auto
  next
    case (Inr y)
    then have "y = ?y" "objs w' k = stored ?y" using u(5) by auto
    then show ?thesis using cleanup_some' [OF ok l u(1)] Inr k by auto
  qed
next
  case False
  then show ?thesis using cleanup_none' [of x f w] wf k keeps_refl by auto
qed

lemma finish_faulty:
  assumes ok: ok and wf: "wf w" and k: "objs w k = stored x"
    and cont: "\<And>y w. \<lbrakk>wf w; objs w k = stored y; deleting K (meta y) = deleting K (meta x); held y = held x\<rbrakk>
      \<Longrightarrow> \<exists>r w'. cont y w = (r, w') \<and> keeps k w w'"
  shows "\<exists>r w'. finish fail (cleanup' f) cont x w = (r, w') \<and> keeps k w w'"
proof -
  obtain y e w1 where c: "cleanup' f x w = ((y, e), w1)" "keeps k w w1"
    "e = None \<Longrightarrow> objs w1 k = stored y \<and> deleting K (meta y) = deleting K (meta x) \<and> held y = held x"
    using cleanup_faulty [OF ok wf k, of f] by auto
  show ?thesis
  proof (cases e)
    case None
    have "wf w1" using c(2) by (simp add: keeps_def)
    then obtain r w' where "cont y w1 = (r, w')" "keeps k w1 w'" using cont [of w1 y] c(3) [OF None] by blast
    then show ?thesis using c(1,2) None keeps_trans by (auto simp: finish_def)
  qed (use c in \<open>auto simp: finish_def\<close>)
qed

lemma stop_keeps: "wf w \<Longrightarrow> \<exists>r w'. stop y w = (r, w') \<and> keeps k w w'"
  by (simp add: stop_def keeps_refl)

lemma create_keeps:
  assumes ok: ok "fok f" and wf: "wf w" and y: "objs w k = stored y" "\<not> deleting K (meta y)" "held y"
  shows "\<exists>r w'. create' f y w = (r, w') \<and> keeps k w w'"
proof -
  have "objs w k = Some y" using y by (simp add: stored_as_def)
  then obtain r w' where "create' f y w = (r, w')" "wf w'" "objs w' = objs w"
    "\<forall>d. d \<noteq> key_comment k \<longrightarrow> view w' d = view w d" "wants y = Leave \<longrightarrow> view w' = view w"
    using create_faulty [OF ok wf] by blast
  then show ?thesis
    using \<open>objs w k = Some y\<close> y(2,3) by (auto simp: keeps_def disturbs_def guards_def object_aim_def)
qed

lemma faulty_live:
  assumes ok: ok "fok f" and wf: "wf w" and x: "objs w k = Some x" "\<not> deleting K (meta x)"
    and get: "Kube_Get (C' f) k w = (Inr x, w)"
  shows "\<exists>r w'. faulty_run f k w = (r, w') \<and> keeps k w w'"
proof -
  have rest: "\<exists>r w'. finish fail (cleanup' f) (create' f) y v = (r, w') \<and> keeps k v w'"
    if "wf v" "objs v k = stored y" "\<not> deleting K (meta y)" "held y" for y v
    by (rule finish_faulty [OF ok(1) that(1,2)]) (use create_keeps [OF ok] that(3,4) in simp)
  show ?thesis
  proof (cases "ContainsFinalizer K (meta x) fin")
    case True
    have "objs w k = stored x" using x by (simp add: stored_as_def)
    then show ?thesis using rest [OF wf _ x(2) True] get x(2) True by (simp add: flow_def)
  next
    case False
    let ?y = "upd (\<lambda>m. AddFinalizer K m fin) x"
    have y: "deleting K (meta ?y) = deleting K (meta x)" "wants ?y = wants x"
      using edits [OF ok(1) disjI1 [OF refl]] by blast+
    obtain r w1 where u: "Kube_Update (C' f) ?y w = (r, w1)" "wf w1" "view w1 = view w"
      "objs w1 = objs w \<or> objs w1 = (objs w)(k := stored ?y)"
      "\<And>z. r = Inr z \<Longrightarrow> z = ?y \<and> objs w1 = (objs w)(k := stored z)"
      using write_faulty [OF ok(1) wf x(1) disjI1 [OF refl], of f fin] by blast
    have hy: "held ?y" using kube_finalizers [OF ok_lib [OF ok(1)]] by (simp add: meta_upd)
    have k1: "keeps k w w1"
      by (rule keeps_object [OF u(2-4)]) (use x y hy in \<open>simp_all add: stored_as_def object_aim_def\<close>)
    show ?thesis
    proof (cases r)
      case (Inl e)
      then show ?thesis using get x(2) False u(1) k1 by (simp add: flow_def)
    next
      case (Inr z)
      then have z: "z = ?y" "objs w1 k = stored ?y" using u(5) by auto
      from rest [OF u(2) z(2)] obtain r w' where "finish fail (cleanup' f) (create' f) ?y w1 = (r, w')" "keeps k w1 w'"
        using x(2) y(1) hy by blast
      then show ?thesis using get x(2) False u(1) Inr z(1) keeps_trans [OF k1] by (simp add: flow_def)
    qed
  qed
qed

text \<open>The removal of the finalizer, once the silence is gone.\<close>

lemma removal_faulty:
  assumes ok: ok and wf: "wf w" and x: "objs w k = Some x" "deleting K (meta x)" "ContainsFinalizer K (meta x) fin"
    and gone: "view w (key_comment k) = None"
  shows "\<exists>r w'. Kube_Update (C' f) (upd (\<lambda>m. RemoveFinalizer K m fin) x) w = (r, w') \<and> keeps k w w' \<and>
    (\<forall>y. r = Inr y \<longrightarrow> objs w' k = stored y)"
proof -
  let ?y = "upd (\<lambda>m. RemoveFinalizer K m fin) x"
  obtain r w' where u: "Kube_Update (C' f) ?y w = (r, w')" "wf w'" "view w' = view w"
    "objs w' = objs w \<or> objs w' = (objs w)(k := stored ?y)"
    "\<And>z. r = Inr z \<Longrightarrow> z = ?y \<and> objs w' = (objs w)(k := stored z)"
    using write_faulty [OF ok wf x(1) disjI2 [OF refl], of f fin] by blast
  have "\<not> ContainsFinalizer K (meta ?y) fin" "deleting K (meta ?y)"
    using kube_finalizers [OF ok_lib [OF ok]] edits(1) [OF ok disjI2 [OF refl]] x(2) by (simp_all add: meta_upd)
  then have "case_option Leave (object_aim K fin meta wants) (stored ?y) = Leave"
    by (simp add: stored_as_def object_aim_def)
  moreover have "target w k = Absent" using x by (simp add: object_aim_def)
  ultimately have "keeps k w w'" using u(2-4) gone by (auto simp: keeps_def disturbs_def guards_def)
  then show ?thesis using u(1,5) by fastforce
qed

lemma faulty_deleted:
  assumes ok: ok "fok f" and wf: "wf w" and x: "objs w k = Some x" "deleting K (meta x)"
    and get: "Kube_Get (C' f) k w = (Inr x, w)"
  shows "\<exists>r w'. faulty_run f k w = (r, w') \<and> keeps k w w'"
proof -
  have rest: "\<exists>r w'. finish fail (cleanup' f) stop y v = (r, w') \<and> keeps k v w'"
    if "wf v" "objs v k = stored y" for y v
    by (rule finish_faulty [OF ok(1) that]) (rule stop_keeps)
  have sx: "stored x = Some x" using objs_law [OF ok(1) wf x(1)] by blast
  show ?thesis
  proof (cases "ContainsFinalizer K (meta x) fin")
    case False
    then show ?thesis using rest [OF wf, of x] sx x get by (simp add: flow_def)
  next
    case True
    obtain d w1 where d: "del' f x w = (d, w1)" "wf w1" "objs w1 = objs w"
      "view w1 = view w \<or> view w1 = (view w)(key_comment k := None)" "d = None \<Longrightarrow> view w1 (key_comment k) = None"
      using del_faulty [OF ok wf x(1)] by blast
    have "target w k = Absent" using x True by (simp add: object_aim_def)
    then have k1: "keeps k w w1" using d(2-4) x(1) True by (auto simp: keeps_def disturbs_def guards_def)
    show ?thesis
    proof (cases d)
      case (Some e)
      then show ?thesis using get x(2) True d(1) k1 by (simp add: flow_def)
    next
      case None
      obtain r w2 where u: "Kube_Update (C' f) (upd (\<lambda>m. RemoveFinalizer K m fin) x) w1 = (r, w2)" "keeps k w1 w2"
        "\<And>y. r = Inr y \<Longrightarrow> objs w2 k = stored y"
        using removal_faulty [OF ok(1) d(2) _ x(2) True d(5) [OF None], of f] d(3) x(1) by auto
      note k2 = keeps_trans [OF k1 u(2)]
      show ?thesis
      proof (cases r)
        case (Inr z)
        have "wf w2" using u(2) by (simp add: keeps_def)
        then obtain r w' where "finish fail (cleanup' f) stop z w2 = (r, w')" "keeps k w2 w'"
          using rest u(3) [OF Inr] by blast
        then show ?thesis using get x(2) True d(1) None u(1) Inr keeps_trans [OF k2] by (simp add: flow_def)
      qed (use get x(2) True d(1) None u(1) k2 in \<open>simp add: flow_def\<close>)
    qed
  qed
qed

lemma faulty_keeps:
  assumes ok: ok "fok f" and wf: "wf w"
  shows "\<exists>r w'. faulty_run f k w = (r, w') \<and> keeps k w w'"
proof (cases "\<exists>x. Kube_Get (C' f) k w = (Inr x, w) \<and> objs w k = Some x")
  case True
  then obtain x where x: "Kube_Get (C' f) k w = (Inr x, w)" "objs w k = Some x" by blast
  then show ?thesis
    using faulty_live [OF ok wf x(2) _ x(1)] faulty_deleted [OF ok wf x(2) _ x(1)] by blast
next
  case False
  then obtain e where "Kube_Get (C' f) k w = (Inl e, w)"
    using get_faulty [OF ok(1) wf, of f k] get_law [OF ok(1) wf, of k] by (auto split: option.splits)
  then show ?thesis using keeps_refl [OF wf] by (simp add: flow_def)
qed

end

sublocale faulty_flow \<subseteq> disturbed run wf view objs "settled_object K fin L meta upd"
    "object_aim K fin meta wants" "object_fails K meta wants" key_comment "Returns None" ok faulty_run fok held
proof
  show "\<exists>r w'. faulty_run f k w = (r, w') \<and> wf w' \<and> (\<forall>j. j \<noteq> k \<longrightarrow> objs w' j = objs w j) \<and>
      disturbs (view w) (view w') (key_comment k) (target w k) (target w' k) \<and>
      guards (view w) (view w') (key_comment k) (holds w k) (holds w' k)"
    if ok "fok f" "wf w" for f w k
    using faulty_keeps [OF that, of k] unfolding keeps_def .
qed

end
