(* ===== verification/Faulty_Cluster.thy ===== *)
theory Faulty_Cluster
  imports Cluster_Sweeps Faults Faulty_Flow
begin

section \<open>Both controllers under faults\<close>

text \<open>
  A call of either controller while the network or the API server fails, against the mock server: the
  controllers are wired as before, with the client of Alertmanager and the client of Kubernetes under a
  fault scenario.
\<close>

locale faulty_mock = mock_flow P K M am tenant fin L meta upd C conv del cleanup create obs lo hi G
  for P :: errors_pkg and K :: kube_lib and M :: "'x mock_lib" and am :: Alertmanager
    and tenant :: "ObjectMeta \<Rightarrow> string" and fin :: string and L :: "string option"
    and meta :: "'obj \<Rightarrow> ObjectMeta" and upd :: "(ObjectMeta \<Rightarrow> ObjectMeta) \<Rightarrow> 'obj \<Rightarrow> 'obj"
    and C :: "('x mock_world, 'obj) KubeClient" and conv :: "'obj \<Rightarrow> Silence option \<times> go_error option"
    and del :: "'obj \<Rightarrow> 'x mock_world \<Rightarrow> go_error option \<times> 'x mock_world"
    and cleanup :: "'obj \<Rightarrow> 'x mock_world \<Rightarrow> ('obj \<times> go_error option) \<times> 'x mock_world"
    and create :: "'obj \<Rightarrow> 'x mock_world \<Rightarrow> go_error option outcome \<times> 'x mock_world"
    and obs :: "'x \<Rightarrow> NamespacedName \<rightharpoonup> 'obj" and lo hi :: Time
    and G :: "'x \<Rightarrow> bool" +
  fixes del' :: "'x mock_world faults \<Rightarrow> 'obj \<Rightarrow> 'x mock_world \<Rightarrow> go_error option \<times> 'x mock_world"
    and cleanup' :: "'x mock_world faults \<Rightarrow> 'obj \<Rightarrow> 'x mock_world \<Rightarrow> ('obj \<times> go_error option) \<times> 'x mock_world"
    and create' :: "'x mock_world faults \<Rightarrow> 'obj \<Rightarrow> 'x mock_world \<Rightarrow> go_error option outcome \<times> 'x mock_world"
  assumes del_run': "\<lbrakk>errors_pkg_ok P;
      DeleteSilence P (NewSilenceService (Alertmanager_Client P (faulty_env F (mock_env M)) am))
        (SilenceComment (meta x)) (tenant (meta x)) w = (r, w')\<rbrakk> \<Longrightarrow>
      \<exists>r'. del' F x w = (r', w') \<and> (r' = None \<longleftrightarrow> r = None)"
    and create_fails': "conv x = (u, Some e) \<Longrightarrow> \<exists>r. create' F x w = (r, w)"
    and create_run': "\<lbrakk>conv x = (Some s, None);
      SyncSilence P (faulty_env F (mock_env M))
        (NewSilenceService (Alertmanager_Client P (faulty_env F (mock_env M)) am)) (Some s)
        (tenant (meta x)) w = (Returns r, w')\<rbrakk> \<Longrightarrow> \<exists>r'. create' F x w = (r', w')"
    and cleans_none': "(\<And>l. L = Some l \<Longrightarrow> \<not> ContainsFinalizer K (meta x) l) \<Longrightarrow> cleanup' F x w = ((x, None), w)"
    and cleans_some': "\<lbrakk>errors_pkg_ok P; L = Some l; ContainsFinalizer K (meta x) l;
      Kube_Update (faulty_kube F meta C) (upd (\<lambda>m. RemoveFinalizer K m l) x) w = (res, w')\<rbrakk> \<Longrightarrow>
      (case res of Inr y \<Rightarrow> cleanup' F x w = ((y, None), w')
       | Inl e \<Rightarrow> \<exists>y e'. cleanup' F x w = ((y, Some e'), w'))"
begin

lemma delete_disturbed:
  assumes ok: ok "faults_ok F" and wf: "wf w" and x: "obs (snd w) k = Some x"
  shows "\<exists>r w'. del' F x w = (r, w') \<and> wf w' \<and> obs (snd w') = obs (snd w) \<and>
    (mock_view w' = mock_view w \<or> mock_view w' = (mock_view w)(key_comment k := None)) \<and>
    (r = None \<longrightarrow> mock_view w' (key_comment k) = None)"
proof -
  have k: "key_of (meta x) = k" and m: "mock_wf am w \<and> obs (snd w) = obs (snd w) \<and> G (snd w)"
    using wf x by (simp_all add: cluster_wf_def)
  have P: "errors_pkg_ok P" using ok by (simp add: cluster_ok_def mock_ok_def)
  have c: "key_comment k = SilenceComment (meta x)" using k key_comment by metis
  have "CreatedBy s = CreatedBy_operator" if "mock_view w (SilenceComment (meta x)) = Some s" for s
    using wf that c unfolding cluster_wf_def by metis
  then have own: "pred_option (\<lambda>s. CreatedBy s = CreatedBy_operator) (mock_view w (SilenceComment (meta x)))"
    by (cases "mock_view w (SilenceComment (meta x))") simp_all
  obtain r w' where d: "DeleteSilence P (NewSilenceService (Alertmanager_Client P (faulty_env F (mock_env M)) am))
      (SilenceComment (meta x)) (tenant (meta x)) w = (r, w')"
    "mock_wf am w'" "obs (snd w') = obs (snd w)" "G (snd w')"
    "mock_view w' = mock_view w \<or> mock_view w' = (mock_view w)(SilenceComment (meta x) := None)"
    "r = None \<longrightarrow> mock_view w' (SilenceComment (meta x)) = None"
    using framed_faulty.delete_faulty [where G = "\<lambda>n. obs n = obs (snd w) \<and> G n", OF framed_ok [OF ok(1)] ok(2) m own]
    by blast
  have "wf w'"
  proof (cases "mock_view w' = mock_view w")
    case True
    then show ?thesis using wf d(2-4) by (simp add: cluster_wf_def)
  next
    case False
    then show ?thesis using cluster_wf_step [OF conjunct1 [OF wf] d(2,3)] d(4,5) by (metis option.distinct(1))
  qed
  moreover obtain r' where "del' F x w = (r', w')" "r' = None \<longleftrightarrow> r = None" using del_run' [OF P d(1)] by blast
  ultimately show ?thesis using d(3,5,6) c by (intro exI [of _ r'] exI [of _ w']) simp
qed

lemma create_disturbed:
  assumes ok: ok "faults_ok F" and wf: "wf w" and x: "obs (snd w) k = Some x"
  shows "\<exists>r w'. create' F x w = (r, w') \<and> wf w' \<and> obs (snd w') = obs (snd w) \<and>
    (\<forall>d. d \<noteq> key_comment k \<longrightarrow> mock_view w' d = mock_view w d) \<and>
    (wants_of conv lo hi x = Leave \<longrightarrow> mock_view w' = mock_view w)"
proof -
  have m: "mock_wf am w \<and> obs (snd w) = obs (snd w) \<and> G (snd w)" and k: "key_of (meta x) = k" and c: "well_converted conv x"
    using wf x by (simp_all add: cluster_wf_def)
  have P: "errors_pkg_ok P" using ok by (simp add: cluster_ok_def mock_ok_def)
  have ck: "key_comment k = SilenceComment (meta x)" using k key_comment by metis
  show ?thesis
  proof (cases "snd (conv x)")
    case (Some e)
    then obtain r where "create' F x w = (r, w)" using create_fails' [of x _ e F w] by (cases "conv x") auto
    then show ?thesis using wf by auto
  next
    case None
    then obtain s where s: "conv x = (Some s, None)" using conv_total [OF P, of x] by (cases "conv x") auto
    note f = conv_fields [OF P s]
    have st: "storable s" using c s by (simp add: well_converted_def)
    have i: "ID s = ''''" using f by blast
    obtain r w' u where w': "SyncSilence P (faulty_env F (mock_env M))
        (NewSilenceService (Alertmanager_Client P (faulty_env F (mock_env M)) am)) (Some s) (tenant (meta x)) w = (Returns r, w')"
      "mock_wf am w'" "obs (snd w') = obs (snd w)" "G (snd w')" "mock_view w' = (mock_view w)(Comment s := u)"
      "\<And>y. u = Some y \<Longrightarrow> mock_view w (Comment s) = Some y \<or> CreatedBy y = CreatedBy s"
      using framed_faulty.sync_faulty [where G = "\<lambda>n. obs n = obs (snd w) \<and> G n", OF framed_ok [OF ok(1)] ok(2) m st i]
      unfolding framed_faulty.touched_def [where G = "\<lambda>n. obs n = obs (snd w) \<and> G n"] by blast
    have "CreatedBy y = CreatedBy_operator" if "u = Some y" for y
      using w'(6) [OF that] f wf ck unfolding cluster_wf_def by metis
    then have "wf w'" using cluster_wf_step [OF conjunct1 [OF wf] w'(2,3,5)] w'(4) by simp
    moreover have "wants_of conv lo hi x \<noteq> Leave" using s by (simp add: wants_of_def)
    moreover obtain r' where "create' F x w = (r', w')" using create_run' [OF s w'(1)] by blast
    ultimately show ?thesis using w'(3,5) f ck by (intro exI [of _ r'] exI [of _ w']) simp
  qed
qed

end

sublocale faulty_mock \<subseteq> faulty_flow K fin L meta upd C "WithStack P" del cleanup create wf mock_view
    "\<lambda>w. obs (snd w)" "wants_of conv lo hi" ok "\<lambda>F. faulty_kube F meta C" del' cleanup' create' faults_ok
proof
  show "Kube_Get (faulty_kube F meta C) k w = Kube_Get C k w \<or> (\<exists>e. Kube_Get (faulty_kube F meta C) k w = (Inl e, w))"
    if ok "wf w" for F k w
    using get_law [OF that, of k]
    by (cases "read_fault F k w") (auto simp: faulty_kube_def split: option.splits)
  show "Kube_Update (faulty_kube F meta C) x w = Kube_Update C x w \<or>
      (\<exists>e w'. Kube_Update (faulty_kube F meta C) x w = (Inl e, w') \<and> (w' = w \<or> w' = snd (Kube_Update C x w)))" for F x w
    by (cases "write_fault F (meta x) w") (auto simp: faulty_kube_def)
  show "cleanup' F x w = ((x, None), w)" if "\<And>l. L = Some l \<Longrightarrow> \<not> ContainsFinalizer K (meta x) l" for F x w
    using that by (rule cleans_none')
  show "case r of Inr y \<Rightarrow> cleanup' F x w = ((y, None), w') | Inl e \<Rightarrow> \<exists>y e'. cleanup' F x w = ((y, Some e'), w')"
    if ok "L = Some l" "ContainsFinalizer K (meta x) l"
      "Kube_Update (faulty_kube F meta C) (upd (\<lambda>m. RemoveFinalizer K m l) x) w = (r, w')" for l x F w r w'
    using cleans_some' [OF _ that(2-4)] that(1) by (simp add: cluster_ok_def mock_ok_def)
qed (fact delete_disturbed create_disturbed)+

subsection \<open>The two controllers\<close>

definition faulty_v1 ::
  "errors_pkg \<Rightarrow> 'x mock_lib \<Rightarrow> ('x mock_world, Silence_v1) KubeClient \<Rightarrow> Alertmanager \<Rightarrow> 'sel Helper
     \<Rightarrow> 'x mock_world faults \<Rightarrow> ('x mock_world, 'sel) SilenceReconciler" where
  "faulty_v1 P M C am h F =
     NewSilenceReconciler (faulty_kube F Meta_v1 C)
       (NewSilenceService (Alertmanager_Client P (faulty_env F (mock_env M)) am)) h"

definition faulty_v2 ::
  "errors_pkg \<Rightarrow> 'x mock_lib \<Rightarrow> ('x mock_world, Silence_v2) KubeClient \<Rightarrow> Alertmanager \<Rightarrow> 'sel Helper
     \<Rightarrow> 'x mock_world faults \<Rightarrow> ('x mock_world, 'sel) SilenceV2Reconciler" where
  "faulty_v2 P M C am h F =
     NewSilenceV2Reconciler (faulty_kube F Meta_v2 C)
       (NewSilenceService (Alertmanager_Client P (faulty_env F (mock_env M)) am)) h"

lemma faulty_sel [simp]:
  "client (faulty_v1 P M C1 am h F) = faulty_kube F Meta_v1 C1"
  "silenceService (faulty_v1 P M C1 am h F) = NewSilenceService (Alertmanager_Client P (faulty_env F (mock_env M)) am)"
  "tenancyHelper (faulty_v1 P M C1 am h F) = h"
  "client_v2 (faulty_v2 P M C2 am h F) = faulty_kube F Meta_v2 C2"
  "silenceService_v2 (faulty_v2 P M C2 am h F) = NewSilenceService (Alertmanager_Client P (faulty_env F (mock_env M)) am)"
  "tenancyHelper_v2 (faulty_v2 P M C2 am h F) = h"
  by (simp_all add: faulty_v1_def faulty_v2_def NewSilenceReconciler_def NewSilenceV2Reconciler_def)

lemma deleted_or_not:
  assumes "errors_pkg_ok P" and "DeleteSilence P S c t w = (r, w')"
  shows "\<exists>r'. (case DeleteSilence P S c t w of
      (Some err, w) \<Rightarrow> (Wrapf P (Some err) ''failed to delete silence from Alertmanager'' [], w)
    | (None, w) \<Rightarrow> (None, w)) = (r', w') \<and> (r' = None \<longleftrightarrow> r = None)"
  using assms(2) errors_pkg_Some(3) [OF assms(1)] by (cases r) auto

interpretation faulty_v2: faulty_mock P K M am "ExtractTenant h" FinalizerName None Meta_v2 upd_v2 C
    "getSilenceFromCR_v2 P PD" "reconcileDelete_v2 P (mock_v2 P M C am h)" no_cleanup
    "reconcileCreate_v2 P PD (mock_env M) (mock_v2 P M C am h)" obs lo hi G
    "\<lambda>F. reconcileDelete_v2 P (faulty_v2 P M C am h F)" "\<lambda>F. no_cleanup"
    "\<lambda>F. reconcileCreate_v2 P PD (faulty_env F (mock_env M)) (faulty_v2 P M C am h F)"
  for P :: errors_pkg and K :: kube_lib and M :: "'x mock_lib" and am :: Alertmanager and h :: "'sel Helper"
    and C :: "('x mock_world, Silence_v2) KubeClient" and PD :: "string \<Rightarrow> go_error + Duration"
    and obs :: "'x \<Rightarrow> NamespacedName \<rightharpoonup> Silence_v2" and lo hi :: Time and G :: "'x \<Rightarrow> bool"
proof (unfold_locales, goal_cases)
  case (1 F x w r w')
  then show ?case unfolding reconcileDelete_v2_def Let_def faulty_sel by (rule deleted_or_not)
next
  case (2 x u e F w)
  then show ?case by (simp add: reconcileCreate_v2_def)
next
  case (3 x s F w r w')
  then show ?case by (cases r) (simp_all add: reconcileCreate_v2_def)
qed (simp_all add: no_cleanup_def)

interpretation faulty_v1: faulty_mock P K M am "ExtractTenant h" silenceFinalizer
    "Some legacySilenceFinalizer" Meta_v1 upd_v1 C
    "getSilenceFromCR_v1 P" "reconcileDelete_v1 P (mock_v1 P M C am h)"
    "cleanUpLegacyFinalizer P K (mock_v1 P M C am h)"
    "reconcileCreate_v1 P (mock_env M) (mock_v1 P M C am h)" obs lo hi G
    "\<lambda>F. reconcileDelete_v1 P (faulty_v1 P M C am h F)" "\<lambda>F. cleanUpLegacyFinalizer P K (faulty_v1 P M C am h F)"
    "\<lambda>F. reconcileCreate_v1 P (faulty_env F (mock_env M)) (faulty_v1 P M C am h F)"
  for P :: errors_pkg and K :: kube_lib and M :: "'x mock_lib" and am :: Alertmanager and h :: "'sel Helper"
    and C :: "('x mock_world, Silence_v1) KubeClient" and obs :: "'x \<Rightarrow> NamespacedName \<rightharpoonup> Silence_v1"
    and lo hi :: Time and G :: "'x \<Rightarrow> bool"
proof (unfold_locales, goal_cases)
  case (1 F x w r w')
  then show ?case unfolding reconcileDelete_v1_def Let_def faulty_sel by (rule deleted_or_not)
next
  case (2 x u e F w)
  then show ?case by (simp add: reconcileCreate_v1_def)
next
  case (3 x s F w r w')
  then show ?case by (cases r) (simp_all add: reconcileCreate_v1_def)
next
  case (4 x F w)
  then show ?case by (simp add: cleanUpLegacyFinalizer_def)
next
  case (5 l x F w r w')
  then show ?case using errors_pkg_Some(1) [OF 5(1)]
    by (cases r) (auto simp: cleanUpLegacyFinalizer_def Let_def)
qed

end
