(* ===== verification/Recovery.thy ===== *)
theory Recovery
  imports Both_Controllers Faulty_Cluster
begin

section \<open>Both controllers recover from faults\<close>

text \<open>
  Calls of both controllers, in any interleaving, each under faults of its own, and then calls without
  faults: the objects and silences end in the state that the objects asked for before the first fault.
\<close>

definition reconcile_faulty ::
  "errors_pkg \<Rightarrow> kube_lib \<Rightarrow> (string \<Rightarrow> go_error + Duration) \<Rightarrow> 'x mock_lib \<Rightarrow> Alertmanager \<Rightarrow> 'sel Helper
     \<Rightarrow> ('x mock_world, Silence_v1) KubeClient \<Rightarrow> ('x mock_world, Silence_v2) KubeClient
     \<Rightarrow> 'x mock_world faults \<Rightarrow> NamespacedName + NamespacedName \<Rightarrow> 'x mock_world
     \<Rightarrow> go_error option outcome \<times> 'x mock_world" where
  "reconcile_faulty P K PD M am h C1 C2 F =
     case_sum (Reconcile_v1 P K (faulty_env F (mock_env M)) (faulty_v1 P M C1 am h F))
       (Reconcile_v2 P K PD (faulty_env F (mock_env M)) (faulty_v2 P M C2 am h F))"

lemma faulty_runs:
  "Reconcile_v1 P K (faulty_env F (mock_env M)) (faulty_v1 P M C1 am h F) =
     flow K silenceFinalizer Meta_v1 upd_v1 (faulty_kube F Meta_v1 C1) (WithStack P)
       (reconcileDelete_v1 P (faulty_v1 P M C1 am h F)) (cleanUpLegacyFinalizer P K (faulty_v1 P M C1 am h F))
       (reconcileCreate_v1 P (faulty_env F (mock_env M)) (faulty_v1 P M C1 am h F))"
  "Reconcile_v2 P K PD (faulty_env F (mock_env M)) (faulty_v2 P M C2 am h F) =
     flow K FinalizerName Meta_v2 upd_v2 (faulty_kube F Meta_v2 C2) (WithStack P)
       (reconcileDelete_v2 P (faulty_v2 P M C2 am h F)) no_cleanup
       (reconcileCreate_v2 P PD (faulty_env F (mock_env M)) (faulty_v2 P M C2 am h F))"
  by (intro ext, simp add: Reconcile_v1_flow Reconcile_v2_flow)+

text \<open>The objects that the controllers hold with their finalizers.\<close>

abbreviation held_v1 :: "kube_lib \<Rightarrow> Silence_v1 \<Rightarrow> bool" where
  "held_v1 K x \<equiv> ContainsFinalizer K (Meta_v1 x) silenceFinalizer"

abbreviation held_v2 :: "kube_lib \<Rightarrow> Silence_v2 \<Rightarrow> bool" where
  "held_v2 K y \<equiv> ContainsFinalizer K (Meta_v2 y) FinalizerName"

lemma faulty_step_v1:
  assumes ok: "both_ok P K M obs1 obs2 C1 C2 lo hi" "faults_ok F" and wf: "both_wf am P K PD obs1 obs2 w"
  shows "\<exists>r w'. reconcile_faulty P K PD M am h C1 C2 F (Inl k) w = (r, w') \<and> both_wf am P K PD obs1 obs2 w' \<and>
    (\<forall>j. j \<noteq> k \<longrightarrow> obs1 (snd w') j = obs1 (snd w) j) \<and> obs2 (snd w') = obs2 (snd w) \<and>
    disturbs (mock_view w) (mock_view w') (key_comment k)
      (case_option Leave (aim_v1 P K lo hi) (obs1 (snd w) k)) (case_option Leave (aim_v1 P K lo hi) (obs1 (snd w') k)) \<and>
    guards (mock_view w) (mock_view w') (key_comment k) (\<exists>x. obs1 (snd w) k = Some x \<and> held_v1 K x)
      (\<exists>x. obs1 (snd w') k = Some x \<and> held_v1 K x)"
proof -
  let ?G = "\<lambda>n. obs2 n = obs2 (snd w)"
  have ok1: "cluster_ok P K M Meta_v1 obs1 C1 lo hi \<and> frame_ok M C1 ?G"
    using ok apart_frame [of obs2 C1 M] by (simp add: both_ok_def cluster_ok_def)
  have "cluster_wf am K Meta_v1 (getSilenceFromCR_v1 P) obs1 w \<and> ?G (snd w)"
    using wf by (simp add: both_wf_def)
  from faulty_v1.faulty [where G = ?G, OF ok1 ok(2) this, of h k] obtain r w' where
    "reconcile_faulty P K PD M am h C1 C2 F (Inl k) w = (r, w')"
    "cluster_wf am K Meta_v1 (getSilenceFromCR_v1 P) obs1 w'" "obs2 (snd w') = obs2 (snd w)"
    "\<forall>j. j \<noteq> k \<longrightarrow> obs1 (snd w') j = obs1 (snd w) j"
    "disturbs (mock_view w) (mock_view w') (key_comment k)
      (case_option Leave (aim_v1 P K lo hi) (obs1 (snd w) k)) (case_option Leave (aim_v1 P K lo hi) (obs1 (snd w') k))"
    "guards (mock_view w) (mock_view w') (key_comment k) (\<exists>x. obs1 (snd w) k = Some x \<and> held_v1 K x)
      (\<exists>x. obs1 (snd w') k = Some x \<and> held_v1 K x)"
    unfolding reconcile_faulty_def faulty_runs sum.case by blast
  then show ?thesis
    using wf cluster_wf_other [of am K Meta_v2 "getSilenceFromCR_v2 P PD" obs2 w]
    unfolding both_wf_def by blast
qed

lemma faulty_step_v2:
  assumes ok: "both_ok P K M obs1 obs2 C1 C2 lo hi" "faults_ok F" and wf: "both_wf am P K PD obs1 obs2 w"
  shows "\<exists>r w'. reconcile_faulty P K PD M am h C1 C2 F (Inr k) w = (r, w') \<and> both_wf am P K PD obs1 obs2 w' \<and>
    (\<forall>j. j \<noteq> k \<longrightarrow> obs2 (snd w') j = obs2 (snd w) j) \<and> obs1 (snd w') = obs1 (snd w) \<and>
    disturbs (mock_view w) (mock_view w') (key_comment k)
      (case_option Leave (aim_v2 P K PD lo hi) (obs2 (snd w) k)) (case_option Leave (aim_v2 P K PD lo hi) (obs2 (snd w') k)) \<and>
    guards (mock_view w) (mock_view w') (key_comment k) (\<exists>x. obs2 (snd w) k = Some x \<and> held_v2 K x)
      (\<exists>x. obs2 (snd w') k = Some x \<and> held_v2 K x)"
proof -
  let ?G = "\<lambda>n. obs1 n = obs1 (snd w)"
  have ok2: "cluster_ok P K M Meta_v2 obs2 C2 lo hi \<and> frame_ok M C2 ?G"
    using ok apart_frame [of obs1 C2 M] by (simp add: both_ok_def cluster_ok_def)
  have "cluster_wf am K Meta_v2 (getSilenceFromCR_v2 P PD) obs2 w \<and> ?G (snd w)"
    using wf by (simp add: both_wf_def)
  from faulty_v2.faulty [where G = ?G, OF ok2 ok(2) this, of h k] obtain r w' where
    "reconcile_faulty P K PD M am h C1 C2 F (Inr k) w = (r, w')"
    "cluster_wf am K Meta_v2 (getSilenceFromCR_v2 P PD) obs2 w'" "obs1 (snd w') = obs1 (snd w)"
    "\<forall>j. j \<noteq> k \<longrightarrow> obs2 (snd w') j = obs2 (snd w) j"
    "disturbs (mock_view w) (mock_view w') (key_comment k)
      (case_option Leave (aim_v2 P K PD lo hi) (obs2 (snd w) k)) (case_option Leave (aim_v2 P K PD lo hi) (obs2 (snd w') k))"
    "guards (mock_view w) (mock_view w') (key_comment k) (\<exists>x. obs2 (snd w) k = Some x \<and> held_v2 K x)
      (\<exists>x. obs2 (snd w') k = Some x \<and> held_v2 K x)"
    unfolding reconcile_faulty_def faulty_runs sum.case by blast
  then show ?thesis
    using wf cluster_wf_other [of am K Meta_v1 "getSilenceFromCR_v1 P" obs1 w]
    unfolding both_wf_def by blast
qed

lemma faulty_either:
  assumes ok: "both_ok P K M obs1 obs2 C1 C2 lo hi" "faults_ok F" and wf: "both_wf am P K PD obs1 obs2 w"
  shows "\<exists>r w'. reconcile_faulty P K PD M am h C1 C2 F k w = (r, w') \<and> both_wf am P K PD obs1 obs2 w' \<and>
    (\<forall>j. j \<noteq> k \<longrightarrow> both_objs obs1 obs2 w' j = both_objs obs1 obs2 w j) \<and>
    disturbs (mock_view w) (mock_view w') (case_sum key_comment key_comment k)
      (case_option Leave (case_sum (aim_v1 P K lo hi) (aim_v2 P K PD lo hi)) (both_objs obs1 obs2 w k))
      (case_option Leave (case_sum (aim_v1 P K lo hi) (aim_v2 P K PD lo hi)) (both_objs obs1 obs2 w' k)) \<and>
    guards (mock_view w) (mock_view w') (case_sum key_comment key_comment k)
      (\<exists>x. both_objs obs1 obs2 w k = Some x \<and> case_sum (held_v1 K) (held_v2 K) x)
      (\<exists>x. both_objs obs1 obs2 w' k = Some x \<and> case_sum (held_v1 K) (held_v2 K) x)"
proof -
  let ?aim = "case_sum (aim_v1 P K lo hi) (aim_v2 P K PD lo hi)"
  have target: "case_option Leave ?aim (both_objs obs1 obs2 v (Inl i)) = case_option Leave (aim_v1 P K lo hi) (obs1 (snd v) i)"
    "case_option Leave ?aim (both_objs obs1 obs2 v (Inr i)) = case_option Leave (aim_v2 P K PD lo hi) (obs2 (snd v) i)" for v i
    by (cases "obs1 (snd v) i"; simp) (cases "obs2 (snd v) i"; simp)
  let ?held = "case_sum (held_v1 K) (held_v2 K)"
  have held: "(\<exists>x. both_objs obs1 obs2 v (Inl i) = Some x \<and> ?held x) = (\<exists>x. obs1 (snd v) i = Some x \<and> held_v1 K x)"
    "(\<exists>x. both_objs obs1 obs2 v (Inr i) = Some x \<and> ?held x) = (\<exists>x. obs2 (snd v) i = Some x \<and> held_v2 K x)" for v i
    by auto
  show ?thesis
  proof (cases k)
    case (Inl i)
    obtain r w' where s: "reconcile_faulty P K PD M am h C1 C2 F (Inl i) w = (r, w')"
      "both_wf am P K PD obs1 obs2 w'" "\<And>j. j \<noteq> i \<Longrightarrow> obs1 (snd w') j = obs1 (snd w) j"
      "obs2 (snd w') = obs2 (snd w)"
      "disturbs (mock_view w) (mock_view w') (key_comment i)
        (case_option Leave (aim_v1 P K lo hi) (obs1 (snd w) i)) (case_option Leave (aim_v1 P K lo hi) (obs1 (snd w') i))"
      "guards (mock_view w) (mock_view w') (key_comment i) (\<exists>x. obs1 (snd w) i = Some x \<and> held_v1 K x)
      (\<exists>x. obs1 (snd w') i = Some x \<and> held_v1 K x)"
      using faulty_step_v1 [OF ok wf, of h i] by blast
    have "both_objs obs1 obs2 w' j = both_objs obs1 obs2 w j" if "j \<noteq> Inl i" for j
      using s(3,4) that by (cases j) auto
    then show ?thesis
      using s(1,2,5,6) unfolding Inl target(1) held(1) sum.case by blast
  next
    case (Inr i)
    obtain r w' where s: "reconcile_faulty P K PD M am h C1 C2 F (Inr i) w = (r, w')"
      "both_wf am P K PD obs1 obs2 w'" "\<And>j. j \<noteq> i \<Longrightarrow> obs2 (snd w') j = obs2 (snd w) j"
      "obs1 (snd w') = obs1 (snd w)"
      "disturbs (mock_view w) (mock_view w') (key_comment i)
        (case_option Leave (aim_v2 P K PD lo hi) (obs2 (snd w) i)) (case_option Leave (aim_v2 P K PD lo hi) (obs2 (snd w') i))"
      "guards (mock_view w) (mock_view w') (key_comment i) (\<exists>x. obs2 (snd w) i = Some x \<and> held_v2 K x)
      (\<exists>x. obs2 (snd w') i = Some x \<and> held_v2 K x)"
      using faulty_step_v2 [OF ok wf, of h i] by blast
    have "both_objs obs1 obs2 w' j = both_objs obs1 obs2 w j" if "j \<noteq> Inr i" for j
      using s(3,4) that by (cases j) auto
    then show ?thesis
      using s(1,2,5,6) unfolding Inr target(2) held(2) sum.case by blast
  qed
qed

interpretation recovery: disturbed "reconcile_either P K PD M am h C1 C2" "both_wf am P K PD obs1 obs2"
    mock_view "both_objs obs1 obs2" "both_after K" "case_sum (aim_v1 P K lo hi) (aim_v2 P K PD lo hi)"
    "case_sum (fails_v1 P K lo hi) (fails_v2 P K PD lo hi)" "case_sum key_comment key_comment"
    "Returns None" "both_ok P K M obs1 obs2 C1 C2 lo hi" "reconcile_faulty P K PD M am h C1 C2" faults_ok
    "case_sum (held_v1 K) (held_v2 K)"
  for P :: errors_pkg and K :: kube_lib and PD :: "string \<Rightarrow> go_error + Duration" and M :: "'x mock_lib"
    and am :: Alertmanager and h :: "'sel Helper" and C1 :: "('x mock_world, Silence_v1) KubeClient"
    and C2 :: "('x mock_world, Silence_v2) KubeClient" and lo hi :: Time
    and obs1 :: "'x \<Rightarrow> NamespacedName \<rightharpoonup> Silence_v1" and obs2 :: "'x \<Rightarrow> NamespacedName \<rightharpoonup> Silence_v2"
  by (standard, rule faulty_either, assumption+)

lemma settled_finalizers:
  assumes "both_ok P K M obs1 obs2 C1 C2 lo hi"
  shows "settled_v1 K x = Some x \<Longrightarrow> silenceFinalizer \<in> set (Finalizers (Meta_v1 x)) \<longleftrightarrow> \<not> deleting K (Meta_v1 x)"
    "settled_v2 K y = Some y \<Longrightarrow> FinalizerName \<in> set (Finalizers (Meta_v2 y)) \<longleftrightarrow> \<not> deleting K (Meta_v2 y)"
proof -
  have ok1: "cluster_ok P K M Meta_v1 obs1 C1 lo hi \<and> frame_ok M C1 (\<lambda>_. True)"
    and ok2: "cluster_ok P K M Meta_v2 obs2 C2 lo hi \<and> frame_ok M C2 (\<lambda>_. True)" and lib: "kube_lib_ok K"
    using assms by (simp_all add: both_ok_def cluster_ok_def)
  note K = kube_finalizers(1) [OF lib]
  show "silenceFinalizer \<in> set (Finalizers (Meta_v1 x)) \<longleftrightarrow> \<not> deleting K (Meta_v1 x)" if "settled_v1 K x = Some x"
    using cluster_v1.settled_live [where G = "\<lambda>_. True", OF ok1, of x] that
      cluster_v1.settled_deleted [where G = "\<lambda>_. True", OF ok1 _ that] by (auto simp: K)
  show "FinalizerName \<in> set (Finalizers (Meta_v2 y)) \<longleftrightarrow> \<not> deleting K (Meta_v2 y)" if "settled_v2 K y = Some y"
    using cluster_v2.settled_live [where G = "\<lambda>_. True", OF ok2, of y] that
      cluster_v2.settled_deleted [where G = "\<lambda>_. True", OF ok2 _ that] by (auto simp: K)
qed


text \<open>The write of the first call and the deletion of the second are carried out, but their answers are lost.\<close>

definition unheard_writes :: "'w faults" where
  "unheard_writes = \<lparr>request_fault = (\<lambda>_ _. Works), read_fault = (\<lambda>_ _. Works),
     write_fault = (\<lambda>_ _. Unheard (Failure ''timeout'' []))\<rparr>"

definition unheard_deletions :: "'w faults" where
  "unheard_deletions = \<lparr>request_fault = (\<lambda>q _. if Method q = ''DELETE'' then Unheard (Failure ''timeout'' []) else Works),
     read_fault = (\<lambda>_ _. Works), write_fault = (\<lambda>_ _. Works)\<rparr>"

lemma sample_faults_ok: "faults_ok unheard_writes" "faults_ok unheard_deletions"
  by (simp_all add: faults_ok_def unheard_writes_def unheard_deletions_def ErrSilenceNotFound_def)


end
