(* ===== verification/Whole_System.thy ===== *)
theory Whole_System
  imports Recovery
begin

section \<open>The whole system\<close>

text \<open>
  The operator, the API server, its users and Alertmanager, as a step relation: calls of either
  controller for any key, under any faults of the network; users that create, edit and delete objects;
  and others that expire silences or keep their own in the same Alertmanager.  In every reachable state each
  silence that the operator made belongs to an object that holds it with its finalizer, and from every
  reachable state one sweep without faults leaves exactly the silences that the living objects ask for.
\<close>

subsection \<open>The steps\<close>

text \<open>What users do to the object under a key, through the API server.  An edit may set the deletion time
  stamp, which is how an object is deleted; it does not take the controller's finalizer away.\<close>

inductive user_write ::
  "kube_lib \<Rightarrow> string \<Rightarrow> ('obj \<Rightarrow> ObjectMeta) \<Rightarrow> ('obj \<Rightarrow> Silence option \<times> go_error option)
     \<Rightarrow> NamespacedName \<Rightarrow> 'obj option \<Rightarrow> 'obj option \<Rightarrow> bool"
  for K fin meta conv k where
  user_creates: "\<lbrakk>key_of (meta x) = k; stored_as K meta x = Some x; well_converted conv x\<rbrakk> \<Longrightarrow>
    user_write K fin meta conv k None (Some x)"
| user_edits: "\<lbrakk>key_of (meta y) = k; well_converted conv y;
      deleting K (meta x) \<longrightarrow> deleting K (meta y);
      fin \<in> set (Finalizers (meta x)) \<longrightarrow> fin \<in> set (Finalizers (meta y))\<rbrakk> \<Longrightarrow>
    user_write K fin meta conv k (Some x) (stored_as K meta y)"

text \<open>A silence that others keep: the operator did not make it, and its comment is none of the operator's.\<close>

definition foreign :: "string \<Rightarrow> Silence \<Rightarrow> bool" where
  "foreign c s \<longleftrightarrow> CreatedBy s \<noteq> CreatedBy_operator \<and> c \<notin> range key_comment"

inductive system_step ::
  "errors_pkg \<Rightarrow> kube_lib \<Rightarrow> (string \<Rightarrow> go_error + Duration) \<Rightarrow> 'x mock_lib \<Rightarrow> Alertmanager \<Rightarrow> 'sel Helper
     \<Rightarrow> ('x mock_world, Silence_v1) KubeClient \<Rightarrow> ('x mock_world, Silence_v2) KubeClient
     \<Rightarrow> ('x \<Rightarrow> NamespacedName \<rightharpoonup> Silence_v1) \<Rightarrow> ('x \<Rightarrow> NamespacedName \<rightharpoonup> Silence_v2)
     \<Rightarrow> 'x mock_world \<Rightarrow> 'x mock_world \<Rightarrow> bool"
  for P K PD M am h C1 C2 obs1 obs2 where
  call: "\<lbrakk>faults_ok F; reconcile_faulty P K PD M am h C1 C2 F k w = (r, w')\<rbrakk> \<Longrightarrow>
    system_step P K PD M am h C1 C2 obs1 obs2 w w'"
| user_v1: "\<lbrakk>user_write K silenceFinalizer Meta_v1 (getSilenceFromCR_v1 P) k (obs1 (snd w) k) u;
      fst w' = fst w; obs1 (snd w') = (obs1 (snd w))(k := u); obs2 (snd w') = obs2 (snd w)\<rbrakk> \<Longrightarrow>
    system_step P K PD M am h C1 C2 obs1 obs2 w w'"
| user_v2: "\<lbrakk>user_write K FinalizerName Meta_v2 (getSilenceFromCR_v2 P PD) k (obs2 (snd w) k) u;
      fst w' = fst w; obs2 (snd w') = (obs2 (snd w))(k := u); obs1 (snd w') = obs1 (snd w)\<rbrakk> \<Longrightarrow>
    system_step P K PD M am h C1 C2 obs1 obs2 w w'"
| others: "\<lbrakk>mock_wf am w'; obs1 (snd w') = obs1 (snd w); obs2 (snd w') = obs2 (snd w);
      \<forall>c s. mock_view w' c = Some s \<longrightarrow> mock_view w c = Some s \<or> foreign c s\<rbrakk> \<Longrightarrow>
    system_step P K PD M am h C1 C2 obs1 obs2 w w'"

text \<open>A call without faults is one of the steps.\<close>

definition no_faults :: "'w faults" where
  "no_faults = \<lparr>request_fault = (\<lambda>_ _. Works), read_fault = (\<lambda>_ _. Works), write_fault = (\<lambda>_ _. Works)\<rparr>"

lemma no_faults [simp]:
  "faults_ok no_faults" "faulty_env no_faults E = E" "faulty_kube no_faults meta C = C"
  by (simp_all add: faults_ok_def faulty_env_def faulty_kube_def no_faults_def)

lemma reconcile_no_faults: "reconcile_faulty P K PD M am h C1 C2 no_faults = reconcile_either P K PD M am h C1 C2"
  by (simp add: reconcile_faulty_def reconcile_either_def faulty_v1_def faulty_v2_def mock_v1_def mock_v2_def)

lemma sweep_steps:
  assumes "reconcile_all (reconcile_either P K PD M am h C1 C2) ks w = (rs, w')"
  shows "(system_step P K PD M am h C1 C2 obs1 obs2)\<^sup>*\<^sup>* w w'"
  using assms
proof (induction ks arbitrary: w rs)
  case (Cons k ks)
  obtain r w1 rs' where "reconcile_either P K PD M am h C1 C2 k w = (r, w1)"
    "reconcile_all (reconcile_either P K PD M am h C1 C2) ks w1 = (rs', w')"
    using Cons.prems by (auto split: prod.splits)
  then show ?case
    using call [OF no_faults(1), of P K PD M am h C1 C2 k w r w1 obs1 obs2] Cons.IH
    by (simp add: reconcile_no_faults converse_rtranclp_into_rtranclp)
qed simp

subsection \<open>The invariant\<close>

definition silences_held ::
  "('x \<Rightarrow> NamespacedName \<rightharpoonup> Silence_v1) \<Rightarrow> ('x \<Rightarrow> NamespacedName \<rightharpoonup> Silence_v2) \<Rightarrow> 'x mock_world \<Rightarrow> bool" where
  "silences_held obs1 obs2 w \<longleftrightarrow>
     (\<forall>c s. mock_view w c = Some s \<and> CreatedBy s = CreatedBy_operator \<longrightarrow>
       (\<exists>k x. key_comment k = c \<and> obs1 (snd w) k = Some x \<and> silenceFinalizer \<in> set (Finalizers (Meta_v1 x))) \<or>
       (\<exists>k y. key_comment k = c \<and> obs2 (snd w) k = Some y \<and> FinalizerName \<in> set (Finalizers (Meta_v2 y))))"

lemma silences_held_covered:
  assumes "kube_lib_ok K"
  shows "silences_held obs1 obs2 w \<longleftrightarrow> recovery.covered obs1 obs2 K (\<lambda>s. CreatedBy s = CreatedBy_operator) w"
proof -
  have split: "(\<exists>k x. case_sum key_comment key_comment k = c \<and> both_objs obs1 obs2 w k = Some x \<and> case_sum (held_v1 K) (held_v2 K) x) \<longleftrightarrow>
    (\<exists>k x. key_comment k = c \<and> obs1 (snd w) k = Some x \<and> silenceFinalizer \<in> set (Finalizers (Meta_v1 x))) \<or>
    (\<exists>k y. key_comment k = c \<and> obs2 (snd w) k = Some y \<and> FinalizerName \<in> set (Finalizers (Meta_v2 y)))" for c
    unfolding split_sum_ex kube_finalizers(1) [OF assms, symmetric] by auto
  show ?thesis unfolding silences_held_def recovery.covered_def split ..
qed

lemma user_write_object:
  assumes "user_write K fin meta conv k u v" "v = Some y"
  shows "key_of (meta y) = k \<and> stored_as K meta y = Some y \<and> well_converted conv y"
  using assms by (auto elim!: user_write.cases simp: stored_as_def split: if_splits)

lemma user_write_held:
  assumes "user_write K fin meta conv k u v" "u = Some x" "fin \<in> set (Finalizers (meta x))"
  shows "\<exists>y. v = Some y \<and> fin \<in> set (Finalizers (meta y))"
  using assms by (auto elim!: user_write.cases simp: stored_as_def)

lemma mock_same:
  assumes "fst w' = fst w"
  shows "mock_wf am w' = mock_wf am w" "mock_view w' = mock_view w"
  using assms by (simp_all add: mock_wf_def mock_view_def fun_eq_iff)

lemma user_write_wf:
  assumes "user_write K fin meta conv k (obs (snd w) k) u" "cluster_wf am K meta conv obs w"
    and "fst w' = fst w" "obs (snd w') = (obs (snd w))(k := u)"
  shows "cluster_wf am K meta conv obs w'"
  using assms(2,4) user_write_object [OF assms(1)] unfolding cluster_wf_def mock_same [OF assms(3)] by auto

lemma others_wf:
  assumes "cluster_wf am K meta conv obs w" "mock_wf am w'" "obs (snd w') = obs (snd w)"
    and "\<forall>c s. mock_view w' c = Some s \<longrightarrow> mock_view w c = Some s \<or> foreign c s"
  shows "cluster_wf am K meta conv obs w'"
  using assms unfolding cluster_wf_def foreign_def by (metis rangeI)

lemma step_wf:
  assumes ok: "both_ok P K M obs1 obs2 C1 C2 lo hi" and wf: "both_wf am P K PD obs1 obs2 w"
    and step: "system_step P K PD M am h C1 C2 obs1 obs2 w w'"
  shows "both_wf am P K PD obs1 obs2 w'"
  using step
proof cases
  case (call F k r)
  then show ?thesis using recovery.faulty [OF ok call(1) wf, of h k] by auto
next
  case (user_v1 k u)
  have w: "cluster_wf am K Meta_v1 (getSilenceFromCR_v1 P) obs1 w'"
    by (rule user_write_wf [OF user_v1(1) _ user_v1(2,3)]) (use wf in \<open>simp add: both_wf_def\<close>)
  then show ?thesis
    using wf cluster_wf_other [OF _ w user_v1(4)] unfolding both_wf_def by blast
next
  case (user_v2 k u)
  have w: "cluster_wf am K Meta_v2 (getSilenceFromCR_v2 P PD) obs2 w'"
    by (rule user_write_wf [OF user_v2(1) _ user_v2(2,3)]) (use wf in \<open>simp add: both_wf_def\<close>)
  then show ?thesis
    using wf cluster_wf_other [OF _ w user_v2(4)] unfolding both_wf_def by blast
next
  case others
  then show ?thesis
    using wf others_wf [where obs = obs1] others_wf [where obs = obs2] unfolding both_wf_def by blast
qed

lemma step_held:
  assumes ok: "both_ok P K M obs1 obs2 C1 C2 lo hi" and wf: "both_wf am P K PD obs1 obs2 w"
    and held: "silences_held obs1 obs2 w" and step: "system_step P K PD M am h C1 C2 obs1 obs2 w w'"
  shows "silences_held obs1 obs2 w'"
  using step
proof cases
  case (call F k r)
  have lib: "kube_lib_ok K" using ok by (simp add: both_ok_def cluster_ok_def)
  show ?thesis
    using held recovery.faulty_covered [OF ok call(1) wf _ call(2)] unfolding silences_held_covered [OF lib] by blast
next
  case (user_v1 k u)
  then show ?thesis
    using held user_write_held [OF user_v1(1)] unfolding silences_held_def mock_same(2) [OF user_v1(2)] by (metis fun_upd_apply)
next
  case (user_v2 k u)
  then show ?thesis
    using held user_write_held [OF user_v2(1)] unfolding silences_held_def mock_same(2) [OF user_v2(2)] by (metis fun_upd_apply)
next
  case others
  then show ?thesis using held unfolding silences_held_def foreign_def by metis
qed

lemma reachable:
  assumes ok: "both_ok P K M obs1 obs2 C1 C2 lo hi" and wf: "both_wf am P K PD obs1 obs2 w"
    and held: "silences_held obs1 obs2 w" and steps: "(system_step P K PD M am h C1 C2 obs1 obs2)\<^sup>*\<^sup>* w w'"
  shows "both_wf am P K PD obs1 obs2 w' \<and> silences_held obs1 obs2 w'"
  using steps
  by (induction rule: rtranclp_induct) (use wf held step_wf [OF ok] step_held [OF ok] in blast)+

subsection \<open>What a sweep leaves\<close>

text \<open>The object lives and, if it can be converted, the silence is as it asks for.\<close>

definition backed_by ::
  "kube_lib \<Rightarrow> ('obj \<Rightarrow> ObjectMeta) \<Rightarrow> ('obj \<Rightarrow> Silence option \<times> go_error option) \<Rightarrow> Time \<Rightarrow> Time \<Rightarrow> 'obj \<Rightarrow> Silence \<Rightarrow> bool" where
  "backed_by K meta conv lo hi x s \<longleftrightarrow>
     \<not> deleting K (meta x) \<and> (\<forall>z. conv x = (Some z, None) \<longrightarrow> as_asked lo hi z (Some s))"

text \<open>A silence under the comment of an object that still has the finalizer after the sweep: the object lives, and
  the silence is as the object wants it.\<close>

context mock_flow
begin

lemma kept_alive:
  assumes ok: ok and y: "settled_object K fin L meta upd x = Some y" "fin \<in> set (Finalizers (meta y))"
    and a: "achieved (object_aim K fin meta (wants_of conv lo hi) x) c v" "v c = Some s"
  shows "backed_by K meta conv lo hi x s"
proof -
  have "\<not> deleting K (meta x)"
    using settled_deleted [OF ok _ y(1)] y(2) kube_finalizers(1) [OF ok_lib [OF ok]] by blast
  then show ?thesis using achieved_live a unfolding backed_by_def by metis
qed

end

lemma sweep_leaves:
  assumes ok: "both_ok P K M obs1 obs2 C1 C2 lo hi" and wf: "both_wf am P K PD obs1 obs2 w"
    and held: "silences_held obs1 obs2 w" and inj: "inj_on (case_sum key_comment key_comment) (set ks)"
    and all: "\<forall>k. obs1 (snd w) k \<noteq> None \<longrightarrow> Inl k \<in> set ks" "\<forall>k. obs2 (snd w) k \<noteq> None \<longrightarrow> Inr k \<in> set ks"
  shows "\<exists>rs w'. reconcile_all (reconcile_either P K PD M am h C1 C2) ks w = (rs, w') \<and>
    (\<forall>c s. mock_view w' c = Some s \<and> CreatedBy s = CreatedBy_operator \<longrightarrow>
      (\<exists>k x. key_comment k = c \<and> obs1 (snd w) k = Some x \<and> backed_by K Meta_v1 (getSilenceFromCR_v1 P) lo hi x s) \<or>
      (\<exists>k y. key_comment k = c \<and> obs2 (snd w) k = Some y \<and> backed_by K Meta_v2 (getSilenceFromCR_v2 P PD) lo hi y s)) \<and>
    (\<forall>k x s. obs1 (snd w) k = Some x \<and> \<not> deleting K (Meta_v1 x) \<and> getSilenceFromCR_v1 P x = (Some s, None) \<longrightarrow>
      as_asked lo hi s (mock_view w' (key_comment k))) \<and>
    (\<forall>k y s. obs2 (snd w) k = Some y \<and> \<not> deleting K (Meta_v2 y) \<and> getSilenceFromCR_v2 P PD y = (Some s, None) \<longrightarrow>
      as_asked lo hi s (mock_view w' (key_comment k)))"
proof -
  have ok1: "cluster_ok P K M Meta_v1 obs1 C1 lo hi \<and> frame_ok M C1 (\<lambda>_. True)"
    and ok2: "cluster_ok P K M Meta_v2 obs2 C2 lo hi \<and> frame_ok M C2 (\<lambda>_. True)"
    using ok by (simp_all add: both_ok_def)
  obtain rs w' where s: "reconcile_all (reconcile_either P K PD M am h C1 C2) ks w = (rs, w')"
    "both_objs obs1 obs2 w' =
       (\<lambda>k. if k \<in> set ks then Option.bind (both_objs obs1 obs2 w k) (both_after K) else both_objs obs1 obs2 w k)"
    "\<And>k. k \<in> set ks \<Longrightarrow> achieved (case_option Leave (case_sum (aim_v1 P K lo hi) (aim_v2 P K PD lo hi)) (both_objs obs1 obs2 w k))
       (case_sum key_comment key_comment k) (mock_view w')"
    using both.sweep [OF ok wf inj, of h] by blast
  note after = both_objs_eq [OF s(2)]
  have held': "silences_held obs1 obs2 w'" using reachable [OF ok wf held sweep_steps [OF s(1)]] by blast
  have v1: "achieved (aim_v1 P K lo hi x) (key_comment k) (mock_view w')" if "obs1 (snd w) k = Some x" for k x
    using s(3) [of "Inl k"] all(1) that by simp
  have v2: "achieved (aim_v2 P K PD lo hi y) (key_comment k) (mock_view w')" if "obs2 (snd w) k = Some y" for k y
    using s(3) [of "Inr k"] all(2) that by simp
  have o1: "\<exists>x. obs1 (snd w) k = Some x \<and> settled_v1 K x = Some y" if "obs1 (snd w') k = Some y" for k y
    using that after(1) [of k] all(1) by (cases "obs1 (snd w) k") (auto split: if_splits)
  have o2: "\<exists>x. obs2 (snd w) k = Some x \<and> settled_v2 K x = Some y" if "obs2 (snd w') k = Some y" for k y
    using that after(2) [of k] all(2) by (cases "obs2 (snd w) k") (auto split: if_splits)
  have w1: "\<exists>x. obs1 (snd w) k = Some x \<and> backed_by K Meta_v1 (getSilenceFromCR_v1 P) lo hi x s"
    if "mock_view w' (key_comment k) = Some s" "obs1 (snd w') k = Some y" "silenceFinalizer \<in> set (Finalizers (Meta_v1 y))" for k s y
    using o1 [OF that(2)] cluster_v1.kept_alive [where G = "\<lambda>_. True", OF ok1 _ that(3) v1 that(1)] by blast
  have w2: "\<exists>x. obs2 (snd w) k = Some x \<and> backed_by K Meta_v2 (getSilenceFromCR_v2 P PD) lo hi x s"
    if "mock_view w' (key_comment k) = Some s" "obs2 (snd w') k = Some y" "FinalizerName \<in> set (Finalizers (Meta_v2 y))" for k s y
    using o2 [OF that(2)] cluster_v2.kept_alive [where G = "\<lambda>_. True", OF ok2 _ that(3) v2 that(1)] by blast
  have "(\<exists>k x. key_comment k = c \<and> obs1 (snd w) k = Some x \<and> backed_by K Meta_v1 (getSilenceFromCR_v1 P) lo hi x s) \<or>
      (\<exists>k y. key_comment k = c \<and> obs2 (snd w) k = Some y \<and> backed_by K Meta_v2 (getSilenceFromCR_v2 P PD) lo hi y s)"
    if "mock_view w' c = Some s" "CreatedBy s = CreatedBy_operator" for c s
    using held' [unfolded silences_held_def, rule_format, OF conjI [OF that]] w1 w2 that(1) by blast
  moreover have "as_asked lo hi s (mock_view w' (key_comment k))"
    if "obs1 (snd w) k = Some x" "\<not> deleting K (Meta_v1 x)" "getSilenceFromCR_v1 P x = (Some s, None)" for k x s
    using v1 [OF that(1)] cluster_v1.achieved_live [OF that(2,3)] by blast
  moreover have "as_asked lo hi s (mock_view w' (key_comment k))"
    if "obs2 (snd w) k = Some y" "\<not> deleting K (Meta_v2 y)" "getSilenceFromCR_v2 P PD y = (Some s, None)" for k y s
    using v2 [OF that(1)] cluster_v2.achieved_live [OF that(2,3)] by blast
  ultimately show ?thesis using s(1) by (intro exI [of _ rs] exI [of _ w']) blast
qed

subsection \<open>The two properties\<close>

text \<open>C1: no silence leaks.  Alertmanager is the mock server, for one tenant, and it never refuses to delete a silence it
  holds (the client takes such a refusal for a success and leaks the silence:
  \<open>DeleteSilenceByID_ignores_status\<close>).  The steps, in whatever order: calls of both controllers in which any
  requests, writes or their answers are lost; users that create, edit and delete objects but leave the controller's
  finalizer alone, and whose objects convert, if at all, to silences JSON can hold; others that expire silences or keep their own, under comments that are not the operator's.  Then
  if it is so at first, every silence that the operator made and that has not expired belongs to an object that is still there and has the
  controller's finalizer, so that it cannot go before its silence.  The bounds on the clock, which are part of
  \<open>both_ok\<close>, are any.\<close>

theorem no_silence_leaks:
  assumes "both_ok P K M obs1 obs2 C1 C2 lo hi" "both_wf am P K PD obs1 obs2 w"
    and "silences_held obs1 obs2 w" "(system_step P K PD M am h C1 C2 obs1 obs2)\<^sup>*\<^sup>* w w'"
  shows "both_wf am P K PD obs1 obs2 w' \<and> silences_held obs1 obs2 w'"
  by (rule reachable [OF assms])

text \<open>The world of \<open>mixed\<close> before its v1alpha2 object is created.\<close>

definition before_creation ::
  "MockAlertmanagerServer \<times> (NamespacedName \<Rightarrow> Silence_v1 option) \<times> (NamespacedName \<Rightarrow> Silence_v2 option)" where
  "before_creation = (fst mixed, fst (snd mixed), Map.empty)"

abbreviation sample_step where
  "sample_step \<equiv> system_step sample_errors sample_kube (\<lambda>_. Inr 0) (sample_mock day_2025) sample_am sample_helper
     pair_kube_v1 pair_kube_v2 fst snd"

lemma before_creation_wf:
  "both_wf sample_am sample_errors sample_kube (\<lambda>_. Inr 0) fst snd before_creation"
proof -
  have "fst before_creation = fst mixed" "fst (snd before_creation) = fst (snd mixed)" "snd (snd before_creation) = Map.empty"
    by (simp_all add: before_creation_def)
  moreover from mock_same [OF this(1)] mixed_wf
  have "mock_wf sample_am before_creation" "mock_view before_creation = mock_view mixed"
    by (simp_all add: both_wf_def cluster_wf_def)
  ultimately show ?thesis
    using mixed_wf unfolding both_wf_def by (elim conjE, intro conjI; elim cluster_wf_part) simp_all
qed

lemma before_creation_held: "silences_held fst snd before_creation"
proof -
  have "c = key_comment other_key" if "mock_view before_creation c = Some s" for c s
    using that two_keys(3) by (auto simp: before_creation_def mixed_def two_objects_def mock_view_def other_wanted_def
        mock_id_def split: if_splits)
  then show ?thesis
    using mixed_facts(2,6) unfolding silences_held_def by (metis before_creation_def fst_conv snd_conv)
qed

lemma creation_step: "sample_step before_creation mixed"
proof (rule user_v2 [where k = sample_key and u = "Some sample_v2"])
  have "well_converted (getSilenceFromCR_v2 sample_errors (\<lambda>_. Inr 0)) sample_v2"
    "stored_as sample_kube Meta_v2 sample_v2 = Some sample_v2" "key_of (Meta_v2 sample_v2) = sample_key"
    using mixed_wf mixed_facts(1) unfolding both_wf_def cluster_wf_def by blast+
  then show "user_write sample_kube FinalizerName Meta_v2 (getSilenceFromCR_v2 sample_errors (\<lambda>_. Inr 0))
      sample_key (snd (snd before_creation) sample_key) (Some sample_v2)"
    by (simp add: before_creation_def user_creates)
qed (simp_all add: before_creation_def mixed_def)

lemma creation_steps: "sample_step\<^sup>*\<^sup>* before_creation mixed"
  by (rule r_into_rtranclp) (rule creation_step)

theorem no_silence_leaks_witness:
  "\<exists>r1 w1 r2 w2. sample_step before_creation mixed \<and>
    reconcile_faulty sample_errors sample_kube (\<lambda>_. Inr 0) (sample_mock day_2025) sample_am sample_helper
      pair_kube_v1 pair_kube_v2 unheard_writes (Inr sample_key) mixed = (r1, w1) \<and>
    reconcile_faulty sample_errors sample_kube (\<lambda>_. Inr 0) (sample_mock day_2025) sample_am sample_helper
      pair_kube_v1 pair_kube_v2 unheard_deletions (Inl other_key) w1 = (r2, w2) \<and> silences_held fst snd w2"
proof -
  let ?f = "reconcile_faulty sample_errors sample_kube (\<lambda>_. Inr 0) (sample_mock day_2025) sample_am sample_helper
      pair_kube_v1 pair_kube_v2"
  obtain r1 w1 where w1: "?f unheard_writes (Inr sample_key) mixed = (r1, w1)" by (rule prod.exhaust)
  obtain r2 w2 where w2: "?f unheard_deletions (Inl other_key) w1 = (r2, w2)" by (rule prod.exhaust)
  have "sample_step\<^sup>*\<^sup>* before_creation w1"
    by (rule rtranclp.rtrancl_into_rtrancl) (rule creation_steps, rule call [OF sample_faults_ok(1) w1])
  then have "sample_step\<^sup>*\<^sup>* before_creation w2"
    by (rule rtranclp.rtrancl_into_rtrancl) (rule call [OF sample_faults_ok(2) w2])
  with no_silence_leaks [OF pair_kube_both before_creation_wf before_creation_held] have "silences_held fst snd w2" by blast
  then show ?thesis using creation_step w1 w2 by blast
qed



end
