(* ===== verification/Bounds.thy ===== *)
theory Bounds
  imports Contracts
begin

section \<open>How much one call does\<close>

text \<open>
  The number of requests to Alertmanager and of writes to Kubernetes in the log of one call of
  \<open>Reconcile\<close> is bounded, whatever the libraries, the servers and the network do; no law of them is
  needed.
\<close>

fun is_request :: "event \<Rightarrow> bool" where
  "is_request (Request q a) = True"
| "is_request _ = False"

fun is_write :: "event \<Rightarrow> bool" where
  "is_write (Write m b) = True"
| "is_write _ = False"

definition requests :: "event list \<Rightarrow> nat" where
  "requests tr = length (filter is_request tr)"

definition writes :: "event list \<Rightarrow> nat" where
  "writes tr = length (filter is_write tr)"

lemma counts [simp]:
  "requests [] = 0" "requests (tr @ [e]) = requests tr + of_bool (is_request e)"
  "writes [] = 0" "writes (tr @ [e]) = writes tr + of_bool (is_write e)"
  by (simp_all add: requests_def writes_def)

definition spends :: "nat \<Rightarrow> nat \<Rightarrow> event list \<Rightarrow> event list \<Rightarrow> bool" where
  "spends r u tr tr' \<longleftrightarrow> requests tr' \<le> requests tr + r \<and> writes tr' \<le> writes tr + u"

lemma spends_refl [simp]: "spends r u tr tr"
  by (simp add: spends_def)

lemma spends_trans: "spends a b tr tr' \<Longrightarrow> spends c d tr' tr'' \<Longrightarrow> spends (a + c) (b + d) tr tr''"
  by (simp add: spends_def)

lemma spends_mono: "spends a b tr tr' \<Longrightarrow> a \<le> c \<Longrightarrow> b \<le> d \<Longrightarrow> spends c d tr tr'"
  by (simp add: spends_def)

lemma spends_event [simp]:
  "spends r u tr (tr @ [e]) \<longleftrightarrow> of_bool (is_request e) \<le> r \<and> of_bool (is_write e) \<le> u"
  by (auto simp: spends_def)

subsection \<open>The client and the service\<close>

lemma ListSilences_spends:
  "ListSilences P (traced_env E) am t (w, tr) = (r, (w', tr')) \<Longrightarrow> spends 1 0 tr tr'"
  by (auto simp: ListSilences_def split: sum.splits prod.splits)

lemma GetSilenceByComment_spends:
  "GetSilenceByComment P (traced_env E) am c t (w, tr) = (r, (w', tr')) \<Longrightarrow> spends 1 0 tr tr'"
  by (auto simp: GetSilenceByComment_def split: prod.splits option.splits dest: ListSilences_spends)

lemma CreateSilence_spends:
  "CreateSilence P (traced_env E) am s t (w, tr) = (r, (w', tr')) \<Longrightarrow> spends 1 0 tr tr'"
  by (auto simp: CreateSilence_def split: sum.splits prod.splits if_splits)

lemma UpdateSilence_spends:
  "UpdateSilence P (traced_env E) am s t (w, tr) = (r, (w', tr')) \<Longrightarrow> spends 1 0 tr tr'"
  by (auto simp: UpdateSilence_def split: if_splits dest: CreateSilence_spends)

lemma DeleteSilenceByID_spends:
  "DeleteSilenceByID P (traced_env E) am i t (w, tr) = (r, (w', tr')) \<Longrightarrow> spends 1 0 tr tr'"
  by (auto simp: DeleteSilenceByID_def Let_def split: sum.splits prod.splits if_splits)

lemma DeleteSilenceByComment_spends:
  "DeleteSilenceByComment P (traced_env E) am c t (w, tr) = (r, (w', tr')) \<Longrightarrow> spends 2 0 tr tr'"
  by (auto simp: DeleteSilenceByComment_def split: prod.splits option.splits
      dest!: ListSilences_spends DeleteSilenceByID_spends dest: spends_trans intro: spends_mono)

lemma SyncSilence_spends:
  assumes "SyncSilence P (traced_env E) (traced_service P E am) s t (w, tr) = (r, (w', tr'))"
  shows "spends 2 0 tr tr'"
proof -
  obtain now w1 where now: "time_Now E w = (now, w1)" by (cases "time_Now E w")
  show ?thesis
  proof (cases s)
    case None
    then show ?thesis using assms now by (auto simp: SyncSilence_def)
  next
    case (Some new)
    obtain x w2 tr2 where get: "GetSilenceByComment P (traced_env E) am (Comment new) t
        (w1, tr @ [Clock now]) = (x, (w2, tr2))"
      by (metis prod.exhaust)
    have "spends 0 0 tr (tr @ [Clock now])" by simp
    then have g: "spends 1 0 tr tr2" using spends_trans [OF _ GetSilenceByComment_spends [OF get]] by fastforce
    have "spends 1 0 tr2 tr'"
      using assms now get Some
      by (auto simp: SyncSilence_def split: if_splits option.splits prod.splits
          dest: CreateSilence_spends UpdateSilence_spends DeleteSilenceByID_spends)
    then show ?thesis using spends_trans [OF g] by (simp add: numeral_2_eq_2)
  qed
qed

lemma DeleteSilence_spends:
  "DeleteSilence P (traced_service P E am) c t (w, tr) = (r, (w', tr')) \<Longrightarrow> spends 2 0 tr tr'"
  by (auto simp: DeleteSilence_def split: prod.splits option.splits if_splits dest: DeleteSilenceByComment_spends)

lemma operations_spend:
  "reconcileCreate_v1 P (traced_env E) (traced_v1 P E C am h) x (w, tr) = (r, (w', tr')) \<Longrightarrow> spends 2 0 tr tr'"
  "reconcileDelete_v1 P (traced_v1 P E C am h) x (w, tr) = (e, (w', tr')) \<Longrightarrow> spends 2 0 tr tr'"
  "reconcileCreate_v2 P PD (traced_env E) (traced_v2 P E C2 am h) y (w, tr) = (r, (w', tr')) \<Longrightarrow> spends 2 0 tr tr'"
  "reconcileDelete_v2 P (traced_v2 P E C2 am h) y (w, tr) = (e, (w', tr')) \<Longrightarrow> spends 2 0 tr tr'"
  "cleanUpLegacyFinalizer P K (traced_v1 P E C am h) x (w, tr) = (z, (w', tr')) \<Longrightarrow> spends 0 1 tr tr'"
  by (auto simp: reconcileCreate_v1_def reconcileDelete_v1_def reconcileCreate_v2_def reconcileDelete_v2_def
      cleanUpLegacyFinalizer_def Let_def split: prod.splits option.splits outcome.splits sum.splits if_splits
      dest: SyncSilence_spends DeleteSilence_spends)

subsection \<open>The flow\<close>

text \<open>A cleanup that writes at most \<open>n\<close> times, then the continuation.\<close>

locale flow_cost =
  fixes del :: "'obj \<Rightarrow> 'w \<times> event list \<Rightarrow> go_error option \<times> ('w \<times> event list)"
    and cleanup :: "'obj \<Rightarrow> 'w \<times> event list \<Rightarrow> ('obj \<times> go_error option) \<times> ('w \<times> event list)"
    and create :: "'obj \<Rightarrow> 'w \<times> event list \<Rightarrow> go_error option outcome \<times> ('w \<times> event list)"
    and n :: nat
  assumes del_spends: "del x (w, tr) = (e, (w', tr')) \<Longrightarrow> spends 2 0 tr tr'"
    and create_spends: "create x (w, tr) = (r, (w', tr')) \<Longrightarrow> spends 2 0 tr tr'"
    and cleanup_spends: "cleanup x (w, tr) = (z, (w', tr')) \<Longrightarrow> spends 0 n tr tr'"
begin

lemma finish_spends:
  assumes cont: "\<And>x w tr r w' tr'. cont x (w, tr) = (r, (w', tr')) \<Longrightarrow> spends a 0 tr tr'"
    and run: "finish fail cleanup cont x (w, tr) = (r, (w', tr'))"
  shows "spends a n tr tr'"
proof -
  obtain y e w1 tr1 where c: "cleanup x (w, tr) = ((y, e), (w1, tr1))" by (metis prod.exhaust)
  have "spends a 0 tr1 tr'"
    using run c cont by (cases e) (auto simp: finish_def)
  then show ?thesis using spends_trans [OF cleanup_spends [OF c]] by fastforce
qed

lemma stop_spends: "stop x (w, tr) = (r, (w', tr')) \<Longrightarrow> spends 0 0 tr tr'"
  by (simp add: stop_def)

lemma write_spends: "spends c n (tr @ [Write m b]) tr' \<Longrightarrow> spends c (Suc n) tr tr'"
  using spends_trans [of 0 1 tr "tr @ [Write m b]" c n tr'] by simp

lemma flow_object_spends:
  assumes "flow K fin meta upd (traced_kube meta C) fail del cleanup create k (w, tr0) = (r, (w', tr'))"
    and get: "Kube_Get C k w = (Inr x, w1)" and tr: "tr = tr0 @ [Read k True]"
  shows "spends 2 (Suc n) tr tr'"
proof -
  have fin: "spends 2 n tr0 tr'" if "finish fail cleanup create x (w0, tr0) = (r, (w', tr'))" for x w0 tr0
    using finish_spends [OF create_spends that] .
  have stop: "spends 0 n tr0 tr'" if "finish fail cleanup stop x (w0, tr0) = (r, (w', tr'))" for x w0 tr0
    using finish_spends [OF stop_spends that] .
  consider (going) "deleting K (meta x)" "ContainsFinalizer K (meta x) fin"
    | (gone) "deleting K (meta x)" "\<not> ContainsFinalizer K (meta x) fin"
    | (new) "\<not> deleting K (meta x)" "\<not> ContainsFinalizer K (meta x) fin"
    | (kept) "\<not> deleting K (meta x)" "ContainsFinalizer K (meta x) fin" by blast
  then show ?thesis
  proof cases
    case going
    obtain e w2 tr2 where d: "del x (w1, tr) = (e, (w2, tr2))" by (metis prod.exhaust)
    obtain b w3 where u: "Kube_Update C (upd (\<lambda>m. RemoveFinalizer K m fin) x) w2 = (b, w3)" by fastforce
    have "spends 0 (Suc n) tr2 tr'"
      using assms going d u
      by (cases e; cases b) (auto simp: flow_def get simp del: append_assoc dest: write_spends [OF stop])
    then show ?thesis using spends_trans [OF del_spends [OF d]] by fastforce
  next
    case gone
    then have "finish fail cleanup stop x (w1, tr) = (r, (w', tr'))" using assms by (simp add: flow_def get)
    then show ?thesis using spends_mono [OF stop] by fastforce
  next
    case new
    obtain b w3 where u: "Kube_Update C (upd (\<lambda>m. AddFinalizer K m fin) x) w1 = (b, w3)" by fastforce
    show ?thesis
      using assms new u
      by (cases b) (auto simp: flow_def get simp del: append_assoc dest: write_spends [OF fin])
  next
    case kept
    then have "finish fail cleanup create x (w1, tr) = (r, (w', tr'))" using assms by (simp add: flow_def get)
    then show ?thesis using spends_mono [OF fin] by fastforce
  qed
qed

lemma flow_spends:
  assumes "flow K fin meta upd (traced_kube meta C) fail del cleanup create k (w, tr) = (r, (w', tr'))"
  shows "spends 2 (Suc n) tr tr'"
proof -
  obtain a w1 where get: "Kube_Get C k w = (a, w1)" by (cases "Kube_Get C k w")
  have "spends 2 (Suc n) (tr @ [Read k (\<not> isl a)]) tr'"
  proof (cases a)
    case (Inl e)
    then show ?thesis using assms get by (auto simp: flow_def)
  next
    case (Inr x)
    then show ?thesis using flow_object_spends [OF assms get [unfolded Inr] refl] by simp
  qed
  then show ?thesis using spends_trans [of 0 0 tr "tr @ [Read k (\<not> isl a)]" 2 "Suc n" tr']
    by (simp add: numeral_2_eq_2)
qed

end

interpretation cost_v1: flow_cost "reconcileDelete_v1 P (traced_v1 P E C am h)"
    "cleanUpLegacyFinalizer P K (traced_v1 P E C am h)"
    "reconcileCreate_v1 P (traced_env E) (traced_v1 P E C am h)" 1
  for P K E C am h
  by unfold_locales (blast intro: operations_spend)+

interpretation cost_v2: flow_cost "reconcileDelete_v2 P (traced_v2 P E C am h)" no_cleanup
    "reconcileCreate_v2 P PD (traced_env E) (traced_v2 P E C am h)" 0
  for P PD E C am h
  by unfold_locales (auto intro: operations_spend simp: no_cleanup_def)

text \<open>C35: one call of either \<open>Reconcile\<close> always comes to an end after at most two requests to Alertmanager
  (a listing and one change), and after at most one write to Kubernetes, or two in the v1alpha1 controller,
  which also removes the legacy finalizer.  The controllers never retry by themselves.\<close>

theorem Reconcile_bounded:
  "requests (log_v1 P K E C am h k w) \<le> 2 \<and> writes (log_v1 P K E C am h k w) \<le> 2 \<and>
   requests (log_v2 P K PD E C' am h k w) \<le> 2 \<and> writes (log_v2 P K PD E C' am h k w) \<le> 1"
proof -
  obtain r1 w1 tr1 where 1: "flow K silenceFinalizer Meta_v1 upd_v1 (traced_kube Meta_v1 C) (WithStack P)
      (reconcileDelete_v1 P (traced_v1 P E C am h)) (cleanUpLegacyFinalizer P K (traced_v1 P E C am h))
      (reconcileCreate_v1 P (traced_env E) (traced_v1 P E C am h)) k (w, []) = (r1, (w1, tr1))"
    by (rule prod_cases3)
  obtain r2 w2 tr2 where 2: "flow K FinalizerName Meta_v2 upd_v2 (traced_kube Meta_v2 C') (WithStack P)
      (reconcileDelete_v2 P (traced_v2 P E C' am h)) no_cleanup
      (reconcileCreate_v2 P PD (traced_env E) (traced_v2 P E C' am h)) k (w, []) = (r2, (w2, tr2))"
    by (rule prod_cases3)
  from cost_v1.flow_spends [OF 1] cost_v2.flow_spends [OF 2] show ?thesis
    unfolding log_v1_run log_v2_run 1 2 by (simp add: spends_def)
qed

end
