(* ===== verification/Admission.thy ===== *)
theory Admission
  imports Conversions Go_Json Samples
begin

section \<open>What the API server admits\<close>

text \<open>
  The validation rules that the markers of \<open>api/v1alpha2/silence_types.go\<close> put on the resource, as the
  API server applies them to an object before the controller sees it: lengths, the enumeration of
  match types, the pattern of a duration and the two rules that relate the times.  An admitted object
  can fail to be converted only for its duration's value or its annotation.
\<close>

subsection \<open>The rules\<close>

text \<open>Lengths count Unicode code points: the bytes that do not continue one.\<close>

definition rune_count :: "string \<Rightarrow> nat" where
  "rune_count s = length (filter (\<lambda>c. (of_char c :: nat) < 128 \<or> 192 \<le> (of_char c :: nat)) s)"

definition admitted_match_type :: "MatchType_v2 \<Rightarrow> bool" where
  "admitted_match_type t \<longleftrightarrow> t \<in> {''='', ''!='', ''=~'', ''!~''}"

definition admitted_matcher :: "SilenceMatcher_v2 \<Rightarrow> bool" where
  "admitted_matcher m \<longleftrightarrow> 1 \<le> rune_count (Name_v2 m) \<and> rune_count (Name_v2 m) \<le> 256 \<and>
     rune_count (Value_v2 m) \<le> 1024 \<and> admitted_match_type (MatchType m)"

text \<open>The pattern of a duration: \<open>unit_after u s\<close> is what follows \<open>\d+u\<close> at the start of \<open>s\<close>; the units may each be
  left out, but not all, and stand in the order \<open>w d h m s\<close>.\<close>

definition unit_after :: "char \<Rightarrow> string \<Rightarrow> string option" where
  "unit_after u s =
     (case scan_digits s of
        Some (_, c # r) \<Rightarrow> if c = u then Some r else None
      | _ \<Rightarrow> None)"

fun optional_units :: "string \<Rightarrow> string \<Rightarrow> bool" where
  "optional_units [] s \<longleftrightarrow> s = ''''"
| "optional_units (u # us) s \<longleftrightarrow> optional_units us (case unit_after u s of Some r \<Rightarrow> r | None \<Rightarrow> s)"

fun first_unit :: "string \<Rightarrow> string \<Rightarrow> bool" where
  "first_unit [] s \<longleftrightarrow> False"
| "first_unit (u # us) s \<longleftrightarrow> (case unit_after u s of Some r \<Rightarrow> optional_units us r | None \<Rightarrow> first_unit us s)"

definition admitted_duration :: "SilenceDuration_v2 \<Rightarrow> bool" where
  "admitted_duration sd \<longleftrightarrow> first_unit ''wdhms'' sd"

definition admitted_v2 :: "Silence_v2 \<Rightarrow> bool" where
  "admitted_v2 silence \<longleftrightarrow>
     (let spec = Spec_v2 silence
      in slice_elems (Matchers_v2 spec) \<noteq> [] \<and> list_all admitted_matcher (slice_elems (Matchers_v2 spec)) \<and>
         (case DurationField_v2 spec of None \<Rightarrow> True | Some sd \<Rightarrow> admitted_duration sd) \<and>
         \<not> (EndsAt_v2 spec \<noteq> None \<and> DurationField_v2 spec \<noteq> None) \<and>
         (case (StartsAt_v2 spec, EndsAt_v2 spec) of
            (Some a, Some b) \<Rightarrow> Before a b
          | _ \<Rightarrow> True))"

subsection \<open>The pattern\<close>

text \<open>What the pattern describes: the units that occur, each with a number of at least one digit.\<close>

inductive units_of :: "string \<Rightarrow> (string \<times> char) list \<Rightarrow> string \<Rightarrow> bool" where
  none: "units_of us [] ''''"
| skip: "units_of us ps s \<Longrightarrow> units_of (u # us) ps s"
| take: "\<lbrakk>n \<noteq> ''''; list_all ascii_digit n; units_of us ps s\<rbrakk> \<Longrightarrow> units_of (u # us) ((n, u) # ps) (n @ u # s)"

inductive_cases units_of_Nil [elim!]: "units_of [] ps s"
inductive_cases units_of_Cons: "units_of (u # us) ps s"

lemma scan_digits_append:
  assumes "n \<noteq> ''''" "list_all ascii_digit n" "\<not> ascii_digit u"
  shows "scan_digits (n @ u # s) = Some (n, u # s)"
proof -
  have "\<forall>c\<in>set n. ascii_digit c" using assms(2) by (simp add: list_all_iff)
  then show ?thesis
    using assms(1,3) by (cases n) (auto simp: scan_digits_def takeWhile_append2 dropWhile_append2)
qed

lemma unit_after_Nil [simp]: "unit_after u '''' = None"
  by (simp add: unit_after_def scan_digits_def)

lemma unit_after_Some: "unit_after u s = Some r \<Longrightarrow> \<exists>n. n \<noteq> '''' \<and> list_all ascii_digit n \<and> s = n @ u # r"
proof -
  assume a: "unit_after u s = Some r"
  then have "s \<noteq> []" "ascii_digit (hd s)" "dropWhile ascii_digit s = u # r"
    by (auto simp: unit_after_def scan_digits_def split: if_splits list.splits option.splits)
  moreover have "s = takeWhile ascii_digit s @ dropWhile ascii_digit s" by simp
  ultimately show ?thesis
    by (intro exI [of _ "takeWhile ascii_digit s"]) (auto simp: list_all_iff dest: set_takeWhileD intro: takeWhile_eq_Nil_iff [THEN iffD1])
qed

lemma unit_after_number:
  assumes "n \<noteq> ''''" "list_all ascii_digit n" "\<not> ascii_digit v"
  shows "unit_after u (n @ v # s) = (if v = u then Some s else None)"
  using scan_digits_append [OF assms] by (simp add: unit_after_def)

lemma units_of_start:
  assumes "units_of us ps s" "\<forall>v\<in>set us. \<not> ascii_digit v" "u \<notin> set us"
  shows "unit_after u s = None"
  using assms
  by (induction rule: units_of.induct) (auto simp: unit_after_number)

lemma optional_units_iff:
  "\<lbrakk>distinct us; \<forall>v\<in>set us. \<not> ascii_digit v\<rbrakk> \<Longrightarrow> optional_units us s \<longleftrightarrow> (\<exists>ps. units_of us ps s)"
proof (induction us arbitrary: s)
  case (Cons u us)
  show ?case
  proof
    assume o: "optional_units (u # us) s"
    show "\<exists>ps. units_of (u # us) ps s"
    proof (cases "unit_after u s")
      case None
      then show ?thesis using o Cons by (auto intro: units_of.skip)
    next
      case (Some r)
      then show ?thesis using o Cons unit_after_Some [OF Some] by (auto intro: units_of.take)
    qed
  next
    assume "\<exists>ps. units_of (u # us) ps s"
    then obtain ps where "units_of (u # us) ps s" ..
    then show "optional_units (u # us) s"
      using Cons
      by (cases rule: units_of.cases) (auto simp: unit_after_number units_of_start intro: units_of.none)
  qed
qed (auto intro: units_of.none)


lemma first_unit_iff: "first_unit us s \<longleftrightarrow> s \<noteq> '''' \<and> optional_units us s"
  by (induction us) (auto split: option.splits)

definition duration_units :: string where
  "duration_units = ''wdhms''"

lemma duration_units: "distinct duration_units" "\<forall>u\<in>set duration_units. \<not> ascii_digit u"
  by (simp_all add: duration_units_def) code_simp+

lemma admitted_duration_iff:
  "admitted_duration sd \<longleftrightarrow> sd \<noteq> '''' \<and> (\<exists>ps. units_of duration_units ps sd)"
  using optional_units_iff [OF duration_units]
  by (simp add: admitted_duration_def first_unit_iff duration_units_def)

text \<open>The value of a duration.  It is the value that \<open>str2duration\<close> documents: a day is 24 hours, a week 168.\<close>

definition unit_ns :: "char \<Rightarrow> int" where
  "unit_ns u =
     (if u = CHR ''w'' then 604800 * second else if u = CHR ''d'' then 86400 * second
      else if u = CHR ''h'' then 3600 * second else if u = CHR ''m'' then 60 * second else second)"

definition total_ns :: "(string \<times> char) list \<Rightarrow> int" where
  "total_ns ps = sum_list (map (\<lambda>(n, u). digits_val n * unit_ns u) ps)"

definition str2duration_ok :: "(string \<Rightarrow> go_error + Duration) \<Rightarrow> bool" where
  "str2duration_ok PD \<longleftrightarrow>
     (\<forall>ps s. units_of duration_units ps s \<and> s \<noteq> '''' \<and> total_ns ps < 2 ^ 63 \<longrightarrow> PD s = Inr (word_of_int (total_ns ps)))"

lemma digits_val_nonneg:
  assumes "list_all ascii_digit n"
  shows "0 \<le> digits_val n"
proof -
  have "0 \<le> a \<Longrightarrow> 0 \<le> foldl (\<lambda>n c. n * 10 + digit_val c) a n" for a
    using assms by (induction n arbitrary: a) (auto simp: ascii_digit_def digit_val_def)
  then show ?thesis by (simp add: digits_val_def)
qed

lemma total_ns_nonneg: "units_of us ps s \<Longrightarrow> 0 \<le> total_ns ps"
  by (induction rule: units_of.induct) (auto simp: total_ns_def unit_ns_def digits_val_nonneg)

lemma sint_total:
  assumes "0 \<le> n" "n < 2 ^ 63"
  shows "sint (word_of_int n :: Duration) = n"
  using assms by (simp add: sint_sbintrunc' signed_take_bit_int_eq_self)

subsection \<open>Admitted resources\<close>

lemma those_total: "(\<And>x. x \<in> set xs \<Longrightarrow> f x \<noteq> None) \<Longrightarrow> \<exists>ys. those (map f xs) = Some ys \<and> length ys = length xs"
proof (induction xs)
  case (Cons x xs)
  then obtain y ys where "f x = Some y" "those (map f xs) = Some ys" "length ys = length xs" by fastforce
  then show ?case by simp
qed simp

lemma admitted_convertMatchers:
  assumes "list_all admitted_matcher (slice_elems ms)"
  shows "\<exists>out. convertMatchers P ms = (slice_of_list out, None) \<and> length out = length (slice_elems ms)"
proof -
  have "matcher_of m \<noteq> None" if "m \<in> set (slice_elems ms)" for m
  proof -
    have "MatchType m \<in> {''='', ''!='', ''=~'', ''!~''}"
      using assms that by (simp add: list_all_iff admitted_matcher_def admitted_match_type_def)
    then show ?thesis by (auto simp: matcher_of_def match_flags_def match_types)
  qed
  then obtain out where "those (map matcher_of (slice_elems ms)) = Some out" "length out = length (slice_elems ms)"
    using those_total [of "slice_elems ms" matcher_of] by blast
  then show ?thesis using convertMatchers_ok by blast
qed

text \<open>C17: an admitted resource that has a creation time is converted, unless \<open>str2duration\<close> rejects its
  duration or, when it gives neither end nor duration, its annotation cannot be read.  The silence has the resource's
  comment, the matchers of the resource one by one and in order, each with its name, value and operator, at least one
  of them, the start and the end that the resource gives, and starts before it ends where it gives both.\<close>

theorem admitted_converts:
  assumes "errors_pkg_ok P" "admitted_v2 x" "\<not> IsZero (CreationTimestamp (Meta_v2 x))"
  shows "(case getSilenceFromCR_v2 P PD x of
      (_, Some e) \<Rightarrow> EndsAt_v2 (Spec_v2 x) = None \<and>
        (case DurationField_v2 (Spec_v2 x) of
           Some sd \<Rightarrow> admitted_duration sd \<and> isl (PD sd)
         | None \<Rightarrow> snd (SilenceEndsAt P (Meta_v2 x)) \<noteq> None)
    | (None, None) \<Rightarrow> False
    | (Some s, None) \<Rightarrow>
        Comment s = SilenceComment (Meta_v2 x) \<and>
        slice_elems (Matchers s) \<noteq> [] \<and>
        list_all2 stands_for_v2 (slice_elems (Matchers_v2 (Spec_v2 x))) (slice_elems (Matchers s)) \<and>
        StartsAt s = (case StartsAt_v2 (Spec_v2 x) of Some t \<Rightarrow> t | None \<Rightarrow> CreationTimestamp (Meta_v2 x)) \<and>
        (EndsAt_v2 (Spec_v2 x) \<noteq> None \<longrightarrow> EndsAt_v2 (Spec_v2 x) = Some (EndsAt s)) \<and>
        (StartsAt_v2 (Spec_v2 x) \<noteq> None \<and> EndsAt_v2 (Spec_v2 x) \<noteq> None \<longrightarrow> Before (StartsAt s) (EndsAt s)))"
proof -
  note a = assms(2) [unfolded admitted_v2_def Let_def]
  obtain out where out: "convertMatchers P (Matchers_v2 (Spec_v2 x)) = (slice_of_list out, None)"
    "length out = length (slice_elems (Matchers_v2 (Spec_v2 x)))"
    using admitted_convertMatchers [of "Matchers_v2 (Spec_v2 x)" P] a by blast
  have ne: "out \<noteq> []" using out(2) a by auto
  have same: "list_all2 stands_for_v2 (slice_elems (Matchers_v2 (Spec_v2 x))) out"
    using convertMatchers_stands [OF out(1)] by simp
  note nil = errors_pkg_nil [OF assms(1)]
  show ?thesis
  proof (cases "EndsAt_v2 (Spec_v2 x)")
    case (Some e)
    then show ?thesis
      using a assms(3) out ne same
      by (cases "StartsAt_v2 (Spec_v2 x)") (auto simp: getSilenceFromCR_v2_def calculateSilenceTimes_def)
  next
    case None
    show ?thesis
    proof (cases "DurationField_v2 (Spec_v2 x)")
      case (Some sd)
      then show ?thesis
        using None a assms(3) out ne nil same
        by (cases "StartsAt_v2 (Spec_v2 x)"; cases "PD sd")
          (auto simp: getSilenceFromCR_v2_def calculateSilenceTimes_def Duration_v2_def split: option.split)
    next
      case no_duration: None
      then show ?thesis
        using None a assms(3) out ne nil same
        by (cases "StartsAt_v2 (Spec_v2 x)"; cases "SilenceEndsAt P (Meta_v2 x)"; cases "snd (SilenceEndsAt P (Meta_v2 x))")
          (auto simp: getSilenceFromCR_v2_def calculateSilenceTimes_def split: option.split)
    qed
  qed
qed

definition lasting_v2 :: Silence_v2 where
  "lasting_v2 = sample_v2\<lparr>Spec_v2 := (Spec_v2 sample_v2)\<lparr>DurationField_v2 := Some ''1d12h''\<rparr>\<rparr>"

lemma lasting_v2: "admitted_v2 lasting_v2" "\<not> IsZero (CreationTimestamp (Meta_v2 lasting_v2))"
  by code_simp+

theorem admitted_converts_witness:
  "admitted_v2 lasting_v2 \<and> (\<exists>s x y. getSilenceFromCR_v2 sample_errors (\<lambda>_. Inr 0) lasting_v2 = (Some s, None) \<and>
     slice_elems (Matchers s) = [x, y] \<and> Name y = ''cluster'' \<and> Value y = ''a.*'' \<and> IsRegex y \<and> \<not> IsEqual y)"
proof -
  have f: "DurationField_v2 (Spec_v2 lasting_v2) = Some ''1d12h''"
    "slice_elems (Matchers_v2 (Spec_v2 lasting_v2)) =
       [\<lparr>Name_v2 = ''alertname'', Value_v2 = ''Down'', MatchType = ''=''\<rparr>,
        \<lparr>Name_v2 = ''cluster'', Value_v2 = ''a.*'', MatchType = ''!~''\<rparr>]"
    by (simp_all add: lasting_v2_def sample_v2_def match_types)
  then show ?thesis
    using admitted_converts [OF sample_errors_ok lasting_v2, of "\<lambda>_. Inr 0"] lasting_v2(1)
    by (auto simp: list_all2_Cons1 stands_for_v2_def split: prod.splits option.splits)
qed

text \<open>C18: an admitted resource with a duration below 2^63 nanoseconds (about 292 years) ends exactly that much
  after its start, the given one or its creation: nothing wraps around.\<close>

theorem admitted_duration_end:
  assumes "errors_pkg_ok P" "str2duration_ok PD" "admitted_v2 x" "\<not> IsZero (CreationTimestamp (Meta_v2 x))"
    and "DurationField_v2 (Spec_v2 x) = Some sd" "units_of duration_units ps sd" "total_ns ps < 2 ^ 63"
  shows "\<exists>s. getSilenceFromCR_v2 P PD x = (Some s, None) \<and>
    StartsAt s = (case StartsAt_v2 (Spec_v2 x) of Some t \<Rightarrow> t | None \<Rightarrow> CreationTimestamp (Meta_v2 x)) \<and>
    unix_ns (EndsAt s) = unix_ns (StartsAt s) + total_ns ps \<and> unix_ns (StartsAt s) \<le> unix_ns (EndsAt s)"
proof -
  note a = assms(3) [unfolded admitted_v2_def Let_def]
  obtain out where out: "convertMatchers P (Matchers_v2 (Spec_v2 x)) = (slice_of_list out, None)"
    using admitted_convertMatchers [of "Matchers_v2 (Spec_v2 x)" P] a by blast
  have "admitted_duration sd" "EndsAt_v2 (Spec_v2 x) = None" using a assms(5) by auto
  moreover from this(1) have "PD sd = Inr (word_of_int (total_ns ps))"
    using assms(2,6,7) by (simp add: str2duration_ok_def admitted_duration_iff)
  ultimately show ?thesis
    using out assms(4,5) sint_total [OF total_ns_nonneg [OF assms(6)] assms(7)] total_ns_nonneg [OF assms(6)]
    by (cases "StartsAt_v2 (Spec_v2 x)")
      (simp_all add: getSilenceFromCR_v2_def calculateSilenceTimes_def Duration_v2_def time_Add_def)
qed

text \<open>A concrete parser, for witnesses: the units of a text that matches the pattern.\<close>

fun parse_units :: "string \<Rightarrow> string \<Rightarrow> (string \<times> char) list" where
  "parse_units [] s = []"
| "parse_units (u # us) s =
     (case unit_after u s of
        Some r \<Rightarrow> (takeWhile ascii_digit s, u) # parse_units us r
      | None \<Rightarrow> parse_units us s)"

definition sample_ParseDuration :: "string \<Rightarrow> go_error + Duration" where
  "sample_ParseDuration s = Inr (word_of_int (total_ns (parse_units duration_units s)))"

lemma units_of_unique:
  assumes "units_of us ps s" "distinct us" "\<forall>u\<in>set us. \<not> ascii_digit u"
  shows "ps = parse_units us s"
  using assms
proof (induction rule: units_of.induct)
  case (none us)
  then show ?case by (induction us) auto
next
  case (skip us ps s u)
  then show ?case by (simp add: units_of_start)
next
  case (take n us ps s u)
  then have "takeWhile ascii_digit (n @ u # s) = n" by (simp add: takeWhile_append2 list_all_iff)
  then show ?case using take by (simp add: unit_after_number)
qed

lemma sample_ParseDuration_ok: "str2duration_ok sample_ParseDuration"
  using units_of_unique [OF _ duration_units] by (auto simp: str2duration_ok_def sample_ParseDuration_def)

theorem admitted_duration_end_witness:
  "\<exists>s. getSilenceFromCR_v2 sample_errors sample_ParseDuration lasting_v2 = (Some s, None) \<and>
     unix_ns (EndsAt s) = unix_ns (StartsAt s) + (86400 + 43200) * second"
proof -
  have d: "DurationField_v2 (Spec_v2 lasting_v2) = Some ''1d12h''" by code_simp
  then have "admitted_duration ''1d12h''" using lasting_v2(1) by (simp add: admitted_v2_def Let_def)
  then obtain ps where ps: "units_of duration_units ps ''1d12h''" using admitted_duration_iff by blast
  have "total_ns ps = (86400 + 43200) * second"
    unfolding units_of_unique [OF ps duration_units] by code_simp
  then show ?thesis
    using admitted_duration_end [OF sample_errors_ok sample_ParseDuration_ok lasting_v2 d ps] by auto
qed

end
