(* ===== verification/Scheme.thy ===== *)
theory Scheme
  imports Prelude "HOL-Library.Sublist"
begin

section \<open>The registration of the types\<close>

text \<open>
  \<open>api/v1alpha1/groupversion_info.go\<close>, \<open>api/v1alpha2/groupversion_info.go\<close> and \<open>init\<close> of \<open>cmd/main.go\<close>: the
  scheme, by which the Kubernetes client tells which Go type an object of a group, version and
  kind is decoded into, learns the types of both API versions before \<open>main\<close> runs.  The packages
  \<open>apimachinery/pkg/runtime\<close>, \<open>metav1\<close>, \<open>utilruntime\<close> and \<open>client-go\<close> are parameters with their documented
  behaviour (\<open>scheme_lib_ok\<close>).
\<close>

record GroupVersion =
  Group :: string
  Version :: string

record go_type =
  Package :: string
  TypeName :: string

record ('s, 'b) scheme_lib =
  NewScheme :: 's
  AddKnownTypes :: "GroupVersion \<Rightarrow> go_type list \<Rightarrow> 's \<Rightarrow> unit outcome \<times> 's"
  AddToGroupVersion :: "GroupVersion \<Rightarrow> 's \<Rightarrow> unit outcome \<times> 's"
  NewSchemeBuilder :: "('s \<Rightarrow> go_error option outcome \<times> 's) list \<Rightarrow> 'b"
  Builder_AddToScheme :: "'b \<Rightarrow> 's \<Rightarrow> go_error option outcome \<times> 's"
  clientgo_AddToScheme :: "'s \<Rightarrow> go_error option outcome \<times> 's"
  Must :: "go_error option \<Rightarrow> unit outcome"
  known_type :: "'s \<Rightarrow> GroupVersion \<Rightarrow> string \<Rightarrow> go_type option"

subsection \<open>The code\<close>

definition GroupVersion_v1 :: GroupVersion where
  "GroupVersion_v1 = \<lparr>Group = ''monitoring.giantswarm.io'', Version = ''v1alpha1''\<rparr>"

definition GroupVersion_v2 :: GroupVersion where
  "GroupVersion_v2 = \<lparr>Group = ''observability.giantswarm.io'', Version = ''v1alpha2''\<rparr>"

definition api_type :: "string \<Rightarrow> string \<Rightarrow> go_type" where
  "api_type pkg t = \<lparr>Package = ''github.com/giantswarm/silence-operator/api/'' @ pkg, TypeName = t\<rparr>"

definition addKnownTypes_v1 :: "('s, 'b) scheme_lib \<Rightarrow> 's \<Rightarrow> go_error option outcome \<times> 's" where
  "addKnownTypes_v1 L scheme =
     (case AddKnownTypes L GroupVersion_v1 [api_type ''v1alpha1'' ''Silence'', api_type ''v1alpha1'' ''SilenceList'']
        scheme of
        (Panics, scheme) \<Rightarrow> (Panics, scheme)
      | (Returns _, scheme) \<Rightarrow>
          (case AddToGroupVersion L GroupVersion_v1 scheme of
             (Panics, scheme) \<Rightarrow> (Panics, scheme)
           | (Returns _, scheme) \<Rightarrow> (Returns None, scheme)))"

definition AddToScheme_v1 :: "('s, 'b) scheme_lib \<Rightarrow> 's \<Rightarrow> go_error option outcome \<times> 's" where
  "AddToScheme_v1 L = Builder_AddToScheme L (NewSchemeBuilder L [addKnownTypes_v1 L])"

definition addKnownTypes_v2 :: "('s, 'b) scheme_lib \<Rightarrow> 's \<Rightarrow> go_error option outcome \<times> 's" where
  "addKnownTypes_v2 L scheme =
     (case AddKnownTypes L GroupVersion_v2 [api_type ''v1alpha2'' ''Silence'', api_type ''v1alpha2'' ''SilenceList'']
        scheme of
        (Panics, scheme) \<Rightarrow> (Panics, scheme)
      | (Returns _, scheme) \<Rightarrow>
          (case AddToGroupVersion L GroupVersion_v2 scheme of
             (Panics, scheme) \<Rightarrow> (Panics, scheme)
           | (Returns _, scheme) \<Rightarrow> (Returns None, scheme)))"

definition AddToScheme_v2 :: "('s, 'b) scheme_lib \<Rightarrow> 's \<Rightarrow> go_error option outcome \<times> 's" where
  "AddToScheme_v2 L = Builder_AddToScheme L (NewSchemeBuilder L [addKnownTypes_v2 L])"

text \<open>The statements \<open>utilruntime.Must(f(scheme))\<close> in a row.\<close>

fun must_all ::
  "('s, 'b) scheme_lib \<Rightarrow> ('s \<Rightarrow> go_error option outcome \<times> 's) list \<Rightarrow> 's \<Rightarrow> unit outcome \<times> 's" where
  "must_all L [] scheme = (Returns (), scheme)"
| "must_all L (f # fs) scheme =
     (case f scheme of
        (Panics, scheme) \<Rightarrow> (Panics, scheme)
      | (Returns err, scheme) \<Rightarrow>
          (case Must L err of
             Panics \<Rightarrow> (Panics, scheme)
           | Returns _ \<Rightarrow> must_all L fs scheme))"

definition main_init :: "('s, 'b) scheme_lib \<Rightarrow> unit outcome \<times> 's" where
  "main_init L =
     must_all L [clientgo_AddToScheme L, AddToScheme_v1 L, AddToScheme_v2 L] (NewScheme L)"

subsection \<open>The libraries\<close>

text \<open>The kinds that \<open>metav1.AddToGroupVersion\<close> registers: those of a version and its internal
  counterpart, and the unversioned ones in the core group.\<close>

definition meta_kinds :: "string list" where
  "meta_kinds = [''WatchEvent'', ''ListOptions'', ''GetOptions'', ''DeleteOptions'', ''CreateOptions'',
     ''UpdateOptions'', ''PatchOptions'', ''Status'', ''APIVersions'', ''APIGroup'', ''APIGroupList'',
     ''APIResourceList'']"

definition types_by_kind :: "go_type list \<Rightarrow> string \<Rightarrow> go_type option" where
  "types_by_kind ts = map_of (map (\<lambda>t. (TypeName t, t)) ts)"

text \<open>\<open>AddKnownTypes\<close> registers each type under its name and panics only without a version or on a second
  type for a name; a builder of one function calls it; \<open>Must\<close> panics on an error.  \<open>client-go\<close> registers
  the groups of Kubernetes, none of them below \<open>giantswarm.io\<close>.\<close>

definition scheme_lib_ok :: "('s, 'b) scheme_lib \<Rightarrow> bool" where
  "scheme_lib_ok L \<longleftrightarrow>
     (\<forall>gv k. known_type L (NewScheme L) gv k = None) \<and>
     (\<forall>gv ts s. Version gv \<noteq> '''' \<and> distinct (map TypeName ts) \<and>
        (\<forall>t \<in> set ts. known_type L s gv (TypeName t) = None) \<longrightarrow>
        (\<exists>s'. AddKnownTypes L gv ts s = (Returns (), s') \<and>
           (\<forall>gv' k. known_type L s' gv' k =
              (if gv' = gv \<and> types_by_kind ts k \<noteq> None then types_by_kind ts k else known_type L s gv' k)))) \<and>
     (\<forall>gv s. Version gv \<noteq> '''' \<and> (\<forall>k \<in> set meta_kinds. known_type L s gv k = None) \<longrightarrow>
        (\<exists>s'. AddToGroupVersion L gv s = (Returns (), s') \<and>
           (\<forall>gv' k. k \<notin> set meta_kinds \<or> Group gv' \<noteq> Group gv \<and> Group gv' \<noteq> '''' \<longrightarrow>
              known_type L s' gv' k = known_type L s gv' k))) \<and>
     (\<forall>f s. Builder_AddToScheme L (NewSchemeBuilder L [f]) s = f s) \<and>
     (\<exists>s'. clientgo_AddToScheme L (NewScheme L) = (Returns None, s') \<and>
        (\<forall>gv k. suffix ''.giantswarm.io'' (Group gv) \<longrightarrow> known_type L s' gv k = None)) \<and>
     Must L None = Returns () \<and> (\<forall>e. Must L (Some e) = Panics)"

lemma giantswarm_groups:
  "suffix ''.giantswarm.io'' (Group GroupVersion_v1)" "suffix ''.giantswarm.io'' (Group GroupVersion_v2)"
  by code_simp+

lemma silences_not_meta: "''Silence'' \<notin> set meta_kinds" "''SilenceList'' \<notin> set meta_kinds"
  by code_simp+

text \<open>The shape of both registrations.\<close>

lemma register_types:
  assumes L: "scheme_lib_ok L" and gv: "Version gv \<noteq> ''''" "\<And>k. known_type L s gv k = None"
    and ts: "distinct (map TypeName ts)" "set (map TypeName ts) \<inter> set meta_kinds = {}"
  obtains s1 s2 where "AddKnownTypes L gv ts s = (Returns (), s1)" "AddToGroupVersion L gv s1 = (Returns (), s2)"
    "\<And>k. k \<notin> set meta_kinds \<Longrightarrow> known_type L s2 gv k = types_by_kind ts k"
    "\<And>gv' k. Group gv' \<noteq> Group gv \<Longrightarrow> Group gv' \<noteq> '''' \<Longrightarrow> known_type L s2 gv' k = known_type L s gv' k"
proof -
  obtain s1 where s1: "AddKnownTypes L gv ts s = (Returns (), s1)"
    "\<And>gv' k. known_type L s1 gv' k =
       (if gv' = gv \<and> types_by_kind ts k \<noteq> None then types_by_kind ts k else known_type L s gv' k)"
    using L gv ts(1) unfolding scheme_lib_ok_def by metis
  have "types_by_kind ts k = None" if "k \<in> set meta_kinds" for k
    using ts(2) that by (force simp: types_by_kind_def map_of_eq_None_iff)
  then have "\<forall>k \<in> set meta_kinds. known_type L s1 gv k = None" using s1(2) gv(2) by simp
  then obtain s2 where s2: "AddToGroupVersion L gv s1 = (Returns (), s2)"
    "\<And>gv' k. k \<notin> set meta_kinds \<or> Group gv' \<noteq> Group gv \<and> Group gv' \<noteq> '''' \<Longrightarrow>
       known_type L s2 gv' k = known_type L s1 gv' k"
    using L gv(1) unfolding scheme_lib_ok_def by metis
  show ?thesis
  proof (rule that [OF s1(1) s2(1)])
    show "known_type L s2 gv k = types_by_kind ts k" if "k \<notin> set meta_kinds" for k
      using s2(2) that s1(2) gv(2) by simp
    show "known_type L s2 gv' k = known_type L s gv' k" if "Group gv' \<noteq> Group gv" "Group gv' \<noteq> ''''" for gv' k
      using s2(2) that s1(2) by auto
  qed
qed

text \<open>Both registrations on a scheme that knows nothing of the two groups.\<close>

definition knows_silences :: "('s, 'b) scheme_lib \<Rightarrow> 's \<Rightarrow> bool" where
  "knows_silences L s \<longleftrightarrow> (\<forall>k. k \<notin> set meta_kinds \<longrightarrow>
     known_type L s GroupVersion_v1 k =
       (if k = ''Silence'' \<or> k = ''SilenceList'' then Some (api_type ''v1alpha1'' k) else None) \<and>
     known_type L s GroupVersion_v2 k =
       (if k = ''Silence'' \<or> k = ''SilenceList'' then Some (api_type ''v1alpha2'' k) else None))"

lemma register_both:
  assumes L: "scheme_lib_ok L"
    and s0: "\<And>k. known_type L s0 GroupVersion_v1 k = None" "\<And>k. known_type L s0 GroupVersion_v2 k = None"
  obtains s2 s4 where "AddToScheme_v1 L s0 = (Returns None, s2)" "AddToScheme_v2 L s2 = (Returns None, s4)"
    "knows_silences L s4"
proof -
  let ?ts = "\<lambda>p. [api_type p ''Silence'', api_type p ''SilenceList'']"
  have ts: "distinct (map TypeName (?ts p))" "set (map TypeName (?ts p)) \<inter> set meta_kinds = {}" for p
    using silences_not_meta by (simp_all add: api_type_def)
  have g: "Version GroupVersion_v1 \<noteq> ''''" "Version GroupVersion_v2 \<noteq> ''''"
    "Group GroupVersion_v1 \<noteq> Group GroupVersion_v2" "Group GroupVersion_v2 \<noteq> Group GroupVersion_v1"
    "Group GroupVersion_v1 \<noteq> ''''" "Group GroupVersion_v2 \<noteq> ''''"
    by (simp_all add: GroupVersion_v1_def GroupVersion_v2_def)
  obtain s1 s2 where one: "AddKnownTypes L GroupVersion_v1 (?ts ''v1alpha1'') s0 = (Returns (), s1)"
    "AddToGroupVersion L GroupVersion_v1 s1 = (Returns (), s2)"
    "\<And>k. k \<notin> set meta_kinds \<Longrightarrow> known_type L s2 GroupVersion_v1 k = types_by_kind (?ts ''v1alpha1'') k"
    "\<And>k. known_type L s2 GroupVersion_v2 k = None"
    by (rule register_types [OF L g(1) s0(1) ts [of "''v1alpha1''"]]) (use s0(2) g in auto)
  obtain s3 s4 where two: "AddKnownTypes L GroupVersion_v2 (?ts ''v1alpha2'') s2 = (Returns (), s3)"
    "AddToGroupVersion L GroupVersion_v2 s3 = (Returns (), s4)"
    "\<And>k. k \<notin> set meta_kinds \<Longrightarrow> known_type L s4 GroupVersion_v2 k = types_by_kind (?ts ''v1alpha2'') k"
    "\<And>k. known_type L s4 GroupVersion_v1 k = known_type L s2 GroupVersion_v1 k"
    by (rule register_types [OF L g(2) one(4) ts [of "''v1alpha2''"]]) (use g in auto)
  have b: "\<And>f s. Builder_AddToScheme L (NewSchemeBuilder L [f]) s = f s"
    using L unfolding scheme_lib_ok_def by blast
  have "types_by_kind (?ts p) k = (if k = ''Silence'' \<or> k = ''SilenceList'' then Some (api_type p k) else None)"
    for p k by (auto simp: types_by_kind_def api_type_def)
  then have "knows_silences L s4" using one(3) two(3,4) by (simp add: knows_silences_def)
  then show ?thesis
    using one(1,2) two(1,2) by (intro that [of s2 s4])
      (simp_all add: AddToScheme_v1_def AddToScheme_v2_def addKnownTypes_v1_def addKnownTypes_v2_def b)
qed

text \<open>C28: the initialisation does not panic, and after it the scheme knows \<open>Silence\<close> and \<open>SilenceList\<close> of each version
  in its own group and, apart from the kinds of \<open>metav1\<close> that \<open>AddToGroupVersion\<close> registers in each group, nothing
  else there: the two versions never stand in for each other.\<close>

theorem main_init_registers:
  assumes "scheme_lib_ok L"
  shows "\<exists>s. main_init L = (Returns (), s) \<and>
    (\<forall>k. k \<notin> set meta_kinds \<longrightarrow>
       known_type L s GroupVersion_v1 k =
         (if k = ''Silence'' \<or> k = ''SilenceList'' then Some (api_type ''v1alpha1'' k) else None) \<and>
       known_type L s GroupVersion_v2 k =
         (if k = ''Silence'' \<or> k = ''SilenceList'' then Some (api_type ''v1alpha2'' k) else None))"
proof -
  obtain s0 where s0: "clientgo_AddToScheme L (NewScheme L) = (Returns None, s0)"
    "\<And>k. known_type L s0 GroupVersion_v1 k = None" "\<And>k. known_type L s0 GroupVersion_v2 k = None"
    using assms giantswarm_groups unfolding scheme_lib_ok_def by blast
  obtain s2 s4 where s: "AddToScheme_v1 L s0 = (Returns None, s2)" "AddToScheme_v2 L s2 = (Returns None, s4)"
    "knows_silences L s4"
    using register_both [OF assms s0(2,3)] by blast
  have "Must L None = Returns ()" using assms unfolding scheme_lib_ok_def by blast
  then have "main_init L = (Returns (), s4)" by (simp add: main_init_def s0(1) s(1,2))
  then show ?thesis using s(3) unfolding knows_silences_def by blast
qed

text \<open>A scheme that is a map from group, version and kind.\<close>

type_synonym map_scheme = "GroupVersion \<Rightarrow> string \<Rightarrow> go_type option"

definition add_types :: "GroupVersion \<Rightarrow> go_type list \<Rightarrow> map_scheme \<Rightarrow> unit outcome \<times> map_scheme" where
  "add_types gv ts s = (Returns (), \<lambda>gv' k. if gv' = gv \<and> types_by_kind ts k \<noteq> None then types_by_kind ts k else s gv' k)"

definition sample_scheme_lib :: "(map_scheme, map_scheme \<Rightarrow> go_error option outcome \<times> map_scheme) scheme_lib" where
  "sample_scheme_lib = \<lparr>NewScheme = (\<lambda>_ _. None), AddKnownTypes = add_types,
     AddToGroupVersion = (\<lambda>gv. add_types gv (map (\<lambda>k. \<lparr>Package = ''metav1'', TypeName = k\<rparr>) meta_kinds)),
     NewSchemeBuilder = hd, Builder_AddToScheme = (\<lambda>f. f),
     clientgo_AddToScheme = (\<lambda>s. (Returns None,
       s(\<lparr>Group = '''', Version = ''v1''\<rparr> := [''Pod'' \<mapsto> \<lparr>Package = ''corev1'', TypeName = ''Pod''\<rparr>]))),
     Must = (\<lambda>e. case e of None \<Rightarrow> Returns () | Some _ \<Rightarrow> Panics), known_type = (\<lambda>s. s)\<rparr>"

lemma types_by_kind_meta:
  "types_by_kind (map (\<lambda>k. \<lparr>Package = p, TypeName = k\<rparr>) ks) k \<noteq> None \<longleftrightarrow> k \<in> set ks"
  by (auto simp: types_by_kind_def map_of_eq_None_iff comp_def image_def)

lemma sample_scheme_lib_ok: "scheme_lib_ok sample_scheme_lib"
proof -
  have "\<not> suffix ''.giantswarm.io'' ''''" by code_simp
  then show ?thesis
    using types_by_kind_meta [of "''metav1''" meta_kinds]
    by (auto simp: scheme_lib_ok_def sample_scheme_lib_def add_types_def)
qed

theorem main_init_registers_witness:
  "\<exists>s. main_init sample_scheme_lib = (Returns (), s) \<and>
    s GroupVersion_v2 ''Silence'' = Some (api_type ''v1alpha2'' ''Silence'') \<and>
    s GroupVersion_v1 ''Pod'' = None"
proof -
  have "''Pod'' \<notin> set meta_kinds" by code_simp
  then show ?thesis
    using main_init_registers [OF sample_scheme_lib_ok] silences_not_meta
    by (fastforce simp: sample_scheme_lib_def)
qed

end
