(* ===== verification/Migration.thy ===== *)
theory Migration
  imports Admission "HOL-Library.Sublist"
begin

section \<open>The migration script\<close>

text \<open>
  \<open>hack/migrate-silences.sh\<close>, which writes v1alpha2 resources for the v1alpha1 resources of a cluster.  A
  command of the shell takes the shell's variables and the world to an exit status and both again;
  of the variables only \<open>converted_matchers\<close> outlives a step.  \<open>kubectl\<close> and the look-up of commands are
  parameters.  Resources are the JSON texts that the API server answers, so the fields have the types of the
  CRD.  The log on standard output is not modelled.
\<close>

subsection \<open>What the script uses of the shell and of jq\<close>

text \<open>\<open>.f\<close>: null when the field is missing.  \<open>jq -r\<close> on a scalar, in \<open>$(...)\<close>: trailing newlines are dropped.\<close>

definition jq_field :: "string \<Rightarrow> json \<Rightarrow> json" where
  "jq_field f v = (case v of
      JObj ms \<Rightarrow> (case map_of ms f of Some x \<Rightarrow> x | None \<Rightarrow> JNull)
    | _ \<Rightarrow> JNull)"

definition jq_has :: "string \<Rightarrow> json \<Rightarrow> bool" where
  "jq_has f v = (case v of JObj ms \<Rightarrow> map_of ms f \<noteq> None | _ \<Rightarrow> False)"

definition jq_default :: "json \<Rightarrow> json \<Rightarrow> json" where
  "jq_default v d = (if v = JNull \<or> v = JBool False then d else v)"

definition line_feed :: char where
  "line_feed = CHR 0x0A"

definition captured :: "string \<Rightarrow> string" where
  "captured s = rev (dropWhile (\<lambda>c. c = line_feed) (rev s))"

fun raw_text :: "json \<Rightarrow> string" where
  "raw_text (JStr s) = captured s"
| "raw_text (JBool b) = (if b then ''true'' else ''false'')"
| "raw_text (JNum n) = n"
| "raw_text _ = ''null''"

text \<open>\<open>.[]\<close>; on anything else jq exits with status 5.\<close>

definition jq_iterate :: "json \<Rightarrow> json list option" where
  "jq_iterate v = (case v of JArr xs \<Rightarrow> Some xs | JObj ms \<Rightarrow> Some (map snd ms) | _ \<Rightarrow> None)"

text \<open>A command in a pipeline runs in a subshell: its exit status and its effects on the world stay, the variables it
  assigns do not.\<close>

definition subshell :: "('v \<times> 'w \<Rightarrow> nat \<times> 'v \<times> 'w) \<Rightarrow> 'v \<times> 'w \<Rightarrow> nat \<times> 'v \<times> 'w" where
  "subshell c vw = (case c vw of (status, (_, w)) \<Rightarrow> (status, (fst vw, w)))"

record 'w migration_tools =
  command_exists :: "string \<Rightarrow> 'w \<Rightarrow> bool"
  kubectl_get_crd :: "'w \<Rightarrow> bool"
  kubectl_get_v1 :: "'w \<Rightarrow> bool"
  kubectl_list_v1 :: "'w \<Rightarrow> nat + json list"
  kubectl_apply :: "json \<Rightarrow> 'w \<Rightarrow> bool \<times> 'w"

subsection \<open>The script\<close>

text \<open>The options: an exit status, or whether this is a dry run and the free arguments.\<close>

fun parse_options :: "string list \<Rightarrow> bool \<Rightarrow> string list \<Rightarrow> nat + bool \<times> string list" where
  "parse_options [] dry free = Inr (dry, free)"
| "parse_options (a # as) dry free =
     (if a = ''--help'' then Inl 0
      else if a = ''--dry-run'' then parse_options as True free
      else if prefix ''-'' a \<and> length a \<ge> 2 then Inl 1
      else parse_options as dry (free @ [a]))"

definition convert_matcher_to_enum :: "json \<Rightarrow> json" where
  "convert_matcher_to_enum matcher =
     (let name = raw_text (jq_field ''name'' matcher);
          val = raw_text (jq_field ''value'' matcher);
          isRegex = raw_text (jq_default (jq_field ''isRegex'' matcher) (JBool False));
          isEqual = raw_text (if jq_has ''isEqual'' matcher then jq_field ''isEqual'' matcher else JBool True);
          combination = isRegex @ ''-'' @ isEqual;
          matchType =
            (if combination = ''false-true'' then ''=''
             else if combination = ''false-false'' then ''!=''
             else if combination = ''true-true'' then ''=~''
             else if combination = ''true-false'' then ''!~''
             else ''='')
      in JObj [(''name'', JStr name), (''value'', JStr val), (''matchType'', JStr matchType)])"

text \<open>The loop over the matchers, on the variable \<open>converted_matchers\<close>.\<close>

fun matcher_loop :: "json list \<Rightarrow> json list \<times> 'w \<Rightarrow> nat \<times> json list \<times> 'w" where
  "matcher_loop [] (converted_matchers, w) = (0, (converted_matchers, w))"
| "matcher_loop (matcher # rest) (converted_matchers, w) =
     matcher_loop rest (converted_matchers @ [convert_matcher_to_enum matcher], w)"

definition annotation_prefixes :: "string list" where
  "annotation_prefixes = [''kubernetes.io'', ''k8s.io'', ''config.kubernetes.io'', ''app.kubernetes.io'',
     ''fluxcd.io'', ''helm.sh'', ''kustomize.toolkit.fluxcd.io'', ''source.toolkit.fluxcd.io'', ''meta.helm.sh'',
     ''kubectl.kubernetes.io'', ''control-plane.alpha.kubernetes.io'', ''node.alpha.kubernetes.io'',
     ''volume.alpha.kubernetes.io'', ''admission.gke.io'', ''autopilot.gke.io'', ''cloud.google.com'',
     ''container.googleapis.com'']"

definition label_prefixes :: "string list" where
  "label_prefixes = [''kubernetes.io'', ''k8s.io'', ''app.kubernetes.io'', ''pod-template-hash'',
     ''controller-revision-hash'', ''fluxcd.io'', ''helm.sh'', ''kustomize.toolkit.fluxcd.io'',
     ''source.toolkit.fluxcd.io'', ''meta.helm.sh'', ''kubectl.kubernetes.io'',
     ''control-plane.alpha.kubernetes.io'', ''node.alpha.kubernetes.io'', ''volume.alpha.kubernetes.io'',
     ''admission.gke.io'', ''autopilot.gke.io'', ''cloud.google.com'', ''container.googleapis.com'']"

text \<open>\<open>with_entries(select(.key | test("^(...)") | not))\<close>.\<close>

definition user_entries :: "string list \<Rightarrow> json \<Rightarrow> (string \<times> json) list" where
  "user_entries ps v =
     (case jq_default v (JObj []) of
        JObj ms \<Rightarrow> filter (\<lambda>(k, _). \<not> list_ex (\<lambda>p. prefix p k) ps) ms
      | _ \<Rightarrow> [])"

definition generated_silence :: "string \<Rightarrow> json \<Rightarrow> json list \<Rightarrow> json" where
  "generated_silence target silence converted_matchers =
     (let meta = jq_field ''metadata'' silence;
          annotations = user_entries annotation_prefixes (jq_field ''annotations'' meta);
          labels = user_entries label_prefixes (jq_field ''labels'' meta);
          metadata = [(''name'', JStr (raw_text (jq_field ''name'' meta))), (''namespace'', JStr target)] @
            (if annotations \<noteq> [] then [(''annotations'', JObj annotations)] else []) @
            (if labels \<noteq> [] then [(''labels'', JObj labels)] else [])
      in JObj [(''apiVersion'', JStr ''observability.giantswarm.io/v1alpha2''), (''kind'', JStr ''Silence''),
           (''metadata'', JObj metadata), (''spec'', JObj [(''matchers'', JArr converted_matchers)])])"

text \<open>One pass of the outer loop.  With \<open>set -e\<close> and \<open>pipefail\<close> a failing pipeline ends the shell with its status.\<close>

definition process_silence ::
  "'w migration_tools \<Rightarrow> bool \<Rightarrow> string \<Rightarrow> json \<Rightarrow> json list \<times> 'w \<Rightarrow> nat \<times> json list \<times> 'w" where
  "process_silence T dry target silence vw =
     (let vw = ([], snd vw)
      in case jq_iterate (jq_field ''matchers'' (jq_field ''spec'' silence)) of
           None \<Rightarrow> (5, vw)
         | Some matchers \<Rightarrow>
             (case subshell (matcher_loop matchers) vw of
                (status, (converted_matchers, w)) \<Rightarrow>
                  if status \<noteq> 0 then (status, (converted_matchers, w))
                  else if dry then (0, (converted_matchers, w))
                  else (case kubectl_apply T (generated_silence target silence converted_matchers) w of
                          (True, w) \<Rightarrow> (0, (converted_matchers, w))
                        | (False, w) \<Rightarrow> (1, (converted_matchers, w)))))"

fun process_all ::
  "'w migration_tools \<Rightarrow> bool \<Rightarrow> string \<Rightarrow> json list \<Rightarrow> json list \<times> 'w \<Rightarrow> nat \<times> json list \<times> 'w" where
  "process_all T dry target [] vw = (0, vw)"
| "process_all T dry target (silence # rest) vw =
     (case process_silence T dry target silence vw of
        (status, vw) \<Rightarrow> if status \<noteq> 0 then (status, vw) else process_all T dry target rest vw)"

definition migrate :: "'w migration_tools \<Rightarrow> string list \<Rightarrow> 'w \<Rightarrow> nat \<times> 'w" where
  "migrate T args w =
     (case parse_options args False [] of
        Inl status \<Rightarrow> (status, w)
      | Inr (dry, free) \<Rightarrow>
          (let target = (case free of [] \<Rightarrow> '''' | a # _ \<Rightarrow> a)
           in if target = '''' then (1, w)
              else if \<not> command_exists T ''kubectl'' w then (1, w)
              else if \<not> command_exists T ''jq'' w then (1, w)
              else if \<not> kubectl_get_crd T w then (1, w)
              else if \<not> kubectl_get_v1 T w then (1, w)
              else (case kubectl_list_v1 T w of
                      Inl status \<Rightarrow> (status, w)
                    | Inr items \<Rightarrow>
                        if items = [] then (0, w)
                        else (case subshell (process_all T dry target items) ([], w) of
                                (status, (_, w)) \<Rightarrow> (status, w)))))"

subsection \<open>The matchers\<close>

text \<open>The JSON of a v1alpha1 matcher: \<open>omitempty\<close> leaves out a false \<open>isRegex\<close> and a nil \<open>isEqual\<close>.\<close>

definition matcher_json_v1 :: "Matcher_v1 \<Rightarrow> json" where
  "matcher_json_v1 m = JObj
     ((if IsRegex_v1 m then [(''isRegex'', JBool True)] else []) @
      (case IsEqual_v1 m of None \<Rightarrow> [] | Some b \<Rightarrow> [(''isEqual'', JBool b)]) @
      [(''name'', JStr (Name_v1 m)), (''value'', JStr (Value_v1 m))])"

text \<open>A v1alpha2 matcher as the API server stores it: name and value are required, a missing match type becomes
  the default of the marker.\<close>

definition matcher_of_json_v2 :: "json \<Rightarrow> SilenceMatcher_v2 option" where
  "matcher_of_json_v2 v =
     (case (jq_field ''name'' v, jq_field ''value'' v) of
        (JStr n, JStr x) \<Rightarrow>
          (if jq_has ''matchType'' v then
             (case jq_field ''matchType'' v of
                JStr t \<Rightarrow> Some \<lparr>Name_v2 = n, Value_v2 = x, MatchType = t\<rparr>
              | _ \<Rightarrow> None)
           else Some \<lparr>Name_v2 = n, Value_v2 = x, MatchType = MatchEqual\<rparr>)
      | _ \<Rightarrow> None)"

text \<open>C20: the function of the script that converts a matcher, by itself: its result stands for the same Alertmanager
  matcher as the original one, in every combination of its flags, provided that neither the name nor the value ends in
  a newline, which the shell drops.\<close>

theorem convert_matcher_to_enum_agrees:
  assumes "captured (Name_v1 m) = Name_v1 m" "captured (Value_v1 m) = Value_v1 m"
  shows "\<exists>m2. matcher_of_json_v2 (convert_matcher_to_enum (matcher_json_v1 m)) = Some m2 \<and>
    admitted_match_type (MatchType m2) \<and> matcher_of m2 = Some (convertMatcher_v1 m)"
proof -
  let ?m2 = "\<lparr>Name_v2 = Name_v1 m, Value_v2 = Value_v1 m, MatchType =
    (if IsRegex_v1 m then (if IsEqual_v1 m = Some False then MatchRegexNotMatch else MatchRegexMatch)
     else (if IsEqual_v1 m = Some False then MatchNotEqual else MatchEqual))\<rparr>"
  have "matcher_of_json_v2 (convert_matcher_to_enum (matcher_json_v1 m)) = Some ?m2"
    using assms
    by (cases "IsRegex_v1 m"; cases "IsEqual_v1 m")
      (simp_all add: convert_matcher_to_enum_def matcher_json_v1_def matcher_of_json_v2_def jq_field_def jq_has_def
        jq_default_def match_types Let_def)
  moreover have "admitted_match_type (MatchType ?m2) \<and> matcher_of ?m2 = Some (convertMatcher_v1 m)"
    by (cases "IsEqual_v1 m")
      (auto simp: admitted_match_type_def matcher_of_def match_flags_def match_types convertMatcher_v1_def)
  ultimately show ?thesis by blast
qed

theorem convert_matcher_to_enum_agrees_witness:
  "\<exists>m2. matcher_of_json_v2 (convert_matcher_to_enum (matcher_json_v1
       \<lparr>IsRegex_v1 = True, IsEqual_v1 = Some False, Name_v1 = ''cluster'', Value_v1 = ''a.*''\<rparr>)) = Some m2 \<and>
     matcher_of m2 = Some \<lparr>IsRegex = True, IsEqual = False, Name = ''cluster'', Value = ''a.*''\<rparr>"
proof -
  let ?m = "\<lparr>IsRegex_v1 = True, IsEqual_v1 = Some False, Name_v1 = ''cluster'', Value_v1 = ''a.*''\<rparr>"
  have "captured (Name_v1 ?m) = Name_v1 ?m" "captured (Value_v1 ?m) = Value_v1 ?m" by code_simp+
  from convert_matcher_to_enum_agrees [OF this] show ?thesis by (auto simp: convertMatcher_v1_def)
qed

lemma matcher_loop_converts:
  "matcher_loop ms (acc, w) = (0, (acc @ map convert_matcher_to_enum ms, w))"
  by (induction ms arbitrary: acc) auto

subsection \<open>What the script does\<close>

text \<open>The loop converts all matchers, but in a subshell: the resource is generated from the empty list.\<close>

lemma process_silence_without_matchers:
  assumes "jq_iterate (jq_field ''matchers'' (jq_field ''spec'' silence)) = Some ms"
  shows "process_silence T False target silence vw =
    (case kubectl_apply T (generated_silence target silence []) (snd vw) of
       (applied, w) \<Rightarrow> (if applied then 0 else 1, ([], w)))"
  using assms by (auto simp: process_silence_def subshell_def matcher_loop_converts split: bool.split prod.split)

text \<open>The API server rejects a v1alpha2 resource without matchers (the marker \<open>MinItems=1\<close>).\<close>

definition rejects_no_matchers :: "'w migration_tools \<Rightarrow> bool" where
  "rejects_no_matchers T \<longleftrightarrow>
     (\<forall>doc w. jq_field ''matchers'' (jq_field ''spec'' doc) = JArr [] \<longrightarrow> kubectl_apply T doc w = (False, w))"

lemma generated_matchers: "jq_field ''matchers'' (jq_field ''spec'' (generated_silence target silence ms)) = JArr ms"
  by (simp add: generated_silence_def jq_field_def Let_def)

lemma process_silence_fails:
  assumes "rejects_no_matchers T"
  shows "\<exists>status. process_silence T False target silence vw = (status, ([], snd vw)) \<and> status \<noteq> 0"
proof (cases "jq_iterate (jq_field ''matchers'' (jq_field ''spec'' silence))")
  case (Some ms)
  have "kubectl_apply T (generated_silence target silence []) (snd vw) = (False, snd vw)"
    using assms generated_matchers by (simp add: rejects_no_matchers_def)
  then show ?thesis by (simp add: process_silence_without_matchers [OF Some])
qed (simp add: process_silence_def)

lemma process_all_dry: "snd (snd (process_all T True target items vw)) = snd vw"
proof (induction items arbitrary: vw)
  case (Cons silence rest)
  have "snd (snd (process_silence T True target silence vw)) = snd vw"
    by (auto simp: process_silence_def Let_def subshell_def matcher_loop_converts split: option.split)
  then show ?case using Cons by (auto split: prod.splits)
qed simp

text \<open>C19: the script migrates nothing.  Whatever its arguments and the resources of the cluster, the cluster is
  unchanged at the end; and a run with a target, without \<open>--dry-run\<close>, on a cluster with resources to migrate ends in a
  failure (a dry run, which is to change nothing, need not): the matchers are collected by a loop in a pipeline, whose
  assignments are lost, and the API server rejects resources without matchers.\<close>

theorem migrate_changes_nothing:
  assumes "rejects_no_matchers T"
  shows "snd (migrate T args w) = w \<and>
    (\<forall>free items. parse_options args False [] = Inr (False, free) \<and> kubectl_list_v1 T w = Inr items \<and> items \<noteq> [] \<longrightarrow>
      fst (migrate T args w) \<noteq> 0)"
proof (cases "parse_options args False []")
  case (Inl status)
  then show ?thesis by (simp add: migrate_def)
next
  case (Inr df)
  obtain dry free where df: "df = (dry, free)" by (cases df)
  show ?thesis
  proof (cases "kubectl_list_v1 T w")
    case (Inl status)
    then show ?thesis using Inr df by (simp add: migrate_def Let_def)
  next
    case items: (Inr items)
    have run: "snd (snd (process_all T dry target items ([], w))) = w \<and>
        (\<not> dry \<and> items \<noteq> [] \<longrightarrow> fst (process_all T dry target items ([], w)) \<noteq> 0)" for target
    proof (cases dry)
      case True
      then show ?thesis using process_all_dry [of T target items "([], w)"] by simp
    next
      case False
      then show ?thesis
        using process_silence_fails [OF assms, of target "hd items" "([], w)"] by (cases items) auto
    qed
    then show ?thesis
      using Inr df items run by (auto simp: migrate_def Let_def subshell_def case_prod_unfold)
  qed
qed

text \<open>A cluster that is a list of the resources applied to it, with one v1alpha1 resource.\<close>

definition sample_tools :: "json list migration_tools" where
  "sample_tools = \<lparr>command_exists = (\<lambda>_ _. True), kubectl_get_crd = (\<lambda>_. True), kubectl_get_v1 = (\<lambda>_. True),
     kubectl_list_v1 = (\<lambda>_. Inr [JObj [(''metadata'', JObj [(''name'', JStr ''a'')]),
       (''spec'', JObj [(''matchers'', JArr [JObj [(''name'', JStr ''alertname''), (''value'', JStr ''Down'')]])])]]),
     kubectl_apply = (\<lambda>doc w. if jq_field ''matchers'' (jq_field ''spec'' doc) = JArr [] then (False, w)
        else (True, w @ [doc]))\<rparr>"

theorem migrate_changes_nothing_witness:
  "migrate sample_tools [''monitoring''] [] \<noteq> (0, []) \<and> snd (migrate sample_tools [''monitoring''] []) = []"
proof -
  have "rejects_no_matchers sample_tools" by (simp add: rejects_no_matchers_def sample_tools_def)
  from migrate_changes_nothing [OF this, of "[''monitoring'']" "[]"] show ?thesis
    by (auto simp: sample_tools_def)
qed

end
