(* ===== verification/E2e_Helpers.thy ===== *)
theory E2e_Helpers
  imports Client_Spec Scheme Kube_Types
begin

section \<open>The helpers of the end-to-end tests\<close>

text \<open>
  \<open>e2e/helpers.go\<close>: how the tests reach a cluster and look at Alertmanager.  Processes, sockets, the kubeconfig
  and the client of Kubernetes are parameters (\<open>host\<close>); the time limit of the HTTP client is a matter of the
  network.  The theorem compares what the tests see with what the operator's own client sees.
\<close>

subsection \<open>Numbers in texts\<close>

fun digits :: "nat \<Rightarrow> string" where
  "digits n = (if n < 10 then [char_of (48 + n)] else digits (n div 10) @ [char_of (48 + n mod 10)])"

declare digits.simps [simp del]

definition decimal :: "int \<Rightarrow> string" where
  "decimal n = (if n < 0 then CHR ''-'' # digits (nat (- n)) else digits (nat n))"

subsection \<open>The cluster\<close>

record ('w, 'p, 'l, 'cfg, 's, 'c) host =
  net_Listen :: "string \<Rightarrow> string \<Rightarrow> 'w \<Rightarrow> (go_error + 'l) \<times> 'w"
  listener_Port :: "'l \<Rightarrow> int"
  listener_Close :: "'l \<Rightarrow> 'w \<Rightarrow> 'w"
  cmd_Start :: "string list \<Rightarrow> 'w \<Rightarrow> (go_error + 'p) \<times> 'w"
  Process_Kill :: "'p \<Rightarrow> 'w \<Rightarrow> 'w"
  cmd_Wait :: "'p \<Rightarrow> 'w \<Rightarrow> 'w"
  kube_ClientConfig :: "'w \<Rightarrow> (go_error + 'cfg) \<times> 'w"
  client_New :: "'cfg \<Rightarrow> 's \<Rightarrow> 'w \<Rightarrow> (go_error + 'c) \<times> 'w"
  Namespace_Create :: "string \<Rightarrow> 'w \<Rightarrow> go_error option \<times> 'w"
  Namespace_Delete :: "string \<Rightarrow> 'w \<Rightarrow> go_error option \<times> 'w"
  IgnoreAlreadyExists :: "go_error option \<Rightarrow> go_error option"

text \<open>The command is a pointer, and it has a process once it was started.\<close>

record 'p portForward =
  cmd :: "'p option option"
  localPort :: int

definition portForward_stop :: "('w, 'p, 'l, 'cfg, 's, 'c) host \<Rightarrow> 'p portForward \<Rightarrow> 'w \<Rightarrow> 'w" where
  "portForward_stop H pf w = (case cmd pf of Some (Some p) \<Rightarrow> cmd_Wait H p (Process_Kill H p w) | _ \<Rightarrow> w)"

text \<open>The scheme is the global one of \<open>client-go\<close>.  \<open>%w\<close> wraps.\<close>

definition newK8sClient ::
  "('s, 'b) scheme_lib \<Rightarrow> ('w, 'p, 'l, 'cfg, 's, 'c) host \<Rightarrow> 's \<times> 'w
     \<Rightarrow> (go_error + 'c) outcome \<times> 's \<times> 'w" where
  "newK8sClient L H = (\<lambda>(scheme, w).
     (case kube_ClientConfig H w of
        (Inl err, w) \<Rightarrow> (Returns (Inl (Wrapped ''getting kubeconfig: %w'' [] err)), (scheme, w))
      | (Inr restConfig, w) \<Rightarrow>
          (case AddToScheme_v1 L scheme of
             (Panics, scheme) \<Rightarrow> (Panics, (scheme, w))
           | (Returns (Some err), scheme) \<Rightarrow>
               (Returns (Inl (Wrapped ''adding v1alpha1 to scheme: %w'' [] err)), (scheme, w))
           | (Returns None, scheme) \<Rightarrow>
               (case AddToScheme_v2 L scheme of
                  (Panics, scheme) \<Rightarrow> (Panics, (scheme, w))
                | (Returns (Some err), scheme) \<Rightarrow>
                    (Returns (Inl (Wrapped ''adding v1alpha2 to scheme: %w'' [] err)), (scheme, w))
                | (Returns None, scheme) \<Rightarrow>
                    (case client_New H restConfig scheme w of
                       (Inl err, w) \<Rightarrow> (Returns (Inl (Wrapped ''creating k8s client: %w'' [] err)), (scheme, w))
                     | (Inr c, w) \<Rightarrow> (Returns (Inr c), (scheme, w)))))))"

definition freePort :: "('w, 'p, 'l, 'cfg, 's, 'c) host \<Rightarrow> 'w \<Rightarrow> (go_error + int) \<times> 'w" where
  "freePort H w =
     (case net_Listen H ''tcp'' ''127.0.0.1:0'' w of
        (Inl err, w) \<Rightarrow> (Inl err, w)
      | (Inr l, w) \<Rightarrow> (Inr (listener_Port H l), listener_Close H l w))"

definition startPortForward ::
  "('w, 'p, 'l, 'cfg, 's, 'c) host \<Rightarrow> string \<Rightarrow> string \<Rightarrow> int \<Rightarrow> 'w \<Rightarrow> (go_error + 'p portForward) \<times> 'w" where
  "startPortForward H namespace target remotePort w =
     (case freePort H w of
        (Inl err, w) \<Rightarrow> (Inl (Wrapped ''getting free port: %w'' [] err), w)
      | (Inr port, w) \<Rightarrow>
          (case cmd_Start H [''kubectl'', ''port-forward'', ''-n'', namespace, target,
                  decimal port @ '':'' @ decimal remotePort] w of
             (Inl err, w) \<Rightarrow> (Inl (Wrapped ''starting port-forward: %w'' [] err), w)
           | (Inr p, w) \<Rightarrow> (Inr \<lparr>cmd = Some (Some p), localPort = port\<rparr>, w)))"

definition createNamespace ::
  "('w, 'p, 'l, 'cfg, 's, 'c) host \<Rightarrow> string \<Rightarrow> 'w \<Rightarrow> go_error option \<times> 'w" where
  "createNamespace H name w =
     (case Namespace_Create H name w of
        (None, w) \<Rightarrow> (None, w)
      | (Some err, w) \<Rightarrow> if IgnoreAlreadyExists H (Some err) \<noteq> None then (Some err, w) else (None, w))"

definition deleteNamespace ::
  "kube_lib \<Rightarrow> ('w, 'p, 'l, 'cfg, 's, 'c) host \<Rightarrow> string \<Rightarrow> 'w \<Rightarrow> go_error option \<times> 'w" where
  "deleteNamespace K H name w = (case Namespace_Delete H name w of (err, w) \<Rightarrow> (IgnoreNotFound K err, w))"

text \<open>The client of the tests decodes the same types as the operator.\<close>

lemma newK8sClient_scheme:
  assumes "scheme_lib_ok L"
    and "\<And>k. known_type L s GroupVersion_v1 k = None" "\<And>k. known_type L s GroupVersion_v2 k = None"
    and "kube_ClientConfig H w = (Inr restConfig, w1)"
  shows "\<exists>s'. knows_silences L s' \<and> newK8sClient L H (s, w) =
    (case client_New H restConfig s' w1 of
       (Inl err, w') \<Rightarrow> (Returns (Inl (Wrapped ''creating k8s client: %w'' [] err)), (s', w'))
     | (Inr c, w') \<Rightarrow> (Returns (Inr c), (s', w')))"
proof -
  obtain s2 s4 where "AddToScheme_v1 L s = (Returns None, s2)" "AddToScheme_v2 L s2 = (Returns None, s4)"
    "knows_silences L s4"
    using register_both [OF assms(1-3)] by blast
  then show ?thesis by (intro exI [of _ s4]) (simp add: newK8sClient_def assms(4))
qed

subsection \<open>Alertmanager\<close>

definition getActiveSilences ::
  "('w, Time) Env \<Rightarrow> int \<Rightarrow> 'w \<Rightarrow> (Silence slice \<times> go_error option) \<times> 'w" where
  "getActiveSilences E port w =
     (case http_NewRequest E ''GET'' (''http://127.0.0.1:'' @ decimal port @ ''/api/v2/silences'') None of
        Inl err \<Rightarrow> ((None, Some err), w)
      | Inr req \<Rightarrow>
          (case http_Do E req w of
             (Inl err, w) \<Rightarrow> ((None, Some err), w)
           | (Inr resp, w) \<Rightarrow>
               (case RespBody resp of
                  Inl err \<Rightarrow> ((None, Some err), w)
                | Inr body \<Rightarrow>
                    (case json_Unmarshal body of
                       Inl err \<Rightarrow> ((None, Some err), w)
                     | Inr silences \<Rightarrow>
                         ((slice_of_list (filter (\<lambda>s. case Status s of
                              None \<Rightarrow> False | Some st \<Rightarrow> State st \<noteq> SilenceStateExpired) (slice_elems silences)),
                           None), w)))))"

definition findSilenceByComment ::
  "('w, Time) Env \<Rightarrow> int \<Rightarrow> string \<Rightarrow> 'w \<Rightarrow> (Silence option \<times> go_error option) \<times> 'w" where
  "findSilenceByComment E port comment w =
     (case getActiveSilences E port w of
        ((_, Some err), w) \<Rightarrow> ((None, Some err), w)
      | ((silences, None), w) \<Rightarrow> ((List.find (\<lambda>s. Comment s = comment) (slice_elems silences), None), w))"

text \<open>The operator's client for the forwarded port, without token and tenant.\<close>

definition local_client :: "int \<Rightarrow> Alertmanager" where
  "local_client port =
     \<lparr>address = ''http://127.0.0.1:'' @ decimal port, authentication = False, token = '''', tenantId = ''''\<rparr>"

lemma getActiveSilences_lists:
  assumes "errors_pkg_ok P"
  shows "case getActiveSilences E port w of ((ss, err), w') \<Rightarrow>
    \<exists>err'. ListSilences P E (local_client port) '''' w = ((ss, err'), w') \<and> (err' = None \<longleftrightarrow> err = None)"
proof -
  have "(\<lambda>s. case Status s of None \<Rightarrow> False | Some st \<Rightarrow> State st \<noteq> SilenceStateExpired) = not_expired"
    by (simp add: fun_eq_iff not_expired_def)
  then show ?thesis
    by (auto simp: getActiveSilences_def ListSilences_def NewRequest_def local_client_def authorize_def
        apiV2SilencesPath_def errors_pkg_nil(1) [OF assms] split: sum.split prod.split)
qed

text \<open>C15: the tests look at Alertmanager the way the operator does: \<open>findSilenceByComment\<close> and the operator's
  \<open>GetSilenceByComment\<close>, for the forwarded port and without a tenant, leave the same world and find the same silence;
  where the helper answers nil without an error the client answers \<open>ErrSilenceNotFound\<close>, and they fail
  together.\<close>

theorem findSilenceByComment_agrees:
  assumes "errors_pkg_ok P" "env_ok E"
  shows "case findSilenceByComment E port c w of ((found, err), w') \<Rightarrow>
    \<exists>err'. GetSilenceByComment P E (local_client port) c '''' w = ((found, err'), w') \<and>
      (err' = None \<longleftrightarrow> found \<noteq> None) \<and>
      (errors_Is_opt err' ErrSilenceNotFound \<longleftrightarrow> found = None \<and> err = None)"
proof -
  obtain ss err w' where a: "getActiveSilences E port w = ((ss, err), w')" by (metis prod.exhaust)
  then obtain err' where l: "ListSilences P E (local_client port) '''' w = ((ss, err'), w')"
    "err' = None \<longleftrightarrow> err = None"
    using getActiveSilences_lists [OF assms(1), of E port w] by auto
  show ?thesis
  proof (cases err)
    case None
    obtain e where "WithMessagef P (Some ErrSilenceNotFound) ''failed to get silence with comment %#q'' [FStr c] = Some e"
      "errors_Is e ErrSilenceNotFound"
      using not_found_message [OF assms(1)] by blast
    then show ?thesis using a l None
      by (cases "List.find (\<lambda>s. Comment s = c) (slice_elems ss)")
        (simp_all add: findSilenceByComment_def GetSilenceByComment_def)
  next
    case (Some e)
    then obtain e' where e': "err' = Some e'" using l(2) by auto
    have "\<not> errors_Is e' ErrSilenceNotFound"
      using ListSilences_error_log [OF assms] l(1) e' by blast
    moreover obtain x where x: "WithStack P (Some e') = Some x" using errors_pkg_Some(1) [OF assms(1)] by blast
    ultimately have "\<not> errors_Is x ErrSilenceNotFound"
      using WithStack_not_found [OF assms(1) x] by blast
    then show ?thesis using a l Some e' x by (simp add: findSilenceByComment_def GetSilenceByComment_def)
  qed
qed

theorem findSilenceByComment_agrees_witness:
  "fst (findSilenceByComment (fixed_env 200 sample_list) 9093 ''silence-operator-ns-a'' ()) =
     (Some active_silence, None) \<and>
   fst (fst (GetSilenceByComment sample_errors (fixed_env 200 sample_list) (local_client 9093)
     ''silence-operator-ns-a'' '''' ())) = Some active_silence"
proof -
  have "case json_Unmarshal sample_list of Inl _ \<Rightarrow> False
      | Inr ss \<Rightarrow> List.find (\<lambda>s. Comment s = ''silence-operator-ns-a'') (filter (\<lambda>s. case Status s of
          None \<Rightarrow> False | Some st \<Rightarrow> State st \<noteq> SilenceStateExpired) (slice_elems ss)) = Some active_silence"
    by code_simp
  then have run: "fst (findSilenceByComment (fixed_env 200 sample_list) 9093 ''silence-operator-ns-a'' ()) =
      (Some active_silence, None)"
    by (auto simp: findSilenceByComment_def getActiveSilences_def http_NewRequest_def fixed_env_def split: sum.splits)
  have "env_ok (fixed_env 200 sample_list)" by (simp add: env_ok_def fixed_env_def)
  from findSilenceByComment_agrees [OF sample_errors_ok this, of 9093 "''silence-operator-ns-a''" "()"] run
  show ?thesis by (auto split: prod.splits)
qed

end
