(* ===== verification/Setup.thy ===== *)
theory Setup
  imports Samples
begin

section \<open>Registering the controllers\<close>

text \<open>
  \<open>SetupWithManager\<close> of \<open>internal/controller/silence_controller.go\<close> and
  \<open>internal/controller/silence_v2_controller.go\<close>: which events of which objects reach \<open>Reconcile\<close>.
  A builder of \<open>controller-runtime\<close> is what the code has asked of it; \<open>Complete\<close>, which registers
  the controller, and the two functions that make predicates are parameters.
\<close>

datatype kube_event =
    CreateEvent ObjectMeta
  | UpdateEvent ObjectMeta ObjectMeta
  | DeleteEvent ObjectMeta
  | GenericEvent ObjectMeta

text \<open>The object an event is about, after the event.\<close>

fun event_object :: "kube_event \<Rightarrow> ObjectMeta" where
  "event_object (CreateEvent obj) = obj"
| "event_object (UpdateEvent old new) = new"
| "event_object (DeleteEvent obj) = obj"
| "event_object (GenericEvent obj) = obj"

type_synonym 'w Predicate = "kube_event \<Rightarrow> 'w \<Rightarrow> bool \<times> 'w"

type_synonym 'w Reconciler = "NamespacedName \<Rightarrow> 'w \<Rightarrow> go_error option outcome \<times> 'w"

record 'w Builder =
  For_object :: string
  Named_as :: string
  EventFilters :: "'w Predicate list"

record ('w, 'ls) predicate_lib =
  LabelSelectorPredicate :: "'ls \<Rightarrow> go_error + 'w Predicate"
  NewPredicateFuncs :: "(ObjectMeta \<Rightarrow> 'w \<Rightarrow> bool \<times> 'w) \<Rightarrow> 'w Predicate"

text \<open>What the code uses of a manager: reading the labels of a namespace and registering.\<close>

record 'w Manager =
  Get_Namespace_Labels :: "string \<Rightarrow> 'w \<Rightarrow> (go_error + string_map) \<times> 'w"
  Complete :: "'w Builder \<Rightarrow> 'w Reconciler \<Rightarrow> 'w \<Rightarrow> go_error option \<times> 'w"

definition NewControllerManagedBy :: "string \<Rightarrow> string \<Rightarrow> 'w Builder" where
  "NewControllerManagedBy object named = \<lparr>For_object = object, Named_as = named, EventFilters = []\<rparr>"

definition WithEventFilter :: "'w Builder \<Rightarrow> 'w Predicate \<Rightarrow> 'w Builder" where
  "WithEventFilter b p = b\<lparr>EventFilters := EventFilters b @ [p]\<rparr>"

text \<open>The block on the silence selector, the same in both controllers.\<close>

definition with_silence_selector ::
  "errors_pkg \<Rightarrow> ('ls, 'sel) selector_lib \<Rightarrow> ('w, 'ls) predicate_lib \<Rightarrow> 'sel Config \<Rightarrow> 'w Builder
     \<Rightarrow> go_error option + 'w Builder" where
  "with_silence_selector P S L cfg b =
     (case SilenceSelector cfg of
        None \<Rightarrow> Inr b
      | Some selector \<Rightarrow>
          if Selector_Empty S selector then Inr b
          else
            (case ParseToLabelSelector S (Selector_String S selector) of
               Inl err \<Rightarrow> Inl (Wrapf P (Some err) ''failed to parse silence selector for predicate'' [])
             | Inr metaLabelSelector \<Rightarrow>
                 (case LabelSelectorPredicate L metaLabelSelector of
                    Inl err \<Rightarrow> Inl (Wrapf P (Some err) ''failed to create label selector predicate'' [])
                  | Inr labelPredicate \<Rightarrow> Inr (WithEventFilter b labelPredicate))))"

definition SetupWithManager_v1 ::
  "errors_pkg \<Rightarrow> kube_lib \<Rightarrow> ('w, Time) Env \<Rightarrow> ('ls, 'sel) selector_lib \<Rightarrow> ('w, 'ls) predicate_lib
     \<Rightarrow> ('w, 'sel) SilenceReconciler \<Rightarrow> ('w, 'm) Manager_scheme \<Rightarrow> 'sel Config \<Rightarrow> 'w \<Rightarrow> go_error option \<times> 'w" where
  "SetupWithManager_v1 P K E S L r mgr cfg w =
     (case with_silence_selector P S L cfg (NewControllerManagedBy ''v1alpha1.Silence'' ''silence'') of
        Inl err \<Rightarrow> (err, w)
      | Inr controllerBuilder \<Rightarrow> Complete mgr controllerBuilder (Reconcile_v1 P K E r) w)"

definition namespacePredicate ::
  "('ls, 'sel) selector_lib \<Rightarrow> ('w, 'm) Manager_scheme \<Rightarrow> 'sel \<Rightarrow> ObjectMeta \<Rightarrow> 'w \<Rightarrow> bool \<times> 'w" where
  "namespacePredicate S mgr selector obj w =
     (let namespace = Namespace obj
      in if namespace = '''' then (False, w)
         else (case Get_Namespace_Labels mgr namespace w of
                 (Inl _, w) \<Rightarrow> (False, w)
               | (Inr ls, w) \<Rightarrow> (Selector_Matches S selector ls, w)))"

definition SetupWithManager_v2 ::
  "errors_pkg \<Rightarrow> kube_lib \<Rightarrow> (string \<Rightarrow> go_error + Duration) \<Rightarrow> ('w, Time) Env \<Rightarrow> ('ls, 'sel) selector_lib
     \<Rightarrow> ('w, 'ls) predicate_lib \<Rightarrow> ('w, 'sel) SilenceV2Reconciler \<Rightarrow> ('w, 'm) Manager_scheme \<Rightarrow> 'sel Config
     \<Rightarrow> 'w \<Rightarrow> go_error option \<times> 'w" where
  "SetupWithManager_v2 P K PD E S L r mgr cfg w =
     (case with_silence_selector P S L cfg (NewControllerManagedBy ''v1alpha2.Silence'' ''silence-v2'') of
        Inl err \<Rightarrow> (err, w)
      | Inr controllerBuilder \<Rightarrow>
          (let controllerBuilder =
             (case NamespaceSelector cfg of
                None \<Rightarrow> controllerBuilder
              | Some selector \<Rightarrow>
                  if Selector_Empty S selector then controllerBuilder
                  else WithEventFilter controllerBuilder
                         (NewPredicateFuncs L (namespacePredicate S mgr selector)))
           in Complete mgr controllerBuilder (Reconcile_v2 P K PD E r) w))"

lemmas builder_defs = NewControllerManagedBy_def WithEventFilter_def

subsection \<open>The libraries\<close>

text \<open>A selector that was read from a string can be written and read again, and the predicate made
  from the result looks at the labels of the object; an empty selector matches everything;
  \<open>NewPredicateFuncs\<close> applies a function to the object of each event, the new one for an update.\<close>

definition predicates_ok :: "('ls, 'sel) selector_lib \<Rightarrow> ('w, 'ls) predicate_lib \<Rightarrow> bool" where
  "predicates_ok S L \<longleftrightarrow>
     (\<forall>s sel. selector_of S s = Some sel \<longrightarrow>
        (\<exists>ls p. ParseToLabelSelector S (Selector_String S sel) = Inr ls \<and>
           LabelSelectorPredicate L ls = Inr p \<and>
           (\<forall>ev w. p ev w = (Selector_Matches S sel (Labels (event_object ev)), w)))) \<and>
     (\<forall>sel m. Selector_Empty S sel \<longrightarrow> Selector_Matches S sel m) \<and>
     (\<forall>f ev w. NewPredicateFuncs L f ev w = f (event_object ev) w)"

text \<open>An event is handed on when every filter lets it through, asked in order.\<close>

fun passes :: "'w Predicate list \<Rightarrow> kube_event \<Rightarrow> 'w \<Rightarrow> bool \<times> 'w" where
  "passes [] ev w = (True, w)"
| "passes (p # ps) ev w = (case p ev w of (False, w) \<Rightarrow> (False, w) | (True, w) \<Rightarrow> passes ps ev w)"

lemma passes_append:
  "passes (ps @ [p]) ev w = (case passes ps ev w of (False, w) \<Rightarrow> (False, w) | (True, w) \<Rightarrow> p ev w)"
  by (induction ps arbitrary: w) (auto split: prod.splits bool.splits)

subsection \<open>Which objects are reconciled\<close>

text \<open>A selector that is not set selects everything.\<close>

definition selects :: "('ls, 'sel) selector_lib \<Rightarrow> 'sel option \<Rightarrow> string_map \<Rightarrow> bool" where
  "selects S selector m = (case selector of None \<Rightarrow> True | Some sel \<Rightarrow> Selector_Matches S sel m)"

text \<open>The selectors come from the options of the program.\<close>

definition from_options :: "('ls, 'sel) selector_lib \<Rightarrow> 'sel Config \<Rightarrow> bool" where
  "from_options S cfg \<longleftrightarrow> SilenceSelector cfg = None \<or> (\<exists>s. selector_of S s = SilenceSelector cfg)"

text \<open>A library that matches single label names.\<close>

definition sample_predicates :: "('w, string) predicate_lib" where
  "sample_predicates = \<lparr>
     LabelSelectorPredicate = (\<lambda>s. Inr (\<lambda>ev w.
        (Selector_Matches sample_selectors s (Labels (event_object ev)), w))),
     NewPredicateFuncs = (\<lambda>f ev. f (event_object ev))\<rparr>"

lemma sample_predicates_ok: "predicates_ok sample_selectors sample_predicates"
  by (auto simp: predicates_ok_def sample_selectors_def sample_predicates_def
      selector_of_def split: if_splits sum.splits)

definition picky_config :: "string Config" where
  "picky_config = \<lparr>Address = ''http://am'', Authentication = False, BearerToken = '''',
     TenantId = '''', SilenceSelector = Some ''team'', NamespaceSelector = Some ''env'',
     TenancyEnabled = False, TenancyLabelKey = '''', TenancyDefaultTenant = ''''\<rparr>"

lemma picky_options: "from_options sample_selectors picky_config"
proof -
  have "selector_of sample_selectors ''team'' = SilenceSelector picky_config" by code_simp
  then show ?thesis by (auto simp: from_options_def)
qed

text \<open>A manager that knows the labels of the namespace \<open>ns\<close> and shows the filters it is given.\<close>

definition sample_manager :: "unit Manager" where
  "sample_manager = \<lparr>
     Get_Namespace_Labels = (\<lambda>n w. (if n = ''ns'' then Inr (Some [''env'' \<mapsto> ''prod''])
        else Inl (Failure n []), w)),
     Complete = (\<lambda>b r w. (None, w))\<rparr>"

lemma silence_selector_filter:
  assumes "predicates_ok S L" "from_options S cfg"
  shows "\<exists>b. with_silence_selector P S L cfg (NewControllerManagedBy x y) = Inr b \<and>
    For_object b = x \<and> Named_as b = y \<and>
    (\<forall>ev w. passes (EventFilters b) ev w = (selects S (SilenceSelector cfg) (Labels (event_object ev)), w))"
proof (cases "SilenceSelector cfg")
  case None
  then show ?thesis by (simp add: with_silence_selector_def builder_defs selects_def)
next
  case (Some sel)
  show ?thesis
  proof (cases "Selector_Empty S sel")
    case True
    then have "Selector_Matches S sel m" for m using assms(1) by (simp add: predicates_ok_def)
    then show ?thesis using Some True by (simp add: with_silence_selector_def builder_defs selects_def)
  next
    case False
    obtain s where "selector_of S s = Some sel" using assms(2) Some by (auto simp: from_options_def)
    then obtain ls p where "ParseToLabelSelector S (Selector_String S sel) = Inr ls"
      "LabelSelectorPredicate L ls = Inr p"
      "\<And>ev w. p ev w = (Selector_Matches S sel (Labels (event_object ev)), w)"
      using assms(1) unfolding predicates_ok_def by blast
    then show ?thesis
      using Some False by (simp add: with_silence_selector_def builder_defs selects_def split: bool.split)
  qed
qed

lemma setup_v1_filters:
  assumes "predicates_ok S L" "from_options S cfg"
  shows "\<exists>b. SetupWithManager_v1 P K E S L r mgr cfg w = Complete mgr b (Reconcile_v1 P K E r) w \<and>
    For_object b = ''v1alpha1.Silence'' \<and> Named_as b = ''silence'' \<and>
    (\<forall>ev w. passes (EventFilters b) ev w = (selects S (SilenceSelector cfg) (Labels (event_object ev)), w))"
proof -
  obtain b where "with_silence_selector P S L cfg (NewControllerManagedBy ''v1alpha1.Silence'' ''silence'') = Inr b"
    "For_object b = ''v1alpha1.Silence''" "Named_as b = ''silence''"
    "\<forall>ev w. passes (EventFilters b) ev w = (selects S (SilenceSelector cfg) (Labels (event_object ev)), w)"
    using silence_selector_filter [OF assms] by blast
  then show ?thesis unfolding SetupWithManager_v1_def by auto
qed

text \<open>C26: the v1alpha1 controller is registered for its resource with filters that let an event
  through exactly when the labels of the object match the silence selector; the namespace
  selector has no effect on it.\<close>

theorem SetupWithManager_v1_watches:
  assumes "predicates_ok S L" "from_options S cfg"
  shows "\<exists>b. SetupWithManager_v1 P K E S L r mgr cfg w = Complete mgr b (Reconcile_v1 P K E r) w \<and>
    For_object b = ''v1alpha1.Silence'' \<and> Named_as b = ''silence'' \<and>
    (\<forall>ev w. passes (EventFilters b) ev w = (selects S (SilenceSelector cfg) (Labels (event_object ev)), w))"
  by (rule setup_v1_filters [OF assms])

theorem SetupWithManager_v1_watches_witness:
  "\<exists>b :: unit Builder. fst (passes (EventFilters b) (UpdateEvent (sample_meta ''ns'' ''a'' None)
         ((sample_meta ''ns'' ''a'' None)\<lparr>Labels := Some [''team'' \<mapsto> ''x'']\<rparr>)) ()) \<and>
     \<not> fst (passes (EventFilters b) (DeleteEvent (sample_meta ''ns'' ''a'' None)) ()) \<and>
     Named_as b = ''silence''"
proof -
  obtain b :: "unit Builder" where "Named_as b = ''silence''" "\<forall>ev w. passes (EventFilters b) ev w =
      (selects sample_selectors (SilenceSelector picky_config) (Labels (event_object ev)), w)"
    using SetupWithManager_v1_watches [where mgr = sample_manager and P = sample_errors and K = sample_kube
        and E = "fixed_env 200 []" and w = "()" and r = "NewSilenceReconciler (fixed_kube sample_v1)
          (NewSilenceService (Alertmanager_Client sample_errors (fixed_env 200 []) sample_am)) (NewHelper picky_config)",
      OF sample_predicates_ok picky_options] by blast
  then show ?thesis
    by (intro exI [of _ b])
      (simp add: selects_def picky_config_def sample_selectors_def sample_meta_def)
qed

text \<open>The namespace of an object is known and its labels match.\<close>

definition namespace_selected ::
  "('ls, 'sel) selector_lib \<Rightarrow> ('w, 'm) Manager_scheme \<Rightarrow> 'sel Config \<Rightarrow> ObjectMeta \<Rightarrow> 'w \<Rightarrow> bool" where
  "namespace_selected S mgr cfg obj w \<longleftrightarrow>
     (case NamespaceSelector cfg of
        None \<Rightarrow> True
      | Some sel \<Rightarrow> Selector_Empty S sel \<or>
          (Namespace obj \<noteq> '''' \<and>
           (case fst (Get_Namespace_Labels mgr (Namespace obj) w) of
              Inl _ \<Rightarrow> False | Inr ls \<Rightarrow> Selector_Matches S sel ls)))"

lemma namespacePredicate_verdict:
  "\<not> Selector_Empty S sel \<Longrightarrow> NamespaceSelector cfg = Some sel \<Longrightarrow>
     fst (namespacePredicate S mgr sel obj w) = namespace_selected S mgr cfg obj w"
  by (auto simp: namespacePredicate_def namespace_selected_def Let_def split: prod.split sum.split)

lemma setup_v2_filters:
  assumes "predicates_ok S L" "from_options S cfg"
  shows "\<exists>b. SetupWithManager_v2 P K PD E S L r mgr cfg w = Complete mgr b (Reconcile_v2 P K PD E r) w \<and>
    For_object b = ''v1alpha2.Silence'' \<and> Named_as b = ''silence-v2'' \<and>
    (\<forall>ev w. fst (passes (EventFilters b) ev w) \<longleftrightarrow>
       selects S (SilenceSelector cfg) (Labels (event_object ev)) \<and>
       namespace_selected S mgr cfg (event_object ev) w)"
proof -
  obtain b where b: "with_silence_selector P S L cfg (NewControllerManagedBy ''v1alpha2.Silence'' ''silence-v2'') = Inr b"
    "For_object b = ''v1alpha2.Silence''" "Named_as b = ''silence-v2''"
    "\<forall>ev w. passes (EventFilters b) ev w = (selects S (SilenceSelector cfg) (Labels (event_object ev)), w)"
    using silence_selector_filter [OF assms] by blast
  have L: "NewPredicateFuncs L f ev w = f (event_object ev) w" for f ev w
    using assms(1) by (simp add: predicates_ok_def)
  show ?thesis
  proof (cases "\<exists>sel. NamespaceSelector cfg = Some sel \<and> \<not> Selector_Empty S sel")
    case True
    then obtain sel where sel: "NamespaceSelector cfg = Some sel" "\<not> Selector_Empty S sel" by blast
    let ?b = "WithEventFilter b (NewPredicateFuncs L (namespacePredicate S mgr sel))"
    have "fst (passes (EventFilters ?b) ev w) \<longleftrightarrow>
       selects S (SilenceSelector cfg) (Labels (event_object ev)) \<and>
       namespace_selected S mgr cfg (event_object ev) w" for ev w
      using b(4) namespacePredicate_verdict [OF sel(2,1), of mgr]
      by (simp add: WithEventFilter_def passes_append L split: bool.split)
    then show ?thesis
      using b(1-3) sel
      by (intro exI [of _ ?b]) (simp add: SetupWithManager_v2_def WithEventFilter_def)
  next
    case False
    then have "namespace_selected S mgr cfg obj w" for obj w
      by (auto simp: namespace_selected_def split: option.splits)
    moreover have "(case NamespaceSelector cfg of None \<Rightarrow> b
        | Some selector \<Rightarrow> if Selector_Empty S selector then b else f selector) = b" for f
      using False by (auto split: option.splits)
    ultimately show ?thesis
      using b by (intro exI [of _ b]) (simp add: SetupWithManager_v2_def)
  qed
qed

text \<open>C25: the v1alpha2 controller is registered with filters that let an event through exactly when
  the labels of the object match the silence selector and its namespace, which must be set and
  readable, matches the namespace selector.  The verdict does not depend on whether the object is being
  deleted or carries the finalizer.\<close>

theorem SetupWithManager_v2_watches:
  assumes "predicates_ok S L" "from_options S cfg"
  shows "\<exists>b. SetupWithManager_v2 P K PD E S L r mgr cfg w = Complete mgr b (Reconcile_v2 P K PD E r) w \<and>
    For_object b = ''v1alpha2.Silence'' \<and> Named_as b = ''silence-v2'' \<and>
    (\<forall>ev w. fst (passes (EventFilters b) ev w) \<longleftrightarrow>
       selects S (SilenceSelector cfg) (Labels (event_object ev)) \<and>
       namespace_selected S mgr cfg (event_object ev) w)"
  by (rule setup_v2_filters [OF assms])

theorem SetupWithManager_v2_watches_witness:
  "\<exists>b :: unit Builder. fst (passes (EventFilters b)
         (CreateEvent ((sample_meta ''ns'' ''a'' None)\<lparr>Labels := Some [''team'' \<mapsto> ''x'']\<rparr>)) ()) \<and>
     \<not> fst (passes (EventFilters b)
         (CreateEvent ((sample_meta ''other'' ''a'' None)\<lparr>Labels := Some [''team'' \<mapsto> ''x'']\<rparr>)) ()) \<and>
     \<not> fst (passes (EventFilters b) (UpdateEvent (going_meta [FinalizerName]) (going_meta [FinalizerName])) ())"
proof -
  obtain b :: "unit Builder" where "\<forall>ev w. fst (passes (EventFilters b) ev w) \<longleftrightarrow>
       selects sample_selectors (SilenceSelector picky_config) (Labels (event_object ev)) \<and>
       namespace_selected sample_selectors sample_manager picky_config (event_object ev) w"
    using SetupWithManager_v2_watches [where mgr = sample_manager and P = sample_errors and K = sample_kube
        and E = "fixed_env 200 []" and w = "()" and PD = "\<lambda>_. Inr 0" and r = "NewSilenceV2Reconciler (fixed_kube going_v2)
          (NewSilenceService (Alertmanager_Client sample_errors (fixed_env 200 []) sample_am)) (NewHelper picky_config)",
      OF sample_predicates_ok picky_options]
    by blast
  then show ?thesis
    by (intro exI [of _ b])
      (simp add: selects_def namespace_selected_def picky_config_def sample_selectors_def sample_manager_def
        sample_meta_def going_meta_def)
qed

text \<open>A silence selector that the libraries cannot turn into a predicate makes the registration
  of both controllers fail, and neither is registered.\<close>

lemma SetupWithManager_fails:
  assumes "errors_pkg_ok P" "SilenceSelector cfg = Some sel" "\<not> Selector_Empty S sel"
    and "case ParseToLabelSelector S (Selector_String S sel) of
           Inl _ \<Rightarrow> True | Inr ls \<Rightarrow> (\<exists>err. LabelSelectorPredicate L ls = Inl err)"
  shows "\<exists>err. SetupWithManager_v1 P K E S L r1 mgr cfg w = (Some err, w) \<and>
    SetupWithManager_v2 P K PD E S L r2 mgr cfg w = (Some err, w)"
  using assms
  by (auto simp: SetupWithManager_v1_def SetupWithManager_v2_def with_silence_selector_def
      split: sum.splits)

end
