(* ===== verification/Go_Flag.thy ===== *)
theory Go_Flag
  imports Go_Http
begin

section \<open>Go's packages \<open>flag\<close> and \<open>path/filepath\<close>, as far as the operator uses them\<close>

text \<open>
  \<open>flag.Parse\<close> on a set of flags that write into a record of variables \<open>'v\<close>, and
  \<open>filepath.Join\<close> on Unix.
\<close>

subsection \<open>Flags\<close>

text \<open>A flag with the assignment it makes; \<open>OtherFlag\<close> is a flag of a library: whether it is boolean
  and which values it takes.\<close>

datatype 'v flag_value =
    StringVar "string \<Rightarrow> 'v \<Rightarrow> 'v"
  | BoolVar "bool \<Rightarrow> 'v \<Rightarrow> 'v"
  | OtherFlag bool "string \<Rightarrow> bool"

definition ParseBool :: "string \<Rightarrow> bool option" where
  "ParseBool s =
     (if s \<in> {''1'', ''t'', ''T'', ''true'', ''TRUE'', ''True''} then Some True
      else if s \<in> {''0'', ''f'', ''F'', ''false'', ''FALSE'', ''False''} then Some False
      else None)"

definition flag_Set :: "'v flag_value \<Rightarrow> string \<Rightarrow> 'v \<Rightarrow> 'v option" where
  "flag_Set f value v =
     (case f of
        StringVar assign \<Rightarrow> Some (assign value v)
      | BoolVar assign \<Rightarrow> map_option (\<lambda>b. assign b v) (ParseBool value)
      | OtherFlag _ valid \<Rightarrow> if valid value then Some v else None)"

definition IsBoolFlag :: "'v flag_value \<Rightarrow> bool" where
  "IsBoolFlag f = (case f of StringVar _ \<Rightarrow> False | BoolVar _ \<Rightarrow> True | OtherFlag b _ \<Rightarrow> b)"

datatype 'v flag_result = Parsed 'v | FlagHelp | FlagError

text \<open>The text behind the dashes, split at the first equals sign, which cannot be its first byte.\<close>

fun split_equals :: "string \<Rightarrow> string \<times> string option" where
  "split_equals [] = ([], None)"
| "split_equals (c # s) =
     (if c = CHR ''='' then ([], Some s)
      else (case split_equals s of (n, v) \<Rightarrow> (c # n, v)))"

fun flag_Parse ::
  "(string \<Rightarrow> 'v flag_value option) \<Rightarrow> string list \<Rightarrow> 'v \<Rightarrow> 'v flag_result" where
  "flag_Parse formal [] v = Parsed v"
| "flag_Parse formal (s # args) v =
     (if length s < 2 \<or> hd s \<noteq> CHR ''-'' \<or> s = ''--'' then Parsed v
      else
        (let text = (if s ! 1 = CHR ''-'' then drop 2 s else drop 1 s)
         in if text = '''' \<or> hd text = CHR ''-'' \<or> hd text = CHR ''='' then FlagError
            else
              (case split_equals text of (name, value) \<Rightarrow>
                 (case formal name of
                    None \<Rightarrow> if name \<in> {''help'', ''h''} then FlagHelp else FlagError
                  | Some f \<Rightarrow>
                      if IsBoolFlag f then
                        (case flag_Set f (case value of Some x \<Rightarrow> x | None \<Rightarrow> ''true'') v of
                           None \<Rightarrow> FlagError | Some v \<Rightarrow> flag_Parse formal args v)
                      else
                        (case value of
                           Some x \<Rightarrow>
                             (case flag_Set f x v of
                                None \<Rightarrow> FlagError | Some v \<Rightarrow> flag_Parse formal args v)
                         | None \<Rightarrow>
                             (case args of
                                [] \<Rightarrow> FlagError
                              | x # args \<Rightarrow>
                                  (case flag_Set f x v of
                                     None \<Rightarrow> FlagError | Some v \<Rightarrow> flag_Parse formal args v)))))))"

text \<open>An argument \<open>--name=value\<close>.\<close>

definition flag_arg :: "string \<times> string \<Rightarrow> string" where
  "flag_arg nv = ''--'' @ fst nv @ ''='' @ snd nv"

definition flag_name :: "string \<Rightarrow> bool" where
  "flag_name n \<longleftrightarrow> n \<noteq> '''' \<and> CHR ''='' \<notin> set n \<and> hd n \<noteq> CHR ''-''"

lemma split_equals_assign: "CHR ''='' \<notin> set n \<Longrightarrow> split_equals (n @ ''='' @ x) = (n, Some x)"
  by (induction n) auto

text \<open>One assignment.\<close>

lemma flag_Parse_assign:
  assumes "flag_name n" "formal n = Some f" "flag_Set f x v = Some v'"
  shows "flag_Parse formal (flag_arg (n, x) # args) v = flag_Parse formal args v'"
proof -
  obtain c n' where n: "n = c # n'" "c \<noteq> CHR ''-''" "c \<noteq> CHR ''=''"
    using assms(1) by (cases n) (auto simp: flag_name_def)
  have "split_equals (n @ ''='' @ x) = (n, Some x)"
    using assms(1) by (intro split_equals_assign) (simp add: flag_name_def)
  then show ?thesis
    using assms(2,3) n by (auto simp: flag_arg_def split: option.split)
qed

text \<open>A row of assignments, the last one wins.\<close>

fun flag_Sets ::
  "(string \<Rightarrow> 'v flag_value option) \<Rightarrow> (string \<times> string) list \<Rightarrow> 'v \<Rightarrow> 'v option" where
  "flag_Sets formal [] v = Some v"
| "flag_Sets formal ((n, x) # nvs) v =
     Option.bind (formal n) (\<lambda>f. Option.bind (flag_Set f x v) (flag_Sets formal nvs))"

lemma flag_Parse_assigns:
  assumes "\<And>n. formal n \<noteq> None \<Longrightarrow> flag_name n" "flag_Sets formal nvs v = Some v'"
  shows "flag_Parse formal (map flag_arg nvs) v = Parsed v'"
  using assms(2)
proof (induction nvs arbitrary: v)
  case (Cons nv nvs)
  then obtain f v1 where "formal (fst nv) = Some f" "flag_Set f (snd nv) v = Some v1"
    "flag_Sets formal nvs v1 = Some v'"
    by (cases nv) (auto simp: bind_eq_Some_conv)
  moreover from this have "flag_name (fst nv)" using assms(1) by simp
  ultimately show ?case
    using flag_Parse_assign [of "fst nv" formal f "snd nv" v v1 "map flag_arg nvs"] Cons.IH by simp
qed simp

subsection \<open>Paths\<close>

text \<open>\<open>filepath.Clean\<close> on the elements of a path; \<open>..\<close> takes back the last element, and is dropped
  at the root.\<close>

fun clean_elems :: "bool \<Rightarrow> string list \<Rightarrow> string list \<Rightarrow> string list" where
  "clean_elems rooted out [] = out"
| "clean_elems rooted out (e # es) =
     (if e = '''' \<or> e = ''.'' then clean_elems rooted out es
      else if e = ''..'' then
        (if out \<noteq> [] \<and> last out \<noteq> ''..'' then clean_elems rooted (butlast out) es
         else if rooted then clean_elems rooted out es
         else clean_elems rooted (out @ [e]) es)
      else clean_elems rooted (out @ [e]) es)"

definition filepath_Clean :: "string \<Rightarrow> string" where
  "filepath_Clean path =
     (let rooted = (path \<noteq> '''' \<and> hd path = CHR ''/'');
          out = join_slash (clean_elems rooted [] (split_slash path))
      in if rooted then CHR ''/'' # out else if out = '''' then ''.'' else out)"

text \<open>Empty elements are ignored; of empty elements only, the result is empty.\<close>

definition filepath_Join :: "string list \<Rightarrow> string" where
  "filepath_Join elems =
     (let elems = dropWhile (\<lambda>e. e = '''') elems
      in if elems = [] then '''' else filepath_Clean (join_slash elems))"

end
