(* ===== verification/Go_Slice.thy ===== *)
theory Go_Slice
  imports Prelude
begin

section \<open>Go's slices and their arrays\<close>

text \<open>
  A slice is a view of the first \<open>slen\<close> elements of an array in memory; its capacity is the length
  of the array.  Assigning a slice copies the view, not the array.  \<open>append\<close> writes into the array
  when there is capacity left and makes a new array otherwise; how large is up to the
  implementation and is the parameter \<open>grow\<close>, from the old capacity and the length needed.
\<close>

type_synonym 'a arrays = "'a option list list"

record gslice =
  sarr :: "nat option"
  slen :: nat

definition nil_slice :: gslice where
  "nil_slice = \<lparr>sarr = None, slen = 0\<rparr>"

definition scap :: "'a arrays \<Rightarrow> gslice \<Rightarrow> nat" where
  "scap h s = (case sarr s of None \<Rightarrow> 0 | Some a \<Rightarrow> length (h ! a))"

definition slots :: "'a arrays \<Rightarrow> gslice \<Rightarrow> 'a option list" where
  "slots h s = (case sarr s of None \<Rightarrow> [] | Some a \<Rightarrow> take (slen s) (h ! a))"

text \<open>The elements of a slice.\<close>

definition sread :: "'a arrays \<Rightarrow> gslice \<Rightarrow> 'a list" where
  "sread h s = map the (slots h s)"

definition sappend :: "(nat \<Rightarrow> nat \<Rightarrow> nat) \<Rightarrow> 'a arrays \<Rightarrow> gslice \<Rightarrow> 'a \<Rightarrow> 'a arrays \<times> gslice" where
  "sappend grow h s x =
     (case sarr s of
        Some a \<Rightarrow>
          if slen s < scap h s then (h[a := (h ! a)[slen s := Some x]], s\<lparr>slen := slen s + 1\<rparr>)
          else (h @ [slots h s @ [Some x] @ replicate (grow (scap h s) (slen s + 1) - (slen s + 1)) None],
                \<lparr>sarr = Some (length h), slen = slen s + 1\<rparr>)
      | None \<Rightarrow>
          (h @ [Some x # replicate (grow 0 1 - 1) None], \<lparr>sarr = Some (length h), slen = 1\<rparr>))"

definition slice_ok :: "'a arrays \<Rightarrow> gslice \<Rightarrow> bool" where
  "slice_ok h s \<longleftrightarrow>
     (case sarr s of None \<Rightarrow> slen s = 0 | Some a \<Rightarrow> a < length h \<and> slen s \<le> length (h ! a))"

lemma nil_slice_ok [simp]: "slice_ok h nil_slice" "sread h nil_slice = []" "sarr nil_slice = None"
  by (simp_all add: nil_slice_def slice_ok_def sread_def slots_def)

text \<open>Appending extends the slice it is given.\<close>

lemma sappend_reads:
  assumes "slice_ok h s" "sappend grow h s x = (h', s')"
  shows "slice_ok h' s' \<and> sread h' s' = sread h s @ [x]"
proof (cases "sarr s")
  case None
  then show ?thesis using assms by (auto simp: sappend_def slice_ok_def sread_def slots_def)
next
  case (Some a)
  then have a: "a < length h" "slen s \<le> length (h ! a)" using assms(1) by (simp_all add: slice_ok_def)
  show ?thesis
  proof (cases "slen s < length (h ! a)")
    case True
    then have "take (slen s + 1) ((h ! a)[slen s := Some x]) = take (slen s) (h ! a) @ [Some x]"
      by (simp add: take_Suc_conv_app_nth)
    then show ?thesis
      using Some a True assms(2) by (auto simp: sappend_def slice_ok_def sread_def slots_def scap_def)
  next
    case False
    then have "slen s = length (h ! a)" using a by simp
    then show ?thesis
      using Some a assms(2) by (auto simp: sappend_def slice_ok_def sread_def slots_def scap_def nth_append)
  qed
qed

text \<open>Another slice keeps its elements unless it sees the slot that is written.\<close>

lemma sappend_frame:
  assumes "slice_ok h t" "sappend grow h s x = (h', s')"
    and "sarr s = None \<or> sarr t \<noteq> sarr s \<or> slen t \<le> slen s \<or> scap h s \<le> slen s"
  shows "slice_ok h' t \<and> sread h' t = sread h t"
proof (cases "sarr t")
  case None
  then show ?thesis using assms(1) by (simp add: slice_ok_def sread_def slots_def)
next
  case (Some b)
  then have b: "b < length h" "slen t \<le> length (h ! b)" using assms(1) by (simp_all add: slice_ok_def)
  show ?thesis
  proof (cases "sarr s")
    case None
    then show ?thesis
      using Some b assms(2) by (auto simp: sappend_def slice_ok_def sread_def slots_def nth_append)
  next
    fix a assume a: "sarr s = Some a"
    then show ?thesis
      using Some b assms(2,3)
      by (cases "a = b")
        (auto simp: sappend_def slice_ok_def sread_def slots_def scap_def nth_append split: if_splits)
  qed
qed

text \<open>An array holds two slices: the longer one's last element is the one written last.\<close>

lemma sappend_shared:
  assumes "slice_ok h s" "sarr s = Some a" "slen s < scap h s"
    and "sappend grow h s x = (h1, s1)" "sappend grow h1 s y = (h2, s2)"
  shows "s2 = s1 \<and> sread h2 s1 = sread h s @ [y]"
proof -
  have a: "a < length h" "slen s < length (h ! a)" using assms(1-3) by (simp_all add: slice_ok_def scap_def)
  have "h1 = h[a := (h ! a)[slen s := Some x]]" "s1 = s\<lparr>slen := slen s + 1\<rparr>"
    using assms(2-4) a by (simp_all add: sappend_def)
  moreover from this have "s2 = s\<lparr>slen := slen s + 1\<rparr>" "h2 = h[a := (h ! a)[slen s := Some y]]"
    using assms(2,5) a by (simp_all add: sappend_def scap_def)
  moreover have "take (slen s + 1) ((h ! a)[slen s := Some y]) = take (slen s) (h ! a) @ [Some y]"
    using a by (simp add: take_Suc_conv_app_nth)
  ultimately show ?thesis using assms(2) a by (simp add: sread_def slots_def)
qed

end
