(* ===== verification/Startup.thy ===== *)
theory Startup
  imports Setup Go_Flag Go_Slice
begin

section \<open>The start of the program\<close>

text \<open>
  \<open>cmd/main.go\<close>: the flags, the TLS options of the two servers, and the wiring of the client, the
  service and the controllers.  \<open>os.Exit(n)\<close> is \<open>Inl n\<close>, a return from \<open>main\<close> is \<open>Inr ()\<close>.  The
  certificate watchers, the Kubernetes configuration and the manager are of libraries: parameters
  in \<open>main_lib\<close>.  The slices of TLS options live in memory, as two of them may share an array.
  Logging is left out; \<open>init\<close>, which fills the scheme, is in \<open>Scheme\<close>.
\<close>

subsection \<open>Flags\<close>

record 'sel Vars =
  metricsAddr :: string
  metricsCertPath :: string
  metricsCertName :: string
  metricsCertKey :: string
  webhookCertPath :: string
  webhookCertName :: string
  webhookCertKey :: string
  enableLeaderElection :: bool
  probeAddr :: string
  secureMetrics :: bool
  enableHTTP2 :: bool
  main_cfg :: "'sel Config"
  silenceSelector :: string
  namespaceSelector :: string

definition default_vars :: "'sel Vars" where
  "default_vars = \<lparr>
     metricsAddr = ''0'',
     metricsCertPath = '''', metricsCertName = ''tls.crt'', metricsCertKey = ''tls.key'',
     webhookCertPath = '''', webhookCertName = ''tls.crt'', webhookCertKey = ''tls.key'',
     enableLeaderElection = False, probeAddr = '':8081'', secureMetrics = False, enableHTTP2 = False,
     main_cfg = \<lparr>Address = ''http://localhost:9093'', Authentication = False, BearerToken = '''',
       TenantId = '''', SilenceSelector = None, NamespaceSelector = None, TenancyEnabled = False,
       TenancyLabelKey = ''observability.giantswarm.io/tenant'', TenancyDefaultTenant = ''''\<rparr>,
     silenceSelector = '''', namespaceSelector = ''''\<rparr>"

definition main_flags :: "(string \<times> 'sel Vars flag_value) list" where
  "main_flags = [
     (''metrics-bind-address'', StringVar (\<lambda>x v. v\<lparr>metricsAddr := x\<rparr>)),
     (''health-probe-bind-address'', StringVar (\<lambda>x v. v\<lparr>probeAddr := x\<rparr>)),
     (''leader-elect'', BoolVar (\<lambda>x v. v\<lparr>enableLeaderElection := x\<rparr>)),
     (''metrics-secure'', BoolVar (\<lambda>x v. v\<lparr>secureMetrics := x\<rparr>)),
     (''webhook-cert-path'', StringVar (\<lambda>x v. v\<lparr>webhookCertPath := x\<rparr>)),
     (''webhook-cert-name'', StringVar (\<lambda>x v. v\<lparr>webhookCertName := x\<rparr>)),
     (''webhook-cert-key'', StringVar (\<lambda>x v. v\<lparr>webhookCertKey := x\<rparr>)),
     (''metrics-cert-path'', StringVar (\<lambda>x v. v\<lparr>metricsCertPath := x\<rparr>)),
     (''metrics-cert-name'', StringVar (\<lambda>x v. v\<lparr>metricsCertName := x\<rparr>)),
     (''metrics-cert-key'', StringVar (\<lambda>x v. v\<lparr>metricsCertKey := x\<rparr>)),
     (''enable-http2'', BoolVar (\<lambda>x v. v\<lparr>enableHTTP2 := x\<rparr>)),
     (''alertmanager-address'', StringVar (\<lambda>x v. v\<lparr>main_cfg := (main_cfg v)\<lparr>Address := x\<rparr>\<rparr>)),
     (''alertmanager-default-tenant-id'', StringVar (\<lambda>x v. v\<lparr>main_cfg := (main_cfg v)\<lparr>TenantId := x\<rparr>\<rparr>)),
     (''alertmanager-authentication'',
        BoolVar (\<lambda>x v. v\<lparr>main_cfg := (main_cfg v)\<lparr>Authentication := x\<rparr>\<rparr>)),
     (''silence-selector'', StringVar (\<lambda>x v. v\<lparr>silenceSelector := x\<rparr>)),
     (''namespace-selector'', StringVar (\<lambda>x v. v\<lparr>namespaceSelector := x\<rparr>)),
     (''tenancy-enabled'', BoolVar (\<lambda>x v. v\<lparr>main_cfg := (main_cfg v)\<lparr>TenancyEnabled := x\<rparr>\<rparr>)),
     (''tenancy-label-key'', StringVar (\<lambda>x v. v\<lparr>main_cfg := (main_cfg v)\<lparr>TenancyLabelKey := x\<rparr>\<rparr>)),
     (''tenancy-default-tenant'',
        StringVar (\<lambda>x v. v\<lparr>main_cfg := (main_cfg v)\<lparr>TenancyDefaultTenant := x\<rparr>\<rparr>))]"

text \<open>The flags of the program, and those that the logger and \<open>controller-runtime\<close> register: by
  name, whether they are boolean and which values they take.\<close>

definition formal_flags ::
  "(string \<times> bool \<times> (string \<Rightarrow> bool)) list \<Rightarrow> string \<Rightarrow> 'sel Vars flag_value option" where
  "formal_flags others name =
     (case map_of main_flags name of
        Some f \<Rightarrow> Some f
      | None \<Rightarrow> map_option (\<lambda>(b, valid). OtherFlag b valid) (map_of others name))"

subsection \<open>Options of the manager\<close>

datatype 'cw tls_func = disableHTTP2 | GetCertificateOf 'cw

record 'cw tls_Config =
  NextProtos :: "string list"
  GetCertificate :: "'cw option"

fun tls_apply :: "'cw tls_func \<Rightarrow> 'cw tls_Config \<Rightarrow> 'cw tls_Config" where
  "tls_apply disableHTTP2 c = c\<lparr>NextProtos := [''http/1.1'']\<rparr>"
| "tls_apply (GetCertificateOf cw) c = c\<lparr>GetCertificate := Some cw\<rparr>"

record metrics_Options =
  BindAddress :: string
  SecureServing :: bool
  FilterProvider :: bool
  Metrics_TLSOpts :: gslice

record ctrl_Options =
  Metrics :: metrics_Options
  WebhookServer_TLSOpts :: gslice
  HealthProbeBindAddress :: string
  LeaderElection :: bool
  LeaderElectionID :: string

record ('w, 'cw) ctrl_Manager = "'w Manager" +
  Mgr_BearerToken :: string
  GetClient_v1 :: "('w, Silence_v1) KubeClient"
  GetClient_v2 :: "('w, Silence_v2) KubeClient"
  Mgr_Add :: "'cw \<Rightarrow> 'w \<Rightarrow> go_error option \<times> 'w"
  AddHealthzCheck :: "string \<Rightarrow> 'w \<Rightarrow> go_error option \<times> 'w"
  AddReadyzCheck :: "string \<Rightarrow> 'w \<Rightarrow> go_error option \<times> 'w"
  Mgr_Start :: "'w \<Rightarrow> go_error option \<times> 'w"

record ('w, 'ls, 'sel, 'cw, 'rc) main_lib =
  lib_errors :: errors_pkg
  lib_kube :: kube_lib
  lib_durations :: "string \<Rightarrow> go_error + Duration"
  lib_env :: "('w, Time) Env"
  lib_selectors :: "('ls, 'sel) selector_lib"
  lib_predicates :: "('w, 'ls) predicate_lib"
  lib_flags :: "(string \<times> bool \<times> (string \<Rightarrow> bool)) list"
  lib_grow :: "nat \<Rightarrow> nat \<Rightarrow> nat"
  certwatcher_New :: "string \<Rightarrow> string \<Rightarrow> 'w \<Rightarrow> (go_error + 'cw) \<times> 'w"
  GetConfig :: "'w \<Rightarrow> (go_error + 'rc) \<times> 'w"
  NewManager :: "'rc \<Rightarrow> ctrl_Options \<Rightarrow> 'cw tls_func arrays \<Rightarrow> 'w \<Rightarrow> (go_error + ('w, 'cw) ctrl_Manager) \<times> 'w"

subsection \<open>Exits\<close>

type_synonym ('a, 'w) run = "(int + 'a) \<times> 'w"

text \<open>\<open>if err != nil { os.Exit(1) }\<close> after a call with and without another result, and the rest of
  the program after a step that may have exited.\<close>

definition exit_on_error :: "(go_error + 'a) \<times> 'w \<Rightarrow> ('a, 'w) run" where
  "exit_on_error r = (case r of (Inl _, w) \<Rightarrow> (Inl 1, w) | (Inr x, w) \<Rightarrow> (Inr x, w))"

definition exit_if_error :: "go_error option \<times> 'w \<Rightarrow> (unit, 'w) run" where
  "exit_if_error r = (case r of (Some _, w) \<Rightarrow> (Inl 1, w) | (None, w) \<Rightarrow> (Inr (), w))"

definition and_then :: "('a, 'w) run \<Rightarrow> ('a \<Rightarrow> 'w \<Rightarrow> ('b, 'w) run) \<Rightarrow> ('b, 'w) run" where
  "and_then r f = (case r of (Inl n, w) \<Rightarrow> (Inl n, w) | (Inr x, w) \<Rightarrow> f x w)"

lemma and_then_Inr:
  "and_then r f = (Inr y, w') \<longleftrightarrow> (\<exists>x w. r = (Inr x, w) \<and> f x w = (Inr y, w'))"
  by (auto simp: and_then_def split: prod.splits sum.splits)

lemma exit_on_error_Inr [simp]: "exit_on_error r = (Inr x, w) \<longleftrightarrow> r = (Inr x, w)"
  by (auto simp: exit_on_error_def split: prod.splits sum.splits)

lemma exit_if_error_Inr [simp]: "exit_if_error r = (Inr x, w) \<longleftrightarrow> r = (None, w)"
  by (auto simp: exit_if_error_def split: prod.splits option.splits)

subsection \<open>The servers\<close>

text \<open>A watcher for a certificate, when its path is given, and the option that uses it.\<close>

definition cert_watcher ::
  "('w, 'ls, 'sel, 'cw, 'rc) main_lib \<Rightarrow> string \<Rightarrow> string \<Rightarrow> string \<Rightarrow> 'w \<Rightarrow> ('cw option, 'w) run" where
  "cert_watcher M path name key w =
     (if length path > 0 then
        and_then (exit_on_error (certwatcher_New M (filepath_Join [path, name]) (filepath_Join [path, key]) w))
          (\<lambda>watcher w. (Inr (Some watcher), w))
      else (Inr None, w))"

definition append_certificate ::
  "(nat \<Rightarrow> nat \<Rightarrow> nat) \<Rightarrow> 'cw option \<Rightarrow> 'cw tls_func arrays \<Rightarrow> gslice \<Rightarrow> 'cw tls_func arrays \<times> gslice" where
  "append_certificate grow watcher h opts =
     (case watcher of None \<Rightarrow> (h, opts) | Some cw \<Rightarrow> sappend grow h opts (GetCertificateOf cw))"

record 'cw servers =
  memory :: "'cw tls_func arrays"
  webhookTLSOpts :: gslice
  metricsServerOptions :: metrics_Options
  webhookCertWatcher :: "'cw option"
  metricsCertWatcher :: "'cw option"

definition main_servers ::
  "('w, 'ls, 'sel, 'cw, 'rc) main_lib \<Rightarrow> 'sel Vars \<Rightarrow> 'w \<Rightarrow> ('cw servers, 'w) run" where
  "main_servers M v w =
     (case (if \<not> enableHTTP2 v then sappend (lib_grow M) [] nil_slice disableHTTP2 else ([], nil_slice)) of
        (h, tlsOpts) \<Rightarrow>
          and_then (cert_watcher M (webhookCertPath v) (webhookCertName v) (webhookCertKey v) w)
            (\<lambda>webhookWatcher w.
               case append_certificate (lib_grow M) webhookWatcher h tlsOpts of
                 (h, webhookOpts) \<Rightarrow>
                   let metrics = \<lparr>BindAddress = metricsAddr v, SecureServing = secureMetrics v,
                     FilterProvider = secureMetrics v, Metrics_TLSOpts = tlsOpts\<rparr>
                   in and_then (cert_watcher M (metricsCertPath v) (metricsCertName v) (metricsCertKey v) w)
                     (\<lambda>metricsWatcher w.
                        case append_certificate (lib_grow M) metricsWatcher h (Metrics_TLSOpts metrics) of
                          (h, metricsOpts) \<Rightarrow>
                            (Inr \<lparr>memory = h, webhookTLSOpts = webhookOpts,
                               metricsServerOptions = metrics\<lparr>Metrics_TLSOpts := metricsOpts\<rparr>,
                               webhookCertWatcher = webhookWatcher, metricsCertWatcher = metricsWatcher\<rparr>, w))))"

subsection \<open>The wiring\<close>

definition add_watcher :: "('w, 'cw) ctrl_Manager \<Rightarrow> 'cw option \<Rightarrow> 'w \<Rightarrow> (unit, 'w) run" where
  "add_watcher mgr watcher w =
     (case watcher of None \<Rightarrow> (Inr (), w) | Some cw \<Rightarrow> exit_if_error (Mgr_Add mgr cw w))"

definition main_selectors ::
  "('w, 'ls, 'sel, 'cw, 'rc) main_lib \<Rightarrow> 'sel Vars \<Rightarrow> int + 'sel Config" where
  "main_selectors M v =
     (case ParseSilenceSelector (lib_errors M) (lib_selectors M) (silenceSelector v) of
        (_, Some err) \<Rightarrow> Inl 1
      | (silences, None) \<Rightarrow>
          (case ParseNamespaceSelector (lib_errors M) (lib_selectors M) (namespaceSelector v) of
             (_, Some err) \<Rightarrow> Inl 1
           | (namespaces, None) \<Rightarrow>
               Inr ((main_cfg v)\<lparr>SilenceSelector := silences, NamespaceSelector := namespaces\<rparr>)))"

definition main_controllers ::
  "('w, 'ls, 'sel, 'cw, 'rc) main_lib \<Rightarrow> ('w, 'cw) ctrl_Manager \<Rightarrow> 'sel Config \<Rightarrow> 'w \<Rightarrow> (unit, 'w) run" where
  "main_controllers M mgr cfg w =
     (case New (lib_errors M) cfg of
        (Some amClient, None) \<Rightarrow>
          (let tenancyHelper = NewHelper cfg;
               service = NewSilenceService (Alertmanager_Client (lib_errors M) (lib_env M) amClient)
           in and_then (exit_if_error (SetupWithManager_v1 (lib_errors M) (lib_kube M) (lib_env M)
                  (lib_selectors M) (lib_predicates M)
                  (NewSilenceReconciler (GetClient_v1 mgr) service tenancyHelper) mgr cfg w))
                (\<lambda>_ w. exit_if_error (SetupWithManager_v2 (lib_errors M) (lib_kube M) (lib_durations M) (lib_env M)
                  (lib_selectors M) (lib_predicates M)
                  (NewSilenceV2Reconciler (GetClient_v2 mgr) service tenancyHelper) mgr cfg w)))
      | _ \<Rightarrow> (Inl 1, w))"

definition main_after_flags ::
  "('w, 'ls, 'sel, 'cw, 'rc) main_lib \<Rightarrow> 'sel Vars \<Rightarrow> 'w \<Rightarrow> (unit, 'w) run" where
  "main_after_flags M v w =
     and_then (main_selectors M v, w) (\<lambda>cfg w.
     and_then (main_servers M v w) (\<lambda>sv w.
     and_then (exit_on_error (GetConfig M w)) (\<lambda>rc w.
     and_then (exit_on_error (NewManager M rc
         \<lparr>Metrics = metricsServerOptions sv, WebhookServer_TLSOpts = webhookTLSOpts sv,
          HealthProbeBindAddress = probeAddr v, LeaderElection = enableLeaderElection v,
          LeaderElectionID = ''5573995c.giantswarm.io''\<rparr> (memory sv) w)) (\<lambda>mgr w.
     and_then (main_controllers M mgr (cfg\<lparr>BearerToken := Mgr_BearerToken mgr\<rparr>) w) (\<lambda>_ w.
     and_then (add_watcher mgr (metricsCertWatcher sv) w) (\<lambda>_ w.
     and_then (add_watcher mgr (webhookCertWatcher sv) w) (\<lambda>_ w.
     and_then (exit_if_error (AddHealthzCheck mgr ''healthz'' w)) (\<lambda>_ w.
     and_then (exit_if_error (AddReadyzCheck mgr ''readyz'' w)) (\<lambda>_ w.
     exit_if_error (Mgr_Start mgr w))))))))))"

definition main :: "('w, 'ls, 'sel, 'cw, 'rc) main_lib \<Rightarrow> string list \<Rightarrow> 'w \<Rightarrow> (unit, 'w) run" where
  "main M args w =
     (case flag_Parse (formal_flags (lib_flags M)) args default_vars of
        FlagHelp \<Rightarrow> (Inl 0, w)
      | FlagError \<Rightarrow> (Inl 2, w)
      | Parsed v \<Rightarrow> main_after_flags M v w)"

subsection \<open>TLS options\<close>

text \<open>The slices that the code builds.\<close>

lemma main_servers_slices:
  assumes "main_servers M v w = (Inr sv, w')"
    and a0: "a0 = (if \<not> enableHTTP2 v then sappend (lib_grow M) [] nil_slice disableHTTP2 else ([], nil_slice))"
    and a1: "a1 = append_certificate (lib_grow M) (webhookCertWatcher sv) (fst a0) (snd a0)"
    and a2: "a2 = append_certificate (lib_grow M) (metricsCertWatcher sv) (fst a1) (snd a0)"
  shows "memory sv = fst a2" "webhookTLSOpts sv = snd a1" "Metrics_TLSOpts (metricsServerOptions sv) = snd a2"
  using assms(1) unfolding a0 a1 a2
  by (auto simp: main_servers_def and_then_Inr Let_def case_prod_beta)

definition certificate_of :: "'cw option \<Rightarrow> 'cw tls_func list" where
  "certificate_of watcher = (case watcher of None \<Rightarrow> [] | Some cw \<Rightarrow> [GetCertificateOf cw])"

lemma append_certificate_reads:
  assumes "slice_ok h s" "(h', s') = append_certificate grow watcher h s"
  shows "slice_ok h' s'" "sread h' s' = sread h s @ certificate_of watcher"
  using assms sappend_reads [OF assms(1), of grow _ h' s']
  by (auto simp: append_certificate_def certificate_of_def split: option.splits)

lemma append_certificate_frame:
  assumes "slice_ok h t" "(h', s') = append_certificate grow watcher h s"
    and "sarr s = None \<or> sarr t \<noteq> sarr s \<or> slen t \<le> slen s \<or> scap h s \<le> slen s"
  shows "slice_ok h' t" "sread h' t = sread h t"
  using assms(1,2) sappend_frame [OF assms(1) _ assms(3), of grow _ h' s']
  by (auto simp: append_certificate_def split: option.splits)

text \<open>The first slice has one element and, unless HTTP/2 is enabled, an array of its own.\<close>

lemma initial_tlsOpts:
  assumes "(h0, s0) = (if \<not> http2 then sappend grow [] nil_slice disableHTTP2 else ([], nil_slice))"
  shows "slice_ok h0 s0" "sread h0 s0 = (if http2 then [] else [disableHTTP2])"
    "slen s0 = (if http2 then 0 else 1)" "sarr s0 = (if http2 then None else Some 0)"
    "\<not> http2 \<Longrightarrow> scap h0 s0 = 1 + (grow 0 1 - 1)"
  using assms by (auto simp: sappend_def slice_ok_def sread_def slots_def nil_slice_def scap_def split: if_splits)

lemma shared_certificates:
  assumes "slice_ok h0 s0" "sarr s0 = Some 0" "slen s0 < scap h0 s0"
    and "(h1, s1) = append_certificate grow (Some a) h0 s0" "(h2, s2) = append_certificate grow (Some b) h1 s0"
  shows "sread h2 s1 = sread h0 s0 @ [GetCertificateOf b]"
  using sappend_shared [OF assms(1-3), of grow "GetCertificateOf a" h1 s1 "GetCertificateOf b" h2 s2] assms(4,5)
  by (simp add: append_certificate_def)

lemma own_certificates:
  assumes "slice_ok h0 s0" "whook = None \<or> metrics = None \<or> sarr s0 = None \<or> scap h0 s0 \<le> slen s0"
    and s1: "(h1, s1) = append_certificate grow whook h0 s0"
    and s2: "(h2, s2) = append_certificate grow metrics h1 s0"
  shows "sread h2 s1 = sread h0 s0 @ certificate_of whook"
proof -
  note w = append_certificate_reads [OF assms(1) s1]
  have "sread h2 s1 = sread h1 s1"
  proof (cases "whook = None \<or> metrics = None \<or> sarr s0 = None")
    case True
    then show ?thesis
      using append_certificate_frame [OF w(1) s2] s1 s2 by (auto simp: append_certificate_def)
  next
    case False
    then have "sarr s1 \<noteq> sarr s0"
      using s1 assms(1,2) by (auto simp: append_certificate_def sappend_def slice_ok_def split: if_splits)
    then show ?thesis using append_certificate_frame [OF w(1) s2] by simp
  qed
  then show ?thesis using w(2) by simp
qed

text \<open>C24: the options the metrics server starts with are its own: HTTP/2 is switched off unless it
  was asked for, and then its certificate follows.  So are those of the webhook server, except
  that, when HTTP/2 is off and both servers have certificates, the two option slices share an
  array if \<open>append\<close> gave it spare capacity, and then the webhook server serves the certificate of
  the metrics server.  With no spare capacity each server has its own.\<close>

theorem main_servers_tls:
  fixes M :: "('w, 'ls, 'sel, 'cw, 'rc) main_lib"
  assumes "main_servers M v w = (Inr sv, w')"
  shows "sread (memory sv) (Metrics_TLSOpts (metricsServerOptions sv)) =
      (if enableHTTP2 v then [] else [disableHTTP2]) @ certificate_of (metricsCertWatcher sv) \<and>
    sread (memory sv) (webhookTLSOpts sv) =
      (if enableHTTP2 v then [] else [disableHTTP2]) @
      certificate_of
        (if \<not> enableHTTP2 v \<and> 1 < lib_grow M 0 1 \<and> webhookCertWatcher sv \<noteq> None \<and> metricsCertWatcher sv \<noteq> None
         then metricsCertWatcher sv else webhookCertWatcher sv)"
proof -
  let ?g = "lib_grow M"
  obtain h0 :: "'cw tls_func arrays" and s0 where
    s0: "(h0, s0) = (if \<not> enableHTTP2 v then sappend ?g [] nil_slice disableHTTP2 else ([], nil_slice))"
    by (metis surj_pair)
  obtain h1 s1 where s1: "(h1, s1) = append_certificate ?g (webhookCertWatcher sv) h0 s0" by (metis surj_pair)
  obtain h2 s2 where s2: "(h2, s2) = append_certificate ?g (metricsCertWatcher sv) h1 s0" by (metis surj_pair)
  have sv: "memory sv = h2" "webhookTLSOpts sv = s1" "Metrics_TLSOpts (metricsServerOptions sv) = s2"
    using main_servers_slices [OF assms s0 _ _, of "(h1, s1)" "(h2, s2)", unfolded fst_conv snd_conv, OF s1 s2]
    by blast+
  note s0' = initial_tlsOpts [OF s0]
  have s1': "slice_ok h1 s0" "sread h1 s0 = sread h0 s0"
    using append_certificate_frame [OF s0'(1) s1] by simp_all
  have metrics: "sread h2 s2 = sread h0 s0 @ certificate_of (metricsCertWatcher sv)"
    using append_certificate_reads [OF s1'(1) s2] s1'(2) by simp
  show ?thesis
  proof (cases "\<not> enableHTTP2 v \<and> 1 < ?g 0 1 \<and> webhookCertWatcher sv \<noteq> None \<and> metricsCertWatcher sv \<noteq> None")
    case True
    then obtain a b where ab: "webhookCertWatcher sv = Some a" "metricsCertWatcher sv = Some b" by auto
    have "sread h2 s1 = sread h0 s0 @ [GetCertificateOf b]"
      by (rule shared_certificates [OF s0'(1) _ _ s1 [unfolded ab] s2 [unfolded ab]]) (use s0'(3-5) True in simp_all)
    then show ?thesis using metrics sv s0'(2) True ab by (simp add: certificate_of_def)
  next
    case False
    have "sread h2 s1 = sread h0 s0 @ certificate_of (webhookCertWatcher sv)"
      by (rule own_certificates [OF s0'(1) _ s1 s2]) (use s0'(3-5) False in auto)
    then show ?thesis using metrics sv s0'(2) False by auto
  qed
qed

subsection \<open>Exit codes\<close>

definition selector_ok :: "('ls, 'sel) selector_lib \<Rightarrow> string \<Rightarrow> bool" where
  "selector_ok S s \<longleftrightarrow> s = '''' \<or> selector_of S s \<noteq> None"

text \<open>The selector of an option, and the configuration of the flags.\<close>

definition option_selector :: "('ls, 'sel) selector_lib \<Rightarrow> string \<Rightarrow> 'sel option" where
  "option_selector S s = (if s = '''' then None else selector_of S s)"

definition flags_config :: "('ls, 'sel) selector_lib \<Rightarrow> 'sel Vars \<Rightarrow> 'sel Config" where
  "flags_config S v = (main_cfg v)\<lparr>SilenceSelector := option_selector S (silenceSelector v),
     NamespaceSelector := option_selector S (namespaceSelector v)\<rparr>"

lemma main_selectors_cases:
  assumes "errors_pkg_ok (lib_errors M)"
  shows "main_selectors M v =
    (if selector_ok (lib_selectors M) (silenceSelector v) \<and> selector_ok (lib_selectors M) (namespaceSelector v)
     then Inr (flags_config (lib_selectors M) v) else Inl 1)"
  using assms
  by (auto simp: main_selectors_def selector_ok_def selector_parsers selector_of_def flags_config_def
      option_selector_def err_simps split: sum.splits prod.splits option.splits)

lemma flags_config_sel [simp]:
  "Address (flags_config S v) = Address (main_cfg v)"
  "Authentication (flags_config S v) = Authentication (main_cfg v)"
  "TenantId (flags_config S v) = TenantId (main_cfg v)"
  by (simp_all add: flags_config_def)

lemma flags_config_options: "from_options S ((flags_config S v)\<lparr>BearerToken := tok\<rparr>)"
  by (auto simp: from_options_def flags_config_def option_selector_def)

lemma main_controllers_address: "main_controllers M mgr cfg w = (Inr (), w') \<Longrightarrow> Address cfg \<noteq> ''''"
  by (auto simp: main_controllers_def New_def)

text \<open>A run that returns has been through the registration of the controllers.\<close>

lemma after_flags_controllers:
  assumes "errors_pkg_ok (lib_errors M)" "main_after_flags M v w = (Inr (), w')"
  shows "\<exists>mgr w1 w3. main_controllers M mgr
    ((flags_config (lib_selectors M) v)\<lparr>BearerToken := Mgr_BearerToken mgr\<rparr>) w1 = (Inr (), w3)"
  using assms(2) unfolding main_after_flags_def and_then_Inr main_selectors_cases [OF assms(1)]
  by (simp split: if_splits) blast

definition status_1 :: "('a, 'w) run \<Rightarrow> bool" where
  "status_1 r \<longleftrightarrow> (\<forall>n w. r = (Inl n, w) \<longrightarrow> n = 1)"

named_theorems status_intros

lemma status_1_steps [status_intros]:
  "status_1 (Inr x, w)" "status_1 (Inl 1, w)" "status_1 (exit_on_error r)" "status_1 (exit_if_error s)"
  by (auto simp: status_1_def exit_on_error_def exit_if_error_def split: prod.splits sum.splits option.splits)

lemma status_1_and_then [status_intros]:
  "status_1 r \<Longrightarrow> (\<And>x w. status_1 (f x w)) \<Longrightarrow> status_1 (and_then r f)"
  by (auto simp: status_1_def and_then_def split: prod.splits sum.splits)

lemma status_1_parts [status_intros]:
  "status_1 (cert_watcher M path name key w)" "status_1 (add_watcher mgr watcher w)"
  "status_1 (main_controllers M mgr cfg w)" "status_1 (main_selectors M v, w)"
  by (auto simp: cert_watcher_def add_watcher_def main_controllers_def main_selectors_def Let_def
      intro!: status_intros split: option.splits prod.splits)

lemma status_1_servers [status_intros]: "status_1 (main_servers M v w)"
  by (auto simp: main_servers_def Let_def intro!: status_intros split: prod.splits)

lemma status_1_after_flags: "status_1 (main_after_flags M v w)"
  unfolding main_after_flags_def by (intro status_intros)

subsection \<open>When the program runs\<close>

text \<open>What has to go well, step by step, for \<open>main\<close> to return: the certificates, when their paths are given; the
  servers with the options of \<open>served\<close>; the two controllers; the watchers; the checks; and the run itself.\<close>

definition certificate_loaded ::
  "('w, 'ls, 'sel, 'cw, 'rc) main_lib \<Rightarrow> string \<Rightarrow> string \<Rightarrow> string \<Rightarrow> 'w \<Rightarrow> 'cw option \<Rightarrow> 'w \<Rightarrow> bool" where
  "certificate_loaded M path name key w watcher w' \<longleftrightarrow>
     (if path = '''' then watcher = None \<and> w' = w
      else \<exists>cw. certwatcher_New M (filepath_Join [path, name]) (filepath_Join [path, key]) w = (Inr cw, w') \<and>
        watcher = Some cw)"

definition served ::
  "('w, 'ls, 'sel, 'cw, 'rc) main_lib \<Rightarrow> 'sel Vars \<Rightarrow> 'cw option \<Rightarrow> 'cw option \<Rightarrow> 'cw servers" where
  "served M v webhook metrics =
     (case (if enableHTTP2 v then ([], nil_slice) else sappend (lib_grow M) [] nil_slice disableHTTP2) of
        (h, opts) \<Rightarrow> (case append_certificate (lib_grow M) webhook h opts of
          (h1, webhookOpts) \<Rightarrow> (case append_certificate (lib_grow M) metrics h1 opts of
            (h2, metricsOpts) \<Rightarrow>
              \<lparr>memory = h2, webhookTLSOpts = webhookOpts,
                metricsServerOptions = \<lparr>BindAddress = metricsAddr v, SecureServing = secureMetrics v,
                  FilterProvider = secureMetrics v, Metrics_TLSOpts = metricsOpts\<rparr>,
                webhookCertWatcher = webhook, metricsCertWatcher = metrics\<rparr>)))"

definition registered ::
  "('w, 'ls, 'sel, 'cw, 'rc) main_lib \<Rightarrow> ('w, 'cw) ctrl_Manager \<Rightarrow> 'sel Config \<Rightarrow> 'w \<Rightarrow> 'w \<Rightarrow> bool" where
  "registered M mgr cfg w w' \<longleftrightarrow>
     (let am = \<lparr>address = Address cfg, authentication = Authentication cfg, token = BearerToken cfg, tenantId = TenantId cfg\<rparr>;
          s = NewSilenceService (Alertmanager_Client (lib_errors M) (lib_env M) am)
      in \<exists>w1. SetupWithManager_v1 (lib_errors M) (lib_kube M) (lib_env M) (lib_selectors M) (lib_predicates M)
           (NewSilenceReconciler (GetClient_v1 mgr) s (NewHelper cfg)) mgr cfg w = (None, w1) \<and>
         SetupWithManager_v2 (lib_errors M) (lib_kube M) (lib_durations M) (lib_env M) (lib_selectors M) (lib_predicates M)
           (NewSilenceV2Reconciler (GetClient_v2 mgr) s (NewHelper cfg)) mgr cfg w1 = (None, w'))"

definition watched :: "('w, 'cw) ctrl_Manager \<Rightarrow> 'cw option \<Rightarrow> 'w \<Rightarrow> 'w \<Rightarrow> bool" where
  "watched mgr watcher w w' \<longleftrightarrow> (case watcher of None \<Rightarrow> w' = w | Some cw \<Rightarrow> Mgr_Add mgr cw w = (None, w'))"

definition checked_and_run :: "('w, 'cw) ctrl_Manager \<Rightarrow> 'w \<Rightarrow> 'w \<Rightarrow> bool" where
  "checked_and_run mgr w w' \<longleftrightarrow>
     (\<exists>w1 w2. AddHealthzCheck mgr ''healthz'' w = (None, w1) \<and> AddReadyzCheck mgr ''readyz'' w1 = (None, w2) \<and>
        Mgr_Start mgr w2 = (None, w'))"

definition starts :: "('w, 'ls, 'sel, 'cw, 'rc) main_lib \<Rightarrow> 'sel Vars \<Rightarrow> 'w \<Rightarrow> 'w \<Rightarrow> bool" where
  "starts M v w w' \<longleftrightarrow>
     selector_ok (lib_selectors M) (silenceSelector v) \<and> selector_ok (lib_selectors M) (namespaceSelector v) \<and>
     Address (main_cfg v) \<noteq> '''' \<and>
     (\<exists>webhook w1 metrics w2 rc w3 mgr w4 w5 w6 w7.
        certificate_loaded M (webhookCertPath v) (webhookCertName v) (webhookCertKey v) w webhook w1 \<and>
        certificate_loaded M (metricsCertPath v) (metricsCertName v) (metricsCertKey v) w1 metrics w2 \<and>
        GetConfig M w2 = (Inr rc, w3) \<and>
        NewManager M rc
          \<lparr>Metrics = metricsServerOptions (served M v webhook metrics),
           WebhookServer_TLSOpts = webhookTLSOpts (served M v webhook metrics),
           HealthProbeBindAddress = probeAddr v, LeaderElection = enableLeaderElection v,
           LeaderElectionID = ''5573995c.giantswarm.io''\<rparr> (memory (served M v webhook metrics)) w3 = (Inr mgr, w4) \<and>
        registered M mgr ((flags_config (lib_selectors M) v)\<lparr>BearerToken := Mgr_BearerToken mgr\<rparr>) w4 w5 \<and>
        watched mgr metrics w5 w6 \<and> watched mgr webhook w6 w7 \<and> checked_and_run mgr w7 w')"

lemma cert_watcher_Inr: "cert_watcher M path name key w = (Inr x, w') \<longleftrightarrow> certificate_loaded M path name key w x w'"
  by (auto simp: cert_watcher_def certificate_loaded_def and_then_Inr)

lemma main_servers_Inr:
  "main_servers M v w = (Inr sv, w') \<longleftrightarrow>
     (\<exists>webhook metrics w1.
        certificate_loaded M (webhookCertPath v) (webhookCertName v) (webhookCertKey v) w webhook w1 \<and>
        certificate_loaded M (metricsCertPath v) (metricsCertName v) (metricsCertKey v) w1 metrics w' \<and>
        sv = served M v webhook metrics)"
  by (auto simp: main_servers_def served_def and_then_Inr cert_watcher_Inr Let_def case_prod_beta)

lemma served_sel [simp]:
  "webhookCertWatcher (served M v webhook metrics) = webhook" "metricsCertWatcher (served M v webhook metrics) = metrics"
  by (simp_all add: served_def case_prod_beta)

lemma main_controllers_Inr:
  "main_controllers M mgr cfg w = (Inr u, w') \<longleftrightarrow> Address cfg \<noteq> '''' \<and> registered M mgr cfg w w'"
  by (auto simp: main_controllers_def New_def registered_def and_then_Inr Let_def)

lemma add_watcher_Inr: "add_watcher mgr watcher w = (Inr u, w') \<longleftrightarrow> watched mgr watcher w w'"
  by (auto simp: add_watcher_def watched_def split: option.splits)

lemma selectors_Inr:
  assumes "errors_pkg_ok (lib_errors M)"
  shows "(main_selectors M v, w) = (Inr cfg, w') \<longleftrightarrow>
    selector_ok (lib_selectors M) (silenceSelector v) \<and> selector_ok (lib_selectors M) (namespaceSelector v) \<and>
    cfg = flags_config (lib_selectors M) v \<and> w' = w"
  by (auto simp: main_selectors_cases [OF assms])

lemma main_after_flags_Inr:
  assumes "errors_pkg_ok (lib_errors M)"
  shows "main_after_flags M v w = (Inr (), w') \<longleftrightarrow> starts M v w w'"
proof -
  have servers: "(\<exists>sv w2. main_servers M v w = (Inr sv, w2) \<and> Q sv w2) \<longleftrightarrow>
      (\<exists>webhook w1.
        certificate_loaded M (webhookCertPath v) (webhookCertName v) (webhookCertKey v) w webhook w1 \<and>
        (\<exists>metrics w2. certificate_loaded M (metricsCertPath v) (metricsCertName v) (metricsCertKey v) w1 metrics w2 \<and>
           Q (served M v webhook metrics) w2))" for Q
    unfolding main_servers_Inr by blast
  show ?thesis
    unfolding main_after_flags_def starts_def and_then_Inr selectors_Inr [OF assms] main_controllers_Inr
      add_watcher_Inr exit_on_error_Inr exit_if_error_Inr checked_and_run_def
    by (cases "Address (main_cfg v) = ''''") (simp_all add: servers)
qed

lemma main_after_flags_cases:
  assumes "errors_pkg_ok (lib_errors M)"
  shows "(\<exists>w'. starts M v w w' \<and> main_after_flags M v w = (Inr (), w')) \<or>
    ((\<nexists>w'. starts M v w w') \<and> fst (main_after_flags M v w) = Inl 1)"
  using main_after_flags_Inr [OF assms, of v w] status_1_after_flags [of M v w]
  by (cases "main_after_flags M v w"; cases "fst (main_after_flags M v w)") (auto simp: status_1_def)

text \<open>C40: the program ends with status 0 after \<open>-help\<close> and with 2 for a bad command line, both before anything else
  happens.  Otherwise it returns from \<open>main\<close> exactly if every step of the start succeeds, one after the other
  (\<open>starts\<close>: the selectors parse, the certificates that are asked for load, the configuration of the cluster
  and the manager are there, the address of Alertmanager is not empty, both controllers and all watchers and checks
  register, and the manager runs and stops without an error), and in the world they leave; else it ends with 1.  A
  selector that does not parse ends it before it has done anything.\<close>

theorem main_exit_codes:
  fixes M :: "('w, 'ls, 'sel, 'cw, 'rc) main_lib"
  assumes "errors_pkg_ok (lib_errors M)"
  shows "case flag_Parse (formal_flags (lib_flags M)) args (default_vars :: 'sel Vars) of
      FlagHelp \<Rightarrow> main M args w = (Inl 0, w)
    | FlagError \<Rightarrow> main M args w = (Inl 2, w)
    | Parsed v \<Rightarrow>
        ((\<exists>w'. starts M v w w' \<and> main M args w = (Inr (), w')) \<or>
         ((\<nexists>w'. starts M v w w') \<and> fst (main M args w) = Inl 1)) \<and>
        (\<not> selector_ok (lib_selectors M) (silenceSelector v) \<or> \<not> selector_ok (lib_selectors M) (namespaceSelector v)
           \<longrightarrow> main M args w = (Inl 1, w)) \<and>
        (Address (main_cfg v) = '''' \<longrightarrow> fst (main M args w) = Inl 1)"
proof (cases "flag_Parse (formal_flags (lib_flags M)) args (default_vars :: 'sel Vars)")
  case (Parsed v)
  then have run: "main M args w = main_after_flags M v w" by (simp add: main_def)
  have "main_after_flags M v w = (Inl 1, w)"
    if "\<not> selector_ok (lib_selectors M) (silenceSelector v) \<or> \<not> selector_ok (lib_selectors M) (namespaceSelector v)"
    using that by (auto simp: main_after_flags_def main_selectors_cases [OF assms] and_then_def)
  moreover have "\<nexists>w'. starts M v w w'" if "Address (main_cfg v) = ''''"
    using that by (simp add: starts_def)
  ultimately show ?thesis
    unfolding Parsed flag_result.case run using main_after_flags_cases [OF assms, of v w] by blast
qed (simp_all add: main_def)

subsection \<open>A running program\<close>

lemma main_controllers_register:
  assumes "predicates_ok (lib_selectors M) (lib_predicates M)" "from_options (lib_selectors M) cfg"
    and "main_controllers M mgr cfg w1 = (Inr (), w3)"
    and am: "am = \<lparr>address = Address cfg, authentication = Authentication cfg, token = BearerToken cfg,
      tenantId = TenantId cfg\<rparr>"
    and s: "s = NewSilenceService (Alertmanager_Client (lib_errors M) (lib_env M) am)"
  shows "\<exists>b1 b2 w2.
    Complete mgr b1 (Reconcile_v1 (lib_errors M) (lib_kube M) (lib_env M)
      (NewSilenceReconciler (GetClient_v1 mgr) s (NewHelper cfg))) w1 = (None, w2) \<and>
    Complete mgr b2 (Reconcile_v2 (lib_errors M) (lib_kube M) (lib_durations M) (lib_env M)
      (NewSilenceV2Reconciler (GetClient_v2 mgr) s (NewHelper cfg))) w2 = (None, w3) \<and>
    (\<forall>ev u. fst (passes (EventFilters b1) ev u) \<longleftrightarrow>
       selects (lib_selectors M) (SilenceSelector cfg) (Labels (event_object ev))) \<and>
    (\<forall>ev u. fst (passes (EventFilters b2) ev u) \<longleftrightarrow>
       selects (lib_selectors M) (SilenceSelector cfg) (Labels (event_object ev)) \<and>
       namespace_selected (lib_selectors M) mgr cfg (event_object ev) u)"
proof -
  let ?r1 = "NewSilenceReconciler (GetClient_v1 mgr) s (NewHelper cfg)"
  let ?r2 = "NewSilenceV2Reconciler (GetClient_v2 mgr) s (NewHelper cfg)"
  obtain w2 where
    set: "SetupWithManager_v1 (lib_errors M) (lib_kube M) (lib_env M) (lib_selectors M) (lib_predicates M) ?r1 mgr cfg w1
        = (None, w2)"
      "SetupWithManager_v2 (lib_errors M) (lib_kube M) (lib_durations M) (lib_env M) (lib_selectors M)
        (lib_predicates M) ?r2 mgr cfg w2 = (None, w3)"
    using assms(3) by (auto simp: main_controllers_def New_def and_then_Inr Let_def s am split: if_splits)
  show ?thesis
    using setup_v1_filters [OF assms(1,2), of "lib_errors M" "lib_kube M" "lib_env M" ?r1 mgr w1]
      setup_v2_filters [OF assms(1,2), of "lib_errors M" "lib_kube M" "lib_durations M" "lib_env M" ?r2 mgr w2]
    unfolding set by (metis fst_conv)
qed

text \<open>C27: a program that returns from \<open>main\<close> has registered both controllers: one client, with the address,
  tenant and authentication of the flags and the token of the cluster configuration, serves
  both; and events reach them as the selectors of the flags say, the namespace selector
  concerning v1alpha2 only.\<close>

theorem main_registers:
  fixes M :: "('w, 'ls, 'sel, 'cw, 'rc) main_lib"
  assumes "errors_pkg_ok (lib_errors M)" "predicates_ok (lib_selectors M) (lib_predicates M)"
    and "flag_Parse (formal_flags (lib_flags M)) args default_vars = Parsed v"
    and "main M args w = (Inr (), w')"
  shows "\<exists>(mgr :: ('w, 'cw) ctrl_Manager) (b1 :: 'w Builder) (b2 :: 'w Builder) w1 w2 w3.
    let cfg = (flags_config (lib_selectors M) v)\<lparr>BearerToken := Mgr_BearerToken mgr\<rparr>;
      am = \<lparr>address = Address (main_cfg v), authentication = Authentication (main_cfg v),
        token = Mgr_BearerToken mgr, tenantId = TenantId (main_cfg v)\<rparr>;
      s = NewSilenceService (Alertmanager_Client (lib_errors M) (lib_env M) am)
    in Complete mgr b1 (Reconcile_v1 (lib_errors M) (lib_kube M) (lib_env M)
        (NewSilenceReconciler (GetClient_v1 mgr) s (NewHelper cfg))) w1 = (None, w2) \<and>
      Complete mgr b2 (Reconcile_v2 (lib_errors M) (lib_kube M) (lib_durations M) (lib_env M)
        (NewSilenceV2Reconciler (GetClient_v2 mgr) s (NewHelper cfg))) w2 = (None, w3) \<and>
      (\<forall>ev u. fst (passes (EventFilters b1) ev u) \<longleftrightarrow>
         selects (lib_selectors M) (SilenceSelector cfg) (Labels (event_object ev))) \<and>
      (\<forall>ev u. fst (passes (EventFilters b2) ev u) \<longleftrightarrow>
         selects (lib_selectors M) (SilenceSelector cfg) (Labels (event_object ev)) \<and>
         namespace_selected (lib_selectors M) mgr cfg (event_object ev) u)"
proof -
  have "main_after_flags M v w = (Inr (), w')" using assms(3,4) by (simp add: main_def)
  from after_flags_controllers [OF assms(1) this] obtain mgr w1 w3 where
    "main_controllers M mgr ((flags_config (lib_selectors M) v)\<lparr>BearerToken := Mgr_BearerToken mgr\<rparr>) w1 = (Inr (), w3)"
    by blast
  note run = main_controllers_register [OF assms(2) flags_config_options this _ refl]
  show ?thesis
    unfolding Let_def by (rule exI [of _ mgr]) (use run [OF refl] in \<open>simp, blast\<close>)
qed

subsection \<open>Command lines\<close>

lemma main_flag_names: "list_all (flag_name \<circ> fst) (main_flags :: (string \<times> 'sel Vars flag_value) list)"
  by (simp add: main_flags_def flag_name_def)

lemma formal_flags_names:
  assumes "list_all (flag_name \<circ> fst) others" "formal_flags others n \<noteq> None"
  shows "flag_name n"
  using assms main_flag_names
  by (auto simp: formal_flags_def list_all_iff split: option.splits dest!: map_of_SomeD)

text \<open>Options given as \<open>--name=value\<close>, as the Helm chart gives them, are assigned as they stand: any
  text to a text option, one of the accepted words to a boolean one; the last assignment of an option
  wins, and options that are not given keep their defaults.\<close>

theorem main_assigns:
  assumes "list_all (flag_name \<circ> fst) (lib_flags M)"
    and "flag_Sets (formal_flags (lib_flags M)) nvs default_vars = Some v"
  shows "main M (map flag_arg nvs) w = main_after_flags M v w"
proof -
  have "flag_Parse (formal_flags (lib_flags M)) (map flag_arg nvs) default_vars = Parsed v"
    by (rule flag_Parse_assigns [OF _ assms(2)]) (rule formal_flags_names [OF assms(1)])
  then show ?thesis by (simp add: main_def)
qed

subsection \<open>Samples\<close>

text \<open>A cluster in which every call succeeds.  A certificate watcher is the path of its certificate.\<close>

definition sample_ctrl :: "(unit, string) ctrl_Manager" where
  "sample_ctrl = \<lparr>Get_Namespace_Labels = Get_Namespace_Labels sample_manager,
     Complete = (\<lambda>b r w. (None, w)), Mgr_BearerToken = ''t0k'', GetClient_v1 = fixed_kube sample_v1,
     GetClient_v2 = fixed_kube kept_v2, Mgr_Add = (\<lambda>_ w. (None, w)), AddHealthzCheck = (\<lambda>_ w. (None, w)),
     AddReadyzCheck = (\<lambda>_ w. (None, w)), Mgr_Start = (\<lambda>w. (None, w))\<rparr>"

definition sample_main :: "(nat \<Rightarrow> nat \<Rightarrow> nat) \<Rightarrow> (unit, string, string, string, unit) main_lib" where
  "sample_main grow = \<lparr>lib_errors = sample_errors, lib_kube = sample_kube, lib_durations = (\<lambda>_. Inr 0),
     lib_env = fixed_env 200 ''[]'', lib_selectors = sample_selectors, lib_predicates = sample_predicates,
     lib_flags = [(''kubeconfig'', False, \<lambda>_. True), (''zap-devel'', True, \<lambda>s. ParseBool s \<noteq> None)],
     lib_grow = grow, certwatcher_New = (\<lambda>c k w. (Inr c, w)), GetConfig = (\<lambda>w. (Inr (), w)),
     NewManager = (\<lambda>_ _ _ w. (Inr sample_ctrl, w))\<rparr>"

lemma sample_main_sel [simp]:
  "lib_errors (sample_main g) = sample_errors" "lib_selectors (sample_main g) = sample_selectors"
  "lib_predicates (sample_main g) = sample_predicates" "lib_grow (sample_main g) = g"
  by (simp_all add: sample_main_def)

definition both_certificates :: "string Vars" where
  "both_certificates = default_vars\<lparr>webhookCertPath := ''/hook/'', metricsCertPath := ''/metrics/../m''\<rparr>"

definition doubling :: "nat \<Rightarrow> nat \<Rightarrow> nat" where
  "doubling c n = 2 * n"

text \<open>With an \<open>append\<close> that doubles, the webhook server gets the wrong certificate.\<close>

theorem main_servers_tls_witness:
  "\<exists>sv. main_servers (sample_main doubling) both_certificates () = (Inr sv, ()) \<and>
     webhookCertWatcher sv = Some ''/hook/tls.crt'' \<and>
     sread (memory sv) (webhookTLSOpts sv) = [disableHTTP2, GetCertificateOf ''/m/tls.crt'']"
proof -
  let ?r = "main_servers (sample_main doubling) both_certificates ()"
  have "case fst ?r of Inl _ \<Rightarrow> False | Inr sv \<Rightarrow>
      webhookCertWatcher sv = Some ''/hook/tls.crt'' \<and> metricsCertWatcher sv = Some ''/m/tls.crt''"
    "\<not> enableHTTP2 both_certificates" "1 < doubling 0 1"
    by code_simp+
  then obtain sv where sv: "?r = (Inr sv, ())" "webhookCertWatcher sv = Some ''/hook/tls.crt''"
    "metricsCertWatcher sv = Some ''/m/tls.crt''" "\<not> enableHTTP2 both_certificates" "1 < doubling 0 1"
    by (cases ?r) (auto split: sum.splits)
  then show ?thesis using main_servers_tls [OF sv(1)] by (simp add: certificate_of_def)
qed

definition chart_options :: "(string \<times> string) list" where
  "chart_options = [(''metrics-bind-address'', '':8080''), (''alertmanager-address'', ''http://am''),
     (''alertmanager-authentication'', ''true''), (''tenancy-enabled'', ''true''),
     (''tenancy-default-tenant'', ''shared''), (''silence-selector'', ''team''), (''namespace-selector'', ''env'')]"

text \<open>The same cluster, but the manager stops with an error.\<close>

definition stopping_main :: "(nat \<Rightarrow> nat \<Rightarrow> nat) \<Rightarrow> (unit, string, string, string, unit) main_lib" where
  "stopping_main grow = (sample_main grow)
     \<lparr>NewManager := \<lambda>_ _ _ w. (Inr (sample_ctrl\<lparr>Mgr_Start := \<lambda>w. (Some (Failure ''leader election lost'' []), w)\<rparr>), w)\<rparr>"

lemma stopping_never_runs: "\<not> starts (stopping_main grow) v w w'"
  unfolding starts_def by (clarsimp simp: stopping_main_def sample_main_def checked_and_run_def)

theorem main_exit_codes_witness:
  "(\<exists>v. starts (sample_main doubling) v () () \<and> main (sample_main doubling) (map flag_arg chart_options) () = (Inr (), ())) \<and>
   main (stopping_main doubling) (map flag_arg chart_options) () = (Inl 1, ()) \<and>
   main (sample_main doubling) [''--alertmanager-address='', ''--tenancy-enabled''] () = (Inl 1, ()) \<and>
   main (sample_main doubling) [''-tenancy-enabled=maybe''] () = (Inl 2, ())"
proof -
  let ?parse = "\<lambda>args. flag_Parse (formal_flags (lib_flags (sample_main doubling))) args (default_vars :: string Vars)"
  let ?chart = "map flag_arg chart_options" and ?none = "[''--alertmanager-address='', ''--tenancy-enabled'']"
    and ?bad = "[''-tenancy-enabled=maybe'']"
  have P: "errors_pkg_ok (lib_errors (sample_main doubling))" "errors_pkg_ok (lib_errors (stopping_main doubling))"
    and flags: "lib_flags (stopping_main doubling) = lib_flags (sample_main doubling)"
    by (simp_all add: stopping_main_def)
  have "case ?parse ?chart of Parsed v \<Rightarrow> True | _ \<Rightarrow> False"
    "case ?parse ?none of Parsed v \<Rightarrow> Address (main_cfg v) = '''' | _ \<Rightarrow> False"
    "case ?parse ?bad of FlagError \<Rightarrow> True | _ \<Rightarrow> False"
    by code_simp+
  then obtain v u where v: "?parse ?chart = Parsed v" and u: "?parse ?none = Parsed u" "Address (main_cfg u) = ''''"
    and bad: "?parse ?bad = FlagError"
    by (auto split: flag_result.splits simp del: flag_Parse.simps)
  have run: "fst (main (sample_main doubling) ?chart ()) = Inr ()" by code_simp
  show ?thesis
    using main_exit_codes [OF P(1), where args = ?chart and w = "()", unfolded v flag_result.case] run
      main_exit_codes [OF P(2), where args = ?chart and w = "()", unfolded flags v flag_result.case] stopping_never_runs
      main_exit_codes [OF P(1), where args = ?none and w = "()", unfolded u(1) flag_result.case] u(2)
      main_exit_codes [OF P(1), where args = ?bad and w = "()", unfolded bad flag_result.case]
    by (auto simp: prod_eq_iff)
qed

theorem main_assigns_witness:
  "\<exists>v. main (sample_main doubling) (map flag_arg chart_options) () = main_after_flags (sample_main doubling) v () \<and>
     Authentication (main_cfg v) \<and> TenancyDefaultTenant (main_cfg v) = ''shared'' \<and> silenceSelector v = ''team'' \<and>
     probeAddr v = '':8081''"
proof -
  have "list_all (flag_name \<circ> fst) (lib_flags (sample_main doubling))"
    by (simp add: sample_main_def flag_name_def)
  moreover have "case flag_Sets (formal_flags (lib_flags (sample_main doubling))) chart_options default_vars of
      None \<Rightarrow> False | Some v \<Rightarrow> Authentication (main_cfg v) \<and> TenancyDefaultTenant (main_cfg v) = ''shared'' \<and>
        silenceSelector v = ''team'' \<and> probeAddr v = '':8081''"
    by code_simp
  ultimately show ?thesis
    using main_assigns [of "sample_main doubling" chart_options _ "()"] by (auto split: option.splits)
qed

theorem main_registers_witness:
  "\<exists>b1 :: unit Builder.
     \<forall>ev. fst (passes (EventFilters b1) ev ()) \<longleftrightarrow> map_lookup (Labels (event_object ev)) ''team'' \<noteq> None"
proof -
  let ?args = "map flag_arg chart_options"
  have "fst (main (sample_main doubling) ?args ()) = Inr ()" by code_simp
  then have run: "main (sample_main doubling) ?args () = (Inr (), ())" by (intro prod_eqI) simp_all
  have "case flag_Parse (formal_flags (lib_flags (sample_main doubling))) ?args default_vars of
      Parsed v \<Rightarrow> SilenceSelector (flags_config sample_selectors v) = Some ''team'' | _ \<Rightarrow> False"
    by code_simp
  then obtain v where v: "flag_Parse (formal_flags (lib_flags (sample_main doubling))) ?args default_vars = Parsed v"
    "SilenceSelector (flags_config sample_selectors v) = Some ''team''"
    by (auto split: flag_result.splits simp del: flag_Parse.simps)
  have P: "errors_pkg_ok (lib_errors (sample_main doubling))"
    "predicates_ok (lib_selectors (sample_main doubling)) (lib_predicates (sample_main doubling))"
    using sample_predicates_ok by simp_all
  from main_registers [OF P v(1) run] obtain b1 :: "unit Builder" where
    "\<forall>ev u. fst (passes (EventFilters b1) ev u) \<longleftrightarrow>
       selects sample_selectors (SilenceSelector (flags_config sample_selectors v)) (Labels (event_object ev))"
    by (auto simp: Let_def)
  then show ?thesis using v(2) by (intro exI [of _ b1]) (simp add: selects_def sample_selectors_def)
qed

end
