(* ===== verification/Memory.thy ===== *)
theory Memory
  imports Go_Slice
begin

section \<open>Structures in memory and their deep copies\<close>

text \<open>
  Memory is a list of cells, addressed by position; \<open>new\<close> and \<open>make\<close> append a cell.  A structure \<open>'p\<close>
  with pointers stands for a value \<open>'v\<close>: \<open>abs mem p\<close>, which is \<open>None\<close> for a dangling pointer, and
  \<open>reach mem p\<close> are the cells it uses.  The locale \<open>deep_copy\<close> is the contract of a generated
  \<open>DeepCopyInto\<close>; the lemmas outside it build copies of structures from copies of their parts.
\<close>

definition fetch :: "'c list \<Rightarrow> nat \<Rightarrow> 'c option" where
  "fetch mem a = (if a < length mem then Some (mem ! a) else None)"

lemma fetch_append: "a < length mem \<Longrightarrow> fetch (mem @ new) a = fetch mem a"
  by (simp add: fetch_def nth_append)

lemma fetch_new [simp]: "fetch (mem @ c # new) (length mem) = Some c"
  by (simp add: fetch_def)

lemma fetch_update: "a \<noteq> b \<Longrightarrow> fetch (mem[b := c]) a = fetch mem a"
  by (simp add: fetch_def)

lemma fetch_Some [simp]: "fetch mem a = Some c \<longleftrightarrow> a < length mem \<and> mem ! a = c"
  by (simp add: fetch_def)

locale stored =
  fixes abs :: "'c list \<Rightarrow> 'p \<Rightarrow> 'v option" and reach :: "'c list \<Rightarrow> 'p \<Rightarrow> nat set"
  assumes bound: "abs mem p = Some v \<Longrightarrow> reach mem p \<subseteq> {..<length mem}"
    and locality: "\<lbrakk>abs mem p = Some v; \<forall>a\<in>reach mem p. fetch mem' a = fetch mem a\<rbrakk>
      \<Longrightarrow> abs mem' p = Some v \<and> reach mem' p = reach mem p"
begin

lemma extend:
  assumes "abs mem p = Some v"
  shows "abs (mem @ new) p = Some v" "reach (mem @ new) p = reach mem p"
proof -
  have "\<forall>a\<in>reach mem p. fetch (mem @ new) a = fetch mem a"
    using bound [OF assms] by (auto simp: fetch_append)
  from locality [OF assms this] show "abs (mem @ new) p = Some v" "reach (mem @ new) p = reach mem p"
    by simp_all
qed

lemma overwrite:
  assumes "abs mem p = Some v" "b \<notin> reach mem p"
  shows "abs (mem[b := c]) p = Some v" "reach (mem[b := c]) p = reach mem p"
proof -
  have "\<forall>a\<in>reach mem p. fetch (mem[b := c]) a = fetch mem a"
    using assms(2) fetch_update by metis
  from locality [OF assms(1) this] show "abs (mem[b := c]) p = Some v" "reach (mem[b := c]) p = reach mem p"
    by simp_all
qed

end

text \<open>\<open>p\<close> and \<open>q\<close> both stand for \<open>v\<close> and share no cell: whatever happens in the cells of one, the
  other keeps its value.\<close>

definition separate ::
  "('c list \<Rightarrow> 'p \<Rightarrow> 'v option) \<Rightarrow> ('c list \<Rightarrow> 'p \<Rightarrow> nat set) \<Rightarrow> 'c list \<Rightarrow> 'p \<Rightarrow> 'p \<Rightarrow> 'v \<Rightarrow> bool" where
  "separate ab reach mem p q v \<longleftrightarrow>
     ab mem p = Some v \<and> ab mem q = Some v \<and> reach mem p \<inter> reach mem q = {} \<and>
     (\<forall>later. (\<forall>a. a \<notin> reach mem q \<longrightarrow> fetch later a = fetch mem a) \<longrightarrow> ab later p = Some v) \<and>
     (\<forall>later. (\<forall>a. a \<notin> reach mem p \<longrightarrow> fetch later a = fetch mem a) \<longrightarrow> ab later q = Some v)"

locale deep_copy = stored abs reach
  for abs :: "'c list \<Rightarrow> 'p \<Rightarrow> 'v option" and reach :: "'c list \<Rightarrow> 'p \<Rightarrow> nat set" +
  fixes copy :: "'p \<Rightarrow> 'c list \<Rightarrow> 'p \<times> 'c list"
  assumes copies: "abs mem p = Some v \<Longrightarrow> \<exists>q new. copy p mem = (q, mem @ new) \<and>
    abs (mem @ new) q = Some v \<and> reach (mem @ new) q \<subseteq> {length mem..<length (mem @ new)}"
begin

lemma copy_separate:
  assumes "abs mem p = Some v" "copy p mem = (q, mem')"
  shows "separate abs reach mem' p q v"
proof -
  obtain new where new: "mem' = mem @ new" "abs mem' q = Some v" "reach mem' q \<subseteq> {length mem..<length mem'}"
    using copies [OF assms(1)] assms(2) by auto
  have p: "abs mem' p = Some v" "reach mem' p = reach mem p" using extend [OF assms(1)] new(1) by simp_all
  have disj: "reach mem' p \<inter> reach mem' q = {}" using bound [OF assms(1)] p(2) new(3) by fastforce
  have "abs later p = Some v" if "\<forall>a. a \<notin> reach mem' q \<longrightarrow> fetch later a = fetch mem' a" for later
    using locality [OF p(1), of later] that disj by blast
  moreover have "abs later q = Some v" if "\<forall>a. a \<notin> reach mem' p \<longrightarrow> fetch later a = fetch mem' a" for later
    using locality [OF new(2), of later] that disj by blast
  ultimately show ?thesis unfolding separate_def using p(1) new(2) disj by blast
qed

end

subsection \<open>Values without pointers\<close>

definition copy_val :: "'p \<Rightarrow> 'c list \<Rightarrow> 'p \<times> 'c list" where
  "copy_val x mem = (x, mem)"

definition abs_val :: "'c list \<Rightarrow> 'p \<Rightarrow> 'p option" where
  "abs_val mem x = Some x"

definition reach_val :: "'c list \<Rightarrow> 'p \<Rightarrow> nat set" where
  "reach_val mem x = {}"

lemma deep_copy_val: "deep_copy abs_val reach_val copy_val"
  by unfold_locales (auto simp: abs_val_def reach_val_def copy_val_def)

subsection \<open>Two parts in a row\<close>

definition copy_pair where
  "copy_pair c1 c2 p mem =
     (case c1 (fst p) mem of (q1, mem) \<Rightarrow> (case c2 (snd p) mem of (q2, mem) \<Rightarrow> ((q1, q2), mem)))"

definition abs_pair where
  "abs_pair a1 a2 mem p =
     (case a1 mem (fst p) of None \<Rightarrow> None | Some v1 \<Rightarrow> map_option (Pair v1) (a2 mem (snd p)))"

definition reach_pair where
  "reach_pair r1 r2 mem p = (r1 mem (fst p) \<union> r2 mem (snd p) :: nat set)"

lemma abs_pair_Some:
  "abs_pair a1 a2 mem p = Some v \<longleftrightarrow> a1 mem (fst p) = Some (fst v) \<and> a2 mem (snd p) = Some (snd v)"
  by (cases v) (auto simp: abs_pair_def split: option.splits)

lemma deep_copy_pair:
  assumes "deep_copy a1 r1 c1" "deep_copy a2 r2 c2"
  shows "deep_copy (abs_pair a1 a2) (reach_pair r1 r2) (copy_pair c1 c2)"
proof -
  note s1 = deep_copy.axioms(1) [OF assms(1)] and s2 = deep_copy.axioms(1) [OF assms(2)]
  show ?thesis
  proof (unfold_locales, goal_cases)
    case (1 mem p v)
    then show ?case
      using stored.bound [OF s1] stored.bound [OF s2] by (fastforce simp: abs_pair_Some reach_pair_def)
  next
    case (2 mem p v mem')
    then show ?case
      using stored.locality [OF s1, of mem "fst p" "fst v" mem'] stored.locality [OF s2, of mem "snd p" "snd v" mem']
      by (auto simp: abs_pair_Some reach_pair_def)
  next
    case (3 mem p v)
    then have v: "a1 mem (fst p) = Some (fst v)" "a2 mem (snd p) = Some (snd v)" by (simp_all add: abs_pair_Some)
    obtain q1 new1 where q1: "c1 (fst p) mem = (q1, mem @ new1)" "a1 (mem @ new1) q1 = Some (fst v)"
      "r1 (mem @ new1) q1 \<subseteq> {length mem..<length (mem @ new1)}"
      using deep_copy.copies [OF assms(1) v(1)] by blast
    obtain q2 new2 where q2: "c2 (snd p) (mem @ new1) = (q2, (mem @ new1) @ new2)"
      "a2 ((mem @ new1) @ new2) q2 = Some (snd v)"
      "r2 ((mem @ new1) @ new2) q2 \<subseteq> {length (mem @ new1)..<length ((mem @ new1) @ new2)}"
      using deep_copy.copies [OF assms(2) stored.extend(1) [OF s2 v(2)]] by blast
    note e = stored.extend [OF s1 q1(2), of new2]
    show ?case
      using q1 q2 e
      by (intro exI [of _ "(q1, q2)"] exI [of _ "new1 @ new2"])
        (fastforce simp: copy_pair_def abs_pair_Some reach_pair_def)
  qed
qed

subsection \<open>Structures by their parts\<close>

lemma deep_copy_struct:
  assumes "deep_copy a r c" "\<And>x. parts (mk x) = x"
    and "\<And>p mem. copy p mem = (case c (parts p) mem of (x, mem) \<Rightarrow> (mk x, mem))"
    and "\<And>p mem. ab mem p = map_option val (a mem (parts p))"
    and "\<And>p mem. reach mem p = r mem (parts p)"
  shows "deep_copy ab reach copy"
proof -
  note s = deep_copy.axioms(1) [OF assms(1)]
  show ?thesis
  proof (unfold_locales, goal_cases)
    case (1 mem p v)
    then obtain x where "a mem (parts p) = Some x" by (auto simp: assms(4))
    from stored.bound [OF s this] show ?case by (simp add: assms(5))
  next
    case (2 mem p v mem')
    then obtain x where x: "a mem (parts p) = Some x" "v = val x" by (auto simp: assms(4))
    from stored.locality [OF s x(1), of mem'] 2(2) show ?case by (simp add: assms(4,5) x(2))
  next
    case (3 mem p v)
    then obtain x where x: "a mem (parts p) = Some x" "v = val x" by (auto simp: assms(4))
    from deep_copy.copies [OF assms(1) x(1)] obtain q new where
      "c (parts p) mem = (q, mem @ new)" "a (mem @ new) q = Some x"
      "r (mem @ new) q \<subseteq> {length mem..<length (mem @ new)}" by blast
    then show ?case by (intro exI [of _ "mk q"] exI [of _ new]) (simp add: assms(2-5) x(2))
  qed
qed

subsection \<open>Pointers\<close>

text \<open>\<open>*out = new(T); **out = **in\<close> for a \<open>T\<close> without pointers.\<close>

definition new_copy :: "nat option \<Rightarrow> 'c list \<Rightarrow> nat option \<times> 'c list" where
  "new_copy p mem = (case p of None \<Rightarrow> (None, mem) | Some a \<Rightarrow> (Some (length mem), mem @ [mem ! a]))"

definition abs_ptr :: "('c \<Rightarrow> 'v option) \<Rightarrow> 'c list \<Rightarrow> nat option \<Rightarrow> 'v option option" where
  "abs_ptr prj mem p =
     (case p of None \<Rightarrow> Some None | Some a \<Rightarrow> map_option Some (Option.bind (fetch mem a) prj))"

definition reach_ptr :: "'c list \<Rightarrow> nat option \<Rightarrow> nat set" where
  "reach_ptr mem p = set_option p"

lemma stored_ptr: "stored (abs_ptr prj) reach_ptr"
  by unfold_locales (auto simp: abs_ptr_def reach_ptr_def bind_eq_Some_conv split: option.splits)

lemma deep_copy_ptr: "deep_copy (abs_ptr prj) reach_ptr new_copy"
proof (intro deep_copy.intro stored_ptr deep_copy_axioms.intro)
  fix mem p v
  assume "abs_ptr prj mem p = Some v"
  then show "\<exists>q new. new_copy p mem = (q, mem @ new) \<and> abs_ptr prj (mem @ new) q = Some v \<and>
      reach_ptr (mem @ new) q \<subseteq> {length mem..<length (mem @ new)}"
    by (cases p) (auto simp: abs_ptr_def reach_ptr_def new_copy_def bind_eq_Some_conv)
qed

subsection \<open>Slices\<close>

definition abs_slice ::
  "('c \<Rightarrow> 'p list option) \<Rightarrow> ('c list \<Rightarrow> 'p \<Rightarrow> 'v option) \<Rightarrow> 'c list \<Rightarrow> gslice \<Rightarrow> 'v list option option" where
  "abs_slice prj el mem s =
     (case sarr s of
        None \<Rightarrow> Some None
      | Some a \<Rightarrow>
          (case Option.bind (fetch mem a) prj of
             None \<Rightarrow> None
           | Some xs \<Rightarrow> if slen s \<le> length xs then map_option Some (those (map (el mem) (take (slen s) xs)))
                        else None))"

definition reach_slice ::
  "('c \<Rightarrow> 'p list option) \<Rightarrow> ('c list \<Rightarrow> 'p \<Rightarrow> nat set) \<Rightarrow> 'c list \<Rightarrow> gslice \<Rightarrow> nat set" where
  "reach_slice prj reach mem s =
     (case sarr s of
        None \<Rightarrow> {}
      | Some a \<Rightarrow> insert a (\<Union>x\<in>set (take (slen s) (the (prj (mem ! a)))). reach mem x))"

lemma those_map_Some:
  "those (map f ys) = Some vs \<longleftrightarrow> length vs = length ys \<and> (\<forall>i<length ys. f (ys ! i) = Some (vs ! i))"
proof (induction ys arbitrary: vs)
  case (Cons y ys)
  show ?case
    by (cases vs) (auto simp: Cons.IH nth_Cons split: option.splits nat.splits)
qed auto

lemma abs_slice_Some:
  "abs_slice prj el mem s = Some v \<longleftrightarrow>
     (case sarr s of
        None \<Rightarrow> v = None
      | Some a \<Rightarrow> (\<exists>xs vs. a < length mem \<and> prj (mem ! a) = Some xs \<and> slen s \<le> length xs \<and> v = Some vs \<and>
          length vs = slen s \<and> (\<forall>i<slen s. el mem (xs ! i) = Some (vs ! i))))"
proof (cases "sarr s")
  case (Some a)
  have "fetch mem a = (if a < length mem then Some (mem ! a) else None)" by (simp add: fetch_def)
  then show ?thesis
    using Some by (auto simp: abs_slice_def those_map_Some split: option.splits)
qed (auto simp: abs_slice_def)

lemma stored_slice:
  assumes "stored el r"
  shows "stored (abs_slice prj el) (reach_slice prj r)"
proof (unfold_locales, goal_cases)
  case (1 mem s v)
  show ?case
  proof (cases "sarr s")
    case (Some a)
    then obtain xs vs where x: "a < length mem" "prj (mem ! a) = Some xs" "slen s \<le> length xs"
      "\<And>i. i < slen s \<Longrightarrow> el mem (xs ! i) = Some (vs ! i)"
      using 1 by (auto simp: abs_slice_Some)
    have "r mem x \<subseteq> {..<length mem}" if "x \<in> set (take (slen s) xs)" for x
      using that x(4) stored.bound [OF assms] by (fastforce simp: in_set_conv_nth)
    then show ?thesis using Some x by (fastforce simp: reach_slice_def)
  qed (simp add: reach_slice_def)
next
  case (2 mem s v mem')
  show ?case
  proof (cases "sarr s")
    case None
    then show ?thesis using 2(1) by (simp add: abs_slice_def reach_slice_def)
  next
    case (Some a)
    then obtain xs vs where x: "a < length mem" "prj (mem ! a) = Some xs" "slen s \<le> length xs" "v = Some vs"
      "length vs = slen s" "\<And>i. i < slen s \<Longrightarrow> el mem (xs ! i) = Some (vs ! i)"
      using 2(1) by (auto simp: abs_slice_Some)
    have "fetch mem' a = fetch mem a" using 2(2) Some by (simp add: reach_slice_def)
    then have a: "a < length mem'" "mem' ! a = mem ! a" using x(1) by (auto simp: fetch_def split: if_splits)
    have el: "el mem' (xs ! i) = Some (vs ! i) \<and> r mem' (xs ! i) = r mem (xs ! i)" if "i < slen s" for i
    proof (rule stored.locality [OF assms x(6) [OF that]])
      have "xs ! i \<in> set (take (slen s) xs)" using that x(3) by (force simp: in_set_conv_nth)
      then show "\<forall>b\<in>r mem (xs ! i). fetch mem' b = fetch mem b" using 2(2) Some x(2) by (auto simp: reach_slice_def)
    qed
    have "r mem' y = r mem y" if "y \<in> set (take (slen s) xs)" for y
      using that el by (auto simp: in_set_conv_nth)
    then show ?thesis using Some a x el by (auto simp: abs_slice_Some reach_slice_def)
  qed
qed

text \<open>\<open>*out = make([]T, len(*in)); copy(*out, *in)\<close>.\<close>

definition make_copy ::
  "('p list \<Rightarrow> 'c) \<Rightarrow> ('c \<Rightarrow> 'p list option) \<Rightarrow> gslice \<Rightarrow> 'c list \<Rightarrow> gslice \<times> 'c list" where
  "make_copy cell prj s mem =
     (case sarr s of
        None \<Rightarrow> (s, mem)
      | Some a \<Rightarrow> (\<lparr>sarr = Some (length mem), slen = slen s\<rparr>,
                   mem @ [cell (take (slen s) (the (prj (mem ! a))))]))"

lemma deep_copy_plain_slice:
  assumes "\<And>xs. prj (cell xs) = Some xs"
  shows "deep_copy (abs_slice prj abs_val) (reach_slice prj reach_val) (make_copy cell prj)"
proof (intro deep_copy.intro stored_slice deep_copy_axioms.intro)
  show "stored abs_val reach_val" using deep_copy.axioms(1) [OF deep_copy_val] .
  fix mem s v
  assume v: "abs_slice prj abs_val mem s = Some v"
  show "\<exists>q new. make_copy cell prj s mem = (q, mem @ new) \<and> abs_slice prj abs_val (mem @ new) q = Some v \<and>
      reach_slice prj reach_val (mem @ new) q \<subseteq> {length mem..<length (mem @ new)}"
  proof (cases "sarr s")
    case (Some a)
    then obtain xs vs where "prj (mem ! a) = Some xs" "slen s \<le> length xs" "v = Some vs" "length vs = slen s"
      "\<And>i. i < slen s \<Longrightarrow> xs ! i = vs ! i"
      using v by (auto simp: abs_slice_Some abs_val_def)
    then show ?thesis
      using Some by (auto simp: make_copy_def abs_slice_Some reach_slice_def reach_val_def abs_val_def assms)
  qed (use v in \<open>auto simp: make_copy_def abs_slice_def reach_slice_def\<close>)
qed

text \<open>\<open>*out = make([]T, len(*in))\<close> and the loop
  \<open>for i := range *in { (*in)[i].DeepCopyInto(&(*out)[i]) }\<close>, from index \<open>i\<close> on for \<open>k\<close> rounds.\<close>

fun copy_loop ::
  "('p \<Rightarrow> 'c list \<Rightarrow> 'p \<times> 'c list) \<Rightarrow> ('p list \<Rightarrow> 'c) \<Rightarrow> ('c \<Rightarrow> 'p list option) \<Rightarrow> nat \<Rightarrow> nat \<Rightarrow> nat \<Rightarrow> nat
     \<Rightarrow> 'c list \<Rightarrow> 'c list" where
  "copy_loop copy cell prj src dst i 0 mem = mem"
| "copy_loop copy cell prj src dst i (Suc k) mem =
     (case copy (the (prj (mem ! src)) ! i) mem of
        (y, mem) \<Rightarrow>
          copy_loop copy cell prj src dst (Suc i) k (mem[dst := cell ((the (prj (mem ! dst)))[i := y])]))"

definition make_deep ::
  "('p \<Rightarrow> 'c list \<Rightarrow> 'p \<times> 'c list) \<Rightarrow> ('p list \<Rightarrow> 'c) \<Rightarrow> ('c \<Rightarrow> 'p list option) \<Rightarrow> 'p \<Rightarrow> gslice \<Rightarrow> 'c list
     \<Rightarrow> gslice \<times> 'c list" where
  "make_deep copy cell prj zero s mem =
     (case sarr s of
        None \<Rightarrow> (s, mem)
      | Some a \<Rightarrow> (\<lparr>sarr = Some (length mem), slen = slen s\<rparr>,
          copy_loop copy cell prj a (length mem) 0 (slen s) (mem @ [cell (replicate (slen s) zero)])))"

lemma copy_loop_copies:
  assumes dc: "deep_copy el r copy" and prj: "\<And>xs. prj (cell xs) = Some xs"
    and src: "a < length mem0" "prj (mem0 ! a) = Some xs" "i + k \<le> length xs"
    and vals: "\<And>j. j < i + k \<Longrightarrow> el mem0 (xs ! j) = Some (vs ! j)"
    and ys: "length ys = i + k"
      "\<And>j. j < i \<Longrightarrow> el (mem0 @ cell ys # new) (ys ! j) = Some (vs ! j) \<and>
        r (mem0 @ cell ys # new) (ys ! j) \<subseteq> {Suc (length mem0)..<Suc (length mem0 + length new)}"
  shows "\<exists>ys' new'. copy_loop copy cell prj a (length mem0) i k (mem0 @ cell ys # new) = mem0 @ cell ys' # new' \<and>
    length ys' = i + k \<and>
    (\<forall>j<i + k. el (mem0 @ cell ys' # new') (ys' ! j) = Some (vs ! j) \<and>
       r (mem0 @ cell ys' # new') (ys' ! j) \<subseteq> {Suc (length mem0)..<Suc (length mem0 + length new')})"
  using src(3) vals ys
proof (induction k arbitrary: i ys new)
  case 0
  then show ?case by (intro exI [of _ ys] exI [of _ new]) simp
next
  case (Suc k)
  note st = deep_copy.axioms(1) [OF dc]
  let ?m = "mem0 @ cell ys # new"
  have "el ?m (xs ! i) = Some (vs ! i)" using stored.extend(1) [OF st Suc.prems(2) [of i]] by simp
  then obtain y more where y: "copy (xs ! i) ?m = (y, ?m @ more)" "el (?m @ more) y = Some (vs ! i)"
    "r (?m @ more) y \<subseteq> {length ?m..<length (?m @ more)}"
    using deep_copy.copies [OF dc] by blast
  let ?ys = "ys[i := y]" and ?new = "new @ more"
  let ?m' = "mem0 @ cell ?ys # ?new"
  have m': "(?m @ more)[length mem0 := cell ?ys] = ?m'" by (simp add: list_update_append)
  have step: "copy_loop copy cell prj a (length mem0) i (Suc k) ?m
      = copy_loop copy cell prj a (length mem0) (Suc i) k ?m'"
    using y(1) src(1,2) m' by (simp add: nth_append prj)
  have keep: "el ?m' z = Some u \<and> r ?m' z = r (?m @ more) z"
    if "el (?m @ more) z = Some u" "length mem0 \<notin> r (?m @ more) z" for z u
    using stored.overwrite [OF st that, of "cell ?ys"] by (simp add: m')
  have filled: "el ?m' (?ys ! j) = Some (vs ! j) \<and>
      r ?m' (?ys ! j) \<subseteq> {Suc (length mem0)..<Suc (length mem0 + length ?new)}" if j: "j < Suc i" for j
  proof (cases "j = i")
    case True
    then have "?ys ! j = y" using Suc.prems(3) by simp
    moreover have "length mem0 \<notin> r (?m @ more) y" using y(3) by auto
    ultimately show ?thesis using keep [OF y(2)] y(3) True by auto
  next
    case False
    then have "?ys ! j = ys ! j" and "j < i" using j by simp_all
    note e = Suc.prems(4) [OF \<open>j < i\<close>]
    have x: "el (?m @ more) (ys ! j) = Some (vs ! j)" "r (?m @ more) (ys ! j) = r ?m (ys ! j)"
      using stored.extend [OF st, of ?m "ys ! j" "vs ! j" more] e by simp_all
    have "length mem0 \<notin> r (?m @ more) (ys ! j)" using x(2) e by auto
    then show ?thesis using keep [OF x(1)] x(2) e \<open>?ys ! j = ys ! j\<close> by auto
  qed
  have "\<exists>ys' new'. copy_loop copy cell prj a (length mem0) (Suc i) k ?m' = mem0 @ cell ys' # new' \<and>
    length ys' = Suc i + k \<and>
    (\<forall>j<Suc i + k. el (mem0 @ cell ys' # new') (ys' ! j) = Some (vs ! j) \<and>
       r (mem0 @ cell ys' # new') (ys' ! j) \<subseteq> {Suc (length mem0)..<Suc (length mem0 + length new')})"
    by (rule Suc.IH) (use Suc.prems(1-3) filled in auto)
  then show ?case using step by simp
qed

lemma deep_copy_slice:
  assumes dc: "deep_copy el r copy" and prj: "\<And>xs. prj (cell xs) = Some xs"
  shows "deep_copy (abs_slice prj el) (reach_slice prj r) (make_deep copy cell prj zero)"
proof (intro deep_copy.intro stored_slice deep_copy_axioms.intro)
  show "stored el r" using deep_copy.axioms(1) [OF dc] .
  fix mem s v
  assume v: "abs_slice prj el mem s = Some v"
  show "\<exists>q new. make_deep copy cell prj zero s mem = (q, mem @ new) \<and> abs_slice prj el (mem @ new) q = Some v \<and>
      reach_slice prj r (mem @ new) q \<subseteq> {length mem..<length (mem @ new)}"
  proof (cases "sarr s")
    case None
    then show ?thesis using v by (auto simp: make_deep_def abs_slice_def reach_slice_def)
  next
    case (Some a)
    then obtain xs vs where x: "a < length mem" "prj (mem ! a) = Some xs" "slen s \<le> length xs" "v = Some vs"
      "length vs = slen s" "\<And>i. i < slen s \<Longrightarrow> el mem (xs ! i) = Some (vs ! i)"
      using v by (auto simp: abs_slice_Some)
    obtain ys new where l: "copy_loop copy cell prj a (length mem) 0 (slen s) (mem @ [cell (replicate (slen s) zero)])
        = mem @ cell ys # new" "length ys = slen s"
      "\<And>j. j < slen s \<Longrightarrow> el (mem @ cell ys # new) (ys ! j) = Some (vs ! j) \<and>
         r (mem @ cell ys # new) (ys ! j) \<subseteq> {Suc (length mem)..<Suc (length mem + length new)}"
      using copy_loop_copies [OF dc prj x(1,2), of 0 "slen s" vs "replicate (slen s) zero" "[]"] x(3,6) by auto
    have "r (mem @ cell ys # new) y \<subseteq> {Suc (length mem)..<Suc (length mem + length new)}" if "y \<in> set ys" for y
      using that l(2,3) by (auto simp: in_set_conv_nth)
    then have "reach_slice prj r (mem @ cell ys # new) \<lparr>sarr = Some (length mem), slen = slen s\<rparr>
        \<subseteq> {length mem..<length (mem @ cell ys # new)}"
      using l(2) by (fastforce simp: reach_slice_def prj)
    moreover have "abs_slice prj el (mem @ cell ys # new) \<lparr>sarr = Some (length mem), slen = slen s\<rparr> = Some v"
      unfolding abs_slice_Some using l(2,3) x(4,5)
      by (simp add: prj)
    moreover have "make_deep copy cell prj zero s mem
        = (\<lparr>sarr = Some (length mem), slen = slen s\<rparr>, mem @ cell ys # new)"
      by (simp add: make_deep_def Some l(1))
    ultimately show ?thesis by blast
  qed
qed

text \<open>Copying nil.\<close>

lemma make_nil [simp]:
  "sarr s = None \<Longrightarrow> make_copy cell prj s mem = (s, mem)"
  "sarr s = None \<Longrightarrow> make_deep copy cell prj zero s mem = (s, mem)"
  "new_copy None mem = (None, mem)"
  by (simp_all add: make_copy_def make_deep_def new_copy_def)

subsection \<open>Pointers to structures\<close>

text \<open>\<open>DeepCopy\<close>: nil for nil, else \<open>out := new(T); in.DeepCopyInto(out); return out\<close>, of which the first
  statement is \<open>*out = *in\<close>.\<close>

definition DeepCopy ::
  "('p \<Rightarrow> 'c list \<Rightarrow> 'p \<times> 'c list) \<Rightarrow> ('p \<Rightarrow> 'c) \<Rightarrow> ('c \<Rightarrow> 'p option) \<Rightarrow> nat option \<Rightarrow> 'c list
     \<Rightarrow> nat option \<times> 'c list" where
  "DeepCopy into cell prj i mem =
     (case i of
        None \<Rightarrow> (None, mem)
      | Some a \<Rightarrow>
          (case into (the (prj (mem ! a))) (mem @ [mem ! a]) of
             (out, mem') \<Rightarrow> (Some (length mem), mem'[length mem := cell out])))"

definition abs_new :: "('c \<Rightarrow> 'p option) \<Rightarrow> ('c list \<Rightarrow> 'p \<Rightarrow> 'v option) \<Rightarrow> 'c list \<Rightarrow> nat option \<Rightarrow> 'v option option" where
  "abs_new prj el mem p =
     (case p of None \<Rightarrow> Some None | Some a \<Rightarrow>
        (case Option.bind (fetch mem a) prj of None \<Rightarrow> None | Some x \<Rightarrow> map_option Some (el mem x)))"

definition reach_new ::
  "('c \<Rightarrow> 'p option) \<Rightarrow> ('c list \<Rightarrow> 'p \<Rightarrow> nat set) \<Rightarrow> 'c list \<Rightarrow> nat option \<Rightarrow> nat set" where
  "reach_new prj r mem p = (case p of None \<Rightarrow> {} | Some a \<Rightarrow> insert a (r mem (the (prj (mem ! a)))))"

lemma abs_new_Some:
  "abs_new prj el mem (Some a) = Some v \<longleftrightarrow>
     (\<exists>x u. a < length mem \<and> prj (mem ! a) = Some x \<and> el mem x = Some u \<and> v = Some u)"
proof -
  have "fetch mem a = (if a < length mem then Some (mem ! a) else None)" by (simp add: fetch_def)
  then show ?thesis by (auto simp: abs_new_def split: option.splits)
qed

lemma stored_new:
  assumes "stored el r"
  shows "stored (abs_new prj el) (reach_new prj r)"
proof (unfold_locales, goal_cases)
  case (1 mem p v)
  show ?case
  proof (cases p)
    case (Some a)
    then obtain x u where x: "a < length mem" "prj (mem ! a) = Some x" "el mem x = Some u"
      using 1 by (auto simp: abs_new_Some)
    then show ?thesis using stored.bound [OF assms x(3)] Some by (simp add: reach_new_def)
  qed (simp add: reach_new_def)
next
  case (2 mem p v mem')
  show ?case
  proof (cases p)
    case None
    then show ?thesis using 2(1) by (simp add: abs_new_def reach_new_def)
  next
    case (Some a)
    then obtain x u where x: "a < length mem" "prj (mem ! a) = Some x" "el mem x = Some u" "v = Some u"
      using 2(1) by (auto simp: abs_new_Some)
    have "fetch mem' a = fetch mem a" using 2(2) Some by (simp add: reach_new_def)
    then have a: "a < length mem'" "mem' ! a = mem ! a" using x(1) by (auto simp: fetch_def split: if_splits)
    have "\<forall>b\<in>r mem x. fetch mem' b = fetch mem b" using 2(2) Some x(2) by (simp add: reach_new_def)
    from stored.locality [OF assms x(3) this] show ?thesis
      using Some a x by (simp add: abs_new_Some reach_new_def)
  qed
qed

lemma deep_copy_new:
  assumes dc: "deep_copy el r into" and prj: "\<And>x. prj (cell x) = Some x"
  shows "deep_copy (abs_new prj el) (reach_new prj r) (DeepCopy into cell prj)"
proof (intro deep_copy.intro stored_new deep_copy_axioms.intro)
  show st: "stored el r" using deep_copy.axioms(1) [OF dc] .
  fix mem p v
  assume v: "abs_new prj el mem p = Some v"
  show "\<exists>q new. DeepCopy into cell prj p mem = (q, mem @ new) \<and> abs_new prj el (mem @ new) q = Some v \<and>
      reach_new prj r (mem @ new) q \<subseteq> {length mem..<length (mem @ new)}"
  proof (cases p)
    case None
    then show ?thesis using v by (auto simp: DeepCopy_def abs_new_def reach_new_def)
  next
    case (Some a)
    then obtain x u where x: "a < length mem" "prj (mem ! a) = Some x" "el mem x = Some u" "v = Some u"
      using v by (auto simp: abs_new_Some)
    let ?m = "mem @ [mem ! a]"
    obtain y more where y: "into x ?m = (y, ?m @ more)" "el (?m @ more) y = Some u"
      "r (?m @ more) y \<subseteq> {length ?m..<length (?m @ more)}"
      using deep_copy.copies [OF dc stored.extend(1) [OF st x(3)]] by blast
    have m: "(?m @ more)[length mem := cell y] = mem @ cell y # more" by (simp add: list_update_append)
    have "length mem \<notin> r (?m @ more) y" using y(3) by auto
    note w = stored.overwrite [OF st y(2) this, of "cell y", unfolded m]
    have "DeepCopy into cell prj p mem = (Some (length mem), mem @ cell y # more)"
      using Some x(2) y(1) m by (simp add: DeepCopy_def)
    moreover have "abs_new prj el (mem @ cell y # more) (Some (length mem)) = Some v"
      using w(1) x(4) by (simp add: abs_new_Some prj)
    moreover have "reach_new prj r (mem @ cell y # more) (Some (length mem)) \<subseteq> {length mem..<length (mem @ cell y # more)}"
      using w(2) y(3) by (auto simp: reach_new_def prj)
    ultimately show ?thesis by blast
  qed
qed

end
