(* ===== verification/Deep_Copy_V1.thy ===== *)
theory Deep_Copy_V1
  imports Memory Api_Types
begin

section \<open>Deep copies of v1alpha1 resources\<close>

text \<open>
  \<open>api/v1alpha1/zz_generated.deepcopy.go\<close>.  The structures are those of \<open>silence_types.go\<close> as they lie
  in memory (suffix \<open>_p1\<close>): pointers are addresses and slices are views of arrays.  The metadata
  belongs to \<open>apimachinery\<close>: its representations \<open>'m\<close> and \<open>'l\<close>, its cells \<open>'x\<close> and its own
  \<open>DeepCopyInto\<close> are parameters.  \<open>DeepCopyInto\<close> takes the struct behind \<open>in\<close> and gives the one it
  writes to \<open>out\<close>.
\<close>

record Matcher_p1 =
  IsRegex_p1 :: bool
  IsEqual_p1 :: "nat option"
  Name_p1 :: string
  Value_p1 :: string

record SilenceSpec_p1 =
  TargetTags_p1 :: gslice
  Matchers_p1 :: gslice
  Owner_p1 :: string
  PostmortemURL_p1 :: "nat option"
  IssueURL_p1 :: string

record 'm Silence_p1 =
  TypeMeta_p1 :: "string \<times> string"
  ObjectMeta_p1 :: 'm
  Spec_p1 :: SilenceSpec_p1

record 'l SilenceList_p1 =
  ListTypeMeta_p1 :: "string \<times> string"
  ListMeta_p1 :: 'l
  Items_p1 :: gslice

datatype ('m, 'l, 'x) cell_v1 =
    BoolCell bool
  | StringCell string
  | TagCell TargetTag_v1
  | TagsCell "TargetTag_v1 list"
  | MatcherCell Matcher_p1
  | MatchersCell "Matcher_p1 list"
  | SpecCell SilenceSpec_p1
  | SilenceCell "'m Silence_p1"
  | SilencesCell "'m Silence_p1 list"
  | ListCell "'l SilenceList_p1"
  | LibCell 'x

type_synonym ('m, 'l, 'x) mem_v1 = "('m, 'l, 'x) cell_v1 list"

text \<open>The metadata structs of the library, with the zero value of one.\<close>

record ('m, 'l, 'x) meta_lib_v1 =
  zero_ObjectMeta :: 'm
  ObjectMeta_DeepCopyInto :: "'m \<Rightarrow> ('m, 'l, 'x) mem_v1 \<Rightarrow> 'm \<times> ('m, 'l, 'x) mem_v1"
  ListMeta_DeepCopyInto :: "'l \<Rightarrow> ('m, 'l, 'x) mem_v1 \<Rightarrow> 'l \<times> ('m, 'l, 'x) mem_v1"

subsection \<open>Cells by their type\<close>

definition as_bool :: "('m, 'l, 'x) cell_v1 \<Rightarrow> bool option" where
  "as_bool c = (case c of BoolCell b \<Rightarrow> Some b | _ \<Rightarrow> None)"

definition as_string :: "('m, 'l, 'x) cell_v1 \<Rightarrow> string option" where
  "as_string c = (case c of StringCell s \<Rightarrow> Some s | _ \<Rightarrow> None)"

definition as_tag :: "('m, 'l, 'x) cell_v1 \<Rightarrow> TargetTag_v1 option" where
  "as_tag c = (case c of TagCell x \<Rightarrow> Some x | _ \<Rightarrow> None)"

definition as_tags :: "('m, 'l, 'x) cell_v1 \<Rightarrow> TargetTag_v1 list option" where
  "as_tags c = (case c of TagsCell xs \<Rightarrow> Some xs | _ \<Rightarrow> None)"

definition as_matcher :: "('m, 'l, 'x) cell_v1 \<Rightarrow> Matcher_p1 option" where
  "as_matcher c = (case c of MatcherCell x \<Rightarrow> Some x | _ \<Rightarrow> None)"

definition as_matchers :: "('m, 'l, 'x) cell_v1 \<Rightarrow> Matcher_p1 list option" where
  "as_matchers c = (case c of MatchersCell xs \<Rightarrow> Some xs | _ \<Rightarrow> None)"

definition as_spec :: "('m, 'l, 'x) cell_v1 \<Rightarrow> SilenceSpec_p1 option" where
  "as_spec c = (case c of SpecCell x \<Rightarrow> Some x | _ \<Rightarrow> None)"

definition as_silence :: "('m, 'l, 'x) cell_v1 \<Rightarrow> 'm Silence_p1 option" where
  "as_silence c = (case c of SilenceCell x \<Rightarrow> Some x | _ \<Rightarrow> None)"

definition as_silences :: "('m, 'l, 'x) cell_v1 \<Rightarrow> 'm Silence_p1 list option" where
  "as_silences c = (case c of SilencesCell xs \<Rightarrow> Some xs | _ \<Rightarrow> None)"

definition as_list :: "('m, 'l, 'x) cell_v1 \<Rightarrow> 'l SilenceList_p1 option" where
  "as_list c = (case c of ListCell x \<Rightarrow> Some x | _ \<Rightarrow> None)"

lemma as_simps [simp]:
  "as_bool (BoolCell b) = Some b" "as_string (StringCell s) = Some s" "as_tag (TagCell t) = Some t"
  "as_tags (TagsCell ts) = Some ts" "as_matcher (MatcherCell m) = Some m"
  "as_matchers (MatchersCell ms) = Some ms" "as_spec (SpecCell sp) = Some sp"
  "as_silence (SilenceCell sl) = Some sl" "as_silences (SilencesCell sls) = Some sls"
  "as_list (ListCell li) = Some li"
  by (simp_all add: as_bool_def as_string_def as_tag_def as_tags_def as_matcher_def as_matchers_def
      as_spec_def as_silence_def as_silences_def as_list_def)

subsection \<open>Copies\<close>

definition Matcher_DeepCopyInto_v1 ::
  "Matcher_p1 \<Rightarrow> ('m, 'l, 'x) mem_v1 \<Rightarrow> Matcher_p1 \<times> ('m, 'l, 'x) mem_v1" where
  "Matcher_DeepCopyInto_v1 i mem =
     (let out = i
      in if IsEqual_p1 i \<noteq> None then
           (case new_copy (IsEqual_p1 i) mem of (p, mem) \<Rightarrow> (out\<lparr>IsEqual_p1 := p\<rparr>, mem))
         else (out, mem))"

definition TargetTag_DeepCopyInto_v1 ::
  "TargetTag_v1 \<Rightarrow> ('m, 'l, 'x) mem_v1 \<Rightarrow> TargetTag_v1 \<times> ('m, 'l, 'x) mem_v1" where
  "TargetTag_DeepCopyInto_v1 i mem = (i, mem)"

definition zero_Matcher_p1 :: Matcher_p1 where
  "zero_Matcher_p1 = \<lparr>IsRegex_p1 = False, IsEqual_p1 = None, Name_p1 = '''', Value_p1 = ''''\<rparr>"

definition zero_SilenceSpec_p1 :: SilenceSpec_p1 where
  "zero_SilenceSpec_p1 = \<lparr>TargetTags_p1 = nil_slice, Matchers_p1 = nil_slice, Owner_p1 = '''',
     PostmortemURL_p1 = None, IssueURL_p1 = ''''\<rparr>"

definition SilenceSpec_DeepCopyInto_v1 ::
  "SilenceSpec_p1 \<Rightarrow> ('m, 'l, 'x) mem_v1 \<Rightarrow> SilenceSpec_p1 \<times> ('m, 'l, 'x) mem_v1" where
  "SilenceSpec_DeepCopyInto_v1 i mem =
     (let out = i
      in case (if sarr (TargetTags_p1 i) \<noteq> None then
                 (case make_copy TagsCell as_tags (TargetTags_p1 i) mem of
                    (s, mem) \<Rightarrow> (out\<lparr>TargetTags_p1 := s\<rparr>, mem))
               else (out, mem)) of
        (out, mem) \<Rightarrow>
          (case (if sarr (Matchers_p1 i) \<noteq> None then
                   (case make_deep Matcher_DeepCopyInto_v1 MatchersCell as_matchers zero_Matcher_p1
                           (Matchers_p1 i) mem of
                      (s, mem) \<Rightarrow> (out\<lparr>Matchers_p1 := s\<rparr>, mem))
                 else (out, mem)) of
             (out, mem) \<Rightarrow>
               (if PostmortemURL_p1 i \<noteq> None then
                  (case new_copy (PostmortemURL_p1 i) mem of
                     (p, mem) \<Rightarrow> (out\<lparr>PostmortemURL_p1 := p\<rparr>, mem))
                else (out, mem))))"

definition Silence_DeepCopyInto_v1 ::
  "('m, 'l, 'x) meta_lib_v1 \<Rightarrow> 'm Silence_p1 \<Rightarrow> ('m, 'l, 'x) mem_v1 \<Rightarrow> 'm Silence_p1 \<times> ('m, 'l, 'x) mem_v1" where
  "Silence_DeepCopyInto_v1 L i mem =
     (let out = i\<lparr>TypeMeta_p1 := TypeMeta_p1 i\<rparr>
      in case ObjectMeta_DeepCopyInto L (ObjectMeta_p1 i) mem of
           (m, mem) \<Rightarrow>
             (case SilenceSpec_DeepCopyInto_v1 (Spec_p1 i) mem of
                (sp, mem) \<Rightarrow> (out\<lparr>ObjectMeta_p1 := m, Spec_p1 := sp\<rparr>, mem)))"

definition zero_Silence_p1 :: "('m, 'l, 'x) meta_lib_v1 \<Rightarrow> 'm Silence_p1" where
  "zero_Silence_p1 L = \<lparr>TypeMeta_p1 = ('''', ''''), ObjectMeta_p1 = zero_ObjectMeta L, Spec_p1 = zero_SilenceSpec_p1\<rparr>"

definition SilenceList_DeepCopyInto_v1 ::
  "('m, 'l, 'x) meta_lib_v1 \<Rightarrow> 'l SilenceList_p1 \<Rightarrow> ('m, 'l, 'x) mem_v1
     \<Rightarrow> 'l SilenceList_p1 \<times> ('m, 'l, 'x) mem_v1" where
  "SilenceList_DeepCopyInto_v1 L i mem =
     (let out = i\<lparr>ListTypeMeta_p1 := ListTypeMeta_p1 i\<rparr>
      in case ListMeta_DeepCopyInto L (ListMeta_p1 i) mem of
           (m, mem) \<Rightarrow>
             (let out = out\<lparr>ListMeta_p1 := m\<rparr>
              in if sarr (Items_p1 i) \<noteq> None then
                   (case make_deep (Silence_DeepCopyInto_v1 L) SilencesCell as_silences (zero_Silence_p1 L)
                           (Items_p1 i) mem of
                      (s, mem) \<Rightarrow> (out\<lparr>Items_p1 := s\<rparr>, mem))
                 else (out, mem)))"

text \<open>The methods on pointers.\<close>

definition Matcher_DeepCopy_v1 :: "nat option \<Rightarrow> ('m, 'l, 'x) mem_v1 \<Rightarrow> nat option \<times> ('m, 'l, 'x) mem_v1" where
  "Matcher_DeepCopy_v1 = DeepCopy Matcher_DeepCopyInto_v1 MatcherCell as_matcher"

definition TargetTag_DeepCopy_v1 :: "nat option \<Rightarrow> ('m, 'l, 'x) mem_v1 \<Rightarrow> nat option \<times> ('m, 'l, 'x) mem_v1" where
  "TargetTag_DeepCopy_v1 = DeepCopy TargetTag_DeepCopyInto_v1 TagCell as_tag"

definition SilenceSpec_DeepCopy_v1 :: "nat option \<Rightarrow> ('m, 'l, 'x) mem_v1 \<Rightarrow> nat option \<times> ('m, 'l, 'x) mem_v1" where
  "SilenceSpec_DeepCopy_v1 = DeepCopy SilenceSpec_DeepCopyInto_v1 SpecCell as_spec"

definition Silence_DeepCopy_v1 ::
  "('m, 'l, 'x) meta_lib_v1 \<Rightarrow> nat option \<Rightarrow> ('m, 'l, 'x) mem_v1 \<Rightarrow> nat option \<times> ('m, 'l, 'x) mem_v1" where
  "Silence_DeepCopy_v1 L = DeepCopy (Silence_DeepCopyInto_v1 L) SilenceCell as_silence"

definition SilenceList_DeepCopy_v1 ::
  "('m, 'l, 'x) meta_lib_v1 \<Rightarrow> nat option \<Rightarrow> ('m, 'l, 'x) mem_v1 \<Rightarrow> nat option \<times> ('m, 'l, 'x) mem_v1" where
  "SilenceList_DeepCopy_v1 L = DeepCopy (SilenceList_DeepCopyInto_v1 L) ListCell as_list"

text \<open>\<open>DeepCopyObject\<close> returns an interface: nil, or the pointer of the copy.\<close>

definition Silence_DeepCopyObject_v1 ::
  "('m, 'l, 'x) meta_lib_v1 \<Rightarrow> nat option \<Rightarrow> ('m, 'l, 'x) mem_v1 \<Rightarrow> nat option \<times> ('m, 'l, 'x) mem_v1" where
  "Silence_DeepCopyObject_v1 L i mem =
     (case Silence_DeepCopy_v1 L i mem of (Some c, mem) \<Rightarrow> (Some c, mem) | (None, mem) \<Rightarrow> (None, mem))"

definition SilenceList_DeepCopyObject_v1 ::
  "('m, 'l, 'x) meta_lib_v1 \<Rightarrow> nat option \<Rightarrow> ('m, 'l, 'x) mem_v1 \<Rightarrow> nat option \<times> ('m, 'l, 'x) mem_v1" where
  "SilenceList_DeepCopyObject_v1 L i mem =
     (case SilenceList_DeepCopy_v1 L i mem of (Some c, mem) \<Rightarrow> (Some c, mem) | (None, mem) \<Rightarrow> (None, mem))"

subsection \<open>The values the structures stand for\<close>

definition abs_Matcher_v1 :: "('m, 'l, 'x) mem_v1 \<Rightarrow> Matcher_p1 \<Rightarrow> Matcher_v1 option" where
  "abs_Matcher_v1 mem m =
     map_option (\<lambda>e. \<lparr>IsRegex_v1 = IsRegex_p1 m, IsEqual_v1 = e, Name_v1 = Name_p1 m, Value_v1 = Value_p1 m\<rparr>)
       (abs_ptr as_bool mem (IsEqual_p1 m))"

definition reach_Matcher_v1 :: "('m, 'l, 'x) mem_v1 \<Rightarrow> Matcher_p1 \<Rightarrow> nat set" where
  "reach_Matcher_v1 mem m = reach_ptr mem (IsEqual_p1 m)"

definition spec_parts_v1 where
  "spec_parts_v1 s = (TargetTags_p1 s, (Matchers_p1 s, (PostmortemURL_p1 s, (Owner_p1 s, IssueURL_p1 s))))"

definition abs_SilenceSpec_v1 :: "('m, 'l, 'x) mem_v1 \<Rightarrow> SilenceSpec_p1 \<Rightarrow> SilenceSpec_v1 option" where
  "abs_SilenceSpec_v1 mem s =
     map_option (\<lambda>(tags, (ms, (url, (owner, issue)))). \<lparr>TargetTags_v1 = tags, Matchers_v1 = ms,
         Owner_v1 = owner, PostmortemURL_v1 = url, IssueURL_v1 = issue\<rparr>)
       (abs_pair (abs_slice as_tags abs_val) (abs_pair (abs_slice as_matchers abs_Matcher_v1)
         (abs_pair (abs_ptr as_string) abs_val)) mem (spec_parts_v1 s))"

definition reach_SilenceSpec_v1 :: "('m, 'l, 'x) mem_v1 \<Rightarrow> SilenceSpec_p1 \<Rightarrow> nat set" where
  "reach_SilenceSpec_v1 mem s =
     reach_pair (reach_slice as_tags reach_val) (reach_pair (reach_slice as_matchers reach_Matcher_v1)
       (reach_pair reach_ptr reach_val)) mem (spec_parts_v1 s)"

text \<open>A silence is its type, what its metadata stands for, and its spec.\<close>

definition silence_parts_v1 where
  "silence_parts_v1 s = (ObjectMeta_p1 s, (Spec_p1 s, TypeMeta_p1 s))"

definition abs_Silence_v1 where
  "abs_Silence_v1 mabs mem s =
     abs_pair mabs (abs_pair abs_SilenceSpec_v1 abs_val) mem (silence_parts_v1 s)"

definition reach_Silence_v1 where
  "reach_Silence_v1 mreach mem s =
     reach_pair mreach (reach_pair reach_SilenceSpec_v1 reach_val) mem (silence_parts_v1 s)"

definition list_parts_v1 where
  "list_parts_v1 s = (ListMeta_p1 s, (Items_p1 s, ListTypeMeta_p1 s))"

definition abs_SilenceList_v1 where
  "abs_SilenceList_v1 mabs labs mem s =
     abs_pair labs (abs_pair (abs_slice as_silences (abs_Silence_v1 mabs)) abs_val) mem (list_parts_v1 s)"

definition reach_SilenceList_v1 where
  "reach_SilenceList_v1 mreach lreach mem s =
     reach_pair lreach (reach_pair (reach_slice as_silences (reach_Silence_v1 mreach)) reach_val) mem (list_parts_v1 s)"

subsection \<open>Every \<open>DeepCopyInto\<close> keeps the contract\<close>

text \<open>The copies without their tests for nil.\<close>

lemma Matcher_copy_v1:
  "Matcher_DeepCopyInto_v1 i mem =
     (case new_copy (IsEqual_p1 i) mem of (p, mem) \<Rightarrow> (i\<lparr>IsEqual_p1 := p\<rparr>, mem))"
  by (cases "IsEqual_p1 i") (simp_all add: Matcher_DeepCopyInto_v1_def)

lemma SilenceSpec_copy_v1:
  "SilenceSpec_DeepCopyInto_v1 i mem =
     (case make_copy TagsCell as_tags (TargetTags_p1 i) mem of (t, mem) \<Rightarrow>
      (case make_deep Matcher_DeepCopyInto_v1 MatchersCell as_matchers zero_Matcher_p1 (Matchers_p1 i) mem of (m, mem) \<Rightarrow>
      (case new_copy (PostmortemURL_p1 i) mem of (p, mem) \<Rightarrow>
         (i\<lparr>TargetTags_p1 := t, Matchers_p1 := m, PostmortemURL_p1 := p\<rparr>, mem))))"
  by (cases "sarr (TargetTags_p1 i)"; cases "sarr (Matchers_p1 i)"; cases "PostmortemURL_p1 i")
    (simp_all add: SilenceSpec_DeepCopyInto_v1_def split: prod.split)

lemma SilenceList_copy_v1:
  "SilenceList_DeepCopyInto_v1 L i mem =
     (case ListMeta_DeepCopyInto L (ListMeta_p1 i) mem of (m, mem) \<Rightarrow>
      (case make_deep (Silence_DeepCopyInto_v1 L) SilencesCell as_silences (zero_Silence_p1 L) (Items_p1 i) mem of
         (s, mem) \<Rightarrow> (i\<lparr>ListMeta_p1 := m, Items_p1 := s\<rparr>, mem)))"
  by (cases "sarr (Items_p1 i)") (simp_all add: SilenceList_DeepCopyInto_v1_def split: prod.split)

interpretation matcher_v1: deep_copy
  "abs_Matcher_v1 :: ('m, 'l, 'x) mem_v1 \<Rightarrow> _" reach_Matcher_v1 Matcher_DeepCopyInto_v1
  by (rule deep_copy_struct [OF deep_copy_pair [OF deep_copy_ptr [of as_bool] deep_copy_val],
      where parts = "\<lambda>m. (IsEqual_p1 m, (IsRegex_p1 m, Name_p1 m, Value_p1 m))"
        and mk = "\<lambda>(e, (r, n, v)). \<lparr>IsRegex_p1 = r, IsEqual_p1 = e, Name_p1 = n, Value_p1 = v\<rparr>"
        and val = "\<lambda>(e, (r, n, v)). \<lparr>IsRegex_v1 = r, IsEqual_v1 = e, Name_v1 = n, Value_v1 = v\<rparr>"])
    (auto simp: Matcher_copy_v1 copy_pair_def copy_val_def abs_Matcher_v1_def abs_pair_def abs_val_def
      reach_Matcher_v1_def reach_pair_def reach_val_def split: prod.split option.split)

interpretation tag_v1: deep_copy
  "abs_val :: ('m, 'l, 'x) mem_v1 \<Rightarrow> _" reach_val TargetTag_DeepCopyInto_v1
proof -
  have "TargetTag_DeepCopyInto_v1 = (copy_val :: _ \<Rightarrow> ('m, 'l, 'x) mem_v1 \<Rightarrow> _)"
    by (simp add: fun_eq_iff TargetTag_DeepCopyInto_v1_def copy_val_def)
  then show "deep_copy (abs_val :: ('m, 'l, 'x) mem_v1 \<Rightarrow> _) reach_val TargetTag_DeepCopyInto_v1"
    using deep_copy_val by simp
qed

lemmas part_defs = spec_parts_v1_def silence_parts_v1_def list_parts_v1_def copy_pair_def copy_val_def

interpretation spec_v1: deep_copy
  "abs_SilenceSpec_v1 :: ('m, 'l, 'x) mem_v1 \<Rightarrow> _" reach_SilenceSpec_v1 SilenceSpec_DeepCopyInto_v1
  by (rule deep_copy_struct [OF deep_copy_pair [OF deep_copy_plain_slice [where cell = TagsCell and prj = as_tags]
        deep_copy_pair [OF deep_copy_slice [OF matcher_v1.deep_copy_axioms, where cell = MatchersCell and
            prj = as_matchers and zero = zero_Matcher_p1]
          deep_copy_pair [OF deep_copy_ptr deep_copy_val]]],
      where parts = spec_parts_v1
        and mk = "\<lambda>(tags, (ms, (url, (owner, issue)))). \<lparr>TargetTags_p1 = tags, Matchers_p1 = ms,
          Owner_p1 = owner, PostmortemURL_p1 = url, IssueURL_p1 = issue\<rparr>"])
    (auto simp: SilenceSpec_copy_v1 part_defs abs_SilenceSpec_v1_def reach_SilenceSpec_v1_def split: prod.split)

lemma deep_copy_Silence_v1:
  assumes "deep_copy mabs mreach (ObjectMeta_DeepCopyInto L)"
  shows "deep_copy (abs_Silence_v1 mabs) (reach_Silence_v1 mreach) (Silence_DeepCopyInto_v1 L)"
  by (rule deep_copy_struct [OF deep_copy_pair [OF assms deep_copy_pair [OF spec_v1.deep_copy_axioms deep_copy_val]],
      where parts = silence_parts_v1 and val = "\<lambda>x. x"
        and mk = "\<lambda>(m, (s, t)). \<lparr>TypeMeta_p1 = t, ObjectMeta_p1 = m, Spec_p1 = s\<rparr>"])
    (auto simp: Silence_DeepCopyInto_v1_def part_defs abs_Silence_v1_def reach_Silence_v1_def option.map_ident
      split: prod.split)

lemma deep_copy_SilenceList_v1:
  assumes "deep_copy mabs mreach (ObjectMeta_DeepCopyInto L)" "deep_copy labs lreach (ListMeta_DeepCopyInto L)"
  shows "deep_copy (abs_SilenceList_v1 mabs labs) (reach_SilenceList_v1 mreach lreach) (SilenceList_DeepCopyInto_v1 L)"
  by (rule deep_copy_struct [OF deep_copy_pair [OF assms(2) deep_copy_pair [OF
        deep_copy_slice [OF deep_copy_Silence_v1 [OF assms(1)], where cell = SilencesCell and prj = as_silences
          and zero = "zero_Silence_p1 L"] deep_copy_val]],
      where parts = list_parts_v1 and val = "\<lambda>x. x"
        and mk = "\<lambda>(m, (s, t)). \<lparr>ListTypeMeta_p1 = t, ListMeta_p1 = m, Items_p1 = s\<rparr>"])
    (auto simp: SilenceList_copy_v1 part_defs abs_SilenceList_v1_def reach_SilenceList_v1_def option.map_ident
      split: prod.split)

lemma DeepCopyObject_v1:
  "Silence_DeepCopyObject_v1 L = DeepCopy (Silence_DeepCopyInto_v1 L) SilenceCell as_silence"
  "SilenceList_DeepCopyObject_v1 L = DeepCopy (SilenceList_DeepCopyInto_v1 L) ListCell as_list"
  by (auto simp: fun_eq_iff Silence_DeepCopyObject_v1_def SilenceList_DeepCopyObject_v1_def
      Silence_DeepCopy_v1_def SilenceList_DeepCopy_v1_def split: prod.split option.split)

lemma deep_copy_objects_v1:
  assumes "deep_copy mabs mreach (ObjectMeta_DeepCopyInto L)" "deep_copy labs lreach (ListMeta_DeepCopyInto L)"
  shows "deep_copy (abs_new as_silence (abs_Silence_v1 mabs)) (reach_new as_silence (reach_Silence_v1 mreach))
      (Silence_DeepCopyObject_v1 L)"
    and "deep_copy (abs_new as_list (abs_SilenceList_v1 mabs labs))
      (reach_new as_list (reach_SilenceList_v1 mreach lreach)) (SilenceList_DeepCopyObject_v1 L)"
  using assms unfolding DeepCopyObject_v1
  by (auto intro!: deep_copy_new deep_copy_Silence_v1 deep_copy_SilenceList_v1)

text \<open>C29: the copy \<open>DeepCopyObject\<close> makes of a v1alpha1 silence or list stands for the same value, it
  is nil exactly for nil, and it shares no memory with the original: whatever is written through
  the one afterwards, the other keeps its value.\<close>

theorem DeepCopyObject_v1_separate:
  assumes "deep_copy mabs mreach (ObjectMeta_DeepCopyInto L)" "deep_copy labs lreach (ListMeta_DeepCopyInto L)"
  shows "(abs_new as_silence (abs_Silence_v1 mabs) mem p = Some v \<and> Silence_DeepCopyObject_v1 L p mem = (q, mem') \<longrightarrow>
      separate (abs_new as_silence (abs_Silence_v1 mabs)) (reach_new as_silence (reach_Silence_v1 mreach)) mem' p q v) \<and>
    (abs_new as_list (abs_SilenceList_v1 mabs labs) mem p = Some vs \<and> SilenceList_DeepCopyObject_v1 L p mem = (q, mem') \<longrightarrow>
      separate (abs_new as_list (abs_SilenceList_v1 mabs labs)) (reach_new as_list (reach_SilenceList_v1 mreach lreach))
        mem' p q vs)"
  using deep_copy.copy_separate [OF deep_copy_objects_v1(1) [OF assms], of mem p v q mem']
    deep_copy.copy_separate [OF deep_copy_objects_v1(2) [OF assms], of mem p vs q mem'] by blast

text \<open>Two silences share a matcher flag and live in one list; their metadata are single cells.\<close>

definition sample_meta_lib_v1 :: "(nat option, nat option, string) meta_lib_v1" where
  "sample_meta_lib_v1 = \<lparr>zero_ObjectMeta = None, ObjectMeta_DeepCopyInto = new_copy,
     ListMeta_DeepCopyInto = new_copy\<rparr>"

definition as_lib :: "('m, 'l, 'x) cell_v1 \<Rightarrow> 'x option" where
  "as_lib c = (case c of LibCell x \<Rightarrow> Some x | _ \<Rightarrow> None)"

definition sample_mem_v1 :: "(nat option, nat option, string) mem_v1" where
  "sample_mem_v1 =
     (let spec = \<lparr>TargetTags_p1 = nil_slice, Matchers_p1 = \<lparr>sarr = Some 1, slen = 2\<rparr>, Owner_p1 = ''me'',
        PostmortemURL_p1 = None, IssueURL_p1 = ''''\<rparr>;
        silence = \<lparr>TypeMeta_p1 = (''Silence'', ''v1''), ObjectMeta_p1 = Some 2, Spec_p1 = spec\<rparr>
      in [BoolCell False,
          MatchersCell [\<lparr>IsRegex_p1 = False, IsEqual_p1 = Some 0, Name_p1 = ''a'', Value_p1 = ''b''\<rparr>,
            \<lparr>IsRegex_p1 = True, IsEqual_p1 = None, Name_p1 = ''c'', Value_p1 = ''d''\<rparr>],
          LibCell ''meta'', SilencesCell [silence, silence],
          ListCell \<lparr>ListTypeMeta_p1 = (''SilenceList'', ''v1''), ListMeta_p1 = None,
            Items_p1 = \<lparr>sarr = Some 3, slen = 2\<rparr>\<rparr>, SilenceCell silence])"

theorem DeepCopyObject_v1_separate_witness:
  "\<exists>q mem' v. SilenceList_DeepCopyObject_v1 sample_meta_lib_v1 (Some 4) sample_mem_v1 = (q, mem') \<and> v \<noteq> None \<and>
     separate (abs_new as_list (abs_SilenceList_v1 (abs_ptr as_lib) (abs_ptr as_lib)))
       (reach_new as_list (reach_SilenceList_v1 reach_ptr reach_ptr)) mem' (Some 4) q v"
proof -
  let ?abs = "abs_new as_list (abs_SilenceList_v1 (abs_ptr as_lib) (abs_ptr as_lib))"
  have "case ?abs sample_mem_v1 (Some 4) of None \<Rightarrow> False | Some v \<Rightarrow> v \<noteq> None" by code_simp
  then obtain v where v: "?abs sample_mem_v1 (Some 4) = Some v" "v \<noteq> None" by (auto split: option.splits)
  obtain q mem' where q: "SilenceList_DeepCopyObject_v1 sample_meta_lib_v1 (Some 4) sample_mem_v1 = (q, mem')"
    by (metis surj_pair)
  have lib: "deep_copy (abs_ptr as_lib) reach_ptr (ObjectMeta_DeepCopyInto sample_meta_lib_v1)"
    "deep_copy (abs_ptr as_lib) reach_ptr (ListMeta_DeepCopyInto sample_meta_lib_v1)"
    using deep_copy_ptr by (simp_all add: sample_meta_lib_v1_def)
  from DeepCopyObject_v1_separate [OF lib] v q show ?thesis by blast
qed

end
