(* ===== verification/Deep_Copy_V2.thy ===== *)
theory Deep_Copy_V2
  imports Memory Api_Types
begin

section \<open>Deep copies of v1alpha2 resources\<close>

text \<open>
  \<open>api/v1alpha2/zz_generated.deepcopy.go\<close>, as for v1alpha1, with the suffix \<open>_p2\<close> for the structures in
  memory.  The method \<open>DeepCopy\<close> of \<open>metav1.Time\<close> is a parameter as well.
\<close>

record SilenceSpec_p2 =
  Matchers_p2 :: gslice
  StartsAt_p2 :: "nat option"
  EndsAt_p2 :: "nat option"
  Duration_p2 :: "nat option"

record 'm Silence_p2 =
  TypeMeta_p2 :: "string \<times> string"
  ObjectMeta_p2 :: 'm
  Spec_p2 :: SilenceSpec_p2

record 'l SilenceList_p2 =
  ListTypeMeta_p2 :: "string \<times> string"
  ListMeta_p2 :: 'l
  Items_p2 :: gslice

datatype ('m, 'l, 'x) cell_v2 =
    DurationCell2 SilenceDuration_v2
  | MatcherCell2 SilenceMatcher_v2
  | MatchersCell2 "SilenceMatcher_v2 list"
  | SpecCell2 SilenceSpec_p2
  | SilenceCell2 "'m Silence_p2"
  | SilencesCell2 "'m Silence_p2 list"
  | ListCell2 "'l SilenceList_p2"
  | LibCell2 'x

type_synonym ('m, 'l, 'x) mem_v2 = "('m, 'l, 'x) cell_v2 list"

record ('m, 'l, 'x) meta_lib_v2 =
  zero_ObjectMeta_v2 :: 'm
  ObjectMeta_DeepCopyInto_v2 :: "'m \<Rightarrow> ('m, 'l, 'x) mem_v2 \<Rightarrow> 'm \<times> ('m, 'l, 'x) mem_v2"
  ListMeta_DeepCopyInto_v2 :: "'l \<Rightarrow> ('m, 'l, 'x) mem_v2 \<Rightarrow> 'l \<times> ('m, 'l, 'x) mem_v2"
  Time_DeepCopy_v2 :: "nat option \<Rightarrow> ('m, 'l, 'x) mem_v2 \<Rightarrow> nat option \<times> ('m, 'l, 'x) mem_v2"

subsection \<open>Cells by their type\<close>

definition as_duration2 :: "('m, 'l, 'x) cell_v2 \<Rightarrow> SilenceDuration_v2 option" where
  "as_duration2 c = (case c of DurationCell2 x \<Rightarrow> Some x | _ \<Rightarrow> None)"

definition as_matcher2 :: "('m, 'l, 'x) cell_v2 \<Rightarrow> SilenceMatcher_v2 option" where
  "as_matcher2 c = (case c of MatcherCell2 x \<Rightarrow> Some x | _ \<Rightarrow> None)"

definition as_matchers2 :: "('m, 'l, 'x) cell_v2 \<Rightarrow> SilenceMatcher_v2 list option" where
  "as_matchers2 c = (case c of MatchersCell2 xs \<Rightarrow> Some xs | _ \<Rightarrow> None)"

definition as_spec2 :: "('m, 'l, 'x) cell_v2 \<Rightarrow> SilenceSpec_p2 option" where
  "as_spec2 c = (case c of SpecCell2 x \<Rightarrow> Some x | _ \<Rightarrow> None)"

definition as_silence2 :: "('m, 'l, 'x) cell_v2 \<Rightarrow> 'm Silence_p2 option" where
  "as_silence2 c = (case c of SilenceCell2 x \<Rightarrow> Some x | _ \<Rightarrow> None)"

definition as_silences2 :: "('m, 'l, 'x) cell_v2 \<Rightarrow> 'm Silence_p2 list option" where
  "as_silences2 c = (case c of SilencesCell2 xs \<Rightarrow> Some xs | _ \<Rightarrow> None)"

definition as_list2 :: "('m, 'l, 'x) cell_v2 \<Rightarrow> 'l SilenceList_p2 option" where
  "as_list2 c = (case c of ListCell2 x \<Rightarrow> Some x | _ \<Rightarrow> None)"

lemma as2_simps [simp]:
  "as_duration2 (DurationCell2 d) = Some d" "as_matcher2 (MatcherCell2 m) = Some m"
  "as_matchers2 (MatchersCell2 ms) = Some ms" "as_spec2 (SpecCell2 sp) = Some sp"
  "as_silence2 (SilenceCell2 sl) = Some sl" "as_silences2 (SilencesCell2 sls) = Some sls"
  "as_list2 (ListCell2 li) = Some li"
  by (simp_all add: as_duration2_def as_matcher2_def as_matchers2_def as_spec2_def as_silence2_def
      as_silences2_def as_list2_def)

subsection \<open>Copies\<close>

definition SilenceMatcher_DeepCopyInto_v2 ::
  "SilenceMatcher_v2 \<Rightarrow> ('m, 'l, 'x) mem_v2 \<Rightarrow> SilenceMatcher_v2 \<times> ('m, 'l, 'x) mem_v2" where
  "SilenceMatcher_DeepCopyInto_v2 i mem = (i, mem)"

definition zero_SilenceSpec_p2 :: SilenceSpec_p2 where
  "zero_SilenceSpec_p2 = \<lparr>Matchers_p2 = nil_slice, StartsAt_p2 = None, EndsAt_p2 = None, Duration_p2 = None\<rparr>"

definition SilenceSpec_DeepCopyInto_v2 ::
  "('m, 'l, 'x) meta_lib_v2 \<Rightarrow> SilenceSpec_p2 \<Rightarrow> ('m, 'l, 'x) mem_v2 \<Rightarrow> SilenceSpec_p2 \<times> ('m, 'l, 'x) mem_v2" where
  "SilenceSpec_DeepCopyInto_v2 L i mem =
     (let out = i
      in case (if sarr (Matchers_p2 i) \<noteq> None then
                 (case make_copy MatchersCell2 as_matchers2 (Matchers_p2 i) mem of
                    (s, mem) \<Rightarrow> (out\<lparr>Matchers_p2 := s\<rparr>, mem))
               else (out, mem)) of
        (out, mem) \<Rightarrow>
          (case (if StartsAt_p2 i \<noteq> None then
                   (case Time_DeepCopy_v2 L (StartsAt_p2 i) mem of (p, mem) \<Rightarrow> (out\<lparr>StartsAt_p2 := p\<rparr>, mem))
                 else (out, mem)) of
             (out, mem) \<Rightarrow>
               (case (if EndsAt_p2 i \<noteq> None then
                        (case Time_DeepCopy_v2 L (EndsAt_p2 i) mem of (p, mem) \<Rightarrow> (out\<lparr>EndsAt_p2 := p\<rparr>, mem))
                      else (out, mem)) of
                  (out, mem) \<Rightarrow>
                    (if Duration_p2 i \<noteq> None then
                       (case new_copy (Duration_p2 i) mem of (p, mem) \<Rightarrow> (out\<lparr>Duration_p2 := p\<rparr>, mem))
                     else (out, mem)))))"

definition Silence_DeepCopyInto_v2 ::
  "('m, 'l, 'x) meta_lib_v2 \<Rightarrow> 'm Silence_p2 \<Rightarrow> ('m, 'l, 'x) mem_v2 \<Rightarrow> 'm Silence_p2 \<times> ('m, 'l, 'x) mem_v2" where
  "Silence_DeepCopyInto_v2 L i mem =
     (let out = i\<lparr>TypeMeta_p2 := TypeMeta_p2 i\<rparr>
      in case ObjectMeta_DeepCopyInto_v2 L (ObjectMeta_p2 i) mem of
           (m, mem) \<Rightarrow>
             (case SilenceSpec_DeepCopyInto_v2 L (Spec_p2 i) mem of
                (sp, mem) \<Rightarrow> (out\<lparr>ObjectMeta_p2 := m, Spec_p2 := sp\<rparr>, mem)))"

definition zero_Silence_p2 :: "('m, 'l, 'x) meta_lib_v2 \<Rightarrow> 'm Silence_p2" where
  "zero_Silence_p2 L = \<lparr>TypeMeta_p2 = ('''', ''''), ObjectMeta_p2 = zero_ObjectMeta_v2 L, Spec_p2 = zero_SilenceSpec_p2\<rparr>"

definition SilenceList_DeepCopyInto_v2 ::
  "('m, 'l, 'x) meta_lib_v2 \<Rightarrow> 'l SilenceList_p2 \<Rightarrow> ('m, 'l, 'x) mem_v2
     \<Rightarrow> 'l SilenceList_p2 \<times> ('m, 'l, 'x) mem_v2" where
  "SilenceList_DeepCopyInto_v2 L i mem =
     (let out = i\<lparr>ListTypeMeta_p2 := ListTypeMeta_p2 i\<rparr>
      in case ListMeta_DeepCopyInto_v2 L (ListMeta_p2 i) mem of
           (m, mem) \<Rightarrow>
             (let out = out\<lparr>ListMeta_p2 := m\<rparr>
              in if sarr (Items_p2 i) \<noteq> None then
                   (case make_deep (Silence_DeepCopyInto_v2 L) SilencesCell2 as_silences2 (zero_Silence_p2 L)
                           (Items_p2 i) mem of
                      (s, mem) \<Rightarrow> (out\<lparr>Items_p2 := s\<rparr>, mem))
                 else (out, mem)))"

text \<open>The methods on pointers.\<close>

definition SilenceMatcher_DeepCopy_v2 :: "nat option \<Rightarrow> ('m, 'l, 'x) mem_v2 \<Rightarrow> nat option \<times> ('m, 'l, 'x) mem_v2" where
  "SilenceMatcher_DeepCopy_v2 = DeepCopy SilenceMatcher_DeepCopyInto_v2 MatcherCell2 as_matcher2"

definition SilenceSpec_DeepCopy_v2 ::
  "('m, 'l, 'x) meta_lib_v2 \<Rightarrow> nat option \<Rightarrow> ('m, 'l, 'x) mem_v2 \<Rightarrow> nat option \<times> ('m, 'l, 'x) mem_v2" where
  "SilenceSpec_DeepCopy_v2 L = DeepCopy (SilenceSpec_DeepCopyInto_v2 L) SpecCell2 as_spec2"

definition Silence_DeepCopy_v2 ::
  "('m, 'l, 'x) meta_lib_v2 \<Rightarrow> nat option \<Rightarrow> ('m, 'l, 'x) mem_v2 \<Rightarrow> nat option \<times> ('m, 'l, 'x) mem_v2" where
  "Silence_DeepCopy_v2 L = DeepCopy (Silence_DeepCopyInto_v2 L) SilenceCell2 as_silence2"

definition SilenceList_DeepCopy_v2 ::
  "('m, 'l, 'x) meta_lib_v2 \<Rightarrow> nat option \<Rightarrow> ('m, 'l, 'x) mem_v2 \<Rightarrow> nat option \<times> ('m, 'l, 'x) mem_v2" where
  "SilenceList_DeepCopy_v2 L = DeepCopy (SilenceList_DeepCopyInto_v2 L) ListCell2 as_list2"

definition Silence_DeepCopyObject_v2 ::
  "('m, 'l, 'x) meta_lib_v2 \<Rightarrow> nat option \<Rightarrow> ('m, 'l, 'x) mem_v2 \<Rightarrow> nat option \<times> ('m, 'l, 'x) mem_v2" where
  "Silence_DeepCopyObject_v2 L i mem =
     (case Silence_DeepCopy_v2 L i mem of (Some c, mem) \<Rightarrow> (Some c, mem) | (None, mem) \<Rightarrow> (None, mem))"

definition SilenceList_DeepCopyObject_v2 ::
  "('m, 'l, 'x) meta_lib_v2 \<Rightarrow> nat option \<Rightarrow> ('m, 'l, 'x) mem_v2 \<Rightarrow> nat option \<times> ('m, 'l, 'x) mem_v2" where
  "SilenceList_DeepCopyObject_v2 L i mem =
     (case SilenceList_DeepCopy_v2 L i mem of (Some c, mem) \<Rightarrow> (Some c, mem) | (None, mem) \<Rightarrow> (None, mem))"

subsection \<open>The values the structures stand for\<close>

definition spec_parts_v2 where
  "spec_parts_v2 s = (Matchers_p2 s, (StartsAt_p2 s, (EndsAt_p2 s, Duration_p2 s)))"

definition abs_SilenceSpec_v2 ::
  "(('m, 'l, 'x) mem_v2 \<Rightarrow> nat option \<Rightarrow> Time option option) \<Rightarrow> ('m, 'l, 'x) mem_v2 \<Rightarrow> SilenceSpec_p2
     \<Rightarrow> SilenceSpec_v2 option" where
  "abs_SilenceSpec_v2 tabs mem s =
     map_option (\<lambda>(ms, (starts, (ends, d))). \<lparr>Matchers_v2 = ms, StartsAt_v2 = starts, EndsAt_v2 = ends,
         DurationField_v2 = d\<rparr>)
       (abs_pair (abs_slice as_matchers2 abs_val) (abs_pair tabs (abs_pair tabs (abs_ptr as_duration2)))
         mem (spec_parts_v2 s))"

definition reach_SilenceSpec_v2 ::
  "(('m, 'l, 'x) mem_v2 \<Rightarrow> nat option \<Rightarrow> nat set) \<Rightarrow> ('m, 'l, 'x) mem_v2 \<Rightarrow> SilenceSpec_p2 \<Rightarrow> nat set" where
  "reach_SilenceSpec_v2 treach mem s =
     reach_pair (reach_slice as_matchers2 reach_val) (reach_pair treach (reach_pair treach reach_ptr))
       mem (spec_parts_v2 s)"

definition silence_parts_v2 where
  "silence_parts_v2 s = (ObjectMeta_p2 s, (Spec_p2 s, TypeMeta_p2 s))"

definition abs_Silence_v2 where
  "abs_Silence_v2 mabs tabs mem s =
     abs_pair mabs (abs_pair (abs_SilenceSpec_v2 tabs) abs_val) mem (silence_parts_v2 s)"

definition reach_Silence_v2 where
  "reach_Silence_v2 mreach treach mem s =
     reach_pair mreach (reach_pair (reach_SilenceSpec_v2 treach) reach_val) mem (silence_parts_v2 s)"

definition list_parts_v2 where
  "list_parts_v2 s = (ListMeta_p2 s, (Items_p2 s, ListTypeMeta_p2 s))"

definition abs_SilenceList_v2 where
  "abs_SilenceList_v2 mabs labs tabs mem s =
     abs_pair labs (abs_pair (abs_slice as_silences2 (abs_Silence_v2 mabs tabs)) abs_val) mem (list_parts_v2 s)"

definition reach_SilenceList_v2 where
  "reach_SilenceList_v2 mreach lreach treach mem s =
     reach_pair lreach (reach_pair (reach_slice as_silences2 (reach_Silence_v2 mreach treach)) reach_val)
       mem (list_parts_v2 s)"

subsection \<open>Every \<open>DeepCopyInto\<close> keeps the contract\<close>

lemma SilenceSpec_copy_v2:
  assumes "\<And>mem. Time_DeepCopy_v2 L None mem = (None, mem)"
  shows "SilenceSpec_DeepCopyInto_v2 L i mem =
     (case make_copy MatchersCell2 as_matchers2 (Matchers_p2 i) mem of (m, mem) \<Rightarrow>
      (case Time_DeepCopy_v2 L (StartsAt_p2 i) mem of (s, mem) \<Rightarrow>
      (case Time_DeepCopy_v2 L (EndsAt_p2 i) mem of (e, mem) \<Rightarrow>
      (case new_copy (Duration_p2 i) mem of (d, mem) \<Rightarrow>
         (i\<lparr>Matchers_p2 := m, StartsAt_p2 := s, EndsAt_p2 := e, Duration_p2 := d\<rparr>, mem)))))"
  by (cases "sarr (Matchers_p2 i)"; cases "StartsAt_p2 i"; cases "EndsAt_p2 i"; cases "Duration_p2 i")
    (simp_all add: SilenceSpec_DeepCopyInto_v2_def assms split: prod.split)

lemma SilenceList_copy_v2:
  "SilenceList_DeepCopyInto_v2 L i mem =
     (case ListMeta_DeepCopyInto_v2 L (ListMeta_p2 i) mem of (m, mem) \<Rightarrow>
      (case make_deep (Silence_DeepCopyInto_v2 L) SilencesCell2 as_silences2 (zero_Silence_p2 L) (Items_p2 i) mem of
         (s, mem) \<Rightarrow> (i\<lparr>ListMeta_p2 := m, Items_p2 := s\<rparr>, mem)))"
  by (cases "sarr (Items_p2 i)") (simp_all add: SilenceList_DeepCopyInto_v2_def split: prod.split)

interpretation matcher_v2: deep_copy
  "abs_val :: ('m, 'l, 'x) mem_v2 \<Rightarrow> _" reach_val SilenceMatcher_DeepCopyInto_v2
proof -
  have "SilenceMatcher_DeepCopyInto_v2 = (copy_val :: _ \<Rightarrow> ('m, 'l, 'x) mem_v2 \<Rightarrow> _)"
    by (simp add: fun_eq_iff SilenceMatcher_DeepCopyInto_v2_def copy_val_def)
  then show "deep_copy (abs_val :: ('m, 'l, 'x) mem_v2 \<Rightarrow> _) reach_val SilenceMatcher_DeepCopyInto_v2"
    using deep_copy_val by simp
qed

lemmas part2_defs = spec_parts_v2_def silence_parts_v2_def list_parts_v2_def copy_pair_def copy_val_def

text \<open>The copy of a time pointer keeps the contract and is nil for nil.\<close>

definition time_copy_ok where
  "time_copy_ok tabs treach L \<longleftrightarrow>
     deep_copy tabs treach (Time_DeepCopy_v2 L) \<and> (\<forall>mem. Time_DeepCopy_v2 L None mem = (None, mem))"

lemma deep_copy_SilenceSpec_v2:
  assumes "time_copy_ok tabs treach L"
  shows "deep_copy (abs_SilenceSpec_v2 tabs) (reach_SilenceSpec_v2 treach) (SilenceSpec_DeepCopyInto_v2 L)"
proof -
  have t: "deep_copy tabs treach (Time_DeepCopy_v2 L)" "\<And>mem. Time_DeepCopy_v2 L None mem = (None, mem)"
    using assms by (simp_all add: time_copy_ok_def)
  show ?thesis
    by (rule deep_copy_struct [OF deep_copy_pair [OF
          deep_copy_plain_slice [where cell = MatchersCell2 and prj = as_matchers2]
          deep_copy_pair [OF t(1) deep_copy_pair [OF t(1) deep_copy_ptr]]],
        where parts = spec_parts_v2
          and mk = "\<lambda>(m, (s, (e, d))). \<lparr>Matchers_p2 = m, StartsAt_p2 = s, EndsAt_p2 = e, Duration_p2 = d\<rparr>"])
      (auto simp: SilenceSpec_copy_v2 [OF t(2)] part2_defs abs_SilenceSpec_v2_def reach_SilenceSpec_v2_def
        split: prod.split)
qed

lemma deep_copy_Silence_v2:
  assumes "deep_copy mabs mreach (ObjectMeta_DeepCopyInto_v2 L)" "time_copy_ok tabs treach L"
  shows "deep_copy (abs_Silence_v2 mabs tabs) (reach_Silence_v2 mreach treach) (Silence_DeepCopyInto_v2 L)"
  by (rule deep_copy_struct [OF deep_copy_pair [OF assms(1)
        deep_copy_pair [OF deep_copy_SilenceSpec_v2 [OF assms(2)] deep_copy_val]],
      where parts = silence_parts_v2 and val = "\<lambda>x. x"
        and mk = "\<lambda>(m, (s, t)). \<lparr>TypeMeta_p2 = t, ObjectMeta_p2 = m, Spec_p2 = s\<rparr>"])
    (auto simp: Silence_DeepCopyInto_v2_def part2_defs abs_Silence_v2_def reach_Silence_v2_def option.map_ident
      split: prod.split)

lemma deep_copy_SilenceList_v2:
  assumes "deep_copy mabs mreach (ObjectMeta_DeepCopyInto_v2 L)"
    and "deep_copy labs lreach (ListMeta_DeepCopyInto_v2 L)" "time_copy_ok tabs treach L"
  shows "deep_copy (abs_SilenceList_v2 mabs labs tabs) (reach_SilenceList_v2 mreach lreach treach)
    (SilenceList_DeepCopyInto_v2 L)"
  by (rule deep_copy_struct [OF deep_copy_pair [OF assms(2) deep_copy_pair [OF
        deep_copy_slice [OF deep_copy_Silence_v2 [OF assms(1,3)], where cell = SilencesCell2 and prj = as_silences2
          and zero = "zero_Silence_p2 L"] deep_copy_val]],
      where parts = list_parts_v2 and val = "\<lambda>x. x"
        and mk = "\<lambda>(m, (s, t)). \<lparr>ListTypeMeta_p2 = t, ListMeta_p2 = m, Items_p2 = s\<rparr>"])
    (auto simp: SilenceList_copy_v2 part2_defs abs_SilenceList_v2_def reach_SilenceList_v2_def option.map_ident
      split: prod.split)

lemma DeepCopyObject_v2:
  "Silence_DeepCopyObject_v2 L = DeepCopy (Silence_DeepCopyInto_v2 L) SilenceCell2 as_silence2"
  "SilenceList_DeepCopyObject_v2 L = DeepCopy (SilenceList_DeepCopyInto_v2 L) ListCell2 as_list2"
  by (auto simp: fun_eq_iff Silence_DeepCopyObject_v2_def SilenceList_DeepCopyObject_v2_def
      Silence_DeepCopy_v2_def SilenceList_DeepCopy_v2_def split: prod.split option.split)

lemma deep_copy_objects_v2:
  assumes "deep_copy mabs mreach (ObjectMeta_DeepCopyInto_v2 L)"
    and "deep_copy labs lreach (ListMeta_DeepCopyInto_v2 L)" "time_copy_ok tabs treach L"
  shows "deep_copy (abs_new as_silence2 (abs_Silence_v2 mabs tabs)) (reach_new as_silence2 (reach_Silence_v2 mreach treach))
      (Silence_DeepCopyObject_v2 L)"
    and "deep_copy (abs_new as_list2 (abs_SilenceList_v2 mabs labs tabs))
      (reach_new as_list2 (reach_SilenceList_v2 mreach lreach treach)) (SilenceList_DeepCopyObject_v2 L)"
  using assms unfolding DeepCopyObject_v2
  by (auto intro!: deep_copy_new deep_copy_Silence_v2 deep_copy_SilenceList_v2)

text \<open>C30: the same for v1alpha2 silences and lists: equal value, nil exactly for nil, and no shared
  memory, with the pointers to times and durations copied as well.\<close>

theorem DeepCopyObject_v2_separate:
  assumes "deep_copy mabs mreach (ObjectMeta_DeepCopyInto_v2 L)"
    and "deep_copy labs lreach (ListMeta_DeepCopyInto_v2 L)" "time_copy_ok tabs treach L"
  shows "(abs_new as_silence2 (abs_Silence_v2 mabs tabs) mem p = Some v \<and> Silence_DeepCopyObject_v2 L p mem = (q, mem') \<longrightarrow>
      separate (abs_new as_silence2 (abs_Silence_v2 mabs tabs)) (reach_new as_silence2 (reach_Silence_v2 mreach treach))
        mem' p q v) \<and>
    (abs_new as_list2 (abs_SilenceList_v2 mabs labs tabs) mem p = Some vs \<and>
     SilenceList_DeepCopyObject_v2 L p mem = (q, mem') \<longrightarrow>
      separate (abs_new as_list2 (abs_SilenceList_v2 mabs labs tabs))
        (reach_new as_list2 (reach_SilenceList_v2 mreach lreach treach)) mem' p q vs)"
  using deep_copy.copy_separate [OF deep_copy_objects_v2(1) [OF assms], of mem p v q mem']
    deep_copy.copy_separate [OF deep_copy_objects_v2(2) [OF assms], of mem p vs q mem'] by blast

text \<open>A silence with a time and a duration; times and metadata are single cells.\<close>

definition as_lib_time :: "('m, 'l, Time) cell_v2 \<Rightarrow> Time option" where
  "as_lib_time c = (case c of LibCell2 t \<Rightarrow> Some t | _ \<Rightarrow> None)"

definition sample_meta_lib_v2 :: "(nat option, nat option, Time) meta_lib_v2" where
  "sample_meta_lib_v2 = \<lparr>zero_ObjectMeta_v2 = None, ObjectMeta_DeepCopyInto_v2 = new_copy,
     ListMeta_DeepCopyInto_v2 = new_copy, Time_DeepCopy_v2 = new_copy\<rparr>"

definition sample_mem_v2 :: "(nat option, nat option, Time) mem_v2" where
  "sample_mem_v2 =
     [LibCell2 time_zero, DurationCell2 ''1h'',
      MatchersCell2 [\<lparr>Name_v2 = ''a'', Value_v2 = ''b'', MatchType = MatchEqual\<rparr>],
      SilenceCell2 \<lparr>TypeMeta_p2 = (''Silence'', ''v1''), ObjectMeta_p2 = Some 0,
        Spec_p2 = \<lparr>Matchers_p2 = \<lparr>sarr = Some 2, slen = 1\<rparr>, StartsAt_p2 = Some 0, EndsAt_p2 = None,
          Duration_p2 = Some 1\<rparr>\<rparr>]"

theorem DeepCopyObject_v2_separate_witness:
  "\<exists>q mem' v. Silence_DeepCopyObject_v2 sample_meta_lib_v2 (Some 3) sample_mem_v2 = (q, mem') \<and> v \<noteq> None \<and>
     separate (abs_new as_silence2 (abs_Silence_v2 (abs_ptr as_lib_time) (abs_ptr as_lib_time)))
       (reach_new as_silence2 (reach_Silence_v2 reach_ptr reach_ptr)) mem' (Some 3) q v"
proof -
  let ?abs = "abs_new as_silence2 (abs_Silence_v2 (abs_ptr as_lib_time) (abs_ptr as_lib_time))"
  have "case ?abs sample_mem_v2 (Some 3) of None \<Rightarrow> False | Some v \<Rightarrow> v \<noteq> None" by code_simp
  then obtain v where v: "?abs sample_mem_v2 (Some 3) = Some v" "v \<noteq> None" by (auto split: option.splits)
  obtain q mem' where q: "Silence_DeepCopyObject_v2 sample_meta_lib_v2 (Some 3) sample_mem_v2 = (q, mem')"
    by (metis surj_pair)
  have lib: "deep_copy (abs_ptr as_lib_time) reach_ptr (ObjectMeta_DeepCopyInto_v2 sample_meta_lib_v2)"
    "deep_copy (abs_ptr as_lib_time) reach_ptr (ListMeta_DeepCopyInto_v2 sample_meta_lib_v2)"
    "time_copy_ok (abs_ptr as_lib_time) reach_ptr sample_meta_lib_v2"
    using deep_copy_ptr by (simp_all add: sample_meta_lib_v2_def time_copy_ok_def)
  from DeepCopyObject_v2_separate [OF lib] v q show ?thesis by blast
qed

end
