(* ===== verification/Spec2Isabelle.thy ===== *)
theory Spec2Isabelle
  imports Prelude Go_Time Go_Http Go_Json Alertmanager_Types Tenancy Alertmanager Silence_Meta Service
    Service_Contract Api_Types Controller_V1 Controller_V2 Trace Log_Safety Protocol Flow Contracts
    Client_Spec Conversions Samples Json_Fuel
    Json_Round_Trip Types_Round_Trip Time_Bounds Store Sweep Mock_Server Mock_Store Well_Formed Convergence
    Level_Flow Cluster Cluster_Sweeps Both_Controllers Disturbance Faults
    Faulty_Flow Faulty_Cluster Recovery Whole_System Bounds Admission Scheme
    Migration E2e_Helpers
    Setup Go_Flag Go_Slice Startup Memory Deep_Copy_V1 Deep_Copy_V2
begin

text \<open>
  A model of the silence operator (\<open>github.com/giantswarm/silence-operator\<close>), a
  Kubernetes operator in Go that turns \<open>Silence\<close> resources into silences of a
  Prometheus Alertmanager.

  The program. Two controllers watch two versions of the resource. A call of
  \<open>Reconcile\<close> reads the object, sees to its finalizer, converts it to an Alertmanager
  silence and has the service bring Alertmanager to it; for an object that is being deleted the
  service deletes the silence first and the finalizer goes last. The service works on an interface,
  \<open>Client\<close>, which the Alertmanager client implements by HTTP and JSON. The comment of a
  silence (\<open>silence-operator-<namespace>-<name>\<close>) is the only link between a resource
  and its silence.

  Theories and sources, in the order they build on each other:

  \<^item> \<open>Prelude\<close> (errors of \<open>github.com/pkg/errors\<close>, slices that may
    be nil, searching), \<open>Go_Time\<close> (package \<open>time\<close>: instants, calendar,
    \<open>Add\<close> with a 64-bit duration, the two layouts that are parsed),
    \<open>Go_Http\<close> (requests, headers, escaping, the network as a parameter; paths),
    \<open>Go_Json\<close> (scanner and printer), \<open>Go_Flag\<close> (\<open>flag.Parse\<close>,
    \<open>filepath.Join\<close>), \<open>Go_Slice\<close> (slices over shared arrays),
    \<open>Memory\<close> (structures in memory): what the code uses of Go and its standard library.
  \<^item> \<open>Alertmanager_Types\<close> (\<open>pkg/alertmanager/types.go\<close>),
    \<open>Alertmanager\<close> (\<open>alertmanager.go\<close>, \<open>http.go\<close>),
    \<open>Silence_Meta\<close> (\<open>SilenceComment\<close>, \<open>SilenceEndsAt\<close>),
    \<open>Service\<close> (\<open>pkg/service/silence.go\<close>), \<open>Config\<close>
    (\<open>pkg/config\<close>), \<open>Tenancy\<close> (\<open>pkg/tenancy\<close>),
    \<open>Api_Types\<close> (\<open>api/*/silence_types.go\<close>), \<open>Kube_Types\<close>
    (object metadata, the library functions on it), \<open>Controller_V1\<close> and
    \<open>Controller_V2\<close> (\<open>internal/controller\<close>), \<open>Setup\<close>
    (\<open>SetupWithManager\<close> of both), \<open>Startup\<close> (\<open>cmd/main.go\<close>),
    \<open>Scheme\<close> (\<open>api/*/groupversion_info.go\<close> and \<open>init\<close> of
    \<open>main.go\<close>), \<open>Admission\<close> (the validation markers of
    \<open>api/v1alpha2\<close>), \<open>Migration\<close>
    (\<open>hack/migrate-silences.sh\<close>), \<open>E2e_Helpers\<close>
    (\<open>e2e/helpers.go\<close>), \<open>Deep_Copy_V1\<close> and \<open>Deep_Copy_V2\<close>
    (\<open>api/*/zz_generated.deepcopy.go\<close>), \<open>Mock_Server\<close>
    (\<open>internal/controller/testutils/mock_alertmanager.go\<close>): the code, one definition
    per function, with the names of the source. A suffix \<open>_v1\<close> or \<open>_v2\<close>
    tells the versions apart.
  \<^item> \<open>Service_Contract\<close>: the decision of \<open>SyncSilence\<close> as a function
    of clock and existing silence (\<open>plan\<close>), in the locale
    \<open>client_contract\<close>, which the real client interprets. \<open>Trace\<close>,
    \<open>Log_Safety\<close>, \<open>Protocol\<close>, \<open>Flow\<close>,
    \<open>Contracts\<close>: the log of all requests and writes of one call of
    \<open>Reconcile\<close>; the locales \<open>finalizer_protocol\<close> and
    \<open>finalizer_flow\<close> say what any finalizer controller must keep to, and both
    controllers interpret them. \<open>Client_Spec\<close>, \<open>Conversions\<close>: the client's
    operations and the conversions, branch by branch.
  \<^item> \<open>Json_Fuel\<close>: the bound on the work of the JSON scanner.
    \<open>Json_Round_Trip\<close>, \<open>Types_Round_Trip\<close>: silences survive their JSON
    form, in the locale \<open>round_trip\<close>. \<open>Time_Bounds\<close>, \<open>Well_Formed\<close>: which times and
    resources lead to silences that JSON can hold. \<open>Store\<close>: Alertmanager as a map from
    comments to silences, the locale \<open>comment_store\<close>, with the effect of the service on
    the map. \<open>Mock_Store\<close>: the client against the mock server is such a map.
    \<open>Convergence\<close>: what one call of the v1alpha2 controller does to the mock server,
    end to end. \<open>Sweep\<close>: the locale \<open>level_triggered\<close> and what a sweep
    over many keys leaves. \<open>Level_Flow\<close>, \<open>Cluster\<close>: the flow of the
    controllers is level triggered, given an API server that keeps what is written
    (\<open>level_flow\<close>), and this holds against the mock server (\<open>mock_flow\<close>).
    \<open>Cluster_Sweeps\<close>: both controllers are instances, so a sweep over keys with
    pairwise different comments converges. \<open>Both_Controllers\<close>: the calls of both controllers on one cluster, in any
    interleaving, are level triggered again. \<open>Disturbance\<close>: the locale \<open>disturbed\<close> says what a call
    that a fault cuts short may still do, and that sweeps make up for it. \<open>Faults\<close>: requests and
    writes that get lost, or whose answers do; the client and the service under them.
    \<open>Faulty_Flow\<close>, \<open>Faulty_Cluster\<close>: the controllers under them are \<open>disturbed\<close>, so they recover
    (\<open>Recovery\<close>). \<open>Whole_System\<close>: operator, API server, users and Alertmanager as one step relation,
    with the invariant that no silence leaks. \<open>Bounds\<close>: how many requests and writes one call makes.
  \<^item> \<open>Samples\<close>: concrete resources and libraries for the witnesses.

  Conventions. A function with results \<open>(T, error)\<close> returns a pair of \<open>T\<close>
  and an optional error; a pointer is an option; a function that could dereference nil returns an
  \<open>outcome\<close>, and it is proved that \<open>Panics\<close> does not occur;
  \<open>os.Exit\<close> is a value of \<open>main\<close>. The world is a type parameter
  \<open>'w\<close> that the parameters (network, clock, Kubernetes API, certificate watchers) read
  and change. Code outside the repository is a parameter with its documented laws as a named
  predicate: \<open>errors_pkg_ok\<close>, \<open>kube_lib_ok\<close>, \<open>predicates_ok\<close>,
  \<open>mock_lib_ok\<close>, \<open>api_ok\<close>, \<open>scheme_lib_ok\<close>,
  \<open>str2duration_ok\<close>, \<open>time_copy_ok\<close>, and the contract
  \<open>deep_copy\<close> for the metadata, \<open>rejects_no_matchers\<close> for the API server of the
  migration; each is satisfied by a sample.

  What is shown. Safety of one call of \<open>Reconcile\<close>, here and for every behaviour of
  Alertmanager, the network and the API server: the finalizer goes only after the silence was seen
  gone or its deletion was answered; Alertmanager is changed for a live object only under a stored
  finalizer; at most one change per call, all requests for one tenant. Refinement of the service,
  totality of its decision, and no panics. Convergence, under the conditions below: a sweep of either
  controller over its objects (new, kept, ended, deleted and faulty ones, in any order and with
  repetitions) ends in the state the objects ask for, with at most two requests per call; so does a
  sweep in which the calls of both controllers mix, and after it they are at rest: further calls for its keys change
  nothing. Recovery: after calls in which requests or their answers were lost anywhere, calls without
  faults reach the state that the objects asked for before the first fault. The whole system, with users
  that create, edit and delete objects and others that change Alertmanager, in any order of steps: in every
  reachable state each silence of the operator belongs to an object that is held by its finalizer
  (\<open>no_silence_leaks\<close>), and one sweep leaves the silences that the living objects ask for
  (\<open>sweep_exact\<close>). A resource whose names, matchers and times are within stated limits becomes a silence that
  JSON can hold, and that is the one it asks for. Admitted
  resources are converted, and their durations do not wrap around. The client, conversion, time and
  selector functions on every branch, errors included. Which events reach the controllers. The
  start: exit codes, flags, wiring, and the TLS options of the servers with the array their slices
  share. Deep copies have the same value and share no memory. The migration script has a function that converts
  matchers rightly, but loses what it returns in the subshell of a pipeline, so it migrates nothing; the helpers of the
  end-to-end tests see Alertmanager as the operator does.

  Conditions of convergence, recovery and the whole system. Alertmanager is the mock server of the repository, for one
  tenant; it never refuses to delete a silence it holds, which the client would take for a success, losing the
  silence (\<open>DeleteSilenceByID_ignores_status\<close>). Faults are requests and writes, or their answers, that get lost. The API
  server keeps what is written and, within a call, has no other writer. The objects of a sweep have pairwise different
  comments, which namespaces and names with dashes can break (\<open>SilenceComment_shared\<close>); only the invariant
  \<open>no_silence_leaks\<close> does without. Objects that convert become silences JSON can hold
  (\<open>getSilenceFromCR_storable\<close> says which do); a living object that does not convert keeps whatever silence stands under
  its comment. Users do not take the controllers' finalizers away, and nobody else uses the comments of the operator. The
  clock may read any times between two bounds, in any order; a silence that ends between them may be there, as wanted, or
  gone, and the state of rest is proved when none does. \<open>system_step\<close> is this environment with the code's calls as one of
  its steps.

  Fuel. Only the JSON scanner runs on fuel, two units per byte and two more
  (\<open>scan_value\<close>): a value takes one unit and a list of members one more before the next
  byte is consumed. \<open>Json_Fuel\<close> proves that this is enough for every text, not only for
  printed ones (\<open>json_parse_fuel\<close>): more fuel gives the same answer, so an error is
  never one of fuel. All other recursions terminate by their structure or a measure.

  Not modelled. Logging; \<open>ctrl.Result\<close>, which is empty on every path; work queues,
  caches and the schedule of retries of \<open>controller-runtime\<close>, so a call is taken by itself or in a
  given order; conflicts of concurrent writers in the API server; time zones other than fixed
  offsets; of JSON, the nesting limit of the decoder, case folding of member names beyond ASCII, and
  decoding a repeated member into the value of the first; redirects and chunked transfer of HTTP;
  the messages of the migration script; charts, and the tests themselves.
\<close>

section \<open>The controllers\<close>

text \<open>A write of an object without the finalizer, executable.\<close>

fun drops :: "string \<Rightarrow> event \<Rightarrow> bool" where
  "drops f (Write x b) \<longleftrightarrow> f \<notin> set (Finalizers x)"
| "drops f _ \<longleftrightarrow> False"

lemma drops_write: "list_ex (drops f) tr \<Longrightarrow> \<exists>x b. Write x b \<in> set tr \<and> f \<notin> set (Finalizers x)"
  by (auto simp: list_ex_iff elim!: drops.elims)

subsection \<open>Safety of one call of Reconcile\<close>

text \<open>C3: the v1alpha2 controller drops its finalizer from an object only while the object is being
  deleted, and only after a listing showed no active silence of the operator under the
  object's comment, or showed one and the request that deletes it was answered.\<close>

theorem finalizer_removal_v2:
  assumes "libs_ok P K E" "read_meta Meta_v2 C k w = Some m"
    and "FinalizerName \<in> set (Finalizers m)"
    and "Write x b \<in> set (log_v2 P K PD E C am h k w)" "FinalizerName \<notin> set (Finalizers x)"
  shows "deleting K m \<and> (\<exists>evs b' rest. cleared am (SilenceComment m) evs \<and>
    log_v2 P K PD E C am h k w = Read k True # evs @ Write (RemoveFinalizer K m FinalizerName) b' # rest)"
  using v2.removal_after_clearing [OF assms(1) refl assms(2,3) assms(4) [unfolded log_v2_run] assms(5)]
  by (simp add: log_v2_run)

theorem finalizer_removal_v2_witness:
  "\<exists>evs b' rest. cleared sample_am ''silence-operator-ns-a'' evs \<and>
     log_v2 sample_errors sample_kube (\<lambda>_. Inr 0) (fixed_env 200 ''[]'') (fixed_kube going_v2) sample_am
       sample_helper sample_key ()
     = Read sample_key True # evs @ Write (RemoveFinalizer sample_kube (Meta_v2 going_v2) FinalizerName) b' # rest"
proof -
  let ?log = "log_v2 sample_errors sample_kube (\<lambda>_. Inr 0) (fixed_env 200 ''[]'') (fixed_kube going_v2)
    sample_am sample_helper sample_key ()"
  have "list_ex (drops FinalizerName) ?log" by code_simp
  then obtain x b where x: "Write x b \<in> set ?log" "FinalizerName \<notin> set (Finalizers x)"
    using drops_write by blast
  have "SilenceComment (Meta_v2 going_v2) = ''silence-operator-ns-a''" by code_simp
  then show ?thesis
    using finalizer_removal_v2 [OF sample_libs read_meta_fixed _ x]
    by (simp add: going_v2_def going_meta_def)
qed

text \<open>C4: the same for the v1alpha1 controller and its finalizer; the write that removes the legacy
  finalizer keeps the current one.\<close>

theorem finalizer_removal_v1:
  assumes "libs_ok P K E" "read_meta Meta_v1 C k w = Some m"
    and "silenceFinalizer \<in> set (Finalizers m)"
    and "Write x b \<in> set (log_v1 P K E C am h k w)" "silenceFinalizer \<notin> set (Finalizers x)"
  shows "deleting K m \<and> (\<exists>evs b' rest. cleared am (SilenceComment m) evs \<and>
    log_v1 P K E C am h k w = Read k True # evs @ Write (RemoveFinalizer K m silenceFinalizer) b' # rest)"
  using v1.removal_after_clearing [OF assms(1) refl assms(2,3) assms(4) [unfolded log_v1_run] assms(5)]
  by (simp add: log_v1_run)

definition going_v1 :: Silence_v1 where
  "going_v1 = sample_v1\<lparr>Meta_v1 := going_meta [legacySilenceFinalizer, silenceFinalizer]\<rparr>"

theorem finalizer_removal_v1_witness:
  "\<exists>evs b' rest. cleared sample_am ''silence-operator-ns-a'' evs \<and>
     log_v1 sample_errors sample_kube (fixed_env 200 sample_list) (fixed_kube going_v1) sample_am
       sample_helper sample_key ()
     = Read sample_key True # evs @ Write (RemoveFinalizer sample_kube (Meta_v1 going_v1) silenceFinalizer) b' # rest"
proof -
  let ?log = "log_v1 sample_errors sample_kube (fixed_env 200 sample_list) (fixed_kube going_v1)
    sample_am sample_helper sample_key ()"
  have "list_ex (drops silenceFinalizer) ?log" by code_simp
  then obtain x b where x: "Write x b \<in> set ?log" "silenceFinalizer \<notin> set (Finalizers x)"
    using drops_write by blast
  have "SilenceComment (Meta_v1 going_v1) = ''silence-operator-ns-a''" by code_simp
  then show ?thesis
    using finalizer_removal_v1 [OF sample_libs read_meta_fixed _ x]
    by (simp add: going_v1_def going_meta_def)
qed

text \<open>C5: while an object lives, the v1alpha2 controller changes Alertmanager for it only when its
  finalizer is on the object, already or by an update that the API server accepted before.\<close>

theorem change_needs_finalizer_v2:
  assumes "libs_ok P K E" "read_meta Meta_v2 C k w = Some m" "\<not> deleting K m"
    and "e \<in> set (log_v2 P K PD E C am h k w)" "mutating e"
  shows "FinalizerName \<in> set (Finalizers m) \<or>
    (\<exists>pre post. log_v2 P K PD E C am h k w = pre @ Write (AddFinalizer K m FinalizerName) True # post \<and>
       e \<in> set post \<and> mutations pre = [] \<and> FinalizerName \<in> set (Finalizers (AddFinalizer K m FinalizerName)))"
  using v2.change_after_finalizer [OF assms(1) refl assms(2,3) assms(4) [unfolded log_v2_run] assms(5)]
  by (simp add: log_v2_run)

definition busy :: "event list \<Rightarrow> bool" where
  "busy tr \<longleftrightarrow> list_ex mutating tr"

theorem change_needs_finalizer_v2_witness:
  "\<exists>pre post. log_v2 sample_errors sample_kube (\<lambda>_. Inr 0) (fixed_env 200 ''[]'') (fixed_kube sample_v2)
       sample_am sample_helper sample_key ()
     = pre @ Write (AddFinalizer sample_kube (Meta_v2 sample_v2) FinalizerName) True # post"
proof -
  let ?log = "log_v2 sample_errors sample_kube (\<lambda>_. Inr 0) (fixed_env 200 ''[]'') (fixed_kube sample_v2)
    sample_am sample_helper sample_key ()"
  have "busy ?log" by code_simp
  then obtain e where "e \<in> set ?log" "mutating e" by (auto simp: busy_def list_ex_iff)
  from change_needs_finalizer_v2 [OF sample_libs read_meta_fixed _ this]
  show ?thesis
    by (auto simp: sample_v2_def sample_v1_def sample_meta_def deleting_def kube_IsZero)
qed

text \<open>C6: the same for the v1alpha1 controller.\<close>

theorem change_needs_finalizer_v1:
  assumes "libs_ok P K E" "read_meta Meta_v1 C k w = Some m" "\<not> deleting K m"
    and "e \<in> set (log_v1 P K E C am h k w)" "mutating e"
  shows "silenceFinalizer \<in> set (Finalizers m) \<or>
    (\<exists>pre post. log_v1 P K E C am h k w = pre @ Write (AddFinalizer K m silenceFinalizer) True # post \<and>
       e \<in> set post \<and> mutations pre = [] \<and> silenceFinalizer \<in> set (Finalizers (AddFinalizer K m silenceFinalizer)))"
  using v1.change_after_finalizer [OF assms(1) refl assms(2,3) assms(4) [unfolded log_v1_run] assms(5)]
  by (simp add: log_v1_run)

theorem change_needs_finalizer_v1_witness:
  "\<exists>pre post. log_v1 sample_errors sample_kube (fixed_env 200 ''[]'') (fixed_kube sample_v1)
       sample_am sample_helper sample_key ()
     = pre @ Write (AddFinalizer sample_kube (Meta_v1 sample_v1) silenceFinalizer) True # post"
proof -
  let ?log = "log_v1 sample_errors sample_kube (fixed_env 200 ''[]'') (fixed_kube sample_v1)
    sample_am sample_helper sample_key ()"
  have "busy ?log" by code_simp
  then obtain e where "e \<in> set ?log" "mutating e" by (auto simp: busy_def list_ex_iff)
  from change_needs_finalizer_v1 [OF sample_libs read_meta_fixed _ this]
  show ?thesis
    by (auto simp: sample_v1_def sample_meta_def deleting_def kube_IsZero)
qed

text \<open>C7: one call of the v1alpha2 controller changes Alertmanager at most once, and all its requests
  carry the tenant of one object the API server returned, and the configured token.\<close>

theorem one_change_one_tenant_v2:
  assumes "libs_ok P K E"
  shows "length (mutations (log_v2 P K PD E C am h k w)) \<le> 1 \<and>
    (\<exists>t. (log_v2 P K PD E C am h k w \<noteq> [Read k False] \<longrightarrow>
            (\<exists>m. returned Meta_v2 C m \<and> t = ExtractTenant h m)) \<and>
         (\<forall>q a. Request q a \<in> set (log_v2 P K PD E C am h k w) \<longrightarrow> well_addressed am t q))"
  unfolding log_v2_run
  by (intro conjI v2.at_most_one_change [OF assms refl] v2.one_tenant [OF assms refl])

theorem one_change_one_tenant_v2_witness:
  "length (mutations (log_v2 sample_errors sample_kube (\<lambda>_. Inr 0) (fixed_env 200 ''[]'')
     (fixed_kube sample_v2) sample_am sample_helper sample_key ())) \<le> 1"
  using one_change_one_tenant_v2 [OF sample_libs] by blast

text \<open>C8: the same for the v1alpha1 controller, whatever finalizers it cleans up in the same call.\<close>

theorem one_change_one_tenant_v1:
  assumes "libs_ok P K E"
  shows "length (mutations (log_v1 P K E C am h k w)) \<le> 1 \<and>
    (\<exists>t. (log_v1 P K E C am h k w \<noteq> [Read k False] \<longrightarrow>
            (\<exists>m. returned Meta_v1 C m \<and> t = ExtractTenant h m)) \<and>
         (\<forall>q a. Request q a \<in> set (log_v1 P K E C am h k w) \<longrightarrow> well_addressed am t q))"
  unfolding log_v1_run
  by (intro conjI v1.at_most_one_change [OF assms refl] v1.one_tenant [OF assms refl])

theorem one_change_one_tenant_v1_witness:
  "length (mutations (log_v1 sample_errors sample_kube (fixed_env 200 ''[]'')
     (fixed_kube sample_v1) sample_am sample_helper sample_key ())) \<le> 1"
  using one_change_one_tenant_v1 [OF sample_libs] by blast

text \<open>An object that is being deleted without the finalizer of its controller is none of its
  business: neither controller sends Alertmanager a request for it.\<close>

theorem skipped_objects:
  assumes "libs_ok P K E"
    and "read_meta Meta_v1 C1 k w = Some m1" "deleting K m1" "silenceFinalizer \<notin> set (Finalizers m1)"
    and "read_meta Meta_v2 C2 k w = Some m2" "deleting K m2" "FinalizerName \<notin> set (Finalizers m2)"
  shows "Request q a \<notin> set (log_v1 P K E C1 am h k w) \<and> Request q a \<notin> set (log_v2 P K PD E C2 am h k w)"
  unfolding log_v1_run log_v2_run
  by (intro conjI v1.skipped_object [OF assms(1) refl assms(2-4), THEN conjunct2, rule_format]
      v2.skipped_object [OF assms(1) refl assms(5-7), THEN conjunct2, rule_format])

theorem skipped_objects_witness:
  "\<forall>q a. Request q a \<notin> set (log_v2 sample_errors sample_kube (\<lambda>_. Inr 0) (fixed_env 200 ''[]'')
     (fixed_kube (sample_v2\<lparr>Meta_v2 := going_meta [silenceFinalizer]\<rparr>)) sample_am sample_helper sample_key ())"
proof (intro allI, rule skipped_objects [OF sample_libs read_meta_fixed _ _ read_meta_fixed, THEN conjunct2])
  have "deleting sample_kube (going_meta [silenceFinalizer])"
    "deleting sample_kube (Meta_v1 (sample_v1\<lparr>Meta_v1 := going_meta []\<rparr>))" by code_simp+
  then show "deleting sample_kube (Meta_v1 (sample_v1\<lparr>Meta_v1 := going_meta []\<rparr>))"
    "deleting sample_kube (Meta_v2 (sample_v2\<lparr>Meta_v2 := going_meta [silenceFinalizer]\<rparr>))" by simp_all
qed (simp_all add: going_meta_def silenceFinalizer_def FinalizerName_def)

subsection \<open>What Reconcile does\<close>

text \<open>C22: a live object that carries the finalizer: the call of the v1alpha2 controller is the
  synchronisation of the silence its resource stands for, in the world after the read; a
  resource that stands for none is an error, and nothing is sent.\<close>

theorem Reconcile_v2_syncs:
  assumes "errors_pkg_ok P" "kube_lib_ok K"
    and "Kube_Get C k w = (Inr obj, w1)" "\<not> deleting K (Meta_v2 obj)"
    and "FinalizerName \<in> set (Finalizers (Meta_v2 obj))"
    and "r = NewSilenceV2Reconciler C (NewSilenceService (Alertmanager_Client P E am)) h"
  shows "case getSilenceFromCR_v2 P PD obj of
      (Some s, None) \<Rightarrow> Reconcile_v2 P K PD E r k w =
        sync_spec P E (Alertmanager_Client P E am) s (ExtractTenant h (Meta_v2 obj)) w1
    | (_, err) \<Rightarrow> (\<exists>e. Reconcile_v2 P K PD E r k w = (Returns (Some e), w1))"
proof -
  have sel: "client_v2 r = C" "silenceService_v2 r = NewSilenceService (Alertmanager_Client P E am)"
    "tenancyHelper_v2 r = h"
    by (simp_all add: assms(6) NewSilenceV2Reconciler_def)
  have run: "Reconcile_v2 P K PD E r k w = reconcileCreate_v2 P PD E r obj w1"
    using assms(2-5) by (simp add: Reconcile_v2_def sel deleting_def kube_finalizers)
  have same: "(case x of (Panics, w) \<Rightarrow> (Panics, w) | (Returns (Some err), w) \<Rightarrow> (Returns (Some err), w)
      | (Returns None, w) \<Rightarrow> (Returns None, w)) = x" for x :: "go_error option outcome \<times> 'a"
    by (auto split: prod.split outcome.split option.split)
  show ?thesis
  proof (cases "getSilenceFromCR_v2 P PD obj")
    case (Pair a b)
    have "b \<noteq> None" if "a = None"
      using Pair that assms(1)
      by (auto simp: getSilenceFromCR_v2_def err_simps split: prod.splits option.splits)
    then show ?thesis
      using Pair assms(1)
      by (cases a; cases b) (auto simp: run reconcileCreate_v2_def sel am.sync_refines same)
  qed
qed

theorem Reconcile_v2_syncs_witness:
  "\<exists>s. Reconcile_v2 sample_errors sample_kube (\<lambda>_. Inr 0) (fixed_env 200 ''[]'')
      (NewSilenceV2Reconciler (fixed_kube kept_v2)
        (NewSilenceService (Alertmanager_Client sample_errors (fixed_env 200 ''[]'') sample_am)) sample_helper)
      sample_key ()
    = sync_spec sample_errors (fixed_env 200 ''[]'')
        (Alertmanager_Client sample_errors (fixed_env 200 ''[]'') sample_am) s ''shared'' ()"
proof -
  have get: "Kube_Get (fixed_kube kept_v2) sample_key () = (Inr kept_v2, ())" by (simp add: fixed_kube_def)
  have "\<not> deleting sample_kube (Meta_v2 kept_v2)"
    "FinalizerName \<in> set (Finalizers (Meta_v2 kept_v2))" by code_simp+
  note run = Reconcile_v2_syncs [OF sample_errors_ok sample_kube_ok get this refl,
      where PD = "\<lambda>_. Inr 0" and E = "fixed_env 200 ''[]''" and am = sample_am and h = sample_helper]
  have "snd (getSilenceFromCR_v2 sample_errors (\<lambda>_. Inr 0) kept_v2) = None"
    "fst (getSilenceFromCR_v2 sample_errors (\<lambda>_. Inr 0) kept_v2) \<noteq> None"
    "ExtractTenant sample_helper (Meta_v2 kept_v2) = ''shared''" by code_simp+
  with run show ?thesis by (auto split: prod.splits option.splits)
qed

lemma flow_no_panic:
  assumes "\<And>obj w. fst (create obj w) \<noteq> Panics"
  shows "fst (flow K fin meta upd C fail del cleanup create k w) \<noteq> Panics"
  using assms by (auto simp: flow_def finish_def stop_def split: sum.splits prod.splits option.splits)

lemma SyncSilence_no_panic:
  assumes "errors_pkg_ok P"
  shows "fst (SyncSilence P E (NewSilenceService (Alertmanager_Client P E am)) (Some s) tenant w) \<noteq> Panics"
proof -
  obtain e where "fst (sync_spec P E (Alertmanager_Client P E am) s tenant w) = Returns e"
    using am.sync_spec_returns [OF assms, of E E am s tenant w] by (rule exE)
  then show ?thesis by (simp add: am.sync_refines assms)
qed

text \<open>C36: neither controller panics: a resource that converts without error is never nil, and
  neither is a silence that is found without error.\<close>

theorem Reconcile_never_panics:
  assumes "errors_pkg_ok P"
  shows "fst (Reconcile_v1 P K E (NewSilenceReconciler C1 (NewSilenceService (Alertmanager_Client P E am)) h) k w)
      \<noteq> Panics \<and>
    fst (Reconcile_v2 P K PD E (NewSilenceV2Reconciler C2 (NewSilenceService (Alertmanager_Client P E am)) h) k w)
      \<noteq> Panics"
proof -
  have v1: "snd (getSilenceFromCR_v1 P o1) = None \<Longrightarrow> \<exists>s. fst (getSilenceFromCR_v1 P o1) = Some s" for o1
    by (auto simp: getSilenceFromCR_v1_def assms err_simps split: prod.splits option.splits)
  have v2: "snd (getSilenceFromCR_v2 P PD o2) = None \<Longrightarrow> \<exists>s. fst (getSilenceFromCR_v2 P PD o2) = Some s" for o2
    by (auto simp: getSilenceFromCR_v2_def assms err_simps split: prod.splits option.splits)
  show ?thesis
    unfolding Reconcile_v1_flow Reconcile_v2_flow
  proof (intro conjI flow_no_panic)
    fix obj w
    show "fst (reconcileCreate_v1 P E (NewSilenceReconciler C1 (NewSilenceService (Alertmanager_Client P E am)) h) obj w)
        \<noteq> Panics"
      using v1 [of obj] SyncSilence_no_panic [OF assms, of E am]
      by (auto simp: reconcileCreate_v1_def NewSilenceReconciler_def Let_def
          split: prod.splits option.splits outcome.splits) (metis fst_conv)+
  next
    fix obj w
    show "fst (reconcileCreate_v2 P PD E (NewSilenceV2Reconciler C2 (NewSilenceService (Alertmanager_Client P E am)) h) obj w)
        \<noteq> Panics"
      using v2 [of obj] SyncSilence_no_panic [OF assms, of E am]
      by (auto simp: reconcileCreate_v2_def NewSilenceV2Reconciler_def Let_def
          split: prod.splits option.splits outcome.splits) (metis fst_conv)+
  qed
qed

theorem Reconcile_never_panics_witness:
  "fst (Reconcile_v1 sample_errors sample_kube (fixed_env 500 '''')
      (NewSilenceReconciler (fixed_kube sample_v1)
        (NewSilenceService (Alertmanager_Client sample_errors (fixed_env 500 '''') sample_am)) sample_helper)
      sample_key ()) \<noteq> Panics"
  by (rule Reconcile_never_panics [OF sample_errors_ok, THEN conjunct1])

end
